(* ===== verification/Prelude.thy ===== *)
theory Prelude
  imports Main "HOL-Library.Word" "HOL-Library.AList" "HOL-Library.Monad_Syntax"
begin

text \<open>
  Types, machine arithmetic and containers that every component of the development shares.

  \<^item> The machine integers of the Rust code are words: \<open>u8\<close>, \<open>u32\<close>, \<open>u64\<close>, and \<open>u256\<close> for
    \<open>primitive_types::U256\<close>.  A \<open>usize\<close> is a \<open>nat\<close> with the bound \<open>usize_max\<close> written out
    (the supported targets are 64-bit).
  \<^item> A Rust computation that may panic has an \<open>option\<close> type and \<open>None\<close> is the panic, so the
    \<open>do\<close> notation of \<open>Monad_Syntax\<close> is the sequencing of the source.
  \<^item> Plain \<open>+\<close>, \<open>-\<close> and unary minus of Rust's own integers panic in a build with overflow
    checks and wrap without them; the workspace sets no \<open>overflow-checks\<close>, so the dev profile
    panics and the release profile wraps.  The flag \<open>oc\<close> of the operations below is that
    choice, and the theorems hold for both.
  \<^item> A \<open>HashMap\<close> is an association list with distinct keys.  Its laws are the locale
    \<open>hash_map\<close>, and the operations used by the code's model are its interpretation \<open>hm\<close>.
\<close>

unbundle bit_operations_syntax

named_theorems panic_simps \<open>definitions of the operations that can panic\<close>

section \<open>Machine integers\<close>

type_synonym u8 = "8 word"
type_synonym u32 = "32 word"
type_synonym u64 = "64 word"
type_synonym i64 = "64 word"
type_synonym u256 = "256 word"
type_synonym bytes = "8 word list"

abbreviation (input) usize_max :: nat where
  "usize_max \<equiv> 18446744073709551615"

text \<open>\<open>a + b\<close> on \<open>usize\<close>: panic or wrap on overflow, by build profile.\<close>

definition usize_add :: "bool \<Rightarrow> nat \<Rightarrow> nat \<Rightarrow> nat option" where
  "usize_add oc a b =
     (if a + b \<le> usize_max then Some (a + b)
      else if oc then None else Some ((a + b) mod 18446744073709551616))"

definition usize_checked_add :: "nat \<Rightarrow> nat \<Rightarrow> nat option" where
  "usize_checked_add a b = (if a + b \<le> usize_max then Some (a + b) else None)"

definition usize_saturating_add :: "nat \<Rightarrow> nat \<Rightarrow> nat" where
  "usize_saturating_add a b = min (a + b) usize_max"

lemma usize_add_small [simp]: "a + b \<le> usize_max \<Longrightarrow> usize_add oc a b = Some (a + b)"
  by (simp add: usize_add_def)

lemma usize_checked_add_small [simp]: "a + b \<le> usize_max \<Longrightarrow> usize_checked_add a b = Some (a + b)"
  by (simp add: usize_checked_add_def)

lemma usize_saturating_add_small [simp]:
  "a + b \<le> usize_max \<Longrightarrow> usize_saturating_add a b = a + b"
  by (simp add: usize_saturating_add_def)

text \<open>\<open>a + b\<close>, \<open>a * b\<close>, \<open>Iterator::sum\<close> and \<open>saturating_add\<close>, \<open>saturating_sub\<close> on \<open>u64\<close>.\<close>

definition u64_add :: "bool \<Rightarrow> u64 \<Rightarrow> u64 \<Rightarrow> u64 option" where
  "u64_add oc a b = (if oc \<and> 2 ^ 64 \<le> unat a + unat b then None else Some (a + b))"

definition u64_mul :: "bool \<Rightarrow> u64 \<Rightarrow> u64 \<Rightarrow> u64 option" where
  "u64_mul oc a b = (if oc \<and> 2 ^ 64 \<le> unat a * unat b then None else Some (a * b))"

fun u64_sum_from :: "bool \<Rightarrow> u64 \<Rightarrow> u64 list \<Rightarrow> u64 option" where
  "u64_sum_from oc acc [] = Some acc"
| "u64_sum_from oc acc (x # xs) = do { acc' \<leftarrow> u64_add oc acc x; u64_sum_from oc acc' xs }"

definition u64_sum :: "bool \<Rightarrow> u64 list \<Rightarrow> u64 option" where
  "u64_sum oc xs = u64_sum_from oc 0 xs"

definition u64_sat_add :: "u64 \<Rightarrow> u64 \<Rightarrow> u64" where
  "u64_sat_add a b = (if 2 ^ 64 \<le> unat a + unat b then - 1 else a + b)"

definition u64_sat_sub :: "u64 \<Rightarrow> u64 \<Rightarrow> u64" where
  "u64_sat_sub a b = (if a < b then 0 else a - b)"

lemma unat_u64_bound: "unat (w :: u64) < 2 ^ 64"
  using unsigned_less[of w] by simp

lemma unat_u32_bound: "unat (w :: u32) < 2 ^ 32"
  using unsigned_less[of w] by simp

lemma unat_u64_add: "unat (a :: u64) + unat b < 2 ^ 64 \<Longrightarrow> unat (a + b) = unat a + unat b"
  by (simp add: unat_word_ariths)

lemma unat_u64_sub: "b \<le> (a :: u64) \<Longrightarrow> unat (a - b) = unat a - unat b"
  by (rule unat_sub)

lemma unat_u64_sat_add: "unat (u64_sat_add a b) = min (unat a + unat b) (2 ^ 64 - 1)"
  by (auto simp: u64_sat_add_def unat_u64_add unsigned_minus_1_eq_mask mask_eq_exp_minus_1)

lemma u64_add_Some: "u64_add oc a b = Some c \<Longrightarrow> c = a + b"
  by (simp add: u64_add_def split: if_splits)

lemma u64_add_fits [simp]: "unat a + unat b < 2 ^ 64 \<Longrightarrow> u64_add oc a b = Some (a + b)"
  by (simp add: u64_add_def)

lemma u64_sum_from_fits:
  "unat acc + sum_list (map unat xs) < 2 ^ 64 \<Longrightarrow>
   \<exists>s. u64_sum_from oc acc xs = Some s \<and> unat s = unat acc + sum_list (map unat xs)"
proof (induction xs arbitrary: acc)
  case (Cons x xs)
  have "unat acc + unat x < 2 ^ 64" using Cons.prems by simp
  then show ?case using Cons.prems Cons.IH[of "acc + x"]
    by (simp add: unat_u64_add add.assoc del: u64_add_def)
qed simp

lemma u64_sum_fits:
  "sum_list (map unat xs) < 2 ^ 64 \<Longrightarrow> \<exists>s. u64_sum oc xs = Some s \<and> unat s = sum_list (map unat xs)"
  using u64_sum_from_fits[of 0 xs oc] by (simp add: u64_sum_def)

text \<open>The number of significant bits, as \<open>U256::bits\<close> counts them.\<close>

fun bit_length :: "nat \<Rightarrow> nat" where
  "bit_length n = (if n = 0 then 0 else Suc (bit_length (n div 2)))"

declare bit_length.simps [simp del]

lemma bit_length_le_iff: "bit_length n \<le> k \<longleftrightarrow> n < 2 ^ k"
proof (induction n arbitrary: k rule: bit_length.induct)
  case (1 n)
  show ?case
  proof (cases "n = 0")
    case True
    then show ?thesis by (simp add: bit_length.simps)
  next
    case False
    show ?thesis
    proof (cases k)
      case 0
      with False show ?thesis by (simp add: bit_length.simps[of n])
    next
      case (Suc j)
      from 1[OF False, of j] have "bit_length n \<le> Suc j \<longleftrightarrow> n div 2 < 2 ^ j"
        using False by (simp add: bit_length.simps[of n])
      also have "\<dots> \<longleftrightarrow> n < 2 ^ Suc j" by (simp add: div_less_iff_less_mult mult.commute)
      finally show ?thesis using Suc by simp
    qed
  qed
qed

lemma bit_length_gt_iff: "k < bit_length n \<longleftrightarrow> 2 ^ k \<le> n"
  using bit_length_le_iff[of n k] by linarith

lemma those_map_Some [simp]: "those (map (\<lambda>i. Some (f i)) is) = Some (map f is)"
  by (induction "is") simp_all

section \<open>Hash maps\<close>

text \<open>What the code relies on of \<open>HashMap\<close>.\<close>

locale hash_map =
  fixes get :: "'m \<Rightarrow> 'k \<Rightarrow> 'v option"
    and insert :: "'k \<Rightarrow> 'v \<Rightarrow> 'm \<Rightarrow> 'm"
    and remove :: "'k \<Rightarrow> 'm \<Rightarrow> 'm"
    and entries :: "'m \<Rightarrow> nat"
  assumes get_insert: "get (insert k v m) k' = (if k' = k then Some v else get m k')"
    and get_remove: "get (remove k m) k' = (if k' = k then None else get m k')"
    and entries_insert: "entries (insert k v m) = (if get m k = None then Suc (entries m) else entries m)"
begin

lemma get_insert_same: "get (insert k v m) k = Some v"
  by (simp add: get_insert)

lemma get_insert_other: "k' \<noteq> k \<Longrightarrow> get (insert k v m) k' = get m k'"
  by (simp add: get_insert)

lemma get_insert_overwrite: "get (insert k v (insert k w m)) = get (insert k v m)"
  by (rule ext) (simp add: get_insert)

lemma get_remove_insert: "get (remove k (insert k v m)) = get (remove k m)"
  by (rule ext) (simp add: get_insert get_remove)

lemma entries_insert_mono: "entries m \<le> entries (insert k v m)"
  by (simp add: entries_insert)

lemma entries_insert_fresh: "get m k = None \<Longrightarrow> entries (insert k v m) = Suc (entries m)"
  by (simp add: entries_insert)

end

type_synonym ('k, 'v) hmap = "('k \<times> 'v) list"

definition hm_get :: "('k, 'v) hmap \<Rightarrow> 'k \<Rightarrow> 'v option" where
  "hm_get m k = map_of m k"

definition hm_insert :: "'k \<Rightarrow> 'v \<Rightarrow> ('k, 'v) hmap \<Rightarrow> ('k, 'v) hmap" where
  "hm_insert k v m = AList.update k v m"

definition hm_remove :: "'k \<Rightarrow> ('k, 'v) hmap \<Rightarrow> ('k, 'v) hmap" where
  "hm_remove k m = AList.delete k m"

definition hm_len :: "('k, 'v) hmap \<Rightarrow> nat" where
  "hm_len m = length m"

lemma length_AList_update:
  "length (AList.update k v m) = (if map_of m k = None then Suc (length m) else length m)"
  by (induction m) auto

interpretation hm: hash_map hm_get hm_insert hm_remove hm_len
proof
  show "hm_get (hm_insert k v m) k' = (if k' = k then Some v else hm_get m k')"
    for k k' :: 'a and v :: 'b and m
    by (simp add: hm_get_def hm_insert_def update_conv')
  show "hm_get (hm_remove k m) k' = (if k' = k then None else hm_get m k')"
    for k k' :: 'a and m :: "('a, 'b) hmap"
    by (simp add: hm_get_def hm_remove_def delete_conv')
  show "hm_len (hm_insert k v m) = (if hm_get m k = None then Suc (hm_len m) else hm_len m)"
    for k :: 'a and v :: 'b and m
    by (simp add: hm_get_def hm_insert_def hm_len_def length_AList_update)
qed

lemmas hm_simps [simp] = hm.get_insert hm.get_remove

lemma hm_get_Nil [simp]: "hm_get [] k = None"
  by (simp add: hm_get_def)

lemma hm_get_Cons [simp]: "hm_get ((k, v) # m) k' = (if k' = k then Some v else hm_get m k')"
  by (simp add: hm_get_def)

section \<open>Lists\<close>

lemma nth_map_upt_add [simp]: "i < n \<Longrightarrow> map f [off..<off + n] ! i = f (off + i)"
  by simp

end
