(* ===== verification/U256_Arith.thy ===== *)
theory U256_Arith
  imports Prelude "HOL-Library.Signed_Division"
begin

text \<open>
  The 256-bit arithmetic of the interpreter
  (\<open>crates/vuc-reader/src/uvm/runtime/src/interpreter.rs\<close>): the panicking operators of
  \<open>U256\<close>, the modular helpers \<open>addmod_safe\<close> and \<open>mulmod_safe\<close>, the "simplified"
  signed conversions through \<open>i64\<close>, the value computed by each arithmetic opcode, and
  the big-endian byte conversions.  The lemmas give each routine its mathematical meaning.
\<close>

section \<open>Operators of U256 that panic\<close>

definition u256_add :: "u256 \<Rightarrow> u256 \<Rightarrow> u256 option" where [panic_simps]:
  "u256_add a b = (if uint a + uint b < 2 ^ 256 then Some (a + b) else None)"

definition u256_sub :: "u256 \<Rightarrow> u256 \<Rightarrow> u256 option" where [panic_simps]:
  "u256_sub a b = (if b \<le> a then Some (a - b) else None)"

definition u256_div :: "u256 \<Rightarrow> u256 \<Rightarrow> u256 option" where [panic_simps]:
  "u256_div a b = (if b = 0 then None else Some (a div b))"

definition u256_rem :: "u256 \<Rightarrow> u256 \<Rightarrow> u256 option" where [panic_simps]:
  "u256_rem a b = (if b = 0 then None else Some (a mod b))"

abbreviation (input) u256_max :: u256 where
  "u256_max \<equiv> - 1"

definition low_u64 :: "u256 \<Rightarrow> u64" where
  "low_u64 w = ucast w"

definition low_u32 :: "u256 \<Rightarrow> u32" where
  "low_u32 w = ucast w"

section \<open>Modular addition and multiplication\<close>

definition addmod_safe :: "u256 \<Rightarrow> u256 \<Rightarrow> u256 \<Rightarrow> u256 option" where
  "addmod_safe a b n = do {
     a_mod \<leftarrow> u256_rem a n;
     b_mod \<leftarrow> u256_rem b n;
     room \<leftarrow> u256_sub u256_max b_mod;
     if room < a_mod then do {
       d \<leftarrow> u256_sub n b_mod;
       sum_minus_n \<leftarrow> u256_sub a_mod d;
       u256_rem sum_minus_n n
     } else do {
       s \<leftarrow> u256_add a_mod b_mod;
       u256_rem s n
     }
   }"

lemma drop_bit_1_less: "w \<noteq> 0 \<Longrightarrow> unat (drop_bit 1 w) < unat w" for w :: u256
proof -
  assume "w \<noteq> 0"
  then have "0 < unat w" by (simp add: unat_gt_0)
  then have "unat w div 2 < unat w" by (simp add: unat_gt_0)
  moreover have "unat (drop_bit 1 w) = unat w div 2"
    by (simp add: drop_bit_Suc unat_div)
  ultimately show ?thesis by simp
qed

text \<open>The \<open>while !exp.is_zero()\<close> loop of \<open>mulmod_safe\<close>.\<close>

function mulmod_loop :: "u256 \<Rightarrow> u256 \<Rightarrow> u256 \<Rightarrow> u256 \<Rightarrow> u256 option" where
  "mulmod_loop result base ex n =
     (if ex = 0 then Some result
      else do {
        result' \<leftarrow> (if ex AND 1 = 1 then addmod_safe result base n else Some result);
        base' \<leftarrow> addmod_safe base base n;
        mulmod_loop result' base' (drop_bit 1 ex) n
      })"
  by pat_completeness auto
termination
  by (relation "measure (\<lambda>(_, _, ex, _). unat ex)") (simp_all only: in_measure case_prod_conv wf_measure drop_bit_1_less not_False_eq_True)

declare mulmod_loop.simps [simp del]

definition mulmod_safe :: "u256 \<Rightarrow> u256 \<Rightarrow> u256 \<Rightarrow> u256 option" where
  "mulmod_safe a b n =
     (if n \<le> 1 then Some 0
      else if a = 0 \<or> b = 0 then Some 0
      else if a = 1 then u256_rem b n
      else if b = 1 then u256_rem a n
      else do {
        a_mod \<leftarrow> u256_rem a n;
        b_mod \<leftarrow> u256_rem b n;
        if uint a_mod * uint b_mod < 2 ^ 256 then u256_rem (a_mod * b_mod) n
        else mulmod_loop 0 a_mod b_mod n
      })"

section \<open>Signed conversions through i64\<close>

text \<open>Negation of an \<open>i64\<close>: the minimum value overflows.\<close>

definition i64_neg :: "bool \<Rightarrow> u64 \<Rightarrow> u64 option" where [panic_simps]:
  "i64_neg oc x = (if oc \<and> x = 0x8000000000000000 then None else Some (- x))"

text \<open>\<open>a / b\<close> and \<open>a % b\<close> on \<open>i64\<close> panic for \<open>b = 0\<close> and for \<open>i64::MIN / -1\<close>.\<close>

definition i64_div :: "u64 \<Rightarrow> u64 \<Rightarrow> u64 option" where [panic_simps]:
  "i64_div a b = (if b = 0 \<or> (a = 0x8000000000000000 \<and> b = - 1) then None
     else Some (word_of_int (sint a sdiv sint b)))"

definition i64_rem :: "u64 \<Rightarrow> u64 \<Rightarrow> u64 option" where [panic_simps]:
  "i64_rem a b = (if b = 0 \<or> (a = 0x8000000000000000 \<and> b = - 1) then None
     else Some (word_of_int (sint a smod sint b)))"

definition i256_from_u256 :: "bool \<Rightarrow> u256 \<Rightarrow> u64 option" where
  "i256_from_u256 oc val =
     (if bit val 255 then do {
        m \<leftarrow> u256_add (NOT val) 1;
        i64_neg oc (low_u64 m)
      } else Some (low_u64 val))"

definition u256_from_i256 :: "bool \<Rightarrow> u64 \<Rightarrow> u256 option" where
  "u256_from_i256 oc val =
     (if sint val < 0 then do {
        abs_val \<leftarrow> i64_neg oc val;
        u256_add (NOT (ucast abs_val)) 1
      } else Some (ucast val))"

section \<open>The values the arithmetic opcodes compute\<close>

definition evm_div :: "u256 \<Rightarrow> u256 \<Rightarrow> u256 option" where
  "evm_div a b = (if b = 0 then Some 0 else u256_div a b)"

definition evm_mod :: "u256 \<Rightarrow> u256 \<Rightarrow> u256 option" where
  "evm_mod a b = (if b = 0 then Some 0 else u256_rem a b)"

definition evm_sdiv :: "bool \<Rightarrow> u256 \<Rightarrow> u256 \<Rightarrow> u256 option" where
  "evm_sdiv oc a b =
     (if b = 0 then Some 0
      else do {
        a_signed \<leftarrow> i256_from_u256 oc a;
        b_signed \<leftarrow> i256_from_u256 oc b;
        q \<leftarrow> i64_div a_signed b_signed;
        u256_from_i256 oc q
      })"

definition evm_smod :: "bool \<Rightarrow> u256 \<Rightarrow> u256 \<Rightarrow> u256 option" where
  "evm_smod oc a b =
     (if b = 0 then Some 0
      else do {
        a_signed \<leftarrow> i256_from_u256 oc a;
        b_signed \<leftarrow> i256_from_u256 oc b;
        q \<leftarrow> i64_rem a_signed b_signed;
        u256_from_i256 oc q
      })"

definition evm_addmod :: "u256 \<Rightarrow> u256 \<Rightarrow> u256 \<Rightarrow> u256 option" where
  "evm_addmod a b n = (if n = 0 then Some 0 else addmod_safe a b n)"

definition evm_mulmod :: "u256 \<Rightarrow> u256 \<Rightarrow> u256 \<Rightarrow> u256 option" where
  "evm_mulmod a b n = (if n = 0 then Some 0 else mulmod_safe a b n)"

text \<open>\<open>overflowing_pow(..).0\<close>: the power modulo \<open>2 ^ 256\<close>.\<close>

definition evm_exp :: "u256 \<Rightarrow> u256 \<Rightarrow> u256" where
  "evm_exp a e = a ^ unat e"

definition evm_signextend :: "u256 \<Rightarrow> u256 \<Rightarrow> u256 option" where
  "evm_signextend b x =
     (if 32 \<le> b then Some x
      else let byte_index = unat (low_u32 b); sign_bit = byte_index * 8 + 7 in
        if bit x sign_bit then do {
          mask \<leftarrow> u256_sub (push_bit (sign_bit + 1) 1) 1;
          Some (x OR NOT mask)
        } else do {
          mask \<leftarrow> u256_sub (push_bit (sign_bit + 1) 1) 1;
          Some (x AND mask)
        })"

definition evm_slt :: "bool \<Rightarrow> u256 \<Rightarrow> u256 \<Rightarrow> u256 option" where
  "evm_slt oc a b = do {
     a_signed \<leftarrow> i256_from_u256 oc a;
     b_signed \<leftarrow> i256_from_u256 oc b;
     Some (if sint a_signed < sint b_signed then 1 else 0)
   }"

definition evm_sgt :: "bool \<Rightarrow> u256 \<Rightarrow> u256 \<Rightarrow> u256 option" where
  "evm_sgt oc a b = do {
     a_signed \<leftarrow> i256_from_u256 oc a;
     b_signed \<leftarrow> i256_from_u256 oc b;
     Some (if sint a_signed > sint b_signed then 1 else 0)
   }"

definition evm_byte :: "u256 \<Rightarrow> u256 \<Rightarrow> u256" where
  "evm_byte i x = (if 32 \<le> i then 0
     else ucast (ucast (drop_bit (8 * (31 - unat (low_u32 i))) x) :: u8))"

definition evm_shl :: "u256 \<Rightarrow> u256 \<Rightarrow> u256" where
  "evm_shl shift val = (if 256 \<le> shift then 0 else push_bit (unat (low_u32 shift)) val)"

definition evm_shr :: "u256 \<Rightarrow> u256 \<Rightarrow> u256" where
  "evm_shr shift val = (if 256 \<le> shift then 0 else drop_bit (unat (low_u32 shift)) val)"

definition evm_sar :: "u256 \<Rightarrow> u256 \<Rightarrow> u256" where
  "evm_sar shift val =
     (if 256 \<le> shift then (if bit val 255 then u256_max else 0)
      else let shifted = drop_bit (unat (low_u32 shift)) val in
        if bit val 255 then shifted OR push_bit (256 - unat (low_u32 shift)) u256_max
        else shifted)"

section \<open>Big-endian bytes\<close>

fun be_bytes :: "nat \<Rightarrow> u256 \<Rightarrow> bytes" where
  "be_bytes 0 w = []"
| "be_bytes (Suc n) w = be_bytes n (drop_bit 8 w) @ [ucast w]"

text \<open>\<open>to_big_endian\<close> into a 32-byte buffer, and \<open>from_big_endian\<close>, which panics on more
  than 32 bytes.\<close>

definition to_big_endian :: "u256 \<Rightarrow> bytes" where
  "to_big_endian w = be_bytes 32 w"

definition be_val :: "bytes \<Rightarrow> nat" where
  "be_val bs = foldl (\<lambda>v b. v * 256 + unat b) 0 bs"

definition from_big_endian :: "bytes \<Rightarrow> u256 option" where
  "from_big_endian bs = (if 32 < length bs then None else Some (of_nat (be_val bs)))"

section \<open>The modular helpers are correct\<close>

lemma uint_lt_2p256: "uint (w :: u256) < 2 ^ 256"
  using uint_lt2p[of w] by simp

lemma uint_max: "uint (u256_max :: u256) = 2 ^ 256 - 1"
  by (simp add: uint_word_ariths)

lemma addmod_safe_correct:
  assumes "n \<noteq> 0"
  shows "\<exists>r. addmod_safe a b n = Some r \<and> uint r = (uint a + uint b) mod uint n"
proof -
  let ?a = "a mod n" and ?b = "b mod n"
  have n: "0 < uint n" using assms uint_0_iff[of n] uint_ge_0[of n] by linarith
  have a: "uint ?a = uint a mod uint n" and b: "uint ?b = uint b mod uint n"
    by (simp_all add: uint_mod)
  have al: "uint ?a < uint n" and bl: "uint ?b < uint n" using n by (simp_all add: a b)
  have sum: "(uint ?a + uint ?b) mod uint n = (uint a + uint b) mod uint n"
    by (simp add: a b mod_add_eq)
  have room: "uint (u256_max - ?b) = 2 ^ 256 - 1 - uint ?b"
    using uint_lt_2p256[of ?b] by (subst uint_sub_lem[THEN iffD1]) (auto simp: uint_max)
  show ?thesis
  proof (cases "u256_max - ?b < ?a")
    case True
    then have ov: "2 ^ 256 \<le> uint ?a + uint ?b" by (simp add: word_less_def room)
    have d: "uint (n - ?b) = uint n - uint ?b"
      using bl by (subst uint_sub_lem[THEN iffD1]) auto
    have le: "n - ?b \<le> ?a"
      using ov uint_lt_2p256[of n] by (simp add: word_le_def d)
    have s: "uint (?a - (n - ?b)) = uint ?a + uint ?b - uint n"
      using le by (subst uint_sub_lem[THEN iffD1]) (auto simp: word_le_def d)
    have "addmod_safe a b n = Some ((?a - (n - ?b)) mod n)"
      using assms True le bl by (simp add: addmod_safe_def panic_simps) (simp add: word_le_def)
    moreover have "uint ((?a - (n - ?b)) mod n) = (uint ?a + uint ?b) mod uint n"
      by (simp add: uint_mod s)
    ultimately show ?thesis using sum by simp
  next
    case False
    then have ok: "uint ?a + uint ?b < 2 ^ 256" by (simp add: word_less_def room)
    then have s: "uint (?a + ?b) = uint ?a + uint ?b" by (simp add: uint_add_lem[THEN iffD1])
    have "addmod_safe a b n = Some ((?a + ?b) mod n)"
      using assms False ok by (simp add: addmod_safe_def panic_simps)
    moreover have "uint ((?a + ?b) mod n) = (uint ?a + uint ?b) mod uint n"
      by (simp add: uint_mod s)
    ultimately show ?thesis using sum by simp
  qed
qed

lemma uint_drop_bit_1: "uint (drop_bit 1 w) = uint w div 2" for w :: u256
  by (simp add: drop_bit_Suc uint_div)

lemma and_one_iff_odd: "w AND 1 = 1 \<longleftrightarrow> odd (uint w)" for w :: u256
proof -
  have "bit w 0 = bit (uint w) 0" by (simp add: bit_uint_iff)
  then have "odd w \<longleftrightarrow> odd (uint w)" by (simp only: bit_0)
  then show ?thesis by (simp add: and_one_eq odd_iff_mod_2_eq_one)
qed

lemma mulmod_loop_correct:
  assumes "n \<noteq> 0" "uint result < uint n"
  shows "\<exists>r. mulmod_loop result base ex n = Some r \<and>
           uint r = (uint result + uint base * uint ex) mod uint n"
  using assms
proof (induction "unat ex" arbitrary: result base ex rule: less_induct)
  case less
  show ?case
  proof (cases "ex = 0")
    case True
    then show ?thesis using less.prems by (simp add: mulmod_loop.simps)
  next
    case False
    define r' where "r' = (if ex AND 1 = 1 then (uint result + uint base) mod uint n else uint result)"
    obtain res where res: "(if ex AND 1 = 1 then addmod_safe result base n else Some result) = Some res"
      and ures: "uint res = r'"
      using addmod_safe_correct[OF less.prems(1), of result base] unfolding r'_def by (metis (full_types))
    obtain b2 where b2: "addmod_safe base base n = Some b2"
      and ub2: "uint b2 = (uint base + uint base) mod uint n"
      using addmod_safe_correct[OF less.prems(1)] by blast
    have npos: "0 < uint n" using less.prems(1) uint_0_iff[of n] uint_ge_0[of n] by linarith
    have lt: "uint res < uint n" using npos less.prems(2) by (simp add: ures r'_def)
    from less.hyps[OF drop_bit_1_less[OF False] less.prems(1) lt, of b2]
    obtain r where r: "mulmod_loop res b2 (drop_bit 1 ex) n = Some r"
      and ur: "uint r = (uint res + uint b2 * (uint ex div 2)) mod uint n"
      unfolding uint_drop_bit_1 by blast
    have step: "mulmod_loop result base ex n = Some r"
      using r by (subst mulmod_loop.simps) (simp add: False res b2)
    define k where "k = uint ex div 2"
    have ex: "uint ex = 2 * k + of_bool (odd (uint ex))"
      unfolding k_def by (simp add: of_bool_odd_eq_mod_2)
    have "uint r = (r' + (uint base + uint base) * k) mod uint n"
      unfolding ur ures ub2 k_def[symmetric] by (rule mod_add_cong[OF refl mod_mult_left_eq])
    also have "\<dots> = (uint result + of_bool (odd (uint ex)) * uint base + (uint base + uint base) * k) mod uint n"
      by (simp add: r'_def and_one_iff_odd mod_simps)
    also have "uint result + of_bool (odd (uint ex)) * uint base + (uint base + uint base) * k
       = uint result + uint base * (2 * k + of_bool (odd (uint ex)))"
      by (simp only: distrib_left distrib_right mult_2 add.assoc) (simp add: algebra_simps)
    finally have "uint r = (uint result + uint base * uint ex) mod uint n"
      unfolding ex[symmetric] .
    with step show ?thesis by blast
  qed
qed
lemma mulmod_safe_correct:
  assumes "n \<noteq> 0"
  shows "\<exists>r. mulmod_safe a b n = Some r \<and> uint r = (uint a * uint b) mod uint n"
proof -
  have n: "0 < uint n" using assms uint_0_iff[of n] uint_ge_0[of n] by linarith
  consider (one) "n \<le> 1" | (zero) "\<not> n \<le> 1" "a = 0 \<or> b = 0"
    | (a1) "\<not> n \<le> 1" "a \<noteq> 0" "b \<noteq> 0" "a = 1"
    | (b1) "\<not> n \<le> 1" "a \<noteq> 0" "b \<noteq> 0" "a \<noteq> 1" "b = 1"
    | (big) "\<not> n \<le> 1" "a \<noteq> 0" "b \<noteq> 0" "a \<noteq> 1" "b \<noteq> 1"
    by blast
  then show ?thesis
  proof cases
    case one
    then have "uint n = 1" using n by (simp add: word_le_def)
    with one show ?thesis by (simp add: mulmod_safe_def)
  next
    case zero
    then show ?thesis by (auto simp: mulmod_safe_def)
  next
    case a1
    then show ?thesis using assms by (simp add: mulmod_safe_def panic_simps uint_mod)
  next
    case b1
    then show ?thesis using assms by (simp add: mulmod_safe_def panic_simps uint_mod)
  next
    case big
    let ?a = "a mod n" and ?b = "b mod n"
    have ab: "(uint ?a * uint ?b) mod uint n = (uint a * uint b) mod uint n"
      by (simp add: uint_mod mod_mult_eq)
    show ?thesis
    proof (cases "uint ?a * uint ?b < 2 ^ 256")
      case True
      then have "uint (?a * ?b) = uint ?a * uint ?b" by (simp add: uint_mult_lem[THEN iffD1])
      then have "uint (?a * ?b mod n) = (uint a * uint b) mod uint n" by (simp add: uint_mod ab[symmetric])
      with big True assms show ?thesis by (simp add: mulmod_safe_def panic_simps)
    next
      case False
      obtain r where "mulmod_loop 0 ?a ?b n = Some r" "uint r = (uint ?a * uint ?b) mod uint n"
        using mulmod_loop_correct[OF assms, of 0 ?a ?b] n by auto
      with big False assms ab show ?thesis by (simp add: mulmod_safe_def panic_simps)
    qed
  qed
qed

section \<open>Shifts and sign extension\<close>

lemma unat_low_u32_small: "w < 2 ^ 32 \<Longrightarrow> unat (low_u32 w) = unat w"
  unfolding low_u32_def by (simp add: unsigned_ucast_eq word_less_nat_alt take_bit_nat_eq_self)

text \<open>SAR is floor division by a power of two, on the signed reading of the operand.\<close>

lemma evm_sar_signed_drop_bit:
  "evm_sar shift val = (if 256 \<le> shift then signed_drop_bit 256 val else signed_drop_bit (unat shift) val)"
proof (cases "256 \<le> shift")
  case True
  then show ?thesis
    by (auto simp: evm_sar_def bit_signed_drop_bit_iff intro!: bit_word_eqI)
next
  case False
  then have s: "shift < 2 ^ 32" "unat shift < 256"
    by (simp_all add: word_le_nat_alt word_less_nat_alt)
  have hi: "\<not> bit val k" if "256 \<le> k" for k
    using bit_imp_le_length[of val k] that by auto
  have "bit (evm_sar shift val) n = bit (signed_drop_bit (unat shift) val) n" if "n < 256" for n
    using False s that hi[of "unat shift + n"]
    by (auto simp: evm_sar_def Let_def unat_low_u32_small bit_signed_drop_bit_iff bit_simps not_less)
  then show ?thesis using False by (auto intro!: bit_word_eqI)
qed

lemma evm_sar_floor: "sint (evm_sar shift val) = sint val div 2 ^ (if 256 \<le> shift then 256 else unat shift)"
  by (simp add: evm_sar_signed_drop_bit sint_signed_drop_bit_eq drop_bit_eq_div)

lemma evm_signextend_31: "evm_signextend 31 x = None"
proof -
  have "push_bit 256 (1::u256) = 0" by (rule push_bit_word_beyond) simp
  then have "u256_sub (push_bit 256 1) 1 = None" by (simp only: u256_sub_def) simp
  then show ?thesis by (simp add: evm_signextend_def low_u32_def Let_def)
qed

lemma evm_signextend_small:
  assumes "b < 31"
  shows "evm_signextend b x = Some (word_of_int (signed_take_bit (8 * unat b + 7) (uint x)))"
proof -
  have lb: "unat (low_u32 b) = unat b" using assms
    by (intro unat_low_u32_small) (simp add: word_less_nat_alt)
  have ub: "unat b < 31" using assms by (simp add: word_less_nat_alt)
  define s where "s = unat b * 8 + 7"
  have s: "s < 255" using ub by (simp add: s_def)
  have "push_bit (Suc s) (1::u256) \<noteq> 0"
    using s exp_eq_zero_iff[where 'a = 256, of "Suc s"] by (simp add: push_bit_eq_mult)
  then have one: "1 \<le> (push_bit (Suc s) 1 :: u256)"
    by (simp add: word_le_nat_alt Suc_le_eq unat_gt_0 del: push_bit_of_1)
  have m: "2 * 2 ^ s - 1 = (mask (Suc s) :: u256)"
    by (simp add: mask_eq_exp_minus_1)
  have "\<not> 32 \<le> b" using assms by (simp add: word_le_nat_alt word_less_nat_alt)
  then have eq: "evm_signextend b x = Some (if bit x s then x OR NOT (mask (Suc s)) else x AND mask (Suc s))"
    using one by (simp add: evm_signextend_def Let_def lb s_def[symmetric] panic_simps m)
  have "bit (if bit x s then x OR NOT (mask (Suc s)) else x AND mask (Suc s)) k
      = bit (word_of_int (signed_take_bit s (uint x)) :: u256) k" if "k < 256" for k
    using that s by (cases "k \<le> s") (auto simp: bit_simps min_def bit_uint_iff bit_mask_iff bit_word_of_int_iff bit_signed_take_bit_iff)
  then have "(if bit x s then x OR NOT (mask (Suc s)) else x AND mask (Suc s))
      = word_of_int (signed_take_bit s (uint x))"
    by (auto intro!: bit_word_eqI)
  then show ?thesis by (simp add: eq s_def mult.commute)
qed

section \<open>Signed operations inside the i64 range, and outside it\<close>

lemma ucast_eq_word_of_sint: "(ucast v :: u64) = word_of_int (sint v)" for v :: u256
  by (rule bit_word_eqI) (auto simp: bit_simps bit_sint_iff min_def)

lemma bit_255_sint: "bit v 255 \<longleftrightarrow> sint v < 0" for v :: u256
  using bit_last_iff[of v] by simp

definition in_i64 :: "int \<Rightarrow> bool" where
  "in_i64 z \<longleftrightarrow> - (2 ^ 63) < z \<and> z < 2 ^ 63"

lemma word_of_int_in_i64: "in_i64 z \<Longrightarrow> sint (word_of_int z :: u64) = z"
  by (simp add: in_i64_def signed_take_bit_int_eq_self signed_of_int)

lemma complement_plus_one_low: "low_u64 (NOT v + 1) = - low_u64 v"
proof -
  have "NOT v + 1 = - v" by (simp add: minus_eq_not_plus_1)
  moreover have "(ucast (- v) :: u64) = - ucast v"
    unfolding ucast_eq uint_word_ariths wi_hom_neg
    by (subst word_of_int_eq_iff) (simp add: take_bit_eq_mod mod_mod_cancel)
  ultimately show ?thesis by (simp add: low_u64_def)
qed

lemma complement_plus_one_ok: "v \<noteq> 0 \<Longrightarrow> u256_add (NOT v) 1 = Some (NOT v + 1)"
proof -
  assume "v \<noteq> 0"
  then have "NOT v \<noteq> - 1" by (metis bit.double_compl bit.compl_one)
  then have "uint (NOT v) \<noteq> uint (- 1 :: u256)" by (metis unsigned_word_eqI)
  then have "uint (NOT v) + 1 < 2 ^ 256" using uint_lt2p[of "NOT v"] by (simp add: uint_word_ariths)
  then show ?thesis by (simp add: u256_add_def)
qed

lemma i256_from_u256_neg:
  "bit v 255 \<Longrightarrow> i256_from_u256 oc v = i64_neg oc (- low_u64 v)"
proof -
  assume "bit v 255"
  moreover from this have "v \<noteq> 0" by auto
  ultimately show ?thesis
    by (simp add: i256_from_u256_def complement_plus_one_ok complement_plus_one_low)
qed

lemma i256_from_u256_in_range:
  assumes "in_i64 (sint v)"
  shows "i256_from_u256 oc v = Some (word_of_int (sint v))"
proof (cases "bit v 255")
  case False
  then show ?thesis by (simp add: i256_from_u256_def low_u64_def ucast_eq_word_of_sint)
next
  case True
  have neq: "- word_of_int (sint v) \<noteq> (0x8000000000000000 :: u64)"
  proof
    assume "- word_of_int (sint v) = (0x8000000000000000 :: u64)"
    then have "word_of_int (sint v) = (- 0x8000000000000000 :: u64)"
      by (metis minus_equation_iff)
    then have "sint (word_of_int (sint v) :: u64) = - (2 ^ 63)" by simp
    with word_of_int_in_i64[OF assms] assms show False by (simp add: in_i64_def)
  qed
  show ?thesis
    using neq by (simp add: i256_from_u256_neg[OF True] panic_simps low_u64_def ucast_eq_word_of_sint)
qed

lemma u256_from_i256_in_range:
  assumes "in_i64 z"
  shows "u256_from_i256 oc (word_of_int z) = Some (word_of_int z)"
proof -
  note z = word_of_int_in_i64[OF assms]
  show ?thesis
  proof (cases "z < 0")
    case False
    have "(ucast (word_of_int z :: u64) :: u256) = word_of_int z"
      using False assms by (simp add: unsigned_of_int in_i64_def take_bit_int_eq_self)
    with False show ?thesis by (simp add: u256_from_i256_def z)
  next
    case True
    have neq: "word_of_int z \<noteq> (0x8000000000000000 :: u64)"
    proof
      assume "word_of_int z = (0x8000000000000000 :: u64)"
      then have "sint (word_of_int z :: u64) = - (2 ^ 63)" by simp
      with z assms show False by (simp add: in_i64_def)
    qed
    have m: "(ucast (- word_of_int z :: u64) :: u256) = word_of_int (- z)"
    proof -
      have "- word_of_int z = (word_of_int (- z) :: u64)" by simp
      then show ?thesis using True assms
        by (simp only: unsigned_of_int) (simp add: in_i64_def take_bit_int_eq_self)
    qed
    have "uint (NOT (word_of_int (- z) :: u256)) = 2 ^ 256 - 1 + z"
    proof -
      have "NOT (word_of_int (- z) :: u256) = word_of_int (2 ^ 256 - 1 + z)"
        by (simp add: not_eq_complement)
      then show ?thesis using True assms
        by (simp only: uint_word_of_int) (simp add: in_i64_def)
    qed
    moreover have "NOT (word_of_int (- z) :: u256) + 1 = word_of_int z"
      by (simp add: not_eq_complement)
    ultimately show ?thesis
      using True neq by (simp add: u256_from_i256_def z panic_simps m)
  qed
qed

lemma sdiv_in_i64:
  assumes "in_i64 a" "in_i64 b" "b \<noteq> 0"
  shows "in_i64 (a sdiv b)"
proof -
  have "\<bar>a sdiv b\<bar> \<le> \<bar>a\<bar>"
    using zdiv_mono2[of "\<bar>a\<bar>" 1 "\<bar>b\<bar>"] assms(3) pos_imp_zdiv_nonneg_iff[of "\<bar>b\<bar>" "\<bar>a\<bar>"]
    by (simp add: signed_divide_int_def abs_mult abs_sgn_eq)
  then show ?thesis using assms unfolding in_i64_def by linarith
qed
lemma smod_in_i64:
  assumes "in_i64 a" "in_i64 b" "b \<noteq> 0"
  shows "in_i64 (a smod b)"
proof -
  have "\<bar>a smod b\<bar> \<le> \<bar>b\<bar>"
    using assms(3) by (auto simp: signed_modulo_int_def abs_mult abs_sgn_eq intro: less_imp_le)
  then show ?thesis using assms unfolding in_i64_def by linarith
qed

lemma evm_sdiv_in_range:
  assumes "in_i64 (sint a)" "in_i64 (sint b)" "b \<noteq> 0"
  shows "evm_sdiv oc a b = Some (word_of_int (sint a sdiv sint b))"
proof -
  have b: "sint b \<noteq> 0" using assms(3) signed_word_eqI[of b 0] by auto
  have nz: "word_of_int (sint b) \<noteq> (0 :: u64)"
    using word_of_int_in_i64[OF assms(2)] b by (metis sint_0)
  have nm: "word_of_int (sint a) \<noteq> (0x8000000000000000 :: u64)"
  proof
    assume "word_of_int (sint a) = (0x8000000000000000 :: u64)"
    then have "sint (word_of_int (sint a) :: u64) = - (2 ^ 63)" by simp
    with word_of_int_in_i64[OF assms(1)] assms(1) show False by (simp add: in_i64_def)
  qed
  show ?thesis
    using assms(3) nz nm word_of_int_in_i64[OF assms(1)] word_of_int_in_i64[OF assms(2)]
      u256_from_i256_in_range[OF sdiv_in_i64[OF assms(1,2) b]]
    by (simp add: evm_sdiv_def i256_from_u256_in_range assms(1,2) i64_div_def)
qed

lemma evm_sdiv_truncated_divisor:
  assumes "b \<noteq> 0" "low_u64 b = 0"
  shows "evm_sdiv oc a b = None"
proof -
  have "i256_from_u256 oc b = Some 0"
    using assms by (cases "bit b 255") (simp_all add: i256_from_u256_neg i64_neg_def, simp add: i256_from_u256_def)
  then show ?thesis using assms(1)
    by (cases "i256_from_u256 oc a") (simp_all add: evm_sdiv_def i64_div_def)
qed

section \<open>Big-endian round trips\<close>

lemma unat_u256_bound: "unat (w :: u256) < 2 ^ 256"
  using unsigned_less[of w] by simp

lemma unat_u8_bound: "unat (b :: u8) < 256"
  using unsigned_less[of b] by simp

lemma unat_of_nat_u256: "n < 2 ^ 256 \<Longrightarrow> unat (of_nat n :: u256) = n"
  by (simp add: unat_of_nat)

lemma length_be_bytes [simp]: "length (be_bytes n w) = n"
  by (induction n arbitrary: w) auto

lemma length_to_big_endian [simp]: "length (to_big_endian w) = 32"
  by (simp add: to_big_endian_def)

lemma be_val_Nil [simp]: "be_val [] = 0"
  by (simp add: be_val_def)

lemma be_val_snoc [simp]: "be_val (bs @ [b]) = be_val bs * 256 + unat b"
  by (simp add: be_val_def)

lemma be_val_be_bytes: "be_val (be_bytes n w) = unat w mod 256 ^ n"
proof (induction n arbitrary: w)
  case (Suc n)
  have "unat w mod 256 ^ Suc n = 256 * (unat w div 256 mod 256 ^ n) + unat w mod 256"
    by (simp add: mod_mult2_eq)
  moreover have "unat (drop_bit 8 w) = unat w div 256"
    by (simp only: unat_drop_bit_eq) (simp add: drop_bit_eq_div)
  moreover have "unat (ucast w :: u8) = unat w mod 256"
    by (simp add: unsigned_ucast_eq take_bit_eq_mod)
  ultimately show ?case by (simp add: Suc.IH)
qed simp

lemma from_to_big_endian [simp]: "from_big_endian (to_big_endian w) = Some w"
  using unat_u256_bound[of w] by (simp add: from_big_endian_def to_big_endian_def be_val_be_bytes)

lemma be_val_bound: "be_val bs < 256 ^ length bs"
proof (induction bs rule: rev_induct)
  case (snoc b bs)
  then show ?case using unat_u8_bound[of b] by simp
qed simp

lemma be_bytes_be_val: "length bs \<le> 32 \<Longrightarrow> be_bytes (length bs) (of_nat (be_val bs)) = bs"
proof (induction bs rule: rev_induct)
  case (snoc b bs)
  have lt: "be_val (bs @ [b]) < 2 ^ 256"
  proof -
    have "be_val (bs @ [b]) < 256 ^ length (bs @ [b])" by (rule be_val_bound)
    also have "\<dots> \<le> 256 ^ 32" using snoc.prems by (intro power_increasing) auto
    finally show ?thesis by simp
  qed
  then have u: "unat (of_nat (be_val (bs @ [b])) :: u256) = be_val bs * 256 + unat b"
    by (simp only: unat_of_nat_u256 be_val_snoc)
  have "drop_bit 8 (of_nat (be_val (bs @ [b])) :: u256) = of_nat (be_val bs)"
  proof (rule word_unat_eq_iff[THEN iffD2])
    have "be_val bs < 2 ^ 256" using lt by simp
    then show "unat (drop_bit 8 (of_nat (be_val (bs @ [b])) :: u256)) = unat (of_nat (be_val bs) :: u256)"
      using u unat_u8_bound[of b] unfolding unat_drop_bit_eq u by (simp add: drop_bit_eq_div unat_of_nat_u256)
  qed
  moreover have "ucast (of_nat (be_val (bs @ [b])) :: u256) = b"
    using u unat_u8_bound[of b] by (simp only: word_unat_eq_iff unsigned_ucast_eq take_bit_eq_mod) simp
  ultimately show ?case using snoc by simp
qed simp

lemma to_from_big_endian: "length bs = 32 \<Longrightarrow> from_big_endian bs = Some w \<Longrightarrow> to_big_endian w = bs"
  using be_bytes_be_val[of bs] by (auto simp: from_big_endian_def to_big_endian_def)

lemma to_big_endian_inject [simp]: "to_big_endian v = to_big_endian w \<longleftrightarrow> v = w"
  by (metis from_to_big_endian option.inject)

lemma be_bytes_nth: "i < n \<Longrightarrow> be_bytes n w ! i = ucast (drop_bit (8 * (n - 1 - i)) w)"
proof (induction n arbitrary: w)
  case (Suc n)
  show ?case
  proof (cases "i < n")
    case True
    then have e: "8 * (n - 1 - i) + 8 = 8 * (Suc n - 1 - i)" by simp
    from True show ?thesis using Suc.IH[OF True, of "drop_bit 8 w"] e by (simp add: nth_append)
  next
    case False
    with Suc.prems have "i = n" by simp
    then show ?thesis by (simp add: nth_append)
  qed
qed simp

lemma be_val_replicate_0 [simp]: "be_val (replicate n 0) = 0"
  by (induction n) (simp_all add: be_val_def)

lemma from_big_endian_zeros [simp]: "n \<le> 32 \<Longrightarrow> from_big_endian (replicate n 0) = Some 0"
  by (simp add: from_big_endian_def)

lemma to_big_endian_eq_zeros: "to_big_endian w = replicate 32 0 \<longleftrightarrow> w = 0"
proof
  assume "to_big_endian w = replicate 32 0"
  then have "from_big_endian (to_big_endian w) = Some 0" by simp
  then show "w = 0" by simp
next
  assume "w = 0"
  then show "to_big_endian w = replicate 32 0"
    using to_from_big_endian[of "replicate 32 0" 0] by simp
qed

lemma evm_byte_nth: "i < 32 \<Longrightarrow> evm_byte i x = ucast (to_big_endian x ! unat i)"
proof -
  assume i: "i < 32"
  then have "i < 2 ^ 32" "unat i < 32" "\<not> 32 \<le> i"
    by (simp_all add: word_less_nat_alt word_le_nat_alt)
  then show ?thesis
    by (simp add: evm_byte_def unat_low_u32_small to_big_endian_def be_bytes_nth)
qed


lemma u256_add_Some: "u256_add a b = Some c \<Longrightarrow> uint c = uint a + uint b"
  by (auto simp: u256_add_def uint_add_lem[THEN iffD1] split: if_splits)

lemma uint_ucast_u64 [simp]: "uint (ucast a :: u256) = uint a" for a :: u64
proof -
  have "uint a < 2 ^ 256" using uint_lt2p[of a] by simp
  then show ?thesis by (simp add: unsigned_ucast_eq take_bit_int_eq_self)
qed

lemma drop_be_bytes: "drop m (be_bytes (m + n) w) = be_bytes n w"
  by (induction n arbitrary: w) simp_all

lemma be_val_zeros_append [simp]: "be_val (replicate n 0 @ bs) = be_val bs"
  by (induction bs rule: rev_induct) (simp_all flip: append_assoc)

lemma low_160_bits: "of_nat (be_val (drop 12 (to_big_endian w))) = w AND mask 160"
proof -
  have "be_val (drop 12 (to_big_endian w)) = unat w mod 256 ^ 20"
    using drop_be_bytes[of 12 20 w] by (simp add: to_big_endian_def be_val_be_bytes)
  also have "\<dots> = take_bit 160 (unat w)" by (simp add: take_bit_eq_mod)
  finally have "of_nat (be_val (drop 12 (to_big_endian w))) = take_bit 160 (of_nat (unat w) :: u256)"
    by (simp only: of_nat_take_bit)
  then show ?thesis by (simp add: take_bit_eq_mask)
qed

end
