(* ===== verification/Formats.thy ===== *)
theory Formats
  imports U256_Arith
begin

text \<open>
  Text formats the interpreter builds and reads: the zero-padded lower-hex renderings
  \<open>{:064x}\<close> and \<open>{:040x}\<close> (storage slots, topics, CREATE addresses), \<open>str::parse::<u64>\<close>,
  \<open>str::from_utf8\<close>, and the JSON documents (\<open>serde_json::Value\<close>, with its insertion-ordered
  map) that a program run returns.  A Rust \<open>String\<close> is a list of the bytes of its UTF-8 form.

  The lemmas show that the slot rendering has 64 hexadecimal digits and is injective, so
  distinct storage keys never share a slot string.
\<close>

section \<open>Hexadecimal rendering\<close>

definition hex_digit :: "nat \<Rightarrow> char" where
  "hex_digit n = ''0123456789abcdef'' ! n"

fun hex_digits :: "nat \<Rightarrow> string" where
  "hex_digits n = (if n < 16 then [hex_digit n] else hex_digits (n div 16) @ [hex_digit (n mod 16)])"

declare hex_digits.simps [simp del]

text \<open>\<open>format!("{:0width x}", n)\<close>.\<close>

definition fmt_hex :: "nat \<Rightarrow> nat \<Rightarrow> string" where
  "fmt_hex width n = (let ds = hex_digits n in replicate (width - length ds) (CHR ''0'') @ ds)"

definition fmt_064x :: "u256 \<Rightarrow> string" where
  "fmt_064x w = fmt_hex 64 (unat w)"

text \<open>\<open>format!("{}", n)\<close>.\<close>

fun fmt_dec :: "nat \<Rightarrow> string" where
  "fmt_dec n = (if n < 10 then [hex_digit n] else fmt_dec (n div 10) @ [hex_digit (n mod 10)])"

declare fmt_dec.simps [simp del]

definition is_ascii_hexdigit :: "char \<Rightarrow> bool" where
  "is_ascii_hexdigit c \<longleftrightarrow> c \<in> set ''0123456789abcdefABCDEF''"

definition digit_val :: "char \<Rightarrow> nat" where
  "digit_val c = length (takeWhile (\<lambda>d. d \<noteq> c) ''0123456789abcdef'')"

definition hex_val :: "string \<Rightarrow> nat" where
  "hex_val cs = foldl (\<lambda>v c. v * 16 + digit_val c) 0 cs"

lemma hex_val_Nil [simp]: "hex_val [] = 0" by (simp add: hex_val_def)

lemma hex_val_snoc [simp]: "hex_val (cs @ [c]) = hex_val cs * 16 + digit_val c"
  by (simp add: hex_val_def)

lemma hex_digit_table:
  "\<forall>n \<in> set [0..<16]. digit_val (hex_digit n) = n \<and> is_ascii_hexdigit (hex_digit n)"
  by code_simp

lemma digit_val_hex_digit [simp]: "n < 16 \<Longrightarrow> digit_val (hex_digit n) = n"
  using hex_digit_table by simp

lemma hex_digit_ascii: "n < 16 \<Longrightarrow> is_ascii_hexdigit (hex_digit n)"
  using hex_digit_table by simp

lemma hex_val_hex_digits [simp]: "hex_val (hex_digits n) = n"
proof (induction n rule: hex_digits.induct)
  case (1 n)
  show ?case
  proof (cases "n < 16")
    case True
    then show ?thesis using hex_val_snoc[of "[]" "hex_digit n"] by (simp add: hex_digits.simps[of n])
  next
    case False
    with 1 show ?thesis by (simp add: hex_digits.simps[of n])
  qed
qed

lemma hex_val_zeros: "hex_val (replicate k (CHR ''0'') @ cs) = hex_val cs"
proof (induction cs rule: rev_induct)
  case Nil
  have "hex_val (replicate k (CHR ''0'')) = 0"
    by (induction k) (simp_all add: hex_val_def digit_val_def)
  then show ?case by simp
next
  case (snoc c cs)
  then show ?case by (simp flip: append_assoc)
qed

lemma hex_val_fmt_hex [simp]: "hex_val (fmt_hex width n) = n"
  by (simp add: fmt_hex_def hex_val_zeros Let_def)

lemma fmt_hex_inject: "fmt_hex width m = fmt_hex width n \<longleftrightarrow> m = n"
  by (metis hex_val_fmt_hex)

lemma fmt_064x_inject [simp]: "fmt_064x v = fmt_064x w \<longleftrightarrow> v = w"
  by (simp add: fmt_064x_def fmt_hex_inject word_unat_eq_iff)

lemma length_hex_digits: "n < 16 ^ Suc k \<Longrightarrow> length (hex_digits n) \<le> Suc k"
proof (induction k arbitrary: n)
  case 0
  then show ?case by (simp add: hex_digits.simps)
next
  case (Suc k)
  show ?case
  proof (cases "n < 16")
    case False
    have "n div 16 < 16 ^ Suc k" using Suc.prems by (simp add: less_mult_imp_div_less)
    from Suc.IH[OF this] False show ?thesis by (simp add: hex_digits.simps[of n])
  qed (simp add: hex_digits.simps[of n])
qed

lemma length_fmt_hex: "n < 16 ^ Suc k \<Longrightarrow> length (fmt_hex (Suc k) n) = Suc k"
  using length_hex_digits[of n k] by (simp add: fmt_hex_def Let_def)

lemma length_fmt_064x [simp]: "length (fmt_064x w) = 64"
proof -
  have "(16::nat) ^ Suc 63 = 2 ^ 256" by simp
  then have "unat w < 16 ^ Suc 63" using unat_u256_bound[of w] by (simp only:)
  from length_fmt_hex[OF this] show ?thesis by (simp add: fmt_064x_def)
qed

lemma hex_digits_ascii: "list_all is_ascii_hexdigit (hex_digits n)"
proof (induction n rule: hex_digits.induct)
  case (1 n)
  then show ?case by (cases "n < 16") (simp_all add: hex_digits.simps[of n] hex_digit_ascii)
qed

lemma zero_ascii: "is_ascii_hexdigit (CHR ''0'')"
  by (simp add: is_ascii_hexdigit_def)

lemma fmt_064x_ascii [simp]: "list_all is_ascii_hexdigit (fmt_064x w)"
  using hex_digits_ascii[of "unat w"] zero_ascii
  by (auto simp: fmt_064x_def fmt_hex_def Let_def list_all_iff)

section \<open>Parsing and UTF-8\<close>

definition is_ascii_digit :: "char \<Rightarrow> bool" where
  "is_ascii_digit c \<longleftrightarrow> c \<in> set ''0123456789''"

text \<open>\<open>str::parse::<u64>\<close>: an optional plus sign, at least one digit, no overflow.\<close>

definition parse_u64 :: "string \<Rightarrow> nat option" where
  "parse_u64 s =
     (let ds = (case s of CHR ''+'' # r \<Rightarrow> r | _ \<Rightarrow> s);
          v = foldl (\<lambda>v c. v * 10 + digit_val c) 0 ds
      in if ds \<noteq> [] \<and> list_all is_ascii_digit ds \<and> v < 2 ^ 64 then Some v else None)"

definition dec_val :: "string \<Rightarrow> nat" where
  "dec_val cs = foldl (\<lambda>v c. v * 10 + digit_val c) 0 cs"

lemma dec_val_fmt_dec [simp]: "dec_val (fmt_dec n) = n"
proof (induction n rule: fmt_dec.induct)
  case (1 n)
  then show ?case by (cases "n < 10") (simp_all add: fmt_dec.simps[of n] dec_val_def)
qed

lemma fmt_dec_inject [simp]: "fmt_dec m = fmt_dec n \<longleftrightarrow> m = n"
  by (metis dec_val_fmt_dec)

lemma digit_is_digit: "n < 10 \<Longrightarrow> is_ascii_digit (hex_digit n)"
proof -
  have "list_all (\<lambda>n. is_ascii_digit (hex_digit n)) [0..<10]" by code_simp
  then show "n < 10 \<Longrightarrow> is_ascii_digit (hex_digit n)" by (simp add: list_all_iff)
qed

lemma fmt_dec_digits: "fmt_dec n \<noteq> [] \<and> list_all is_ascii_digit (fmt_dec n)"
  by (induction n rule: fmt_dec.induct) (subst (1 2) fmt_dec.simps, simp add: digit_is_digit)

definition utf8_cont :: "u8 \<Rightarrow> bool" where
  "utf8_cont b \<longleftrightarrow> 0x80 \<le> b \<and> b \<le> 0xBF"

text \<open>\<open>str::from_utf8(..).is_ok()\<close>: well-formed UTF-8 (no overlong forms, no surrogates).\<close>

fun utf8_valid :: "bytes \<Rightarrow> bool" where
  "utf8_valid [] = True"
| "utf8_valid (b0 # bs) =
     (if b0 < 0x80 then utf8_valid bs
      else if 0xC2 \<le> b0 \<and> b0 \<le> 0xDF then
        (case bs of b1 # r \<Rightarrow> utf8_cont b1 \<and> utf8_valid r | _ \<Rightarrow> False)
      else if 0xE0 \<le> b0 \<and> b0 \<le> 0xEF then
        (case bs of b1 # b2 # r \<Rightarrow>
           utf8_cont b1 \<and> utf8_cont b2 \<and> (b0 = 0xE0 \<longrightarrow> 0xA0 \<le> b1) \<and> (b0 = 0xED \<longrightarrow> b1 \<le> 0x9F)
           \<and> utf8_valid r | _ \<Rightarrow> False)
      else if 0xF0 \<le> b0 \<and> b0 \<le> 0xF4 then
        (case bs of b1 # b2 # b3 # r \<Rightarrow>
           utf8_cont b1 \<and> utf8_cont b2 \<and> utf8_cont b3 \<and> (b0 = 0xF0 \<longrightarrow> 0x90 \<le> b1)
           \<and> (b0 = 0xF4 \<longrightarrow> b1 \<le> 0x8F) \<and> utf8_valid r | _ \<Rightarrow> False)
      else False)"

definition string_of_bytes :: "bytes \<Rightarrow> string" where
  "string_of_bytes bs = map (\<lambda>b. char_of (unat b)) bs"

definition bytes_of_string :: "string \<Rightarrow> bytes" where
  "bytes_of_string s = map (\<lambda>c. of_nat (of_char c)) s"

lemma length_bytes_of_string [simp]: "length (bytes_of_string s) = length s"
  by (simp add: bytes_of_string_def)

lemma string_of_bytes_of_string [simp]: "string_of_bytes (bytes_of_string s) = s"
proof -
  have "char_of (unat (of_nat (of_char c) :: u8)) = c" for c :: char
  proof -
    have "(of_char c :: nat) < 2 ^ 8" by simp
    then have "unat (of_nat (of_char c) :: u8) = of_char c"
      by (simp add: unsigned_of_nat take_bit_nat_eq_self)
    then show ?thesis by simp
  qed
  then show ?thesis by (simp add: string_of_bytes_def bytes_of_string_def comp_def)
qed

lemma bytes_of_string_of_bytes [simp]: "bytes_of_string (string_of_bytes bs) = bs"
proof -
  have "(of_nat (of_char (char_of (unat b) :: char)) :: u8) = b" for b :: u8
  proof -
    have "unat b mod 256 = unat b" using unat_u8_bound[of b] by simp
    then show ?thesis by (simp add: of_char_of)
  qed
  then show ?thesis by (simp add: string_of_bytes_def bytes_of_string_def comp_def)
qed

definition starts_with :: "string \<Rightarrow> string \<Rightarrow> bool" where
  "starts_with p s \<longleftrightarrow> take (length p) s = p"

lemma starts_with_append [simp]: "starts_with p (p @ s)"
  by (simp add: starts_with_def)

text \<open>\<open>str::split_once\<close> on a one-character separator.\<close>

definition split_once :: "char \<Rightarrow> string \<Rightarrow> (string \<times> string) option" where
  "split_once c s =
     (if c \<in> set s then Some (takeWhile (\<lambda>d. d \<noteq> c) s, tl (dropWhile (\<lambda>d. d \<noteq> c) s)) else None)"

section \<open>JSON documents\<close>

text \<open>\<open>JNumber\<close> is an unsigned integer, \<open>JDecimal\<close> the text of any other number.\<close>

datatype json =
    JNull
  | JBool bool
  | JNumber nat
  | JDecimal string
  | JString string
  | JArray "json list"
  | JObject "(string \<times> json) list"

text \<open>\<open>serde_json::Map::insert\<close> (feature \<open>preserve_order\<close>) and \<open>Map::get\<close>.\<close>

definition jmap_insert :: "string \<Rightarrow> json \<Rightarrow> (string \<times> json) list \<Rightarrow> (string \<times> json) list" where
  "jmap_insert k v m = AList.update k v m"

definition jmap_get :: "(string \<times> json) list \<Rightarrow> string \<Rightarrow> json option" where
  "jmap_get m k = map_of m k"

lemma jmap_get_insert [simp]:
  "jmap_get (jmap_insert k v m) k' = (if k' = k then Some v else jmap_get m k')"
  by (simp add: jmap_get_def jmap_insert_def update_conv')

lemma jmap_get_Nil [simp]: "jmap_get [] k = None"
  by (simp add: jmap_get_def)

lemma jmap_get_Cons [simp]: "jmap_get ((k', v) # m) k = (if k' = k then Some v else jmap_get m k)"
  by (simp add: jmap_get_def)

fun as_object :: "json \<Rightarrow> (string \<times> json) list option" where
  "as_object (JObject m) = Some m"
| "as_object _ = None"

fun as_str :: "json \<Rightarrow> string option" where
  "as_str (JString s) = Some s"
| "as_str _ = None"

end
