(* ===== verification/Evm_Memory.thy ===== *)
theory Evm_Memory
  imports U256_Arith
begin

text \<open>
  The byte memory of one program run (\<open>global_mem: Vec<u8>\<close> of \<open>execute_program\<close>) and the
  local helpers that address it: \<open>as_usize_or_fail\<close>, \<open>as_usize_saturated\<close>,
  \<open>resize_memory_ebpf\<close>, \<open>memory_slice_len\<close>, and the byte-copy loops of the copy opcodes.

  A \<open>Vec<u8>\<close> is its length and its contents as a function; an index at or past the length
  panics, so reads and writes by index are the partial operations \<open>mem_get\<close> and \<open>mem_set\<close>.
  The locale \<open>byte_memory\<close> states what the opcodes rely on, and its interpretation \<open>vec\<close>
  gives the store/load lemmas on the model.
\<close>

record memory =
  mem_len :: nat
  mem_byte :: "nat \<Rightarrow> u8"

text \<open>\<open>vec![0u8; n]\<close>, \<open>v[i]\<close>, \<open>v[i] = b\<close> and \<open>v.resize(n, 0)\<close> (here only ever growing).\<close>

definition zero_memory :: "nat \<Rightarrow> memory" where
  "zero_memory n = \<lparr>mem_len = n, mem_byte = (\<lambda>_. 0)\<rparr>"

definition mem_get :: "memory \<Rightarrow> nat \<Rightarrow> u8 option" where
  "mem_get m i = (if i < mem_len m then Some (mem_byte m i) else None)"

definition mem_set :: "nat \<Rightarrow> u8 \<Rightarrow> memory \<Rightarrow> memory option" where
  "mem_set i b m = (if i < mem_len m then Some (m\<lparr>mem_byte := (mem_byte m)(i := b)\<rparr>) else None)"

definition mem_grow :: "nat \<Rightarrow> memory \<Rightarrow> memory" where
  "mem_grow n m = \<lparr>mem_len = n, mem_byte = (\<lambda>i. if mem_len m \<le> i \<and> i < n then 0 else mem_byte m i)\<rparr>"

text \<open>\<open>&v[a..b]\<close>, which panics unless \<open>a <= b <= len\<close>, and \<open>v[a..a + n].copy_from_slice\<close>.\<close>

definition mem_slice :: "memory \<Rightarrow> nat \<Rightarrow> nat \<Rightarrow> bytes option" where
  "mem_slice m a b = (if a \<le> b \<and> b \<le> mem_len m then Some (map (mem_byte m) [a..<b]) else None)"

definition mem_write :: "nat \<Rightarrow> bytes \<Rightarrow> memory \<Rightarrow> memory option" where
  "mem_write off bs m =
     (if off + length bs \<le> mem_len m
      then Some (m\<lparr>mem_byte := (\<lambda>i. if off \<le> i \<and> i < off + length bs then bs ! (i - off) else mem_byte m i)\<rparr>)
      else None)"

section \<open>The helpers of execute_program\<close>

abbreviation (input) max_mem :: nat where
  "max_mem \<equiv> 16777216"

definition as_usize_or_fail :: "u256 \<Rightarrow> nat" where
  "as_usize_or_fail v = (if 64 < bit_length (unat v) then usize_max else unat (low_u64 v))"

definition as_usize_saturated :: "u256 \<Rightarrow> nat" where
  "as_usize_saturated v = (if 64 < bit_length (unat v) then usize_max else unat (low_u64 v))"

text \<open>The result is the memory after the call and the boolean the code returns.\<close>

definition resize_memory_ebpf :: "memory \<Rightarrow> nat \<Rightarrow> nat \<Rightarrow> memory \<times> bool" where
  "resize_memory_ebpf m offset sz =
     (if offset > max_mem \<or> sz > max_mem then (m, False)
      else case usize_checked_add offset sz of
        None \<Rightarrow> (m, False)
      | Some e \<Rightarrow> (if e > mem_len m \<and> e \<le> max_mem then mem_grow e m else m, True))"

definition memory_slice_len :: "memory \<Rightarrow> nat \<Rightarrow> nat \<Rightarrow> bytes" where
  "memory_slice_len m offset sz =
     (let e = min (usize_saturating_add offset sz) (mem_len m)
      in if offset < mem_len m then map (mem_byte m) [offset..<e] else [])"

text \<open>
  The loop \<open>for i in 0..size\<close> of CALLDATACOPY, CODECOPY, EXTCODECOPY and RETURNDATACOPY:
  \<open>if dest + i < mem.len() { mem[dest + i] = if off + i < src.len() { src[off + i] } else { 0 } }\<close>.
  Both additions are \<open>usize\<close> additions.
\<close>

fun copy_loop :: "bool \<Rightarrow> bytes \<Rightarrow> nat \<Rightarrow> nat \<Rightarrow> nat list \<Rightarrow> memory \<Rightarrow> memory option" where
  "copy_loop oc src dest off [] m = Some m"
| "copy_loop oc src dest off (i # is) m = do {
     d \<leftarrow> usize_add oc dest i;
     if d < mem_len m then do {
       s \<leftarrow> usize_add oc off i;
       m' \<leftarrow> mem_set d (if s < length src then src ! s else 0) m;
       copy_loop oc src dest off is m'
     } else copy_loop oc src dest off is m
   }"

definition copy_bytes :: "bool \<Rightarrow> bytes \<Rightarrow> nat \<Rightarrow> nat \<Rightarrow> nat \<Rightarrow> memory \<Rightarrow> memory option" where
  "copy_bytes oc src dest off n m = copy_loop oc src dest off [0..<n] m"

section \<open>Lemmas\<close>

lemma as_usize_or_fail_bound: "as_usize_or_fail v \<le> usize_max"
proof -
  have "unat (low_u64 v) < 2 ^ LENGTH(64)" by (rule unsigned_less)
  then show ?thesis by (simp add: as_usize_or_fail_def)
qed

lemma unat_low_u64: "unat (low_u64 v) = unat v mod 2 ^ 64"
  by (simp add: low_u64_def unsigned_ucast_eq take_bit_eq_mod)

lemma as_usize_or_fail_small: "unat v < 2 ^ 64 \<Longrightarrow> as_usize_or_fail v = unat v"
  using bit_length_gt_iff[of 64 "unat v"] by (simp add: as_usize_or_fail_def unat_low_u64)

lemma as_usize_or_fail_large: "2 ^ 64 \<le> unat v \<Longrightarrow> as_usize_or_fail v = usize_max"
  using bit_length_gt_iff[of 64 "unat v"] by (simp add: as_usize_or_fail_def)

lemma as_usize_saturated_eq: "as_usize_saturated = as_usize_or_fail"
  by (rule ext) (simp add: as_usize_saturated_def as_usize_or_fail_def)


lemma resize_true_cases:
  assumes "resize_memory_ebpf m off sz = (m', True)"
  shows "off \<le> max_mem \<and> sz \<le> max_mem \<and>
    m' = (if mem_len m < off + sz \<and> off + sz \<le> max_mem then mem_grow (off + sz) m else m)"
  using assms by (auto simp: resize_memory_ebpf_def split: if_splits)

lemma resize_len:
  "resize_memory_ebpf m off sz = (m', ok) \<Longrightarrow> mem_len m \<le> mem_len m'"
  by (auto simp: resize_memory_ebpf_def mem_grow_def split: if_splits option.splits)

lemma resize_len_bound:
  "resize_memory_ebpf m off sz = (m', ok) \<Longrightarrow> mem_len m \<le> max_mem \<Longrightarrow> mem_len m' \<le> max_mem"
  by (auto simp: resize_memory_ebpf_def mem_grow_def split: if_splits option.splits)

text \<open>Growing keeps every byte and reads as zero beyond the old length.\<close>

lemma resize_byte:
  "resize_memory_ebpf m off sz = (m', ok) \<Longrightarrow> i < mem_len m \<Longrightarrow> mem_byte m' i = mem_byte m i"
  by (auto simp: resize_memory_ebpf_def mem_grow_def split: if_splits option.splits)

lemma resize_byte_new:
  "resize_memory_ebpf m off sz = (m', ok) \<Longrightarrow> mem_len m \<le> i \<Longrightarrow> i < mem_len m' \<Longrightarrow> mem_byte m' i = 0"
  by (auto simp: resize_memory_ebpf_def mem_grow_def split: if_splits option.splits)

text \<open>The range is inside the memory after a successful call, unless it ends past 16 MiB: then
  the call reports success and leaves the memory as it was.\<close>

lemma resize_covers:
  "resize_memory_ebpf m off sz = (m', True) \<Longrightarrow> off + sz \<le> max_mem \<Longrightarrow> off + sz \<le> mem_len m'"
  by (auto simp: resize_memory_ebpf_def mem_grow_def split: if_splits option.splits)

lemma resize_overrun:
  "off \<le> max_mem \<Longrightarrow> sz \<le> max_mem \<Longrightarrow> max_mem < off + sz \<Longrightarrow> resize_memory_ebpf m off sz = (m, True)"
  by (simp add: resize_memory_ebpf_def)

lemma length_memory_slice_len:
  "off + sz \<le> mem_len m \<Longrightarrow> off + sz \<le> usize_max \<Longrightarrow> length (memory_slice_len m off sz) = sz"
  by (auto simp: memory_slice_len_def Let_def)

lemma memory_slice_len_full:
  "off + sz \<le> mem_len m \<Longrightarrow> off + sz \<le> usize_max \<Longrightarrow> memory_slice_len m off sz = map (mem_byte m) [off..<off + sz]"
  by (auto simp: memory_slice_len_def Let_def)

lemma mem_set_len: "mem_set i b m = Some m' \<Longrightarrow> mem_len m' = mem_len m"
  by (auto simp: mem_set_def split: if_splits)

lemma mem_write_len: "mem_write off bs m = Some m' \<Longrightarrow> mem_len m' = mem_len m"
  by (auto simp: mem_write_def split: if_splits)

lemma copy_loop_len: "copy_loop oc src dest off is m = Some m' \<Longrightarrow> mem_len m' = mem_len m"
proof (induction oc src dest off "is" m rule: copy_loop.induct)
  case (2 oc src dest off i "is" m)
  then show ?case by (auto split: Option.bind_splits if_splits dest!: mem_set_len)
qed simp

lemma copy_bytes_len: "copy_bytes oc src dest off n m = Some m' \<Longrightarrow> mem_len m' = mem_len m"
  by (simp add: copy_bytes_def copy_loop_len)

text \<open>What a copy that fits does: the source bytes, zero-extended, in place.\<close>

definition copy_result :: "bytes \<Rightarrow> nat \<Rightarrow> nat \<Rightarrow> nat \<Rightarrow> memory \<Rightarrow> memory" where
  "copy_result src dest off n m =
     m\<lparr>mem_byte := (\<lambda>j. if dest \<le> j \<and> j < dest + n
        then (let s = off + (j - dest) in if s < length src then src ! s else 0) else mem_byte m j)\<rparr>"

lemma copy_loop_range:
  assumes "dest + a + k \<le> mem_len m" "mem_len m \<le> usize_max" "off + a + k \<le> usize_max"
  shows "copy_loop oc src dest off [a..<a + k] m = Some (copy_result src (dest + a) (off + a) k m)"
  using assms
proof (induction k arbitrary: a m)
  case 0
  then show ?case by (cases m) (auto simp: copy_result_def fun_eq_iff)
next
  case (Suc k)
  let ?b = "if off + a < length src then src ! (off + a) else 0"
  let ?m = "m\<lparr>mem_byte := (mem_byte m)(dest + a := ?b)\<rparr>"
  have "[a..<a + Suc k] = a # [Suc a..<Suc a + k]" by (simp add: upt_rec)
  then have "copy_loop oc src dest off [a..<a + Suc k] m = copy_loop oc src dest off [Suc a..<Suc a + k] ?m"
    using Suc.prems by (simp add: mem_set_def)
  also have "\<dots> = Some (copy_result src (dest + Suc a) (off + Suc a) k ?m)"
    using Suc.prems by (intro Suc.IH) auto
  also have "copy_result src (dest + Suc a) (off + Suc a) k ?m = copy_result src (dest + a) (off + a) (Suc k) m"
  proof (rule memory.equality)
    show "mem_byte (copy_result src (dest + Suc a) (off + Suc a) k ?m)
        = mem_byte (copy_result src (dest + a) (off + a) (Suc k) m)"
    proof
      fix j
      show "mem_byte (copy_result src (dest + Suc a) (off + Suc a) k ?m) j
          = mem_byte (copy_result src (dest + a) (off + a) (Suc k) m) j"
      proof (cases "dest + Suc a \<le> j")
        case True
        then have "off + Suc a + (j - (dest + Suc a)) = off + a + (j - (dest + a))" by simp
        with True show ?thesis by (simp add: copy_result_def Let_def)
      next
        case False
        then show ?thesis by (auto simp: copy_result_def Let_def not_le less_Suc_eq)
      qed
    qed
  qed (simp_all add: copy_result_def)
  finally show ?case .
qed

lemma copy_bytes_fits:
  assumes "dest + n \<le> mem_len m" "mem_len m \<le> usize_max" "off + n \<le> usize_max"
  shows "copy_bytes oc src dest off n m = Some (copy_result src dest off n m)"
  using copy_loop_range[of dest 0 n m off oc src] assms by (simp add: copy_bytes_def)

section \<open>The interface the opcodes rely on\<close>

locale byte_memory =
  fixes len :: "'m \<Rightarrow> nat"
    and rd :: "'m \<Rightarrow> nat \<Rightarrow> 'b"
    and wr :: "nat \<Rightarrow> 'b list \<Rightarrow> 'm \<Rightarrow> 'm option"
    and grow :: "nat \<Rightarrow> 'm \<Rightarrow> 'm"
    and zero :: 'b
  assumes wr_Some: "off + length bs \<le> len m \<Longrightarrow> \<exists>m'. wr off bs m = Some m'"
    and wr_None: "len m < off + length bs \<Longrightarrow> wr off bs m = None"
    and wr_len: "wr off bs m = Some m' \<Longrightarrow> len m' = len m"
    and rd_wr: "wr off bs m = Some m' \<Longrightarrow>
      rd m' i = (if off \<le> i \<and> i < off + length bs then bs ! (i - off) else rd m i)"
    and grow_len: "len (grow n m) = n"
    and rd_grow: "i < n \<Longrightarrow> rd (grow n m) i = (if i < len m then rd m i else zero)"
begin

lemma read_back:
  "wr off bs m = Some m' \<Longrightarrow> map (rd m') [off..<off + length bs] = bs"
  by (auto intro!: nth_equalityI simp: rd_wr)

lemma read_disjoint:
  "wr off bs m = Some m' \<Longrightarrow> e \<le> off \<or> off + length bs \<le> a \<Longrightarrow> map (rd m') [a..<e] = map (rd m) [a..<e]"
  by (auto simp: rd_wr)

lemma read_grow:
  "e \<le> len m \<Longrightarrow> e \<le> n \<Longrightarrow> map (rd (grow n m)) [a..<e] = map (rd m) [a..<e]"
  by (auto simp: rd_grow)

lemma wr_defined_iff: "(\<exists>m'. wr off bs m = Some m') \<longleftrightarrow> off + length bs \<le> len m"
  using wr_Some wr_None by (metis not_less option.distinct(1))

end

interpretation vec: byte_memory mem_len mem_byte mem_write mem_grow "0 :: u8"
  by unfold_locales (auto simp: mem_write_def mem_grow_def split: if_splits)

end
