(* ===== verification/Evm_State.thy ===== *)
theory Evm_State
  imports Formats Evm_Memory
begin

text \<open>
  The state of the UVM interpreter (\<open>interpreter.rs\<close>): the world state, the execution context,
  the call arguments, and the accessors on them (storage, balances, code size, addresses).

  Code that is not in this repository is the record \<open>externals\<close>, an argument of the
  definitions that use it: the Keccak-256 digest (crate \<open>sha3\<close>), hexadecimal coding (crate
  \<open>hex\<close>), the database behind the trait \<open>RocksDBManager\<close> (its state type is \<open>'d\<close>), the
  clock, and the two facts about the process the SS7 helper needs.  \<open>overflow_checks\<close> is the
  build profile.  What a theorem relies on of them is the predicate \<open>hex_ok\<close>.
\<close>

section \<open>Code outside the repository\<close>

record 'd externals =
  overflow_checks :: bool
  keccak256 :: "bytes \<Rightarrow> bytes"
  hex_encode :: "bytes \<Rightarrow> string"
  hex_decode :: "string \<Rightarrow> bytes option"
  db_read :: "'d \<Rightarrow> string \<Rightarrow> bytes option"
  db_write :: "'d \<Rightarrow> string \<Rightarrow> bytes \<Rightarrow> 'd"
  now_secs :: u256
  json_buffer_ptr :: u64
  ss7_json_len :: "u64 list \<Rightarrow> u64"

text \<open>The documented behaviour of \<open>hex::encode\<close> and \<open>hex::decode\<close>.\<close>

definition hex_ok :: "'d externals \<Rightarrow> bool" where
  "hex_ok E \<longleftrightarrow> (\<forall>bs. hex_decode E (hex_encode E bs) = Some bs \<and> length (hex_encode E bs) = 2 * length bs)"

section \<open>Data\<close>

record block_info =
  bi_number :: u256
  bi_timestamp :: u256
  bi_gas_limit :: u256
  bi_difficulty :: u256
  bi_coinbase :: string
  bi_base_fee :: u256
  bi_blob_base_fee :: u256
  bi_blob_hash :: bytes
  bi_prev_randao :: bytes

record account_state =
  balance :: u256
  nonce :: u256
  acc_code :: bytes
  storage_root :: string
  is_contract :: bool

type_synonym storage_map = "(string, (string, bytes) hmap) hmap"

record uvm_world_state =
  accounts :: "(string, account_state) hmap"
  storage :: storage_map
  code :: "(string, bytes) hmap"
  block_info :: block_info
  transient_storage :: "(bytes, bytes) hmap"
  chain_id :: u256

record uvm_log =
  log_address :: string
  log_topics :: "string list"
  log_data :: bytes

record interpreter_args =
  function_name :: string
  contract_address :: string
  sender_address :: string
  args :: "json list"
  state_data :: bytes
  gas_limit :: u256
  gas_price :: u256
  call_value :: u256
  call_depth :: u256
  block_number :: u256
  timestamp :: u256
  caller :: string
  origin :: string
  beneficiary :: string
  function_offset :: "nat option"
  base_fee :: "u256 option"
  blob_base_fee :: "u256 option"
  blob_hash :: "bytes option"

text \<open>
  The execution context.  The fields \<open>free_memory_pointer\<close>, \<open>call_stack\<close>,
  \<open>in_internal_call\<close> and \<open>ss7_pending_response\<close> of the source are set once and never read
  by the interpreter; they are left out.  \<open>storage_manager\<close> carries the database state, and
  \<open>create2_events\<close> is the list of calls made to the \<open>on_create2_event\<close> callback (whose
  result the interpreter only prints), when there is one.
\<close>

type_synonym create2_event = "string \<times> bytes \<times> u256"

record 'd uvm_context =
  world_state :: uvm_world_state
  gas_used :: u256
  gas_remaining :: u256
  logs :: "uvm_log list"
  return_data :: bytes
  storage_manager :: "'d option"
  on_create2_event :: bool
  create2_events :: "create2_event list"
  auth_context :: "(string \<times> u256) option"

definition default_world_state :: "'d externals \<Rightarrow> uvm_world_state" where
  "default_world_state E = \<lparr>
     accounts = [], storage = [], code = [],
     block_info = \<lparr>bi_number = 1, bi_timestamp = now_secs E, bi_gas_limit = 30000000, bi_difficulty = 1,
       bi_coinbase = ''*coinbase*#miner#'', bi_base_fee = 0, bi_blob_base_fee = 0,
       bi_blob_hash = replicate 32 0, bi_prev_randao = replicate 32 0\<rparr>,
     transient_storage = [], chain_id = 45056\<rparr>"

section \<open>Addresses\<close>

text \<open>FNV-1a over the bytes of the address.\<close>

definition encode_address_to_u64 :: "string \<Rightarrow> u64" where
  "encode_address_to_u64 addr =
     foldl (\<lambda>h c. (h XOR of_nat (of_char c)) * 1099511628211) 14695981039346656037 addr"

text \<open>\<open>u256::from_big_endian\<close> on a 32-byte array, which cannot panic.\<close>

definition be32 :: "bytes \<Rightarrow> u256" where
  "be32 bs = of_nat (be_val bs)"

definition encode_address_to_u256 :: "'d externals \<Rightarrow> string \<Rightarrow> u256" where
  "encode_address_to_u256 E addr =
     (if starts_with ''0x'' addr \<and> length addr = 42 then
        (case hex_decode E (drop 2 addr) of
           Some addr_bytes \<Rightarrow>
             (if length addr_bytes = 20 then be32 (replicate 12 0 @ addr_bytes) else be32 (replicate 32 0))
         | None \<Rightarrow> be32 (replicate 32 0))
      else ucast (encode_address_to_u64 addr))"

definition u256_to_address :: "'d externals \<Rightarrow> u256 \<Rightarrow> string" where
  "u256_to_address E addr_u256 = ''0x'' @ hex_encode E (drop 12 (to_big_endian addr_u256))"

section \<open>Accessors of the world state\<close>

definition get_codesize :: "uvm_world_state \<Rightarrow> string \<Rightarrow> u256" where
  "get_codesize ws address =
     (case hm_get (accounts ws) address of Some acc \<Rightarrow> of_nat (length (acc_code acc)) | None \<Rightarrow> 0)"

definition get_balance :: "uvm_world_state \<Rightarrow> string \<Rightarrow> u256" where
  "get_balance ws address =
     (case hm_get (accounts ws) address of Some acc \<Rightarrow> balance acc | None \<Rightarrow> 0)"

definition set_balance :: "uvm_world_state \<Rightarrow> string \<Rightarrow> u256 \<Rightarrow> uvm_world_state" where
  "set_balance ws address bal =
     (let account = (case hm_get (accounts ws) address of Some acc \<Rightarrow> acc
        | None \<Rightarrow> \<lparr>balance = 0, nonce = 0, acc_code = [], storage_root = '''', is_contract = False\<rparr>)
      in ws\<lparr>accounts := hm_insert address (account\<lparr>balance := bal\<rparr>) (accounts ws)\<rparr>)"

text \<open>\<open>world_state.storage.get(contract).and_then(|s| s.get(slot)).cloned().unwrap_or_else(zeros)\<close>.\<close>

definition slot_lookup :: "uvm_world_state \<Rightarrow> string \<Rightarrow> string \<Rightarrow> bytes" where
  "slot_lookup ws contract slot =
     (case hm_get (storage ws) contract of
        Some contract_storage \<Rightarrow>
          (case hm_get contract_storage slot of Some v \<Rightarrow> v | None \<Rightarrow> replicate 32 0)
      | None \<Rightarrow> replicate 32 0)"

definition get_storage :: "'d externals \<Rightarrow> uvm_world_state \<Rightarrow> string \<Rightarrow> string \<Rightarrow> bytes option" where
  "get_storage E ws contract slot =
     (if length slot = 64 \<and> list_all is_ascii_hexdigit slot then Some (slot_lookup ws contract slot)
      else case split_once (CHR ''|'') slot of
        Some (addr, mapping_slot) \<Rightarrow> do {
          padded \<leftarrow> (if starts_with ''0x'' addr \<and> length addr = 42 then
              (case hex_decode E (drop 2 addr) of
                 Some addr_bytes \<Rightarrow>
                   (if length addr_bytes = 20 then Some (replicate 12 0 @ addr_bytes) else None)
               | None \<Rightarrow> Some (replicate 32 0))
            else Some (replicate 32 0));
          let slot_num = (case parse_u64 mapping_slot of Some n \<Rightarrow> n | None \<Rightarrow> 0);
          let slot_bytes = to_big_endian (of_nat slot_num);
          let key = hex_encode E (keccak256 E (padded @ slot_bytes));
          Some (slot_lookup ws contract key)
        }
      | None \<Rightarrow> Some (slot_lookup ws contract slot))"

definition set_storage :: "uvm_world_state \<Rightarrow> string \<Rightarrow> string \<Rightarrow> bytes \<Rightarrow> uvm_world_state" where
  "set_storage ws contract slot v =
     (let contract_storage = (case hm_get (storage ws) contract of Some s \<Rightarrow> s | None \<Rightarrow> [])
      in ws\<lparr>storage := hm_insert contract (hm_insert slot v contract_storage) (storage ws)\<rparr>)"

definition get_block_hash :: "uvm_world_state \<Rightarrow> u256 \<Rightarrow> bytes option" where
  "get_block_hash ws bn = Some (replicate 32 0)"

definition consume_gas_amount :: "u64 \<Rightarrow> 'd uvm_context \<Rightarrow> 'd uvm_context option" where
  "consume_gas_amount amount c = do {
     g \<leftarrow> u256_add (gas_used c) (ucast amount);
     Some (c\<lparr>gas_used := g\<rparr>)
   }"

section \<open>Contract ownership\<close>

abbreviation owner_slot :: string where
  "owner_slot \<equiv> ''0000000000000000000000000000000000000000000000000000000000000000''"

definition ensure_contract_owner_initialized ::
    "'d externals \<Rightarrow> uvm_world_state \<Rightarrow> string \<Rightarrow> string \<Rightarrow> uvm_world_state option" where
  "ensure_contract_owner_initialized E ws contract clr = do {
     current_owner \<leftarrow> get_storage E ws contract owner_slot;
     Some (if list_all (\<lambda>b. b = 0) current_owner
       then set_storage ws contract owner_slot (to_big_endian (encode_address_to_u256 E clr))
       else ws)
   }"

definition extract_function_selector :: "'d externals \<Rightarrow> bytes \<Rightarrow> string option" where
  "extract_function_selector E calldata =
     (if 4 \<le> length calldata then Some (''0x'' @ hex_encode E (take 4 calldata)) else None)"

definition protected_functions :: "string list" where
  "protected_functions = [''0x8da5cb5b'', ''0xf2fde38b'', ''0x715018a6'', ''0x9623609d'']"

definition auto_validate_owner_permission ::
    "'d externals \<Rightarrow> uvm_world_state \<Rightarrow> string \<Rightarrow> string \<Rightarrow> string \<Rightarrow> bool option" where
  "auto_validate_owner_permission E ws contract clr function_selector =
     (if function_selector \<notin> set protected_functions then Some True
      else do {
        owner_bytes \<leftarrow> get_storage E ws contract owner_slot;
        stored_owner \<leftarrow> from_big_endian owner_bytes;
        Some (stored_owner = encode_address_to_u256 E clr)
      })"

section \<open>Lemmas\<close>

lemma be32_to_big_endian [simp]: "be32 (to_big_endian w) = w"
  using from_to_big_endian[of w] by (simp add: from_big_endian_def be32_def)

lemma owner_slot_is_slot [simp]:
  "length owner_slot = 64" "list_all is_ascii_hexdigit owner_slot"
  by (simp_all add: is_ascii_hexdigit_def)

lemma get_storage_slot [simp]:
  "length slot = 64 \<Longrightarrow> list_all is_ascii_hexdigit slot \<Longrightarrow>
   get_storage E ws contract slot = Some (slot_lookup ws contract slot)"
  by (simp add: get_storage_def)

lemma get_storage_owner [simp]:
  "get_storage E ws contract owner_slot = Some (slot_lookup ws contract owner_slot)"
  by (rule get_storage_slot[OF owner_slot_is_slot])

lemma slot_lookup_set_storage:
  "slot_lookup (set_storage ws c s v) c' s' = (if c' = c \<and> s' = s then v else slot_lookup ws c' s')"
  by (auto simp: slot_lookup_def set_storage_def Let_def split: option.splits)

lemma slot_lookup_set_storage_same [simp]: "slot_lookup (set_storage ws c s v) c s = v"
  by (simp add: slot_lookup_set_storage)

lemma get_balance_set_balance:
  "get_balance (set_balance ws a b) a' = (if a' = a then b else get_balance ws a')"
  by (auto simp: get_balance_def set_balance_def Let_def split: option.splits)

lemma storage_set_balance [simp]: "storage (set_balance ws a b) = storage ws"
  by (simp add: set_balance_def Let_def)

lemma slot_lookup_set_balance [simp]: "slot_lookup (set_balance ws a b) = slot_lookup ws"
  by (simp add: fun_eq_iff slot_lookup_def)

lemma consume_gas_amount_fields:
  "consume_gas_amount a c = Some c' \<Longrightarrow>
   world_state c' = world_state c \<and> gas_remaining c' = gas_remaining c \<and> logs c' = logs c \<and>
   return_data c' = return_data c \<and> storage_manager c' = storage_manager c \<and>
   create2_events c' = create2_events c \<and> auth_context c' = auth_context c \<and>
   on_create2_event c' = on_create2_event c \<and> uint (gas_used c') = uint (gas_used c) + uint a"
  by (auto simp: consume_gas_amount_def dest!: u256_add_Some split: Option.bind_splits)

text \<open>
  Reading the address string of a word back gives its low 160 bits.
\<close>

lemma encode_u256_to_address:
  assumes "hex_ok E"
  shows "encode_address_to_u256 E (u256_to_address E w) = w AND mask 160"
proof -
  let ?b = "drop 12 (to_big_endian w)"
  have h: "hex_decode E (hex_encode E ?b) = Some ?b" "length (hex_encode E ?b) = 40"
    using assms by (simp_all add: hex_ok_def)
  have "encode_address_to_u256 E (u256_to_address E w) = be32 (replicate 12 0 @ ?b)"
    using h by (simp add: encode_address_to_u256_def u256_to_address_def starts_with_def)
  also have "\<dots> = w AND mask 160" by (simp add: be32_def low_160_bits)
  finally show ?thesis .
qed

end
