(* ===== verification/Evm_Results.thy ===== *)
theory Evm_Results
  imports Evm_State
begin

text \<open>
  What a run returns: the JSON results built by the local functions of \<open>execute_program\<close>
  (\<open>halt_json_ebpf\<close>, \<open>create_return_action\<close>, \<open>create_revert_action\<close>, \<open>create_stop_action\<close>,
  \<open>add_storage_written_to_result\<close>), the generic decoder of return data, how a calling frame
  reads such a result back, and the extraction of the runtime part of creation bytecode.
\<close>

section \<open>Decoding return data\<close>

definition is_address_like :: "bytes \<Rightarrow> bool" where
  "is_address_like bs \<longleftrightarrow> length bs = 20 \<and> list_ex (\<lambda>b. b \<noteq> 0) bs"

definition slice :: "nat \<Rightarrow> nat \<Rightarrow> bytes \<Rightarrow> bytes" where
  "slice a b bs = take (b - a) (drop a bs)"

definition hex0x :: "'d externals \<Rightarrow> bytes \<Rightarrow> json" where
  "hex0x E bs = JString (''0x'' @ hex_encode E bs)"

definition decode_return_data_generic :: "'d externals \<Rightarrow> bytes \<Rightarrow> json" where
  "decode_return_data_generic E data =
     (let len = length data in
      if len = 0 then JBool True
      else if len = 32 then
        (let val = be32 data in
         if bit_length (unat val) \<le> 32 \<and> unat (low_u64 val) \<le> 4294967295
         then JNumber (unat (low_u64 val))
         else if is_address_like (slice 12 32 data) then hex0x E (slice 12 32 data)
         else hex0x E data)
      else if 32 < len then
        (if 64 \<le> len then
           (let offset = be_val (slice 28 32 data) in
            if offset = 32 \<and> 64 < len then
              (let str_len = be_val (slice 60 64 data) in
               if 64 + str_len \<le> len \<and> utf8_valid (slice 64 (64 + str_len) data)
               then JString (string_of_bytes (slice 64 (64 + str_len) data))
               else hex0x E data)
            else hex0x E data)
         else hex0x E data)
      else if len \<le> 8 then JNumber (be_val data)
      else hex0x E data)"

section \<open>Results of a run\<close>

abbreviation (input) IR_FATAL_EXTERNAL_ERROR :: nat where
  "IR_FATAL_EXTERNAL_ERROR \<equiv> 54"

abbreviation (input) IR_INVALID_JUMP :: nat where
  "IR_INVALID_JUMP \<equiv> 42"

definition halt_json_ebpf :: "string \<Rightarrow> json" where
  "halt_json_ebpf reason =
     JObject [(''error'', JString reason), (''instruction_result'', JNumber IR_FATAL_EXTERNAL_ERROR)]"

definition create_return_action :: "'d externals \<Rightarrow> bytes \<Rightarrow> json" where
  "create_return_action E data = JObject
     [(''action'', JString ''return''), (''data'', decode_return_data_generic E data),
      (''raw_data'', hex0x E data)]"

definition create_revert_action :: "'d externals \<Rightarrow> bytes \<Rightarrow> json" where
  "create_revert_action E data = JObject
     [(''action'', JString ''revert''), (''data'', decode_return_data_generic E data)]"

definition create_stop_action :: json where
  "create_stop_action = JObject [(''action'', JString ''stop''), (''success'', JBool True)]"

definition storage_written :: "'d externals \<Rightarrow> (string, bytes) hmap \<Rightarrow> (string \<times> json) list" where
  "storage_written E writes =
     fold (\<lambda>(slot, val). jmap_insert slot (hex0x E val)) writes []"

definition add_storage_written_to_result ::
    "'d externals \<Rightarrow> json \<Rightarrow> (string, bytes) hmap \<Rightarrow> json" where
  "add_storage_written_to_result E result writes =
     (if writes = [] then result
      else case as_object result of
        Some obj \<Rightarrow> JObject (jmap_insert ''storage'' (JObject (storage_written E writes)) obj)
      | None \<Rightarrow> result)"

text \<open>The storage key RETURN adds: it is left out when there are no writes.\<close>

definition return_result :: "'d externals \<Rightarrow> bytes \<Rightarrow> (string, bytes) hmap \<Rightarrow> json" where
  "return_result E output_bytes writes =
     (case as_object (create_return_action E output_bytes) of
        Some obj \<Rightarrow>
          (let sw = storage_written E writes in
           if sw \<noteq> [] then JObject (jmap_insert ''storage'' (JObject sw) obj) else JObject obj)
      | None \<Rightarrow> create_return_action E output_bytes)"

definition revert_result :: "'d externals \<Rightarrow> bytes \<Rightarrow> json" where
  "revert_result E revert_data = JObject
     [(''action'', JString ''revert''), (''data'', decode_return_data_generic E revert_data),
      (''success'', JBool False), (''error'', JString ''Execution reverted'')]"

definition invalid_result :: json where
  "invalid_result = JObject
     [(''action'', JString ''revert''), (''error'', JString ''Invalid opcode 0xFE''),
      (''success'', JBool False), (''instruction_result'', JNumber IR_INVALID_JUMP)]"

section \<open>Reading the result of a sub-call\<close>

definition result_action :: "(string \<times> json) list \<Rightarrow> string" where
  "result_action obj = (case Option.bind (jmap_get obj ''action'') as_str of Some a \<Rightarrow> a | None \<Rightarrow> ''unknown'')"

definition result_success :: "(string \<times> json) list \<Rightarrow> bool" where
  "result_success obj \<longleftrightarrow> result_action obj = ''return'' \<or> result_action obj = ''stop''"

text \<open>The bytes of the \<open>data\<close> field, as the \<open>match d\<close> of every call opcode reads it.\<close>

definition bytes_of_data :: "'d externals \<Rightarrow> (string \<times> json) list \<Rightarrow> bytes" where
  "bytes_of_data E obj =
     (case jmap_get obj ''data'' of
        None \<Rightarrow> []
      | Some (JString s) \<Rightarrow>
          (if starts_with ''0x'' s
           then (case hex_decode E (drop 2 s) of Some b \<Rightarrow> b | None \<Rightarrow> []) else [])
      | Some (JBool b) \<Rightarrow> to_big_endian (if b then 1 else 0)
      | Some (JNumber n) \<Rightarrow> to_big_endian (of_nat (if n < 2 ^ 64 then n else 0))
      | Some _ \<Rightarrow> [])"

text \<open>CALL, DELEGATECALL and STATICCALL read \<open>raw_data\<close> first.\<close>

definition strip_0x :: "string \<Rightarrow> string" where
  "strip_0x s = (if starts_with ''0x'' s then drop 2 s else s)"

definition bytes_of_raw :: "'d externals \<Rightarrow> (string \<times> json) list \<Rightarrow> bytes" where
  "bytes_of_raw E obj =
     (case Option.bind (jmap_get obj ''raw_data'') as_str of
        Some raw \<Rightarrow> (case hex_decode E (strip_0x raw) of Some b \<Rightarrow> b | None \<Rightarrow> [])
      | None \<Rightarrow> bytes_of_data E obj)"

definition bytes_of_slot :: "'d externals \<Rightarrow> json \<Rightarrow> bytes" where
  "bytes_of_slot E val_json =
     (case val_json of
        JString s \<Rightarrow>
          (if starts_with ''0x'' s
           then (case hex_decode E (drop 2 s) of Some b \<Rightarrow> b | None \<Rightarrow> replicate 32 0)
           else replicate 32 0)
      | JNumber n \<Rightarrow> to_big_endian (of_nat (if n < 2 ^ 64 then n else 0))
      | _ \<Rightarrow> replicate 32 0)"

definition sub_storage_writes :: "'d externals \<Rightarrow> (string \<times> json) list \<Rightarrow> (string \<times> bytes) list" where
  "sub_storage_writes E obj =
     (case Option.bind (jmap_get obj ''storage'') as_object of
        Some storage_obj \<Rightarrow> map (\<lambda>(slot, v). (slot, bytes_of_slot E v)) storage_obj
      | None \<Rightarrow> [])"

text \<open>\<open>(call_success, return_data, sub_storage_writes)\<close> from \<open>sub_result\<close>.\<close>

definition read_sub_result ::
    "'d externals \<Rightarrow> string + json \<Rightarrow> bool \<times> bytes \<times> (string \<times> bytes) list" where
  "read_sub_result E sub_result =
     (case sub_result of
        Inl e \<Rightarrow> (False, [], [])
      | Inr val \<Rightarrow>
          (case as_object val of
             None \<Rightarrow> (False, [], [])
           | Some obj \<Rightarrow>
               (if result_success obj
                then (True, bytes_of_raw E obj, sub_storage_writes E obj)
                else (False, [], []))))"

text \<open>CALLCODE and AUTHCALL look at \<open>data\<close> only and drop the storage writes.\<close>

definition read_sub_result_data :: "'d externals \<Rightarrow> string + json \<Rightarrow> bool \<times> bytes" where
  "read_sub_result_data E sub_result =
     (case sub_result of
        Inl e \<Rightarrow> (False, [])
      | Inr val \<Rightarrow>
          (case as_object val of
             None \<Rightarrow> (False, [])
           | Some obj \<Rightarrow> (if result_success obj then (True, bytes_of_data E obj) else (False, []))))"

section \<open>Runtime code inside creation bytecode\<close>

datatype extract_error = Too_Short | No_Return | No_Prologue | Invalid_Runtime

definition rposition :: "(nat \<Rightarrow> bool) \<Rightarrow> nat \<Rightarrow> nat option" where
  "rposition P n = fold (\<lambda>i acc. if P i then Some i else acc) [0..<n] None"

definition metadata_markers :: "bytes list" where
  "metadata_markers = [bytes_of_string ''a2646970667358221220'', bytes_of_string ''64736f6c634300'']"

fun truncate_metadata :: "bytes list \<Rightarrow> bytes \<Rightarrow> bytes" where
  "truncate_metadata [] cd = cd"
| "truncate_metadata (marker # ms) cd =
     (case rposition (\<lambda>i. take (length marker) (drop i cd) = marker) (Suc (length cd) - length marker) of
        Some pos \<Rightarrow> take pos cd
      | None \<Rightarrow> truncate_metadata ms cd)"

definition prologue :: bytes where
  "prologue = [0x60, 0x80, 0x60, 0x40]"

fun skip_search :: "bytes \<Rightarrow> nat \<Rightarrow> nat \<Rightarrow> nat" where
  "skip_search cd pos 0 = pos"
| "skip_search cd pos (Suc n) =
     (if pos + 4 < length cd
      then (if take 4 (drop pos cd) = prologue then pos else skip_search cd (Suc pos) n)
      else pos)"

definition extract_runtime_from_creation_bytecode :: "bytes \<Rightarrow> extract_error + bytes" where
  "extract_runtime_from_creation_bytecode full =
     (if length full < 8000 then Inl Too_Short
      else let cd = truncate_metadata metadata_markers full in
        case rposition (\<lambda>i. cd ! i = 0xf3) (length cd) of
          None \<Rightarrow> Inl No_Return
        | Some return_pos \<Rightarrow>
            (let suffix = drop (return_pos + 1) cd;
                 pos = skip_search cd (return_pos + 1) 8;
                 start = (if take 1 suffix = [0xfe] \<and> 5 < length suffix \<and> slice 1 6 suffix = prologue
                     then Some (return_pos + 2)
                   else if take 4 suffix = prologue then Some (return_pos + 1)
                   else if length cd \<le> pos + 4 \<or> return_pos + 9 \<le> pos then None
                   else Some pos)
             in case start of
                  None \<Rightarrow> Inl No_Prologue
                | Some runtime_start \<Rightarrow>
                    (let runtime = drop runtime_start cd in
                     if length runtime < 3000 \<or> take 4 runtime \<noteq> prologue then Inl Invalid_Runtime
                     else Inr runtime)))"

end
