(* ===== verification/Evm_Machine.thy ===== *)
theory Evm_Machine
  imports Evm_Results
begin

text \<open>
  The variables of the interpreter loop of \<open>execute_program\<close> as one record, the ways an arm of
  its \<open>match opcode\<close> can end, and the steps the arms share.

  The Rust vector \<open>evm_stack\<close> is the list \<open>evm_stack\<close> with its top (the last element) first.
\<close>

record 'd machine =
  bytecode_pc :: nat
  evm_stack :: "u256 list"
  global_mem :: memory
  temp_storage_writes :: "(string, bytes) hmap"
  execution_context :: "'d uvm_context"

text \<open>
  How an arm ends: it falls through to the advance of the program counter with its \<open>advance\<close>
  (\<open>Next\<close>), has set \<open>skip_advance\<close> (\<open>Jumped\<close>), executes \<open>continue\<close> (\<open>Again\<close>), returns
  \<open>Ok(json)\<close> (\<open>Finish\<close>), panics (\<open>Panic\<close>), or runs a sub-call that exhausts the fuel of the
  model (\<open>Starved\<close>).
\<close>

datatype 'd flow =
    Next nat "'d machine"
  | Jumped "'d machine"
  | Again "'d machine"
  | Finish "'d machine" json
  | Panic
  | Starved

text \<open>What a whole run gives its caller: the database, the callback events and the result.\<close>

datatype 'd outcome =
    Done "'d option" "create2_event list" "string + json"
  | Crashed
  | Out_Of_Fuel

text \<open>\<open>return Ok(halt_json_ebpf(reason))\<close>.\<close>

definition halt :: "string \<Rightarrow> 'd machine \<Rightarrow> 'd flow" where
  "halt reason m = Finish m (halt_json_ebpf reason)"

text \<open>\<open>consume_gas_amount(&mut execution_context, gas)?\<close>, then the end of the arm \<open>k\<close>.\<close>

definition charge :: "u64 \<Rightarrow> ('d machine \<Rightarrow> 'd flow) \<Rightarrow> 'd machine \<Rightarrow> 'd flow" where
  "charge gas k m =
     (case consume_gas_amount gas (execution_context m) of
        None \<Rightarrow> Panic
      | Some c \<Rightarrow> k (m\<lparr>execution_context := c\<rparr>))"

abbreviation (input) done_with :: "u64 \<Rightarrow> 'd machine \<Rightarrow> 'd flow" where
  "done_with gas m \<equiv> charge gas (Next 1) m"

text \<open>A panicking computation inside an arm.\<close>

definition or_panic :: "'a option \<Rightarrow> ('a \<Rightarrow> 'd flow) \<Rightarrow> 'd flow" where
  "or_panic r k = (case r of None \<Rightarrow> Panic | Some v \<Rightarrow> k v)"

text \<open>\<open>(n + 31) / 32\<close> on \<open>usize\<close>.\<close>

definition word_count :: "bool \<Rightarrow> nat \<Rightarrow> nat option" where
  "word_count oc n = do { s \<leftarrow> usize_add oc n 31; Some (s div 32) }"

definition push :: "u256 \<Rightarrow> 'd machine \<Rightarrow> 'd machine" where
  "push v m = m\<lparr>evm_stack := v # evm_stack m\<rparr>"

definition with_stack :: "u256 list \<Rightarrow> 'd machine \<Rightarrow> 'd machine" where
  "with_stack st m = m\<lparr>evm_stack := st\<rparr>"

definition with_mem :: "memory \<Rightarrow> 'd machine \<Rightarrow> 'd machine" where
  "with_mem mem m = m\<lparr>global_mem := mem\<rparr>"

definition upd_context :: "('d uvm_context \<Rightarrow> 'd uvm_context) \<Rightarrow> 'd machine \<Rightarrow> 'd machine" where
  "upd_context f m = m\<lparr>execution_context := f (execution_context m)\<rparr>"

definition upd_world :: "(uvm_world_state \<Rightarrow> uvm_world_state) \<Rightarrow> 'd machine \<Rightarrow> 'd machine" where
  "upd_world f m = upd_context (\<lambda>c. c\<lparr>world_state := f (world_state c)\<rparr>) m"

abbreviation (input) world :: "'d machine \<Rightarrow> uvm_world_state" where
  "world m \<equiv> world_state (execution_context m)"

text \<open>
  \<open>if !resize_memory_ebpf(&mut global_mem, off, sz) { return Ok(halt_json_ebpf(reason)) }\<close>.
\<close>

definition with_resize :: "nat \<Rightarrow> nat \<Rightarrow> string \<Rightarrow> ('d machine \<Rightarrow> 'd flow) \<Rightarrow> 'd machine \<Rightarrow> 'd flow" where
  "with_resize off sz reason k m =
     (let (mem, ok) = resize_memory_ebpf (global_mem m) off sz; m' = with_mem mem m in
      if ok then k m' else halt reason m')"

lemmas machine_simps = push_def with_stack_def with_mem_def upd_context_def upd_world_def

section \<open>Fields under the shared steps\<close>

lemma charge_cases:
  "charge gas k m = Panic \<or>
   (\<exists>c. consume_gas_amount gas (execution_context m) = Some c \<and> charge gas k m = k (m\<lparr>execution_context := c\<rparr>))"
  by (simp add: charge_def split: option.splits)

lemma push_fields [simp]:
  "evm_stack (push v m) = v # evm_stack m" "bytecode_pc (push v m) = bytecode_pc m"
  "global_mem (push v m) = global_mem m" "temp_storage_writes (push v m) = temp_storage_writes m"
  "execution_context (push v m) = execution_context m"
  by (simp_all add: push_def)

lemma with_stack_fields [simp]:
  "evm_stack (with_stack st m) = st" "bytecode_pc (with_stack st m) = bytecode_pc m"
  "global_mem (with_stack st m) = global_mem m" "temp_storage_writes (with_stack st m) = temp_storage_writes m"
  "execution_context (with_stack st m) = execution_context m"
  by (simp_all add: with_stack_def)

lemma with_mem_fields [simp]:
  "evm_stack (with_mem mem m) = evm_stack m" "bytecode_pc (with_mem mem m) = bytecode_pc m"
  "global_mem (with_mem mem m) = mem" "temp_storage_writes (with_mem mem m) = temp_storage_writes m"
  "execution_context (with_mem mem m) = execution_context m"
  by (simp_all add: with_mem_def)

lemma upd_context_fields [simp]:
  "evm_stack (upd_context f m) = evm_stack m" "bytecode_pc (upd_context f m) = bytecode_pc m"
  "global_mem (upd_context f m) = global_mem m" "temp_storage_writes (upd_context f m) = temp_storage_writes m"
  "execution_context (upd_context f m) = f (execution_context m)"
  by (simp_all add: upd_context_def)

lemma upd_world_fields [simp]:
  "evm_stack (upd_world f m) = evm_stack m" "bytecode_pc (upd_world f m) = bytecode_pc m"
  "global_mem (upd_world f m) = global_mem m" "temp_storage_writes (upd_world f m) = temp_storage_writes m"
  "execution_context (upd_world f m) = (execution_context m)\<lparr>world_state := f (world_state (execution_context m))\<rparr>"
  by (simp_all add: upd_world_def)

end
