(* ===== verification/Evm_Arith_Ops.thy ===== *)
theory Evm_Arith_Ops
  imports Evm_Machine
begin

text \<open>
  The arms of \<open>match opcode\<close> for arithmetic, comparison and bit operations (0x01 to 0x1d) and
  for stack manipulation (POP, PUSH, DUP, SWAP).  Each arm is one definition; what they share
  (the underflow check, the two or three pops, the push, the gas) is \<open>unary_op\<close>,
  \<open>binary_op\<close> and \<open>ternary_op\<close>.
\<close>

section \<open>The common shape of the arms\<close>

definition underflow :: "string \<Rightarrow> 'd machine \<Rightarrow> 'd flow" where
  "underflow name m = halt (''Stack underflow on '' @ name) m"

definition unary_op :: "string \<Rightarrow> u64 \<Rightarrow> (u256 \<Rightarrow> u256) \<Rightarrow> 'd machine \<Rightarrow> 'd flow" where
  "unary_op name gas f m =
     (case evm_stack m of
        a # st \<Rightarrow> done_with gas (with_stack (f a # st) m)
      | _ \<Rightarrow> underflow name m)"

definition binary_op :: "string \<Rightarrow> u64 \<Rightarrow> (u256 \<Rightarrow> u256 \<Rightarrow> u256 option) \<Rightarrow> 'd machine \<Rightarrow> 'd flow" where
  "binary_op name gas f m =
     (case evm_stack m of
        a # b # st \<Rightarrow> or_panic (f a b) (\<lambda>r. done_with gas (with_stack (r # st) m))
      | _ \<Rightarrow> underflow name m)"

definition ternary_op ::
    "string \<Rightarrow> u64 \<Rightarrow> (u256 \<Rightarrow> u256 \<Rightarrow> u256 \<Rightarrow> u256 option) \<Rightarrow> 'd machine \<Rightarrow> 'd flow" where
  "ternary_op name gas f m =
     (case evm_stack m of
        a # b # n # st \<Rightarrow> or_panic (f a b n) (\<lambda>r. done_with gas (with_stack (r # st) m))
      | _ \<Rightarrow> underflow name m)"

definition flag :: "bool \<Rightarrow> u256" where
  "flag b = (if b then 1 else 0)"

section \<open>Arithmetic\<close>

definition op_add :: "'d machine \<Rightarrow> 'd flow" where
  "op_add = binary_op ''ADD'' 3 (\<lambda>a b. Some (a + b))"

definition op_mul :: "'d machine \<Rightarrow> 'd flow" where
  "op_mul = binary_op ''MUL'' 5 (\<lambda>a b. Some (a * b))"

definition op_sub :: "'d machine \<Rightarrow> 'd flow" where
  "op_sub = binary_op ''SUB'' 3 (\<lambda>a b. Some (a - b))"

definition op_div :: "'d machine \<Rightarrow> 'd flow" where
  "op_div = binary_op ''DIV'' 5 evm_div"

definition op_sdiv :: "bool \<Rightarrow> 'd machine \<Rightarrow> 'd flow" where
  "op_sdiv oc = binary_op ''SDIV'' 5 (evm_sdiv oc)"

definition op_mod :: "'d machine \<Rightarrow> 'd flow" where
  "op_mod = binary_op ''MOD'' 5 evm_mod"

definition op_smod :: "bool \<Rightarrow> 'd machine \<Rightarrow> 'd flow" where
  "op_smod oc = binary_op ''SMOD'' 5 (evm_smod oc)"

definition op_addmod :: "'d machine \<Rightarrow> 'd flow" where
  "op_addmod = ternary_op ''ADDMOD'' 8 evm_addmod"

definition op_mulmod :: "'d machine \<Rightarrow> 'd flow" where
  "op_mulmod = ternary_op ''MULMOD'' 8 evm_mulmod"

text \<open>EXP charges 50 per byte of the exponent.\<close>

definition op_exp :: "'d machine \<Rightarrow> 'd flow" where
  "op_exp m =
     (case evm_stack m of
        a # exponent # st \<Rightarrow>
          (let exp_bytes = (bit_length (unat exponent) + 7) div 8
           in done_with (of_nat (10 + 50 * exp_bytes)) (with_stack (evm_exp a exponent # st) m))
      | _ \<Rightarrow> underflow ''EXP'' m)"

definition op_signextend :: "'d machine \<Rightarrow> 'd flow" where
  "op_signextend = binary_op ''SIGNEXTEND'' 5 evm_signextend"

section \<open>Comparison and bits\<close>

definition op_lt :: "'d machine \<Rightarrow> 'd flow" where
  "op_lt = binary_op ''LT'' 3 (\<lambda>a b. Some (flag (a < b)))"

definition op_gt :: "'d machine \<Rightarrow> 'd flow" where
  "op_gt = binary_op ''GT'' 3 (\<lambda>a b. Some (flag (b < a)))"

definition op_slt :: "bool \<Rightarrow> 'd machine \<Rightarrow> 'd flow" where
  "op_slt oc = binary_op ''SLT'' 3 (evm_slt oc)"

definition op_sgt :: "bool \<Rightarrow> 'd machine \<Rightarrow> 'd flow" where
  "op_sgt oc = binary_op ''SGT'' 3 (evm_sgt oc)"

definition op_eq :: "'d machine \<Rightarrow> 'd flow" where
  "op_eq = binary_op ''EQ'' 3 (\<lambda>a b. Some (flag (a = b)))"

definition op_iszero :: "'d machine \<Rightarrow> 'd flow" where
  "op_iszero = unary_op ''ISZERO'' 3 (\<lambda>a. flag (a = 0))"

definition op_and :: "'d machine \<Rightarrow> 'd flow" where
  "op_and = binary_op ''AND'' 3 (\<lambda>a b. Some (a AND b))"

definition op_or :: "'d machine \<Rightarrow> 'd flow" where
  "op_or = binary_op ''OR'' 3 (\<lambda>a b. Some (a OR b))"

definition op_xor :: "'d machine \<Rightarrow> 'd flow" where
  "op_xor = binary_op ''XOR'' 3 (\<lambda>a b. Some (a XOR b))"

definition op_not :: "'d machine \<Rightarrow> 'd flow" where
  "op_not = unary_op ''NOT'' 3 (\<lambda>a. NOT a)"

definition op_byte :: "'d machine \<Rightarrow> 'd flow" where
  "op_byte = binary_op ''BYTE'' 3 (\<lambda>i x. Some (evm_byte i x))"

definition op_shl :: "'d machine \<Rightarrow> 'd flow" where
  "op_shl = binary_op ''SHL'' 3 (\<lambda>shift val. Some (evm_shl shift val))"

definition op_shr :: "'d machine \<Rightarrow> 'd flow" where
  "op_shr = binary_op ''SHR'' 3 (\<lambda>shift val. Some (evm_shr shift val))"

definition op_sar :: "'d machine \<Rightarrow> 'd flow" where
  "op_sar = binary_op ''SAR'' 3 (\<lambda>shift val. Some (evm_sar shift val))"

section \<open>Stack manipulation\<close>

definition op_pop :: "'d machine \<Rightarrow> 'd flow" where
  "op_pop m =
     (case evm_stack m of
        v # st \<Rightarrow> done_with 2 (with_stack st m)
      | _ \<Rightarrow> underflow ''POP'' m)"

definition op_push0 :: "'d machine \<Rightarrow> 'd flow" where
  "op_push0 m = done_with 2 (push 0 m)"

text \<open>PUSH1 to PUSH32: bytes past the end of the program read as zero.\<close>

definition op_push :: "bytes \<Rightarrow> nat \<Rightarrow> 'd machine \<Rightarrow> 'd flow" where
  "op_push prog opcode m =
     (let push_size = opcode - 0x60 + 1;
          data = replicate (32 - push_size) 0 @
            map (\<lambda>i. if bytecode_pc m + 1 + i < length prog then prog ! (bytecode_pc m + 1 + i) else 0)
              [0..<push_size]
      in charge 3 (Next (1 + push_size)) (push (be32 data) m))"

definition op_dup :: "nat \<Rightarrow> 'd machine \<Rightarrow> 'd flow" where
  "op_dup opcode m =
     (let dup_index = opcode - 0x80 + 1 in
      if length (evm_stack m) < dup_index then underflow (''DUP'' @ fmt_dec dup_index) m
      else done_with 3 (push (evm_stack m ! (dup_index - 1)) m))"

definition op_swap :: "nat \<Rightarrow> 'd machine \<Rightarrow> 'd flow" where
  "op_swap opcode m =
     (let swap_index = opcode - 0x90 + 1; st = evm_stack m in
      if length st < swap_index + 1 then underflow (''SWAP'' @ fmt_dec swap_index) m
      else done_with 3 (with_stack (st[0 := st ! swap_index, swap_index := st ! 0]) m))"

lemmas arith_op_defs =
  op_add_def op_mul_def op_sub_def op_div_def op_sdiv_def op_mod_def op_smod_def op_addmod_def
  op_mulmod_def op_signextend_def op_lt_def op_gt_def op_slt_def op_sgt_def op_eq_def
  op_iszero_def op_and_def op_or_def op_xor_def op_not_def op_byte_def op_shl_def op_shr_def
  op_sar_def

end
