(* ===== verification/Evm_Env_Ops.thy ===== *)
theory Evm_Env_Ops
  imports Evm_Arith_Ops
begin

text \<open>
  The arms 0x20 to 0x4a: KECCAK256, the call environment (ADDRESS .. RETURNDATACOPY), foreign
  code (EXTCODESIZE, EXTCODECOPY, EXTCODEHASH) and the block context (BLOCKHASH ..
  BLOBBASEFEE).  \<open>A\<close> is \<open>interpreter_args\<close>, \<open>E\<close> the code outside the repository.

  The \<open>println!\<close> of the copy arms evaluates \<open>offset + size\<close> on \<open>U256\<close>, which panics on
  overflow; it is the \<open>u256_add\<close> below.
\<close>

section \<open>KECCAK256\<close>

definition op_keccak256 :: "'d externals \<Rightarrow> 'd machine \<Rightarrow> 'd flow" where
  "op_keccak256 E m =
     (case evm_stack m of
        offset # sz # st \<Rightarrow>
          (let offset_usize = as_usize_or_fail offset; size_usize = as_usize_or_fail sz in
           with_resize offset_usize size_usize ''Memory resize failed on KECCAK256''
             (\<lambda>m. let result = be32 (keccak256 E (memory_slice_len (global_mem m) offset_usize size_usize)) in
               or_panic (u256_add offset sz) (\<lambda>_.
               or_panic (word_count (overflow_checks E) size_usize) (\<lambda>words.
                 done_with (of_nat (30 + 6 * words)) (with_stack (result # st) m))))
             (with_stack st m))
      | _ \<Rightarrow> underflow ''KECCAK256'' m)"

section \<open>Call environment\<close>

definition op_address :: "'d externals \<Rightarrow> interpreter_args \<Rightarrow> 'd machine \<Rightarrow> 'd flow" where
  "op_address E A m = done_with 2 (push (encode_address_to_u256 E (contract_address A)) m)"

definition op_balance :: "'d externals \<Rightarrow> 'd machine \<Rightarrow> 'd flow" where
  "op_balance E m =
     (case evm_stack m of
        address_u256 # st \<Rightarrow>
          done_with 100 (with_stack (get_balance (world m) (u256_to_address E address_u256) # st) m)
      | _ \<Rightarrow> underflow ''BALANCE'' m)"

definition op_origin :: "'d externals \<Rightarrow> interpreter_args \<Rightarrow> 'd machine \<Rightarrow> 'd flow" where
  "op_origin E A m = done_with 2 (push (encode_address_to_u256 E (origin A)) m)"

definition op_caller :: "'d externals \<Rightarrow> interpreter_args \<Rightarrow> 'd machine \<Rightarrow> 'd flow" where
  "op_caller E A m = done_with 2 (push (encode_address_to_u256 E (caller A)) m)"

definition op_callvalue :: "interpreter_args \<Rightarrow> 'd machine \<Rightarrow> 'd flow" where
  "op_callvalue A m = done_with 2 (push (call_value A) m)"

text \<open>The loop \<open>for i in 0..32\<close> of CALLDATALOAD, with its \<open>usize\<close> addition.\<close>

definition load_word :: "bool \<Rightarrow> bytes \<Rightarrow> nat \<Rightarrow> bytes option" where
  "load_word oc calldata off =
     those (map (\<lambda>i. do {
         s \<leftarrow> usize_add oc off i;
         Some (if s < length calldata then calldata ! s else 0)
       }) [0..<32])"

lemma load_word_in_range:
  assumes "off + 31 \<le> usize_max"
  shows "load_word oc calldata off =
    Some (map (\<lambda>i. if off + i < length calldata then calldata ! (off + i) else 0) [0..<32])"
proof -
  have "map (\<lambda>i. do { s \<leftarrow> usize_add oc off i; Some (if s < length calldata then calldata ! s else 0) }) [0..<32]
      = map (\<lambda>i. Some (if off + i < length calldata then calldata ! (off + i) else 0)) [0..<32]"
    using assms by (intro map_cong) auto
  then show ?thesis unfolding load_word_def by (simp only: those_map_Some)
qed

definition op_calldataload :: "'d externals \<Rightarrow> interpreter_args \<Rightarrow> 'd machine \<Rightarrow> 'd flow" where
  "op_calldataload E A m =
     (case evm_stack m of
        offset # st \<Rightarrow>
          or_panic (load_word (overflow_checks E) (state_data A) (as_usize_or_fail offset)) (\<lambda>data.
            done_with 3 (with_stack (be32 data # st) m))
      | _ \<Rightarrow> underflow ''CALLDATALOAD'' m)"

definition op_calldatasize :: "interpreter_args \<Rightarrow> 'd machine \<Rightarrow> 'd flow" where
  "op_calldatasize A m = done_with 2 (push (of_nat (length (state_data A))) m)"

text \<open>
  The common body of CALLDATACOPY, CODECOPY, EXTCODECOPY and RETURNDATACOPY after their pops:
  resize, copy loop, \<open>println!\<close>, gas.
\<close>

definition copy_to_memory ::
    "bool \<Rightarrow> string \<Rightarrow> u64 \<Rightarrow> ('d machine \<Rightarrow> bytes \<times> 'd machine) \<Rightarrow> u256 \<Rightarrow> u256 \<Rightarrow> u256
     \<Rightarrow> 'd machine \<Rightarrow> 'd flow" where
  "copy_to_memory oc name base source dest_offset offset sz m =
     (let dest_offset_usize = as_usize_or_fail dest_offset;
          offset_usize = as_usize_or_fail offset;
          size_usize = as_usize_or_fail sz in
      with_resize dest_offset_usize size_usize (''Memory resize failed on '' @ name)
        (\<lambda>m. let (src, m) = source m in
          or_panic (copy_bytes oc src dest_offset_usize offset_usize size_usize (global_mem m)) (\<lambda>mem.
          or_panic (u256_add offset sz) (\<lambda>_.
          or_panic (word_count oc size_usize) (\<lambda>words.
            done_with (base + of_nat (3 * words)) (with_mem mem m)))))
        m)"

definition op_calldatacopy :: "'d externals \<Rightarrow> interpreter_args \<Rightarrow> 'd machine \<Rightarrow> 'd flow" where
  "op_calldatacopy E A m =
     (case evm_stack m of
        dest_offset # offset # sz # st \<Rightarrow>
          copy_to_memory (overflow_checks E) ''CALLDATACOPY'' 3 (\<lambda>m. (state_data A, m))
            dest_offset offset sz (with_stack st m)
      | _ \<Rightarrow> underflow ''CALLDATACOPY'' m)"

definition op_codesize :: "bytes \<Rightarrow> 'd machine \<Rightarrow> 'd flow" where
  "op_codesize prog m = done_with 2 (push (of_nat (length prog)) m)"

definition op_codecopy :: "'d externals \<Rightarrow> bytes \<Rightarrow> 'd machine \<Rightarrow> 'd flow" where
  "op_codecopy E prog m =
     (case evm_stack m of
        dest_offset # offset # sz # st \<Rightarrow>
          copy_to_memory (overflow_checks E) ''CODECOPY'' 3 (\<lambda>m. (prog, m))
            dest_offset offset sz (with_stack st m)
      | _ \<Rightarrow> underflow ''CODECOPY'' m)"

definition op_gasprice :: "interpreter_args \<Rightarrow> 'd machine \<Rightarrow> 'd flow" where
  "op_gasprice A m = done_with 2 (push (gas_price A) m)"

section \<open>Foreign code\<close>

definition op_extcodesize :: "'d externals \<Rightarrow> 'd machine \<Rightarrow> 'd flow" where
  "op_extcodesize E m =
     (case evm_stack m of
        address_u256 # st \<Rightarrow>
          done_with 100 (with_stack (get_codesize (world m) (u256_to_address E address_u256) # st) m)
      | _ \<Rightarrow> underflow ''EXTCODESIZE'' m)"

text \<open>
  The code of an address: the code cache, else the account, and when that is empty the
  database entry \<open>account:<address>:contract_state\<close>, which is then cached.  The same lines
  open EXTCODECOPY and every call opcode.
\<close>

definition cached_code :: "uvm_world_state \<Rightarrow> string \<Rightarrow> bytes" where
  "cached_code ws address =
     (case hm_get (code ws) address of
        Some c \<Rightarrow> c
      | None \<Rightarrow> (case hm_get (accounts ws) address of Some acc \<Rightarrow> acc_code acc | None \<Rightarrow> []))"

definition contract_state_key :: "string \<Rightarrow> string" where
  "contract_state_key address = ''account:'' @ address @ '':contract_state''"

definition load_code :: "'d externals \<Rightarrow> string \<Rightarrow> 'd machine \<Rightarrow> bytes \<times> 'd machine" where
  "load_code E address m =
     (let ext_code = cached_code (world m) address in
      if ext_code \<noteq> [] then (ext_code, m)
      else case storage_manager (execution_context m) of
        None \<Rightarrow> (ext_code, m)
      | Some db \<Rightarrow>
          (case db_read E db (contract_state_key address) of
             None \<Rightarrow> (ext_code, m)
           | Some bytecode \<Rightarrow>
               (if bytecode = [] then (ext_code, m)
                else (bytecode, upd_world (\<lambda>ws. ws\<lparr>code := hm_insert address bytecode (code ws)\<rparr>) m))))"

definition op_extcodecopy :: "'d externals \<Rightarrow> 'd machine \<Rightarrow> 'd flow" where
  "op_extcodecopy E m =
     (case evm_stack m of
        address_u256 # dest_offset # offset # sz # st \<Rightarrow>
          copy_to_memory (overflow_checks E) ''EXTCODECOPY'' 100 (load_code E (u256_to_address E address_u256))
            dest_offset offset sz (with_stack st m)
      | _ \<Rightarrow> underflow ''EXTCODECOPY'' m)"

definition op_returndatasize :: "'d machine \<Rightarrow> 'd flow" where
  "op_returndatasize m = done_with 2 (push (of_nat (length (return_data (execution_context m)))) m)"

definition op_returndatacopy :: "'d externals \<Rightarrow> 'd machine \<Rightarrow> 'd flow" where
  "op_returndatacopy E m =
     (case evm_stack m of
        dest_offset # offset # sz # st \<Rightarrow>
          copy_to_memory (overflow_checks E) ''RETURNDATACOPY'' 3
            (\<lambda>m. (return_data (execution_context m), m)) dest_offset offset sz (with_stack st m)
      | _ \<Rightarrow> underflow ''RETURNDATACOPY'' m)"

definition op_extcodehash :: "'d externals \<Rightarrow> 'd machine \<Rightarrow> 'd flow" where
  "op_extcodehash E m =
     (case evm_stack m of
        address_u256 # st \<Rightarrow>
          (let address = u256_to_address E address_u256;
               result =
                 (case hm_get (accounts (world m)) address of
                    Some account \<Rightarrow>
                      (if acc_code account = [] then be32 (keccak256 E []) else be32 (keccak256 E (acc_code account)))
                  | None \<Rightarrow>
                      (case hm_get (code (world m)) address of
                         Some c \<Rightarrow> (if c = [] then be32 (keccak256 E []) else be32 (keccak256 E c))
                       | None \<Rightarrow> 0))
           in done_with 100 (with_stack (result # st) m))
      | _ \<Rightarrow> underflow ''EXTCODEHASH'' m)"

section \<open>Block context\<close>

definition op_blockhash :: "'d machine \<Rightarrow> 'd flow" where
  "op_blockhash m =
     (case evm_stack m of
        bn # st \<Rightarrow>
          (let current_block = bi_number (block_info (world m));
               hash = (if bn < current_block \<and> current_block - bn \<le> 256
                 then (case get_block_hash (world m) bn of Some h \<Rightarrow> be32 h | None \<Rightarrow> 0) else 0)
           in done_with 20 (with_stack (hash # st) m))
      | _ \<Rightarrow> underflow ''BLOCKHASH'' m)"

definition op_coinbase :: "'d externals \<Rightarrow> 'd machine \<Rightarrow> 'd flow" where
  "op_coinbase E m = done_with 2 (push (encode_address_to_u256 E (bi_coinbase (block_info (world m)))) m)"

definition op_timestamp :: "'d machine \<Rightarrow> 'd flow" where
  "op_timestamp m = done_with 2 (push (bi_timestamp (block_info (world m))) m)"

definition op_number :: "'d machine \<Rightarrow> 'd flow" where
  "op_number m = done_with 2 (push (bi_number (block_info (world m))) m)"

definition op_prevrandao :: "'d machine \<Rightarrow> 'd flow" where
  "op_prevrandao m = done_with 2 (push (be32 (bi_prev_randao (block_info (world m)))) m)"

definition op_gaslimit :: "'d machine \<Rightarrow> 'd flow" where
  "op_gaslimit m = done_with 2 (push (bi_gas_limit (block_info (world m))) m)"

definition op_chainid :: "'d machine \<Rightarrow> 'd flow" where
  "op_chainid m = done_with 2 (push (chain_id (world m)) m)"

definition op_selfbalance :: "interpreter_args \<Rightarrow> 'd machine \<Rightarrow> 'd flow" where
  "op_selfbalance A m = done_with 5 (push (get_balance (world m) (contract_address A)) m)"

definition op_basefee :: "'d machine \<Rightarrow> 'd flow" where
  "op_basefee m = done_with 2 (push (bi_base_fee (block_info (world m))) m)"

definition op_blobhash :: "'d machine \<Rightarrow> 'd flow" where
  "op_blobhash m =
     (case evm_stack m of
        index # st \<Rightarrow>
          done_with 3 (with_stack
            ((if index = 0 then be32 (bi_blob_hash (block_info (world m))) else 0) # st) m)
      | _ \<Rightarrow> underflow ''BLOBHASH'' m)"

definition op_blobbasefee :: "'d machine \<Rightarrow> 'd flow" where
  "op_blobbasefee m = done_with 2 (push (bi_blob_base_fee (block_info (world m))) m)"

end
