(* ===== verification/Evm_Mem_Ops.thy ===== *)
theory Evm_Mem_Ops
  imports Evm_Env_Ops
begin

text \<open>
  The arms for memory (MLOAD, MSTORE, MSTORE8, MCOPY, MSIZE), persistent and transient storage
  (SLOAD, SSTORE, TLOAD, TSTORE), control flow (JUMP, JUMPI, PC, JUMPDEST, GAS), logs, the two
  SS7 opcodes of this VM, and the arms that end a run (STOP, RETURN, REVERT, INVALID).
  The opcode numbers are the ones of this interpreter: MLOAD is 0x51.
\<close>

section \<open>Memory\<close>

definition pad_right :: "nat \<Rightarrow> bytes \<Rightarrow> bytes" where
  "pad_right n bs = bs @ replicate (n - length bs) 0"

definition op_mload :: "'d machine \<Rightarrow> 'd flow" where
  "op_mload m =
     (case evm_stack m of
        offset # st \<Rightarrow>
          (let offset_usize = as_usize_or_fail offset in
           with_resize offset_usize 32 ''Memory resize failed on MLOAD''
             (\<lambda>m. let data = memory_slice_len (global_mem m) offset_usize 32 in
               done_with 3 (push (be32 (pad_right 32 data)) m))
             (with_stack st m))
      | _ \<Rightarrow> underflow ''MLOAD'' m)"

definition op_mstore :: "'d machine \<Rightarrow> 'd flow" where
  "op_mstore m =
     (case evm_stack m of
        offset # val # st \<Rightarrow>
          (let offset_usize = as_usize_or_fail offset in
           with_resize offset_usize 32 ''Memory resize failed on MSTORE''
             (\<lambda>m. if offset_usize + 32 \<le> mem_len (global_mem m)
               then or_panic (mem_write offset_usize (to_big_endian val) (global_mem m)) (\<lambda>mem.
                 done_with 3 (with_mem mem m))
               else done_with 3 m)
             (with_stack st m))
      | _ \<Rightarrow> underflow ''MSTORE'' m)"

definition op_mstore8 :: "'d machine \<Rightarrow> 'd flow" where
  "op_mstore8 m =
     (case evm_stack m of
        offset # val # st \<Rightarrow>
          (let offset_usize = as_usize_or_fail offset in
           with_resize offset_usize 1 ''Memory resize failed on MSTORE8''
             (\<lambda>m. if offset_usize < mem_len (global_mem m)
               then or_panic (mem_set offset_usize (ucast (low_u32 val)) (global_mem m)) (\<lambda>mem.
                 done_with 3 (with_mem mem m))
               else done_with 3 m)
             (with_stack st m))
      | _ \<Rightarrow> underflow ''MSTORE8'' m)"

definition op_msize :: "'d machine \<Rightarrow> 'd flow" where
  "op_msize m = done_with 2 (push (of_nat (mem_len (global_mem m))) m)"

text \<open>MCOPY pops the length first.  With length 0 the arm executes \<open>continue\<close>.\<close>

definition op_mcopy :: "'d externals \<Rightarrow> 'd machine \<Rightarrow> 'd flow" where
  "op_mcopy E m =
     (case evm_stack m of
        len # src_offset # dst_offset # st \<Rightarrow>
          (let dst_offset_usize = as_usize_or_fail dst_offset;
               src_offset_usize = as_usize_or_fail src_offset;
               len_usize = as_usize_or_fail len in
           or_panic (word_count (overflow_checks E) len_usize) (\<lambda>words.
           charge (of_nat (3 + 3 * words))
             (\<lambda>m. if len_usize = 0 then Again m
               else (let max_needed = max (usize_saturating_add dst_offset_usize len_usize)
                           (usize_saturating_add src_offset_usize len_usize) in
                 with_resize max_needed 0 ''Memory resize failed on MCOPY''
                   (\<lambda>m. let mem = global_mem m;
                        copy_len = min len_usize (min (mem_len mem - dst_offset_usize) (mem_len mem - src_offset_usize)) in
                      or_panic
                        (if 0 < copy_len
                         then do {
                           data \<leftarrow> mem_slice mem src_offset_usize (src_offset_usize + copy_len);
                           mem_write dst_offset_usize data mem
                         } else Some mem) (\<lambda>mem.
                      or_panic (u256_add dst_offset len) (\<lambda>_.
                      or_panic (u256_add src_offset len) (\<lambda>_. Next 1 (with_mem mem m)))))
                   m))
             (with_stack st m)))
      | _ \<Rightarrow> underflow ''MCOPY'' m)"

section \<open>Storage\<close>

definition storage_key :: "string \<Rightarrow> string \<Rightarrow> string" where
  "storage_key contract key_hex = ''storage:'' @ contract @ '':'' @ key_hex"

text \<open>
  SLOAD.  A slot that reads as zero is looked up in the database; a non-zero entry found there
  is cached in the world state.
\<close>

definition sload_fallback :: "'d externals \<Rightarrow> interpreter_args \<Rightarrow> string \<Rightarrow> bytes \<Rightarrow> 'd machine \<Rightarrow> bytes \<times> 'd machine" where
  "sload_fallback E A key_hex value_bytes m =
     (if value_bytes = replicate 32 0 then
        (case storage_manager (execution_context m) of
           None \<Rightarrow> (value_bytes, m)
         | Some sm \<Rightarrow>
             (case db_read E sm (storage_key (contract_address A) key_hex) of
                None \<Rightarrow> (value_bytes, m)
              | Some db_bytes \<Rightarrow>
                  (if db_bytes \<noteq> [] \<and> db_bytes \<noteq> replicate 32 0
                   then (db_bytes, upd_world (\<lambda>ws. set_storage ws (contract_address A) key_hex db_bytes) m)
                   else (value_bytes, m))))
      else (value_bytes, m))"

definition op_sload :: "'d externals \<Rightarrow> interpreter_args \<Rightarrow> 'd machine \<Rightarrow> 'd flow" where
  "op_sload E A m =
     (case evm_stack m of
        key # st \<Rightarrow>
          (let key_hex = fmt_064x key in
           or_panic (get_storage E (world m) (contract_address A) key_hex) (\<lambda>value_bytes.
             let (value_bytes, m) = sload_fallback E A key_hex value_bytes (with_stack st m) in
             or_panic (from_big_endian value_bytes) (\<lambda>val. done_with 100 (push val m))))
      | _ \<Rightarrow> underflow ''SLOAD'' m)"

definition op_sstore :: "interpreter_args \<Rightarrow> 'd machine \<Rightarrow> 'd flow" where
  "op_sstore A m =
     (case evm_stack m of
        key # val # st \<Rightarrow>
          (let key_hex = fmt_064x key; value_bytes = to_big_endian val in
           done_with 100
             (upd_world (\<lambda>ws. set_storage ws (contract_address A) key_hex value_bytes)
               ((with_stack st m)\<lparr>temp_storage_writes := hm_insert key_hex value_bytes (temp_storage_writes m)\<rparr>)))
      | _ \<Rightarrow> underflow ''SSTORE'' m)"

definition op_tload :: "'d machine \<Rightarrow> 'd flow" where
  "op_tload m =
     (case evm_stack m of
        key_u256 # st \<Rightarrow>
          (let val = (case hm_get (transient_storage (world m)) (to_big_endian key_u256) of
               Some v \<Rightarrow> v | None \<Rightarrow> replicate 32 0)
           in done_with 100 (with_stack (be32 val # st) m))
      | _ \<Rightarrow> underflow ''TLOAD'' m)"

text \<open>TSTORE pops the value first, then the key; storing zero deletes.\<close>

definition op_tstore :: "'d machine \<Rightarrow> 'd flow" where
  "op_tstore m =
     (case evm_stack m of
        value_u256 # key_u256 # st \<Rightarrow>
          (let key_bytes = to_big_endian key_u256; value_bytes = to_big_endian value_u256 in
           done_with 100 (upd_world (\<lambda>ws. ws\<lparr>transient_storage :=
               (if value_u256 = 0 then hm_remove key_bytes (transient_storage ws)
                else hm_insert key_bytes value_bytes (transient_storage ws))\<rparr>) (with_stack st m)))
      | _ \<Rightarrow> underflow ''TSTORE'' m)"

section \<open>Control flow\<close>

definition op_jump :: "'d machine \<Rightarrow> 'd flow" where
  "op_jump m =
     (case evm_stack m of
        target_u256 # st \<Rightarrow>
          charge 8 Jumped ((with_stack st m)\<lparr>bytecode_pc := as_usize_saturated target_u256\<rparr>)
      | _ \<Rightarrow> underflow ''JUMP'' m)"

definition op_jumpi :: "'d machine \<Rightarrow> 'd flow" where
  "op_jumpi m =
     (case evm_stack m of
        target_u256 # cond # st \<Rightarrow>
          (if cond \<noteq> 0
           then charge 10 Jumped ((with_stack st m)\<lparr>bytecode_pc := as_usize_saturated target_u256\<rparr>)
           else done_with 10 (with_stack st m))
      | _ \<Rightarrow> underflow ''JUMPI'' m)"

definition op_pc :: "'d machine \<Rightarrow> 'd flow" where
  "op_pc m = done_with 2 (push (of_nat (bytecode_pc m)) m)"

definition op_gas :: "'d machine \<Rightarrow> 'd flow" where
  "op_gas m = done_with 2 (push (gas_remaining (execution_context m)) m)"

definition op_jumpdest :: "'d machine \<Rightarrow> 'd flow" where
  "op_jumpdest m = done_with 1 m"

section \<open>Logs\<close>

definition op_log :: "interpreter_args \<Rightarrow> nat \<Rightarrow> 'd machine \<Rightarrow> 'd flow" where
  "op_log A opcode m =
     (let topic_count = opcode - 0xa0 in
      if length (evm_stack m) < 2 + topic_count then underflow (''LOG'' @ fmt_dec topic_count) m
      else
        (let offset = evm_stack m ! 0; sz = evm_stack m ! 1;
             topics = map fmt_064x (take topic_count (drop 2 (evm_stack m)));
             offset_usize = as_usize_or_fail offset; size_usize = as_usize_or_fail sz in
         with_resize offset_usize size_usize ''Memory resize failed on LOG''
           (\<lambda>m. let data = memory_slice_len (global_mem m) offset_usize size_usize;
                l = \<lparr>log_address = contract_address A, log_topics = topics, log_data = data\<rparr> in
              done_with (of_nat (375 + 375 * topic_count + 8 * size_usize))
                (upd_context (\<lambda>c. c\<lparr>logs := logs c @ [l]\<rparr>) m))
           (with_stack (drop (2 + topic_count) (evm_stack m)) m)))"

section \<open>SS7 opcodes\<close>

text \<open>
  0xec: the payload is only sliced (out of the memory, with Rust's bounds) and printed; the
  opcode pushes 0.
\<close>

definition op_ss7_send :: "'d externals \<Rightarrow> 'd machine \<Rightarrow> 'd flow" where
  "op_ss7_send E m =
     (case evm_stack m of
        msg_type # ptr_w # len_w # st \<Rightarrow>
          (let payload_ptr = unat (low_u64 ptr_w); payload_len = unat (low_u64 len_w) in
           or_panic
             (if 0 < payload_len \<and> 0 < payload_ptr \<and> payload_len < 8192
              then do {
                e \<leftarrow> usize_add (overflow_checks E) payload_ptr payload_len;
                mem_slice (global_mem m) payload_ptr (min e (mem_len (global_mem m)))
              } else Some [])
             (\<lambda>real_payload. done_with 350 (with_stack (0 # st) m)))
      | _ \<Rightarrow> underflow ''SS7_SEND'' m)"

text \<open>
  The helper 0x460.  Its counters are write-only and its payload is read from raw process
  memory; what the interpreter sees is the returned word, the length of the JSON text over the
  address of its static buffer.
\<close>

definition ss7_metadata_process :: "'d externals \<Rightarrow> u64 \<Rightarrow> u64 \<Rightarrow> u64 \<Rightarrow> u64 \<Rightarrow> u64 \<Rightarrow> u64 \<Rightarrow> u64 \<Rightarrow> u64" where
  "ss7_metadata_process E msg_type caller_hash called_hash call_ts extra payload_ptr payload_len =
     (if 255 < msg_type \<or> call_ts = 0 \<or> 2000000000000 < call_ts then 1
      else if 8192 < payload_len then 2
      else push_bit 32 (ss7_json_len E [msg_type, caller_hash, called_hash, call_ts, extra, payload_ptr, payload_len])
        OR json_buffer_ptr E)"

definition op_ss7_voice :: "'d externals \<Rightarrow> 'd machine \<Rightarrow> 'd flow" where
  "op_ss7_voice E m =
     (case evm_stack m of
        msg_type # caller_hash # called_hash # call_ts # extra # payload_ptr # payload_len # st \<Rightarrow>
          (let res = ss7_metadata_process E (low_u64 msg_type) (low_u64 caller_hash) (low_u64 called_hash)
                 (low_u64 call_ts) (low_u64 extra) (low_u64 payload_ptr) (low_u64 payload_len)
           in done_with 450 (with_stack (ucast res # st) m))
      | _ \<Rightarrow> halt ''Stack underflow SS7 voice'' m)"

section \<open>Ending a run\<close>

definition op_stop :: "'d externals \<Rightarrow> 'd machine \<Rightarrow> 'd flow" where
  "op_stop E m = Finish m (add_storage_written_to_result E create_stop_action (temp_storage_writes m))"

text \<open>RETURN allocates its output first: a size above \<open>isize::MAX\<close> is a capacity overflow.\<close>

definition op_return :: "'d externals \<Rightarrow> 'd machine \<Rightarrow> 'd flow" where
  "op_return E m =
     (case evm_stack m of
        offset # sz # st \<Rightarrow>
          (let offset_usize = as_usize_or_fail offset; size_usize = as_usize_or_fail sz;
               m = with_stack st m in
           if 2 ^ 63 \<le> size_usize then Panic
           else if 0 < size_usize then
             with_resize offset_usize size_usize ''Memory resize failed on RETURN''
               (\<lambda>m. let src = memory_slice_len (global_mem m) offset_usize size_usize in
                 Finish m (return_result E (pad_right size_usize src) (temp_storage_writes m)))
               m
           else Finish m (return_result E [] (temp_storage_writes m)))
      | _ \<Rightarrow> underflow ''RETURN'' m)"

text \<open>REVERT adds the storage writes to a clone that is dropped: the result has none.\<close>

definition op_revert :: "'d externals \<Rightarrow> 'd machine \<Rightarrow> 'd flow" where
  "op_revert E m =
     (case evm_stack m of
        offset_w # size_w # st \<Rightarrow>
          (let offset = unat (low_u64 offset_w); sz = unat (low_u64 size_w); m = with_stack st m in
           or_panic (do {
               e \<leftarrow> usize_add (overflow_checks E) offset sz;
               if e \<le> mem_len (global_mem m) then mem_slice (global_mem m) offset e
               else mem_slice (global_mem m) offset (mem_len (global_mem m))
             })
             (\<lambda>revert_data. Finish m (revert_result E revert_data)))
      | _ \<Rightarrow> underflow ''REVERT'' m)"

definition op_invalid :: "'d machine \<Rightarrow> 'd flow" where
  "op_invalid m = Finish m invalid_result"

definition op_unknown :: "nat \<Rightarrow> 'd machine \<Rightarrow> 'd flow" where
  "op_unknown opcode m = halt (''Opcode not found 0x'' @ fmt_hex 2 opcode) m"

end
