(* ===== verification/Evm_Call_Ops.thy ===== *)
theory Evm_Call_Ops
  imports Evm_Mem_Ops
begin

text \<open>
  The arms that create contracts and run other code: CREATE, CREATE2, CALL, CALLCODE,
  DELEGATECALL, STATICCALL, AUTH and AUTHCALL.  The recursive call of \<open>execute_program\<close> is the
  argument \<open>exec\<close> of the arms that make one; \<open>Evm_Interp\<close> ties the knot.

  Several arms end with \<open>bytecode_pc += 1; continue\<close>: that is \<open>skip_and_continue\<close>.
\<close>

type_synonym 'd exec = "bytes \<Rightarrow> interpreter_args \<Rightarrow> 'd option \<Rightarrow> storage_map \<Rightarrow> bool \<Rightarrow> 'd outcome"

section \<open>Steps the call arms share\<close>

definition skip_and_continue :: "'d machine \<Rightarrow> 'd flow" where
  "skip_and_continue m = Again (m\<lparr>bytecode_pc := bytecode_pc m + 1\<rparr>)"

definition set_return_data :: "bytes \<Rightarrow> 'd machine \<Rightarrow> 'd machine" where
  "set_return_data data = upd_context (\<lambda>c. c\<lparr>return_data := data\<rparr>)"

text \<open>An early end of a call: empty return data, a status word, 700 gas, the next opcode.\<close>

definition end_call :: "u256 \<Rightarrow> 'd machine \<Rightarrow> 'd flow" where
  "end_call status m = charge 700 skip_and_continue (push status (set_return_data [] m))"

text \<open>The recursive call, on the caller's database, storage and callback.\<close>

definition sub_call ::
    "'d exec \<Rightarrow> bytes \<Rightarrow> interpreter_args \<Rightarrow> (string + json \<Rightarrow> 'd machine \<Rightarrow> 'd flow) \<Rightarrow> 'd machine \<Rightarrow> 'd flow" where
  "sub_call exec target_code sub_args k m =
     (let c = execution_context m in
      case exec target_code sub_args (storage_manager c) (storage (world_state c)) (on_create2_event c) of
        Crashed \<Rightarrow> Panic
      | Out_Of_Fuel \<Rightarrow> Starved
      | Done db evs sub_result \<Rightarrow>
          k sub_result (upd_context
            (\<lambda>c. c\<lparr>storage_manager := db, create2_events := create2_events c @ evs\<rparr>) m))"

text \<open>Copying the return data out when \<open>out_size > 0\<close>, zero-padded (CALL, DELEGATECALL, AUTHCALL).\<close>

definition write_output ::
    "bool \<Rightarrow> string \<Rightarrow> u256 \<Rightarrow> u256 \<Rightarrow> bytes \<Rightarrow> ('d machine \<Rightarrow> 'd flow) \<Rightarrow> 'd machine \<Rightarrow> 'd flow" where
  "write_output oc reason out_offset out_size data k m =
     (let out_offset_usize = as_usize_or_fail out_offset; out_size_usize = as_usize_or_fail out_size in
      if 0 < out_size_usize then
        with_resize out_offset_usize out_size_usize reason
          (\<lambda>m. or_panic (copy_bytes oc data out_offset_usize 0 out_size_usize (global_mem m)) (\<lambda>mem.
             k (with_mem mem m)))
          m
      else k m)"

definition end_sub_call :: "bool \<Rightarrow> bytes \<Rightarrow> 'd machine \<Rightarrow> 'd flow" where
  "end_sub_call call_success data m =
     done_with 700 (push (flag call_success) (set_return_data data m))"

definition set_slots :: "string \<Rightarrow> (string \<times> bytes) list \<Rightarrow> uvm_world_state \<Rightarrow> uvm_world_state" where
  "set_slots contract writes ws = fold (\<lambda>(slot, bs) ws. set_storage ws contract slot bs) writes ws"

section \<open>CREATE and CREATE2\<close>

definition new_contract :: "string \<Rightarrow> u256 \<Rightarrow> bytes \<Rightarrow> uvm_world_state \<Rightarrow> uvm_world_state" where
  "new_contract addr val cd ws =
     ws\<lparr>code := hm_insert addr cd (code ws),
        accounts := hm_insert addr
          \<lparr>balance = val, nonce = 1, acc_code = cd, storage_root = '''', is_contract = True\<rparr> (accounts ws)\<rparr>"

definition create_address :: "uvm_world_state \<Rightarrow> string" where
  "create_address ws = ''0x'' @ fmt_hex 40 (hm_len (accounts ws) + 100)"

definition op_create :: "'d externals \<Rightarrow> 'd machine \<Rightarrow> 'd flow" where
  "op_create E m =
     (case evm_stack m of
        val # offset # sz # st \<Rightarrow>
          (let offset_usize = as_usize_or_fail offset; size_usize = as_usize_or_fail sz in
           with_resize offset_usize size_usize ''Memory resize failed on CREATE''
             (\<lambda>m. let init_code = memory_slice_len (global_mem m) offset_usize size_usize;
                      new_address = create_address (world m) in
               done_with 32000 (push (encode_address_to_u256 E new_address)
                 (upd_world (new_contract new_address val init_code) m)))
             (with_stack st m))
      | _ \<Rightarrow> underflow ''CREATE'' m)"

fun trim_start_0x :: "string \<Rightarrow> string" where
  "trim_start_0x (CHR ''0'' # CHR ''x'' # s) = trim_start_0x s"
| "trim_start_0x s = s"

definition create2_address :: "'d externals \<Rightarrow> string \<Rightarrow> u256 \<Rightarrow> bytes \<Rightarrow> string" where
  "create2_address E sender salt init_code =
     (let sender_bytes = (case hex_decode E (trim_start_0x sender) of
            Some decoded \<Rightarrow> (if length decoded = 20 then decoded else replicate 20 0)
          | None \<Rightarrow> replicate 20 0);
          hash = keccak256 E ([0xff] @ sender_bytes @ to_big_endian salt @ keccak256 E init_code)
      in ''0x'' @ hex_encode E (slice 12 32 hash))"

definition runtime_of :: "bytes \<Rightarrow> bytes" where
  "runtime_of init_code =
     (case extract_runtime_from_creation_bytecode init_code of Inr runtime \<Rightarrow> runtime | Inl e \<Rightarrow> init_code)"

definition op_create2 :: "'d externals \<Rightarrow> interpreter_args \<Rightarrow> 'd machine \<Rightarrow> 'd flow" where
  "op_create2 E A m =
     (case evm_stack m of
        val # offset # sz # salt # st \<Rightarrow>
          (let offset_usize = as_usize_or_fail offset; size_usize = as_usize_or_fail sz in
           with_resize offset_usize size_usize ''Memory resize failed on CREATE2''
             (\<lambda>m. let init_code = memory_slice_len (global_mem m) offset_usize size_usize in
               if init_code = [] then charge 32000 skip_and_continue (push 0 m)
               else
                 (let new_address = create2_address E (contract_address A) salt init_code;
                      runtime = runtime_of init_code;
                      m = upd_world (new_contract new_address val runtime) m;
                      m = upd_context (\<lambda>c. c\<lparr>
                        storage_manager := map_option
                          (\<lambda>db. db_write E db (contract_state_key new_address) runtime) (storage_manager c),
                        create2_events := create2_events c @
                          (if on_create2_event c then [(new_address, runtime, val)] else [])\<rparr>) m
                  in done_with 32000 (push (encode_address_to_u256 E new_address) m)))
             (with_stack st m))
      | _ \<Rightarrow> underflow ''CREATE2'' m)"

section \<open>CALL\<close>

text \<open>The storage writes of the callee go to its own storage and to the database.\<close>

definition persist_writes :: "'d externals \<Rightarrow> string \<Rightarrow> (string \<times> bytes) list \<Rightarrow> 'd machine \<Rightarrow> 'd machine" where
  "persist_writes E to_address writes m =
     upd_context (\<lambda>c. c\<lparr>
       world_state := set_slots to_address writes (world_state c),
       storage_manager := map_option
         (\<lambda>db. fold (\<lambda>(slot, bs) db. db_write E db (storage_key to_address slot) bs) writes db)
         (storage_manager c)\<rparr>) m"

definition op_call :: "'d externals \<Rightarrow> 'd exec \<Rightarrow> interpreter_args \<Rightarrow> 'd machine \<Rightarrow> 'd flow" where
  "op_call E exec A m =
     (case evm_stack m of
        gas # to_addr_u256 # val # in_offset # in_size # out_offset # out_size # st \<Rightarrow>
          (let to_address = u256_to_address E to_addr_u256;
               in_offset_usize = as_usize_or_fail in_offset; in_size_usize = as_usize_or_fail in_size in
           with_resize in_offset_usize in_size_usize ''Memory resize failed on CALL (input)''
             (\<lambda>m. let call_data = memory_slice_len (global_mem m) in_offset_usize in_size_usize;
                      (target_code, m) = load_code E to_address m in
               if target_code = [] then end_call 1 m
               else or_panic (u256_add (call_depth A) 1) (\<lambda>depth.
                 let sub_args = A\<lparr>contract_address := to_address, sender_address := contract_address A,
                   caller := contract_address A, state_data := call_data, call_value := val,
                   gas_limit := gas, call_depth := depth\<rparr> in
                 if 1024 < depth then end_call 0 m
                 else sub_call exec target_code sub_args
                   (\<lambda>sub_result m. let (call_success, data, writes) = read_sub_result E sub_result;
                        m = (if call_success \<and> writes \<noteq> [] then persist_writes E to_address writes m else m) in
                      write_output (overflow_checks E) ''Memory resize failed on CALL (output)''
                        out_offset out_size data (end_sub_call call_success data) m)
                   m))
             (with_stack st m))
      | _ \<Rightarrow> underflow ''CALL'' m)"

section \<open>CALLCODE\<close>

text \<open>\<open>for i in 0..n { global_mem[off + i] = 0 }\<close>: each index is checked by Rust only.\<close>

definition zero_fill :: "nat \<Rightarrow> nat \<Rightarrow> memory \<Rightarrow> memory option" where
  "zero_fill off n mem = (if n = 0 then Some mem else mem_write off (replicate n 0) mem)"

definition op_callcode :: "'d externals \<Rightarrow> 'd exec \<Rightarrow> interpreter_args \<Rightarrow> 'd machine \<Rightarrow> 'd flow" where
  "op_callcode E exec A m =
     (case evm_stack m of
        gas # to_addr_u256 # val # in_offset # in_size # out_offset # out_size # st \<Rightarrow>
          (let to_address = u256_to_address E to_addr_u256;
               in_offset_usize = as_usize_or_fail in_offset; in_size_usize = as_usize_or_fail in_size;
               out_offset_usize = as_usize_or_fail out_offset; out_size_usize = as_usize_or_fail out_size in
           with_resize in_offset_usize in_size_usize ''Memory resize failed on CALLCODE (input)''
             (\<lambda>m. let call_data = memory_slice_len (global_mem m) in_offset_usize in_size_usize;
                      (target_code, m) = load_code E to_address m in
               if target_code = [] then
                 (let m = set_return_data [] m;
                      (mem, ok) = resize_memory_ebpf (global_mem m) out_offset_usize out_size_usize in
                  or_panic (if ok then zero_fill out_offset_usize out_size_usize mem else Some mem) (\<lambda>mem.
                    charge 700 skip_and_continue (push 1 (with_mem mem m))))
               else or_panic (u256_add (call_depth A) 1) (\<lambda>depth.
                 let sub_args = A\<lparr>contract_address := to_address, sender_address := contract_address A,
                   caller := contract_address A, state_data := call_data, call_value := val,
                   gas_limit := gas, call_depth := depth\<rparr> in
                 if 1024 < depth then end_call 0 m
                 else sub_call exec target_code sub_args
                   (\<lambda>sub_result m. let (call_success, data) = read_sub_result_data E sub_result;
                        (mem, ok) = resize_memory_ebpf (global_mem m) out_offset_usize out_size_usize in
                      or_panic
                        (if ok then do {
                           mem' \<leftarrow> zero_fill out_offset_usize out_size_usize mem;
                           mem_write out_offset_usize (take (min (length data) out_size_usize) data) mem'
                         } else Some mem)
                        (\<lambda>mem. end_sub_call call_success data (with_mem mem m)))
                   m))
             (with_stack st m))
      | _ \<Rightarrow> underflow ''CALLCODE'' m)"

section \<open>DELEGATECALL\<close>

text \<open>The storage writes of the delegate become writes of the caller.\<close>

definition merge_writes :: "interpreter_args \<Rightarrow> (string \<times> bytes) list \<Rightarrow> 'd machine \<Rightarrow> 'd machine" where
  "merge_writes A writes m =
     upd_world (set_slots (contract_address A) writes)
       (m\<lparr>temp_storage_writes := fold (\<lambda>(slot, bs). hm_insert slot bs) writes (temp_storage_writes m)\<rparr>)"

definition op_delegatecall :: "'d externals \<Rightarrow> 'd exec \<Rightarrow> interpreter_args \<Rightarrow> 'd machine \<Rightarrow> 'd flow" where
  "op_delegatecall E exec A m =
     (case evm_stack m of
        gas # to_addr_u256 # in_offset # in_size # out_offset # out_size # st \<Rightarrow>
          (let to_address = u256_to_address E to_addr_u256;
               in_offset_usize = as_usize_or_fail in_offset; in_size_usize = as_usize_or_fail in_size in
           with_resize in_offset_usize in_size_usize ''Memory resize failed on DELEGATECALL (input)''
             (\<lambda>m. let call_data = memory_slice_len (global_mem m) in_offset_usize in_size_usize;
                      (target_code, m) = load_code E to_address m in
               if target_code = [] then end_call 1 m
               else or_panic (u256_add (call_depth A) 1) (\<lambda>depth.
                 let sub_args = A\<lparr>state_data := call_data, gas_limit := gas, call_depth := depth\<rparr> in
                 if 1024 < depth then end_call 0 m
                 else sub_call exec target_code sub_args
                   (\<lambda>sub_result m. let (call_success, data, writes) = read_sub_result E sub_result;
                        m = (if call_success \<and> writes \<noteq> [] then merge_writes A writes m else m) in
                      write_output (overflow_checks E) ''Memory resize failed on DELEGATECALL (output)''
                        out_offset out_size data (end_sub_call call_success data) m)
                   m))
             (with_stack st m))
      | _ \<Rightarrow> underflow ''DELEGATECALL'' m)"

section \<open>AUTH and AUTHCALL\<close>

definition op_auth :: "'d externals \<Rightarrow> 'd machine \<Rightarrow> 'd flow" where
  "op_auth E m =
     (case evm_stack m of
        authority # commit # st \<Rightarrow>
          (let authority_addr = u256_to_address E authority;
               auth_success = (if authority = 0 then False
                 else list_ex (\<lambda>b. b \<noteq> 0) (slice 12 32 (to_big_endian authority)))
           in done_with 3100 (push (flag auth_success)
                (upd_context (\<lambda>c. c\<lparr>auth_context :=
                   (if auth_success then Some (authority_addr, commit) else None)\<rparr>) (with_stack st m))))
      | _ \<Rightarrow> underflow ''AUTH'' m)"

text \<open>Without an authorization the arm executes \<open>continue\<close> and leaves the program counter.\<close>

definition op_authcall :: "'d externals \<Rightarrow> 'd exec \<Rightarrow> interpreter_args \<Rightarrow> 'd machine \<Rightarrow> 'd flow" where
  "op_authcall E exec A m =
     (case evm_stack m of
        gas # addr # val # args_offset # args_size # ret_offset # ret_size # st \<Rightarrow>
          (let target_addr = u256_to_address E addr; m = with_stack st m in
           case auth_context (execution_context m) of
             None \<Rightarrow> charge 100 Again (push 0 m)
           | Some (auth_addr, _) \<Rightarrow>
               (let args_offset_usize = as_usize_or_fail args_offset; args_size_usize = as_usize_or_fail args_size in
                with_resize args_offset_usize args_size_usize ''Memory resize failed on AUTHCALL (input)''
                  (\<lambda>m. let call_data = memory_slice_len (global_mem m) args_offset_usize args_size_usize;
                           (target_code, m) = load_code E target_addr m in
                    if target_code = [] then end_call 1 m
                    else if 1024 \<le> call_depth A then end_call 0 m
                    else or_panic (u256_add (call_depth A) 1) (\<lambda>depth.
                      let sub_args = A\<lparr>contract_address := target_addr, caller := auth_addr,
                        sender_address := auth_addr, state_data := call_data, call_value := val,
                        gas_limit := gas, call_depth := depth\<rparr> in
                      sub_call exec target_code sub_args
                        (\<lambda>sub_result m. let (call_success, data) = read_sub_result_data E sub_result in
                          write_output (overflow_checks E) ''Memory resize failed on AUTHCALL (output)''
                            ret_offset ret_size data (end_sub_call call_success data) m)
                        m))
                  m))
      | _ \<Rightarrow> underflow ''AUTHCALL'' m)"

section \<open>STATICCALL\<close>

text \<open>A call input of at least 36 bytes that starts with 32 zero bytes loses them.\<close>

definition clean_call_data :: "bytes \<Rightarrow> bytes" where
  "clean_call_data raw =
     (if 36 \<le> length raw \<and> list_all (\<lambda>b. b = 0) (take 32 raw) then drop 32 raw else raw)"

text \<open>The normal end advances the program counter itself and then falls through.\<close>

definition op_staticcall :: "'d externals \<Rightarrow> 'd exec \<Rightarrow> interpreter_args \<Rightarrow> 'd machine \<Rightarrow> 'd flow" where
  "op_staticcall E exec A m =
     (case evm_stack m of
        gas # to_addr_u256 # in_offset # in_size # out_offset # out_size # st \<Rightarrow>
          (let to_address = u256_to_address E to_addr_u256;
               in_offset_usize = as_usize_saturated in_offset; in_size_usize = as_usize_saturated in_size;
               out_offset_usize = as_usize_saturated out_offset; out_size_usize = as_usize_saturated out_size;
               (mem, ok) = resize_memory_ebpf (global_mem m) in_offset_usize in_size_usize;
               m = with_mem mem (with_stack st m) in
           if \<not> ok then end_call 1 m
           else
             (let call_data = clean_call_data (memory_slice_len (global_mem m) in_offset_usize in_size_usize);
                  (target_code, m) = load_code E to_address m in
              if target_code = [] then
                or_panic (usize_add (overflow_checks E) out_offset_usize out_size_usize) (\<lambda>e.
                  end_call 1 (with_mem (fst (resize_memory_ebpf (global_mem m) e 0)) m))
              else or_panic (u256_add (call_depth A) 1) (\<lambda>depth.
                let sub_args = A\<lparr>contract_address := to_address, sender_address := contract_address A,
                  caller := contract_address A, state_data := call_data, call_value := 0,
                  gas_limit := gas, call_depth := depth\<rparr> in
                if 1024 < depth then end_call 0 m
                else sub_call exec target_code sub_args
                  (\<lambda>sub_result m. let (call_success, data, writes) = read_sub_result E sub_result in
                     or_panic (usize_add (overflow_checks E) out_offset_usize out_size_usize) (\<lambda>e.
                     let mem = fst (resize_memory_ebpf (global_mem m) e 0);
                         copy_len = min (length data) out_size_usize in
                     or_panic (if 0 < copy_len then mem_write out_offset_usize (take copy_len data) mem else Some mem)
                       (\<lambda>mem. charge 700 (\<lambda>m. Next 1 (m\<lparr>bytecode_pc := bytecode_pc m + 1\<rparr>))
                          (push (flag call_success) (set_return_data data (with_mem mem m))))))
                  m)))
      | _ \<Rightarrow> underflow ''STATICCALL'' m)"

end
