(* ===== verification/Evm_Interp.thy ===== *)
theory Evm_Interp
  imports Evm_Call_Ops
begin

text \<open>
  \<open>execute_program\<close>: the \<open>match opcode\<close>, the loop around it, the checks before it and the
  recursion through the call opcodes.

  \<open>dispatch\<close> is the \<open>match\<close>, \<open>iterate\<close> one pass of the \<open>while\<close> body (\<open>Inl\<close> the state at
  the next loop head, \<open>Inr\<close> the result of the function), \<open>run\<close> the loop and
  \<open>execute_program\<close> the function.  The loop need not end, so \<open>run\<close> takes fuel, one unit for
  each pass, and \<open>execute_program\<close> one unit for each level of calls; \<open>Out_Of_Fuel\<close> is the
  answer when it does not suffice.  \<open>reaches\<close> is the same loop as a step relation.
\<close>

section \<open>The match on the opcode\<close>

definition dispatch ::
    "'d externals \<Rightarrow> 'd exec \<Rightarrow> bytes \<Rightarrow> interpreter_args \<Rightarrow> nat \<Rightarrow> 'd machine \<Rightarrow> 'd flow" where
  "dispatch E exec prog A opcode m =
     (let oc = overflow_checks E in
      if opcode = 0x00 then op_stop E m
      else if opcode = 0x01 then op_add m
      else if opcode = 0x02 then op_mul m
      else if opcode = 0x03 then op_sub m
      else if opcode = 0x04 then op_div m
      else if opcode = 0x05 then op_sdiv oc m
      else if opcode = 0x06 then op_mod m
      else if opcode = 0x07 then op_smod oc m
      else if opcode = 0x08 then op_addmod m
      else if opcode = 0x09 then op_mulmod m
      else if opcode = 0x0a then op_exp m
      else if opcode = 0x0b then op_signextend m
      else if opcode = 0x10 then op_lt m
      else if opcode = 0x11 then op_gt m
      else if opcode = 0x12 then op_slt oc m
      else if opcode = 0x13 then op_sgt oc m
      else if opcode = 0x14 then op_eq m
      else if opcode = 0x15 then op_iszero m
      else if opcode = 0x16 then op_and m
      else if opcode = 0x17 then op_or m
      else if opcode = 0x18 then op_xor m
      else if opcode = 0x19 then op_not m
      else if opcode = 0x1a then op_byte m
      else if opcode = 0x1b then op_shl m
      else if opcode = 0x1c then op_shr m
      else if opcode = 0x1d then op_sar m
      else if opcode = 0x20 then op_keccak256 E m
      else if opcode = 0x30 then op_address E A m
      else if opcode = 0x31 then op_balance E m
      else if opcode = 0x32 then op_origin E A m
      else if opcode = 0x33 then op_caller E A m
      else if opcode = 0x34 then op_callvalue A m
      else if opcode = 0x35 then op_calldataload E A m
      else if opcode = 0x36 then op_calldatasize A m
      else if opcode = 0x37 then op_calldatacopy E A m
      else if opcode = 0x38 then op_codesize prog m
      else if opcode = 0x39 then op_codecopy E prog m
      else if opcode = 0x3a then op_gasprice A m
      else if opcode = 0x3b then op_extcodesize E m
      else if opcode = 0x3c then op_extcodecopy E m
      else if opcode = 0x3d then op_returndatasize m
      else if opcode = 0x3e then op_returndatacopy E m
      else if opcode = 0x3f then op_extcodehash E m
      else if opcode = 0x40 then op_blockhash m
      else if opcode = 0x41 then op_coinbase E m
      else if opcode = 0x42 then op_timestamp m
      else if opcode = 0x43 then op_number m
      else if opcode = 0x44 then op_prevrandao m
      else if opcode = 0x45 then op_gaslimit m
      else if opcode = 0x46 then op_chainid m
      else if opcode = 0x47 then op_selfbalance A m
      else if opcode = 0x48 then op_basefee m
      else if opcode = 0x49 then op_blobhash m
      else if opcode = 0x4a then op_blobbasefee m
      else if opcode = 0x50 then op_pop m
      else if opcode = 0x51 then op_mload m
      else if opcode = 0x52 then op_mstore m
      else if opcode = 0x53 then op_mstore8 m
      else if opcode = 0x54 then op_sload E A m
      else if opcode = 0x55 then op_sstore A m
      else if opcode = 0x56 then op_jump m
      else if opcode = 0x57 then op_jumpi m
      else if opcode = 0x58 then op_pc m
      else if opcode = 0x59 then op_msize m
      else if opcode = 0x5a then op_gas m
      else if opcode = 0x5b then op_jumpdest m
      else if opcode = 0x5c then op_tload m
      else if opcode = 0x5d then op_tstore m
      else if opcode = 0x5e then op_mcopy E m
      else if opcode = 0x5f then op_push0 m
      else if 0x60 \<le> opcode \<and> opcode \<le> 0x7f then op_push prog opcode m
      else if 0x80 \<le> opcode \<and> opcode \<le> 0x8f then op_dup opcode m
      else if 0x90 \<le> opcode \<and> opcode \<le> 0x9f then op_swap opcode m
      else if 0xa0 \<le> opcode \<and> opcode \<le> 0xa4 then op_log A opcode m
      else if opcode = 0xec then op_ss7_send E m
      else if opcode = 0xef then op_ss7_voice E m
      else if opcode = 0xf0 then op_create E m
      else if opcode = 0xf1 then op_call E exec A m
      else if opcode = 0xf2 then op_callcode E exec A m
      else if opcode = 0xf3 then op_return E m
      else if opcode = 0xf4 then op_delegatecall E exec A m
      else if opcode = 0xf5 then op_create2 E A m
      else if opcode = 0xf6 then op_auth E m
      else if opcode = 0xf7 then op_authcall E exec A m
      else if opcode = 0xfa then op_staticcall E exec A m
      else if opcode = 0xfd then op_revert E m
      else if opcode = 0xfe then op_invalid m
      else op_unknown opcode m)"

section \<open>The loop\<close>

text \<open>How the function ends in state \<open>m\<close>.\<close>

definition finish :: "'d machine \<Rightarrow> string + json \<Rightarrow> 'd outcome" where
  "finish m r = Done (storage_manager (execution_context m)) (create2_events (execution_context m)) r"

text \<open>The stack check at the end of the loop body.\<close>

definition end_of_body :: "'d machine \<Rightarrow> 'd machine + 'd outcome" where
  "end_of_body m =
     (if 1024 < length (evm_stack m)
      then Inr (finish m (Inr (halt_json_ebpf ''Stack overflow''))) else Inl m)"

definition iterate ::
    "'d externals \<Rightarrow> 'd exec \<Rightarrow> bytes \<Rightarrow> interpreter_args \<Rightarrow> 'd machine \<Rightarrow> 'd machine + 'd outcome" where
  "iterate E exec prog A m =
     (case dispatch E exec prog A (unat (prog ! bytecode_pc m)) m of
        Next advance m' \<Rightarrow> end_of_body (m'\<lparr>bytecode_pc := bytecode_pc m' + advance\<rparr>)
      | Jumped m' \<Rightarrow> end_of_body m'
      | Again m' \<Rightarrow> Inl m'
      | Finish m' r \<Rightarrow> Inr (finish m' (Inr r))
      | Panic \<Rightarrow> Inr Crashed
      | Starved \<Rightarrow> Inr Out_Of_Fuel)"

fun run ::
    "nat \<Rightarrow> 'd externals \<Rightarrow> 'd exec \<Rightarrow> bytes \<Rightarrow> interpreter_args \<Rightarrow> 'd machine \<Rightarrow> 'd outcome" where
  "run 0 E exec prog A m = Out_Of_Fuel"
| "run (Suc fuel) E exec prog A m =
     (if bytecode_pc m < length prog then
        (case iterate E exec prog A m of
           Inl m' \<Rightarrow> run fuel E exec prog A m'
         | Inr out \<Rightarrow> out)
      else finish m (Inr JNull))"

section \<open>The function\<close>

definition initial_context ::
    "'d externals \<Rightarrow> interpreter_args \<Rightarrow> 'd option \<Rightarrow> storage_map option \<Rightarrow> bool \<Rightarrow> 'd uvm_context" where
  "initial_context E A sm initial_storage cb =
     \<lparr>world_state =
        (let ws = default_world_state E in
         case initial_storage of Some s \<Rightarrow> ws\<lparr>storage := s\<rparr> | None \<Rightarrow> ws),
      gas_used = 0, gas_remaining = gas_limit A, logs = [], return_data = [],
      storage_manager = sm, on_create2_event = cb, create2_events = [], auth_context = None\<rparr>"

text \<open>The owner check: \<open>None\<close> a panic, \<open>Some False\<close> a refusal.\<close>

definition permission_granted :: "'d externals \<Rightarrow> interpreter_args \<Rightarrow> uvm_world_state \<Rightarrow> bool option" where
  "permission_granted E A ws =
     (case extract_function_selector E (state_data A) of
        Some function_selector \<Rightarrow>
          auto_validate_owner_permission E ws (contract_address A) (caller A) function_selector
      | None \<Rightarrow> Some True)"

definition unauthorized_result :: "'d externals \<Rightarrow> interpreter_args \<Rightarrow> json" where
  "unauthorized_result E A =
     create_revert_action E ([0x11, 0x8c, 0xda, 0xa7] @ to_big_endian (encode_address_to_u256 E (caller A)))"

definition initial_machine :: "interpreter_args \<Rightarrow> 'd uvm_context \<Rightarrow> 'd machine" where
  "initial_machine A c =
     \<lparr>bytecode_pc = 0, evm_stack = [], global_mem = zero_memory 65536, temp_storage_writes = [],
      execution_context = c\<lparr>world_state := set_balance (world_state c) (sender_address A) 1000000000000000000\<rparr>\<rparr>"

primrec execute_program ::
    "nat \<Rightarrow> 'd externals \<Rightarrow> bytes option \<Rightarrow> interpreter_args \<Rightarrow> 'd option \<Rightarrow> storage_map option \<Rightarrow> bool
     \<Rightarrow> 'd outcome" where
  "execute_program 0 E program A sm initial_storage cb = Out_Of_Fuel"
| "execute_program (Suc fuel) E program A sm initial_storage cb =
     (case program of
        None \<Rightarrow> Done sm [] (Inl ''Error: No program set, call prog_set() to load one'')
      | Some prog \<Rightarrow>
          (let c = initial_context E A sm initial_storage cb in
           case ensure_contract_owner_initialized E (world_state c) (contract_address A) (caller A) of
             None \<Rightarrow> Crashed
           | Some ws \<Rightarrow>
               (case permission_granted E A ws of
                  None \<Rightarrow> Crashed
                | Some False \<Rightarrow> Done sm [] (Inr (unauthorized_result E A))
                | Some True \<Rightarrow>
                    run fuel E (\<lambda>p A' sm' s cb'. execute_program fuel E (Some p) A' sm' (Some s) cb') prog A
                      (initial_machine A (c\<lparr>world_state := ws\<rparr>)))))"

section \<open>The loop as a step relation\<close>

inductive reaches ::
    "'d externals \<Rightarrow> 'd exec \<Rightarrow> bytes \<Rightarrow> interpreter_args \<Rightarrow> 'd machine \<Rightarrow> 'd machine \<Rightarrow> bool"
  for E exec prog A m0 where
  start: "reaches E exec prog A m0 m0"
| pass: "reaches E exec prog A m0 m \<Longrightarrow> bytecode_pc m < length prog \<Longrightarrow>
    iterate E exec prog A m = Inl m' \<Longrightarrow> reaches E exec prog A m0 m'"

inductive_cases reaches_cases: "reaches E exec prog A m0 m"

text \<open>A run that ends with a value ends in a reachable state, one pass before its end.\<close>

lemma reaches_trans:
  assumes "reaches E exec prog A m1 m2" and "reaches E exec prog A m0 m1"
  shows "reaches E exec prog A m0 m2"
  using assms by (induction rule: reaches.induct) (auto intro: reaches.intros)

lemma run_outcome_reached:
  assumes "run fuel E exec prog A m = out" "out \<noteq> Out_Of_Fuel"
  shows "\<exists>m'. reaches E exec prog A m m' \<and>
    (if bytecode_pc m' < length prog then iterate E exec prog A m' = Inr out else out = finish m' (Inr JNull))"
  using assms
proof (induction fuel arbitrary: m)
  case 0
  then show ?case by simp
next
  case (Suc fuel)
  show ?case
  proof (cases "\<exists>m'. bytecode_pc m < length prog \<and> iterate E exec prog A m = Inl m'")
    case True
    then obtain m' where m': "bytecode_pc m < length prog" "iterate E exec prog A m = Inl m'" by blast
    with Suc obtain m'' where "reaches E exec prog A m' m''"
      "if bytecode_pc m'' < length prog then iterate E exec prog A m'' = Inr out else out = finish m'' (Inr JNull)"
      by auto
    moreover have "reaches E exec prog A m m'" using m' by (blast intro: reaches.intros)
    ultimately show ?thesis by (blast intro: reaches_trans)
  next
    case False
    then show ?thesis using Suc.prems
      by (intro exI[of _ m]) (auto intro: reaches.start split: sum.splits if_splits)
  qed
qed

end
