(* ===== verification/Evm_Frame.thy ===== *)
theory Evm_Frame
  imports Evm_Interp "HOL-Library.Sublist"
begin

text \<open>
  What one opcode can do to the state of a run, whatever it is: the memory only grows and stays
  within 16 MiB, \<open>gas_remaining\<close> is never written, \<open>gas_used\<close> does not decrease, logs and
  callback events are only appended, and the block context is constant.  This is the relation
  \<open>extends\<close>; the collection \<open>frame_intros\<close> lifts it through the shared steps of the arms, and
  \<open>keeps_dispatch\<close> states it for the whole \<open>match\<close>.
\<close>

named_theorems frame_intros \<open>rules that carry the relation extends through an arm\<close>

definition context_extends :: "'d uvm_context \<Rightarrow> 'd uvm_context \<Rightarrow> bool" where
  "context_extends c c' \<longleftrightarrow>
     gas_remaining c' = gas_remaining c \<and> gas_used c \<le> gas_used c' \<and>
     prefix (logs c) (logs c') \<and> prefix (create2_events c) (create2_events c') \<and>
     on_create2_event c' = on_create2_event c \<and>
     block_info (world_state c') = block_info (world_state c) \<and>
     chain_id (world_state c') = chain_id (world_state c)"

definition memory_extends :: "memory \<Rightarrow> memory \<Rightarrow> bool" where
  "memory_extends mem mem' \<longleftrightarrow>
     mem_len mem \<le> mem_len mem' \<and> (mem_len mem \<le> max_mem \<longrightarrow> mem_len mem' \<le> max_mem)"

definition extends :: "'d machine \<Rightarrow> 'd machine \<Rightarrow> bool" where
  "extends m m' \<longleftrightarrow>
     memory_extends (global_mem m) (global_mem m') \<and>
     context_extends (execution_context m) (execution_context m')"

text \<open>Every state an arm hands on extends \<open>m0\<close>.\<close>

fun keeps :: "'d machine \<Rightarrow> 'd flow \<Rightarrow> bool" where
  "keeps m0 (Next n m) = extends m0 m"
| "keeps m0 (Jumped m) = extends m0 m"
| "keeps m0 (Again m) = extends m0 m"
| "keeps m0 (Finish m r) = extends m0 m"
| "keeps m0 Panic = True"
| "keeps m0 Starved = True"

section \<open>The relation is a preorder\<close>

lemma context_extends_refl [simp]: "context_extends c c"
  by (simp add: context_extends_def)

lemma context_extends_trans: "context_extends a b \<Longrightarrow> context_extends b c \<Longrightarrow> context_extends a c"
  by (auto simp: context_extends_def)

lemma memory_extends_refl [simp]: "memory_extends mem mem"
  by (simp add: memory_extends_def)

lemma memory_extends_trans: "memory_extends a b \<Longrightarrow> memory_extends b c \<Longrightarrow> memory_extends a c"
  by (auto simp: memory_extends_def)

lemma extends_refl [simp]: "extends m m"
  by (simp add: extends_def)

lemma extends_trans: "extends a b \<Longrightarrow> extends b c \<Longrightarrow> extends a c"
  unfolding extends_def by (blast intro: memory_extends_trans context_extends_trans)

section \<open>The shared steps\<close>

lemma extends_same [frame_intros]:
  "extends m0 m \<Longrightarrow> extends m0 (with_stack st m)"
  "extends m0 m \<Longrightarrow> extends m0 (push v m)"
  "extends m0 m \<Longrightarrow> extends m0 (m\<lparr>bytecode_pc := pc\<rparr>)"
  "extends m0 m \<Longrightarrow> extends m0 (m\<lparr>temp_storage_writes := w\<rparr>)"
  by (simp_all add: extends_def)

lemma extends_context:
  "extends m0 m \<Longrightarrow> context_extends (execution_context m) c \<Longrightarrow> extends m0 (m\<lparr>execution_context := c\<rparr>)"
  by (auto simp: extends_def intro: context_extends_trans)

lemma extends_upd_context [frame_intros]:
  "extends m0 m \<Longrightarrow> context_extends (execution_context m) (f (execution_context m)) \<Longrightarrow> extends m0 (upd_context f m)"
  by (simp add: upd_context_def extends_context)

lemma extends_upd_world [frame_intros]:
  assumes "extends m0 m" "block_info (f (world m)) = block_info (world m)" "chain_id (f (world m)) = chain_id (world m)"
  shows "extends m0 (upd_world f m)"
  unfolding upd_world_def using assms by (intro extends_upd_context) (simp_all add: context_extends_def)

lemma extends_set_return_data [frame_intros]: "extends m0 m \<Longrightarrow> extends m0 (set_return_data data m)"
  unfolding set_return_data_def by (intro extends_upd_context) (simp_all add: context_extends_def)

lemma extends_with_mem [frame_intros]:
  "extends m0 m \<Longrightarrow> memory_extends (global_mem m) mem \<Longrightarrow> extends m0 (with_mem mem m)"
  by (auto simp: extends_def intro: memory_extends_trans)

lemma context_extends_consume_gas:
  assumes "consume_gas_amount g c = Some c'"
  shows "context_extends c c'"
  using consume_gas_amount_fields[OF assms] assms
  by (auto simp: context_extends_def word_le_def consume_gas_amount_def split: Option.bind_splits)

lemma keeps_charge [frame_intros]:
  assumes "extends m0 m" and k: "\<And>m'. extends m0 m' \<Longrightarrow> evm_stack m' = evm_stack m \<Longrightarrow> keeps m0 (k m')"
  shows "keeps m0 (charge g k m)"
proof (cases "consume_gas_amount g (execution_context m)")
  case None
  then show ?thesis by (simp add: charge_def)
next
  case (Some c)
  with assms(1) have "extends m0 (m\<lparr>execution_context := c\<rparr>)"
    by (intro extends_context context_extends_consume_gas)
  with k Some show ?thesis by (simp add: charge_def)
qed

lemma keeps_or_panic [frame_intros]:
  "(\<And>v. r = Some v \<Longrightarrow> keeps m0 (k v)) \<Longrightarrow> keeps m0 (or_panic r k)"
  by (cases r) (simp_all add: or_panic_def)

lemma memory_extends_resize:
  "resize_memory_ebpf mem off sz = (mem', ok) \<Longrightarrow> memory_extends mem mem'"
  unfolding memory_extends_def using resize_len resize_len_bound by blast

lemma keeps_halt [frame_intros]: "extends m0 m \<Longrightarrow> keeps m0 (halt reason m)"
  by (simp add: halt_def)

lemma keeps_underflow [frame_intros]: "extends m0 m \<Longrightarrow> keeps m0 (underflow name m)"
  by (simp add: underflow_def keeps_halt)

lemma keeps_with_resize [frame_intros]:
  assumes "extends m0 m" and k: "\<And>m'. extends m0 m' \<Longrightarrow> keeps m0 (k m')"
  shows "keeps m0 (with_resize off sz reason k m)"
  using assms memory_extends_resize
  by (auto simp: with_resize_def Let_def intro!: k keeps_halt frame_intros split: prod.split)

lemma keeps_flow [frame_intros]:
  "extends m0 m \<Longrightarrow> keeps m0 (Next n m)"
  "extends m0 m \<Longrightarrow> keeps m0 (Jumped m)"
  "extends m0 m \<Longrightarrow> keeps m0 (Again m)"
  "extends m0 m \<Longrightarrow> keeps m0 (Finish m r)"
  "keeps m0 Panic"
  "keeps m0 Starved"
  by simp_all

lemma keeps_if [frame_intros]:
  "(b \<Longrightarrow> keeps m0 x) \<Longrightarrow> (\<not> b \<Longrightarrow> keeps m0 y) \<Longrightarrow> keeps m0 (if b then x else y)"
  by simp

lemma memory_extends_len: "mem_len mem' = mem_len mem \<Longrightarrow> memory_extends mem mem'"
  by (simp add: memory_extends_def)

lemma memory_extends_set: "mem_set i b mem = Some mem' \<Longrightarrow> memory_extends mem mem'"
  by (intro memory_extends_len mem_set_len)

lemma memory_extends_write: "mem_write off bs mem = Some mem' \<Longrightarrow> memory_extends mem mem'"
  by (intro memory_extends_len mem_write_len)

lemma memory_extends_copy:
  "copy_bytes oc src dest off n mem = Some mem' \<Longrightarrow> memory_extends mem mem'"
  by (intro memory_extends_len copy_bytes_len)

lemmas memory_frames = memory_extends_set memory_extends_write memory_extends_copy

section \<open>The arms\<close>

lemma keeps_unary [frame_intros]: "keeps m (unary_op name gas f m)"
  by (auto simp: unary_op_def intro!: frame_intros split: list.split)

lemma keeps_binary [frame_intros]: "keeps m (binary_op name gas f m)"
  by (auto simp: binary_op_def intro!: frame_intros split: list.split)

lemma keeps_ternary [frame_intros]: "keeps m (ternary_op name gas f m)"
  by (auto simp: ternary_op_def intro!: frame_intros split: list.split)

lemma keeps_arith [frame_intros]:
  "keeps m (op_add m)" "keeps m (op_mul m)" "keeps m (op_sub m)" "keeps m (op_div m)"
  "keeps m (op_sdiv oc m)" "keeps m (op_mod m)" "keeps m (op_smod oc m)" "keeps m (op_addmod m)"
  "keeps m (op_mulmod m)" "keeps m (op_signextend m)" "keeps m (op_lt m)" "keeps m (op_gt m)"
  "keeps m (op_slt oc m)" "keeps m (op_sgt oc m)" "keeps m (op_eq m)" "keeps m (op_iszero m)"
  "keeps m (op_and m)" "keeps m (op_or m)" "keeps m (op_xor m)" "keeps m (op_not m)"
  "keeps m (op_byte m)" "keeps m (op_shl m)" "keeps m (op_shr m)" "keeps m (op_sar m)"
  by (simp_all add: arith_op_defs keeps_unary keeps_binary keeps_ternary)

lemma keeps_stack_ops [frame_intros]:
  "keeps m (op_exp m)" "keeps m (op_pop m)" "keeps m (op_push0 m)" "keeps m (op_push prog opcode m)"
  "keeps m (op_dup opcode m)" "keeps m (op_swap opcode m)"
  by (auto simp: op_exp_def op_pop_def op_push0_def op_push_def op_dup_def op_swap_def Let_def
      intro!: frame_intros split: list.split)

lemma keeps_copy_to_memory [frame_intros]:
  assumes "extends m0 m" "\<And>m. extends m0 m \<Longrightarrow> extends m0 (snd (source m))"
  shows "keeps m0 (copy_to_memory oc name base source dest_offset offset sz m)"
  using assms unfolding copy_to_memory_def Let_def
  by (auto intro!: frame_intros dest!: memory_frames split: prod.split)
     (metis snd_conv)

lemma load_code_extends [frame_intros]: "extends m0 m \<Longrightarrow> extends m0 (snd (load_code E address m))"
  by (auto simp: load_code_def Let_def intro!: frame_intros split: option.split)

lemma keeps_env_ops [frame_intros]:
  "keeps m (op_keccak256 E m)" "keeps m (op_address E A m)" "keeps m (op_balance E m)"
  "keeps m (op_origin E A m)" "keeps m (op_caller E A m)" "keeps m (op_callvalue A m)"
  "keeps m (op_calldataload E A m)" "keeps m (op_calldatasize A m)" "keeps m (op_calldatacopy E A m)"
  "keeps m (op_codesize prog m)" "keeps m (op_codecopy E prog m)" "keeps m (op_gasprice A m)"
  "keeps m (op_extcodesize E m)" "keeps m (op_extcodecopy E m)" "keeps m (op_returndatasize m)"
  "keeps m (op_returndatacopy E m)" "keeps m (op_extcodehash E m)"
  by (auto simp: op_keccak256_def op_address_def op_balance_def op_origin_def op_caller_def op_callvalue_def
      op_calldataload_def op_calldatasize_def op_calldatacopy_def op_codesize_def op_codecopy_def
      op_gasprice_def op_extcodesize_def op_extcodecopy_def op_returndatasize_def op_returndatacopy_def
      op_extcodehash_def Let_def intro!: frame_intros split: list.split)

lemma keeps_block_ops [frame_intros]:
  "keeps m (op_blockhash m)" "keeps m (op_coinbase E m)" "keeps m (op_timestamp m)" "keeps m (op_number m)"
  "keeps m (op_prevrandao m)" "keeps m (op_gaslimit m)" "keeps m (op_chainid m)" "keeps m (op_selfbalance A m)"
  "keeps m (op_basefee m)" "keeps m (op_blobhash m)" "keeps m (op_blobbasefee m)"
  by (auto simp: op_blockhash_def op_coinbase_def op_timestamp_def op_number_def op_prevrandao_def
      op_gaslimit_def op_chainid_def op_selfbalance_def op_basefee_def op_blobhash_def op_blobbasefee_def
      Let_def intro!: frame_intros split: list.split)

lemma keeps_memory_ops [frame_intros]:
  "keeps m (op_mload m)" "keeps m (op_mstore m)" "keeps m (op_mstore8 m)" "keeps m (op_msize m)"
  by (auto simp: op_mload_def op_mstore_def op_mstore8_def op_msize_def Let_def
      intro!: frame_intros dest!: memory_frames split: list.split)

lemma keeps_mcopy [frame_intros]: "keeps m (op_mcopy E m)"
  by (auto simp: op_mcopy_def Let_def intro!: frame_intros dest!: memory_frames
      split: list.split if_splits Option.bind_splits)

lemma set_storage_fields [simp]:
  "block_info (set_storage ws c k v) = block_info ws" "chain_id (set_storage ws c k v) = chain_id ws"
  by (simp_all add: set_storage_def Let_def)

lemma sload_fallback_extends: "extends m0 m \<Longrightarrow> extends m0 (snd (sload_fallback E A key_hex v m))"
  by (auto simp: sload_fallback_def intro!: frame_intros split: option.split)

lemma keeps_sload [frame_intros]: "keeps m (op_sload E A m)"
proof -
  have "extends m x2" if "sload_fallback E A key_hex v (with_stack st m) = (x1, x2)" for key_hex v st x1 x2
    using sload_fallback_extends[of m "with_stack st m" E A key_hex v] that by (simp add: frame_intros)
  then show ?thesis
    by (auto simp: op_sload_def Let_def intro!: frame_intros split: list.split prod.split)
qed

lemma keeps_storage_ops [frame_intros]:
  "keeps m (op_sstore A m)" "keeps m (op_tload m)" "keeps m (op_tstore m)"
  by (auto simp: op_sstore_def op_tload_def op_tstore_def Let_def
      intro!: frame_intros split: list.split)

lemma keeps_control_ops [frame_intros]:
  "keeps m (op_jump m)" "keeps m (op_jumpi m)" "keeps m (op_pc m)" "keeps m (op_gas m)" "keeps m (op_jumpdest m)"
  by (auto simp: op_jump_def op_jumpi_def op_pc_def op_gas_def op_jumpdest_def
      intro!: frame_intros split: list.split)

lemma keeps_log [frame_intros]: "keeps m (op_log A opcode m)"
  by (auto simp: op_log_def Let_def context_extends_def intro!: frame_intros)

lemma keeps_ss7 [frame_intros]: "keeps m (op_ss7_send E m)" "keeps m (op_ss7_voice E m)"
  by (auto simp: op_ss7_send_def op_ss7_voice_def Let_def intro!: frame_intros split: list.split)

lemma keeps_ending_ops [frame_intros]:
  "keeps m (op_stop E m)" "keeps m (op_return E m)" "keeps m (op_revert E m)" "keeps m (op_invalid m)"
  "keeps m (op_unknown opcode m)"
  by (auto simp: op_stop_def op_return_def op_revert_def op_invalid_def op_unknown_def Let_def
      intro!: frame_intros split: list.split)

section \<open>The call arms\<close>

lemma keeps_skip_and_continue [frame_intros]: "extends m0 m \<Longrightarrow> keeps m0 (skip_and_continue m)"
  by (auto simp: skip_and_continue_def intro!: frame_intros)

lemma keeps_end_call [frame_intros]: "extends m0 m \<Longrightarrow> keeps m0 (end_call status m)"
  by (auto simp: end_call_def intro!: frame_intros)

lemma keeps_end_sub_call [frame_intros]: "extends m0 m \<Longrightarrow> keeps m0 (end_sub_call ok data m)"
  by (auto simp: end_sub_call_def intro!: frame_intros)

lemma keeps_sub_call [frame_intros]:
  assumes "extends m0 m" "\<And>r m. extends m0 m \<Longrightarrow> keeps m0 (k r m)"
  shows "keeps m0 (sub_call exec target_code sub_args k m)"
  using assms
  by (auto simp: sub_call_def Let_def context_extends_def intro!: frame_intros assms(2) split: outcome.split)

lemma keeps_write_output [frame_intros]:
  assumes "extends m0 m" "\<And>m. extends m0 m \<Longrightarrow> keeps m0 (k m)"
  shows "keeps m0 (write_output oc reason out_offset out_size data k m)"
  using assms(1)
  by (auto simp: write_output_def Let_def intro!: frame_intros assms(2) dest!: memory_frames)

lemma set_slots_fields [simp]:
  "block_info (set_slots c writes ws) = block_info ws" "chain_id (set_slots c writes ws) = chain_id ws"
  by (induction writes arbitrary: ws) (auto simp: set_slots_def)

lemma new_contract_fields [simp]:
  "block_info (new_contract a v cd ws) = block_info ws" "chain_id (new_contract a v cd ws) = chain_id ws"
  by (simp_all add: new_contract_def)

lemma keeps_create [frame_intros]: "keeps m (op_create E m)" "keeps m (op_create2 E A m)"
  by (auto simp: op_create_def op_create2_def Let_def context_extends_def intro!: frame_intros split: list.split)

lemma extends_persist_writes [frame_intros]: "extends m0 m \<Longrightarrow> extends m0 (persist_writes E to ws m)"
  unfolding persist_writes_def by (intro frame_intros) (simp_all add: context_extends_def)

lemma extends_merge_writes [frame_intros]: "extends m0 m \<Longrightarrow> extends m0 (merge_writes A ws m)"
  unfolding merge_writes_def by (intro frame_intros) simp_all

text \<open>The pair \<open>(target_code, m)\<close> that every call arm takes from \<open>load_code\<close>.\<close>

lemma keeps_load_code [frame_intros]:
  assumes "extends m0 m" "\<And>cd m. extends m0 m \<Longrightarrow> keeps m0 (k cd m)"
  shows "keeps m0 (case load_code E address m of (cd, m) \<Rightarrow> k cd m)"
  using load_code_extends[OF assms(1), of E address] assms(2)
  by (cases "load_code E address m") simp

lemma memory_extends_zero_fill: "zero_fill off n mem = Some mem' \<Longrightarrow> memory_extends mem mem'"
  by (auto simp: zero_fill_def dest: memory_extends_write split: if_splits)

lemma keeps_call [frame_intros]: "keeps m (op_call E exec A m)"
  by (auto simp: op_call_def Let_def intro!: frame_intros split: list.split prod.split)

lemma keeps_delegatecall [frame_intros]: "keeps m (op_delegatecall E exec A m)"
  by (auto simp: op_delegatecall_def Let_def intro!: frame_intros split: list.split prod.split)

text \<open>The pairs that the call arms take apart without the help of a shared step.\<close>

lemma keeps_resize_pair [frame_intros]:
  "(\<And>mem' ok. memory_extends mem mem' \<Longrightarrow> keeps m0 (k mem' ok)) \<Longrightarrow>
   keeps m0 (case resize_memory_ebpf mem off sz of (mem', ok) \<Rightarrow> k mem' ok)"
  using memory_extends_resize[of mem off sz] by (cases "resize_memory_ebpf mem off sz") simp

lemma keeps_sub_result_pair [frame_intros]:
  "(\<And>ok data. keeps m0 (k ok data)) \<Longrightarrow> keeps m0 (case read_sub_result_data E r of (ok, data) \<Rightarrow> k ok data)"
  "(\<And>ok data writes. keeps m0 (k' ok data writes)) \<Longrightarrow>
   keeps m0 (case read_sub_result E r of (ok, data, writes) \<Rightarrow> k' ok data writes)"
  by (simp_all split: prod.split)

lemma memory_extends_fst_resize [simp]: "memory_extends mem (fst (resize_memory_ebpf mem off sz))"
  by (cases "resize_memory_ebpf mem off sz") (simp add: memory_extends_resize)

lemma memory_extends_fill_write:
  "zero_fill off n mem = Some mem' \<Longrightarrow> mem_write off' bs mem' = Some mem'' \<Longrightarrow> memory_extends mem mem''"
  by (blast dest: memory_extends_zero_fill memory_extends_write intro: memory_extends_trans)

lemma memory_extends_resize_write:
  "mem_write off' bs (fst (resize_memory_ebpf mem off sz)) = Some mem' \<Longrightarrow> memory_extends mem mem'"
  by (blast dest: memory_extends_write intro: memory_extends_trans memory_extends_fst_resize)

lemma keeps_callcode [frame_intros]: "keeps m (op_callcode E exec A m)"
proof -
  have *: "memory_extends mem mem'"
    if "memory_extends mem mem1" "zero_fill off n mem1 = Some mem'" for mem mem1 off n mem'
    using that memory_extends_zero_fill memory_extends_trans by blast
  have **: "memory_extends mem mem'"
    if "memory_extends mem mem1" "zero_fill off n mem1 = Some mem2" "mem_write off' bs mem2 = Some mem'"
    for mem mem1 mem2 off n off' bs mem'
    using that memory_extends_fill_write memory_extends_trans by blast
  show ?thesis
    by (auto simp: op_callcode_def Let_def intro!: frame_intros
        split: list.split if_splits Option.bind_splits) (metis * **)+
qed

lemma keeps_auth [frame_intros]: "keeps m (op_auth E m)"
  by (auto simp: op_auth_def Let_def context_extends_def intro!: frame_intros split: list.split)

lemma keeps_authcall [frame_intros]: "keeps m (op_authcall E exec A m)"
  by (auto simp: op_authcall_def Let_def intro!: frame_intros split: list.split prod.split option.split)

lemma keeps_staticcall [frame_intros]: "keeps m (op_staticcall E exec A m)"
  by (auto simp: op_staticcall_def Let_def intro!: frame_intros
      split: list.split if_splits) (metis memory_extends_resize_write)

section \<open>Every opcode\<close>

lemma keeps_dispatch: "keeps m (dispatch E exec prog A opcode m)"
  unfolding dispatch_def Let_def by (intro frame_intros extends_refl)

end
