(* ===== verification/Evm_Invariants.thy ===== *)
theory Evm_Invariants
  imports Evm_Frame
begin

text \<open>
  Invariants of the loop of \<open>execute_program\<close>.  \<open>loop_invariant\<close> is the contract of a property
  that every pass of the loop keeps, \<open>loop_preorder\<close> the one of a relation between a state
  and the state one pass later; the second gives the first.  They are interpreted on the model
  by the relation \<open>extends\<close> (\<open>frame\<close>), the memory bound (\<open>memory\<close>) and the stack limit
  (\<open>stack\<close>).
\<close>

section \<open>Contracts\<close>

locale loop_invariant =
  fixes E :: "'d externals" and exec :: "'d exec" and prog :: bytes and A :: interpreter_args
    and P :: "'d machine \<Rightarrow> bool"
  assumes keep: "P m \<Longrightarrow> bytecode_pc m < length prog \<Longrightarrow> iterate E exec prog A m = Inl m' \<Longrightarrow> P m'"
begin

lemma reached: "reaches E exec prog A m0 m \<Longrightarrow> P m0 \<Longrightarrow> P m"
  by (induction rule: reaches.induct) (auto intro: keep)

lemma at_the_end:
  assumes "run fuel E exec prog A m0 = out" "out \<noteq> Out_Of_Fuel" "P m0"
  shows "\<exists>m. P m \<and>
    (if bytecode_pc m < length prog then iterate E exec prog A m = Inr out else out = finish m (Inr JNull))"
  using run_outcome_reached[OF assms(1,2)] reached[OF _ assms(3)] by blast

end

locale loop_preorder =
  fixes E :: "'d externals" and exec :: "'d exec" and prog :: bytes and A :: interpreter_args
    and R :: "'d machine \<Rightarrow> 'd machine \<Rightarrow> bool"
  assumes R_refl: "R m m"
    and R_trans: "R a b \<Longrightarrow> R b c \<Longrightarrow> R a c"
    and R_pass: "bytecode_pc m < length prog \<Longrightarrow> iterate E exec prog A m = Inl m' \<Longrightarrow> R m m'"
begin

lemma related: "reaches E exec prog A m0 m \<Longrightarrow> R m0 m"
  by (induction rule: reaches.induct) (auto intro: R_refl R_trans R_pass)

end

sublocale loop_preorder \<subseteq> above: loop_invariant E exec prog A "R m0" for m0
  by unfold_locales (blast intro: R_trans R_pass)

section \<open>One pass of the loop\<close>

lemma end_of_body_Inl: "end_of_body m = Inl m' \<longleftrightarrow> m' = m \<and> length (evm_stack m) \<le> 1024"
  by (auto simp: end_of_body_def)

lemma iterate_Inl_cases:
  assumes "iterate E exec prog A m = Inl m'"
  obtains (Next) n m1 where "dispatch E exec prog A (unat (prog ! bytecode_pc m)) m = Next n m1"
      "m' = m1\<lparr>bytecode_pc := bytecode_pc m1 + n\<rparr>" "length (evm_stack m') \<le> 1024"
    | (Jumped) "dispatch E exec prog A (unat (prog ! bytecode_pc m)) m = Jumped m'"
      "length (evm_stack m') \<le> 1024"
    | (Again) "dispatch E exec prog A (unat (prog ! bytecode_pc m)) m = Again m'"
  using assms by (auto simp: iterate_def end_of_body_Inl split: flow.splits)

lemma iterate_extends:
  assumes "iterate E exec prog A m = Inl m'"
  shows "extends m m'"
proof -
  have k: "keeps m (dispatch E exec prog A (unat (prog ! bytecode_pc m)) m)" by (rule keeps_dispatch)
  from assms show ?thesis
  proof (cases rule: iterate_Inl_cases)
    case (Next n m1)
    with k show ?thesis by (auto intro: frame_intros)
  next
    case Jumped
    with k show ?thesis by simp
  next
    case Again
    with k show ?thesis by simp
  qed
qed

lemma finish_eq_Done:
  "finish m r = Done db evs r' \<longleftrightarrow>
   db = storage_manager (execution_context m) \<and> evs = create2_events (execution_context m) \<and> r' = r"
  by (auto simp: finish_def)

text \<open>A pass that ends the run with a value does so in a state that extends the one before.\<close>

lemma iterate_Done:
  assumes "iterate E exec prog A m = Inr (Done db evs r)"
  shows "\<exists>m'. extends m m' \<and> finish m' r = Done db evs r"
proof -
  have k: "keeps m (dispatch E exec prog A (unat (prog ! bytecode_pc m)) m)" by (rule keeps_dispatch)
  show ?thesis
  proof (cases "dispatch E exec prog A (unat (prog ! bytecode_pc m)) m")
    case (Next n m1)
    with assms have "finish (m1\<lparr>bytecode_pc := bytecode_pc m1 + n\<rparr>) r = Done db evs r"
      by (auto simp: iterate_def end_of_body_def finish_def split: if_splits)
    moreover have "extends m (m1\<lparr>bytecode_pc := bytecode_pc m1 + n\<rparr>)"
      using k Next by (auto intro: frame_intros)
    ultimately show ?thesis by blast
  next
    case (Jumped m1)
    with assms have "finish m1 r = Done db evs r"
      by (auto simp: iterate_def end_of_body_def finish_def split: if_splits)
    with k Jumped show ?thesis by auto
  next
    case (Finish m1 j)
    with assms have "finish m1 r = Done db evs r" by (auto simp: iterate_def finish_def)
    with k Finish show ?thesis by auto
  qed (use assms in \<open>simp_all add: iterate_def\<close>)
qed

interpretation frame: loop_preorder E exec prog A extends for E exec prog A
  by unfold_locales (auto intro: extends_trans iterate_extends)

section \<open>The memory bound\<close>

definition memory_bounded :: "'d machine \<Rightarrow> bool" where
  "memory_bounded m \<longleftrightarrow> 65536 \<le> mem_len (global_mem m) \<and> mem_len (global_mem m) \<le> max_mem"

lemma memory_bounded_extends: "memory_bounded m \<Longrightarrow> extends m m' \<Longrightarrow> memory_bounded m'"
  by (auto simp: memory_bounded_def extends_def memory_extends_def)

interpretation memory: loop_invariant E exec prog A memory_bounded for E exec prog A
  by unfold_locales (blast intro: memory_bounded_extends iterate_extends)

lemma memory_bounded_initial: "memory_bounded (initial_machine A c)"
  by (simp add: memory_bounded_def initial_machine_def zero_memory_def)

section \<open>The stack limit\<close>

text \<open>
  The overflow check at the end of the body is skipped by \<open>continue\<close>; the arms that execute it
  leave the stack no longer than it was.
\<close>

named_theorems again_intros \<open>rules for the stack at a continue\<close>

fun again_within :: "nat \<Rightarrow> 'd flow \<Rightarrow> bool" where
  "again_within n (Again m) \<longleftrightarrow> length (evm_stack m) \<le> n"
| "again_within n _ \<longleftrightarrow> True"

lemma again_charge [again_intros]:
  "(\<And>m'. evm_stack m' = evm_stack m \<Longrightarrow> again_within n (k m')) \<Longrightarrow> again_within n (charge g k m)"
  by (auto simp: charge_def split: option.split)

lemma again_or_panic [again_intros]: "(\<And>v. again_within n (k v)) \<Longrightarrow> again_within n (or_panic r k)"
  by (auto simp: or_panic_def split: option.split)

lemma again_with_resize [again_intros]:
  "(\<And>m'. evm_stack m' = evm_stack m \<Longrightarrow> again_within n (k m')) \<Longrightarrow> again_within n (with_resize off sz reason k m)"
  by (auto simp: with_resize_def Let_def halt_def split: prod.split)

lemma again_sub_call [again_intros]:
  "(\<And>r m'. evm_stack m' = evm_stack m \<Longrightarrow> again_within n (k r m')) \<Longrightarrow>
   again_within n (sub_call exec target_code sub_args k m)"
  by (auto simp: sub_call_def Let_def split: outcome.split)

lemma again_write_output [again_intros]:
  "(\<And>m'. evm_stack m' = evm_stack m \<Longrightarrow> again_within n (k m')) \<Longrightarrow>
   again_within n (write_output oc reason out_offset out_size data k m)"
  by (auto simp: write_output_def Let_def intro!: again_intros)

lemma again_load_code [again_intros]:
  assumes "\<And>cd m'. evm_stack m' = evm_stack m \<Longrightarrow> again_within n (k cd m')"
  shows "again_within n (case load_code E address m of (cd, m') \<Rightarrow> k cd m')"
  using assms by (auto simp: load_code_def Let_def split: option.split)

lemma again_if [again_intros]:
  "(b \<Longrightarrow> again_within n x) \<Longrightarrow> (\<not> b \<Longrightarrow> again_within n y) \<Longrightarrow> again_within n (if b then x else y)"
  by simp

lemma set_return_data_stack [simp]: "evm_stack (set_return_data data m) = evm_stack m"
  by (simp add: set_return_data_def)

lemma again_ends [again_intros]:
  "Suc (length (evm_stack m)) \<le> n \<Longrightarrow> again_within n (end_call status m)"
  "again_within n (end_sub_call ok data m)"
  "length (evm_stack m) \<le> n \<Longrightarrow> again_within n (skip_and_continue m)"
  "again_within n (underflow name m)" "again_within n (halt reason m)"
  by (auto simp: end_call_def end_sub_call_def skip_and_continue_def underflow_def halt_def
      intro!: again_intros)

lemma again_flow [again_intros]:
  "again_within n (Next k m)" "again_within n (Jumped m)" "again_within n (Finish m r)"
  "again_within n Panic" "again_within n Starved"
  "length (evm_stack m) \<le> n \<Longrightarrow> again_within n (Again m)"
  by simp_all

lemma again_arith [again_intros]:
  "again_within n (op_add m)" "again_within n (op_mul m)" "again_within n (op_sub m)" "again_within n (op_div m)"
  "again_within n (op_sdiv oc m)" "again_within n (op_mod m)" "again_within n (op_smod oc m)"
  "again_within n (op_addmod m)" "again_within n (op_mulmod m)" "again_within n (op_signextend m)"
  "again_within n (op_lt m)" "again_within n (op_gt m)" "again_within n (op_slt oc m)"
  "again_within n (op_sgt oc m)" "again_within n (op_eq m)" "again_within n (op_iszero m)"
  "again_within n (op_and m)" "again_within n (op_or m)" "again_within n (op_xor m)" "again_within n (op_not m)"
  "again_within n (op_byte m)" "again_within n (op_shl m)" "again_within n (op_shr m)" "again_within n (op_sar m)"
  by (auto simp: arith_op_defs unary_op_def binary_op_def ternary_op_def intro!: again_intros split: list.split)

lemma again_stack_ops [again_intros]:
  "again_within n (op_exp m)" "again_within n (op_pop m)" "again_within n (op_push0 m)"
  "again_within n (op_push prog opcode m)" "again_within n (op_dup opcode m)" "again_within n (op_swap opcode m)"
  by (auto simp: op_exp_def op_pop_def op_push0_def op_push_def op_dup_def op_swap_def Let_def
      intro!: again_intros split: list.split)

lemma again_copy_to_memory [again_intros]:
  "again_within n (copy_to_memory oc name base source dest_offset offset sz m)"
  by (auto simp: copy_to_memory_def Let_def intro!: again_intros split: prod.split)

lemma again_env_ops [again_intros]:
  "again_within n (op_keccak256 E m)" "again_within n (op_address E A m)" "again_within n (op_balance E m)"
  "again_within n (op_origin E A m)" "again_within n (op_caller E A m)" "again_within n (op_callvalue A m)"
  "again_within n (op_calldataload E A m)" "again_within n (op_calldatasize A m)"
  "again_within n (op_calldatacopy E A m)" "again_within n (op_codesize prog m)"
  "again_within n (op_codecopy E prog m)" "again_within n (op_gasprice A m)"
  "again_within n (op_extcodesize E m)" "again_within n (op_extcodecopy E m)"
  "again_within n (op_returndatasize m)" "again_within n (op_returndatacopy E m)"
  "again_within n (op_extcodehash E m)"
  by (auto simp: op_keccak256_def op_address_def op_balance_def op_origin_def op_caller_def op_callvalue_def
      op_calldataload_def op_calldatasize_def op_calldatacopy_def op_codesize_def op_codecopy_def
      op_gasprice_def op_extcodesize_def op_extcodecopy_def op_returndatasize_def op_returndatacopy_def
      op_extcodehash_def Let_def intro!: again_intros split: list.split)

lemma again_block_ops [again_intros]:
  "again_within n (op_blockhash m)" "again_within n (op_coinbase E m)" "again_within n (op_timestamp m)"
  "again_within n (op_number m)" "again_within n (op_prevrandao m)" "again_within n (op_gaslimit m)"
  "again_within n (op_chainid m)" "again_within n (op_selfbalance A m)" "again_within n (op_basefee m)"
  "again_within n (op_blobhash m)" "again_within n (op_blobbasefee m)"
  by (auto simp: op_blockhash_def op_coinbase_def op_timestamp_def op_number_def op_prevrandao_def
      op_gaslimit_def op_chainid_def op_selfbalance_def op_basefee_def op_blobhash_def op_blobbasefee_def
      Let_def intro!: again_intros split: list.split)

lemma again_memory_ops [again_intros]:
  "again_within n (op_mload m)" "again_within n (op_mstore m)" "again_within n (op_mstore8 m)"
  "again_within n (op_msize m)" "again_within n (op_sload E A m)" "again_within n (op_sstore A m)"
  "again_within n (op_tload m)" "again_within n (op_tstore m)" "again_within n (op_jump m)"
  "again_within n (op_jumpi m)" "again_within n (op_pc m)" "again_within n (op_gas m)"
  "again_within n (op_jumpdest m)" "again_within n (op_log A opcode m)" "again_within n (op_ss7_send E m)"
  "again_within n (op_ss7_voice E m)" "again_within n (op_stop E m)" "again_within n (op_return E m)"
  "again_within n (op_revert E m)" "again_within n (op_invalid m)" "again_within n (op_unknown opcode m)"
  by (auto simp: op_mload_def op_mstore_def op_mstore8_def op_msize_def op_sload_def op_sstore_def
      op_tload_def op_tstore_def op_jump_def op_jumpi_def op_pc_def op_gas_def op_jumpdest_def op_log_def
      op_ss7_send_def op_ss7_voice_def op_stop_def op_return_def op_revert_def op_invalid_def op_unknown_def
      Let_def intro!: again_intros split: list.split prod.split)

lemma again_mcopy [again_intros]: "again_within (length (evm_stack m)) (op_mcopy E m)"
  by (auto simp: op_mcopy_def Let_def intro!: again_intros split: list.split)

lemma again_resize_pair [again_intros]:
  "(\<And>mem' ok. again_within n (k mem' ok)) \<Longrightarrow>
   again_within n (case resize_memory_ebpf mem off sz of (mem', ok) \<Rightarrow> k mem' ok)"
  by (simp split: prod.split)

lemma again_sub_result_pair [again_intros]:
  "(\<And>ok data. again_within n (k ok data)) \<Longrightarrow>
   again_within n (case read_sub_result_data E r of (ok, data) \<Rightarrow> k ok data)"
  "(\<And>ok data writes. again_within n (k' ok data writes)) \<Longrightarrow>
   again_within n (case read_sub_result E r of (ok, data, writes) \<Rightarrow> k' ok data writes)"
  by (simp_all split: prod.split)

lemma again_call_ops [again_intros]:
  "again_within (length (evm_stack m)) (op_create E m)"
  "again_within (length (evm_stack m)) (op_create2 E A m)"
  "again_within (length (evm_stack m)) (op_call E exec A m)"
  "again_within (length (evm_stack m)) (op_callcode E exec A m)"
  "again_within (length (evm_stack m)) (op_delegatecall E exec A m)"
  "again_within (length (evm_stack m)) (op_auth E m)"
  "again_within (length (evm_stack m)) (op_authcall E exec A m)"
  "again_within (length (evm_stack m)) (op_staticcall E exec A m)"
  by (auto simp: op_create_def op_create2_def op_call_def op_callcode_def op_delegatecall_def op_auth_def
      op_authcall_def op_staticcall_def Let_def intro!: again_intros split: list.split option.split)

lemma again_dispatch: "again_within (length (evm_stack m)) (dispatch E exec prog A opcode m)"
  unfolding dispatch_def Let_def by (intro again_intros)

definition stack_bounded :: "'d machine \<Rightarrow> bool" where
  "stack_bounded m \<longleftrightarrow> length (evm_stack m) \<le> 1024"

interpretation stack: loop_invariant E exec prog A stack_bounded for E exec prog A
proof
  fix m m' :: "'a machine"
  assume "stack_bounded m" and i: "iterate E exec prog A m = Inl m'"
  then show "stack_bounded m'"
    using again_dispatch[of m E exec prog A "unat (prog ! bytecode_pc m)"]
    by (auto elim!: iterate_Inl_cases simp: stack_bounded_def)
qed

lemma stack_bounded_initial: "stack_bounded (initial_machine A c)"
  by (simp add: stack_bounded_def initial_machine_def)

section \<open>Fuel\<close>

text \<open>
  A run that has an answer keeps it with more fuel.  \<open>exec_le\<close> and \<open>flow_le\<close> say that the
  second argument answers wherever the first does.
\<close>

definition exec_le :: "'d exec \<Rightarrow> 'd exec \<Rightarrow> bool" where
  "exec_le e e' \<longleftrightarrow> (\<forall>p A sm s cb. e p A sm s cb = Out_Of_Fuel \<or> e' p A sm s cb = e p A sm s cb)"

definition flow_le :: "'d flow \<Rightarrow> 'd flow \<Rightarrow> bool" where
  "flow_le f f' \<longleftrightarrow> f = Starved \<or> f' = f"

named_theorems fuel_intros \<open>monotonicity of the arms in the recursive call\<close>

lemma flow_le_refl [fuel_intros]: "flow_le f f"
  by (simp add: flow_le_def)

lemma flow_le_charge [fuel_intros]: "(\<And>m. flow_le (k m) (k' m)) \<Longrightarrow> flow_le (charge g k m) (charge g k' m)"
  by (auto simp: charge_def flow_le_def split: option.split)

lemma flow_le_or_panic [fuel_intros]: "(\<And>v. flow_le (k v) (k' v)) \<Longrightarrow> flow_le (or_panic r k) (or_panic r k')"
  by (auto simp: or_panic_def flow_le_def split: option.split)

lemma flow_le_with_resize [fuel_intros]:
  "(\<And>m. flow_le (k m) (k' m)) \<Longrightarrow> flow_le (with_resize off sz reason k m) (with_resize off sz reason k' m)"
  by (auto simp: with_resize_def Let_def flow_le_def split: prod.split)

lemma flow_le_if [fuel_intros]:
  "(b \<Longrightarrow> flow_le x x') \<Longrightarrow> (\<not> b \<Longrightarrow> flow_le y y') \<Longrightarrow> flow_le (if b then x else y) (if b then x' else y')"
  by simp

lemma flow_le_pair [fuel_intros]:
  "(\<And>a b. flow_le (k a b) (k' a b)) \<Longrightarrow> flow_le (case p of (a, b) \<Rightarrow> k a b) (case p of (a, b) \<Rightarrow> k' a b)"
  by (simp split: prod.split)

lemma flow_le_sub_call:
  assumes "exec_le e e'"
  shows "flow_le (sub_call e cd A k m) (sub_call e' cd A k m)"
proof -
  let ?c = "execution_context m"
  let ?s = "storage (world_state ?c)"
  have "e cd A (storage_manager ?c) ?s (on_create2_event ?c) = Out_Of_Fuel \<or>
    e' cd A (storage_manager ?c) ?s (on_create2_event ?c) = e cd A (storage_manager ?c) ?s (on_create2_event ?c)"
    using assms by (simp add: exec_le_def)
  then show ?thesis
  proof
    assume "e cd A (storage_manager ?c) ?s (on_create2_event ?c) = Out_Of_Fuel"
    then show ?thesis by (simp add: flow_le_def sub_call_def)
  next
    assume "e' cd A (storage_manager ?c) ?s (on_create2_event ?c) = e cd A (storage_manager ?c) ?s (on_create2_event ?c)"
    then show ?thesis by (simp add: flow_le_def sub_call_def)
  qed
qed

lemma flow_le_call_ops:
  assumes "exec_le e e'"
  shows "flow_le (op_call E e A m) (op_call E e' A m)"
    "flow_le (op_callcode E e A m) (op_callcode E e' A m)"
    "flow_le (op_delegatecall E e A m) (op_delegatecall E e' A m)"
    "flow_le (op_authcall E e A m) (op_authcall E e' A m)"
    "flow_le (op_staticcall E e A m) (op_staticcall E e' A m)"
  by (auto simp: op_call_def op_callcode_def op_delegatecall_def op_authcall_def op_staticcall_def Let_def
      intro!: fuel_intros flow_le_sub_call assms split: list.split option.split)

lemma flow_le_dispatch:
  assumes "exec_le e e'"
  shows "flow_le (dispatch E e prog A opcode m) (dispatch E e' prog A opcode m)"
  unfolding dispatch_def Let_def by (intro fuel_intros flow_le_call_ops assms)

lemma iterate_exec_le:
  assumes "exec_le e e'" "iterate E e prog A m \<noteq> Inr Out_Of_Fuel"
  shows "iterate E e' prog A m = iterate E e prog A m"
proof -
  have "dispatch E e prog A (unat (prog ! bytecode_pc m)) m \<noteq> Starved"
    using assms(2) by (auto simp: iterate_def)
  then show ?thesis
    using flow_le_dispatch[OF assms(1), of E prog A "unat (prog ! bytecode_pc m)" m]
    by (simp add: iterate_def flow_le_def)
qed

lemma run_exec_le:
  assumes "exec_le e e'" "run fuel E e prog A m \<noteq> Out_Of_Fuel" "fuel \<le> fuel'"
  shows "run fuel' E e' prog A m = run fuel E e prog A m"
  using assms(2,3)
proof (induction fuel arbitrary: fuel' m)
  case (Suc fuel)
  then obtain f' where f': "fuel' = Suc f'" "fuel \<le> f'" by (cases fuel') auto
  have "iterate E e prog A m \<noteq> Inr Out_Of_Fuel" if "bytecode_pc m < length prog"
    using Suc.prems that by auto
  with Suc f' show ?case using iterate_exec_le[OF assms(1), of E prog A m]
    by (auto split: sum.splits)
qed simp

lemma execute_program_fuel_le:
  assumes "execute_program fuel E p A sm s cb \<noteq> Out_Of_Fuel" "fuel \<le> fuel'"
  shows "execute_program fuel' E p A sm s cb = execute_program fuel E p A sm s cb"
  using assms
proof (induction fuel arbitrary: fuel' p A sm s cb)
  case (Suc fuel)
  then obtain f' where f': "fuel' = Suc f'" "fuel \<le> f'" by (cases fuel') auto
  have "exec_le (\<lambda>p A' sm' s cb'. execute_program fuel E (Some p) A' sm' (Some s) cb')
                (\<lambda>p A' sm' s cb'. execute_program f' E (Some p) A' sm' (Some s) cb')"
    unfolding exec_le_def using Suc.IH f' by blast
  then show ?case
    using Suc.prems f'
    by (auto simp: Let_def run_exec_le split: option.splits bool.splits)
qed simp

end
