(* ===== verification/Evm_Steps.thy ===== *)
theory Evm_Steps
  imports Evm_Invariants
begin

text \<open>
  The facts about single opcodes that the properties are stated with: gas that does not
  overflow, the opcode numbers of the \<open>match\<close>, and a concrete instance of the code outside
  the repository (hexadecimal coding as the crate \<open>hex\<close> documents it, an in-memory database),
  on which the properties are exercised.
\<close>

section \<open>Gas\<close>

text \<open>\<open>gas_used\<close> is a U256 that only grows; \<open>n\<close> more units fit.\<close>

definition gas_room :: "nat \<Rightarrow> 'd machine \<Rightarrow> bool" where
  "gas_room n m \<longleftrightarrow> unat (gas_used (execution_context m)) + n < 2 ^ 256"

definition after_gas :: "u64 \<Rightarrow> 'd machine \<Rightarrow> 'd machine" where
  "after_gas g m = m\<lparr>execution_context := (execution_context m)\<lparr>gas_used := gas_used (execution_context m) + ucast g\<rparr>\<rparr>"

lemma unat_ucast_u64: "unat (ucast (g :: u64) :: u256) = unat g"
  by (metis uint_ucast_u64 unat_eq_nat_uint)

lemma charge_room:
  assumes "gas_room n m" "unat g \<le> n"
  shows "charge g k m = k (after_gas g m)"
proof -
  have "int (unat (gas_used (execution_context m)) + unat (ucast g :: u256)) < int (2 ^ 256)"
    using assms by (subst of_nat_less_iff) (simp add: gas_room_def unat_ucast_u64)
  then have "uint (gas_used (execution_context m)) + uint (ucast g :: u256) < 2 ^ 256" by simp
  then have "u256_add (gas_used (execution_context m)) (ucast g) = Some (gas_used (execution_context m) + ucast g)"
    by (simp add: u256_add_def)
  then show ?thesis by (simp add: charge_def consume_gas_amount_def after_gas_def)
qed

lemma after_gas_fields [simp]:
  "evm_stack (after_gas g m) = evm_stack m" "bytecode_pc (after_gas g m) = bytecode_pc m"
  "global_mem (after_gas g m) = global_mem m" "temp_storage_writes (after_gas g m) = temp_storage_writes m"
  "world_state (execution_context (after_gas g m)) = world_state (execution_context m)"
  "gas_remaining (execution_context (after_gas g m)) = gas_remaining (execution_context m)"
  "return_data (execution_context (after_gas g m)) = return_data (execution_context m)"
  "storage_manager (execution_context (after_gas g m)) = storage_manager (execution_context m)"
  "auth_context (execution_context (after_gas g m)) = auth_context (execution_context m)"
  "logs (execution_context (after_gas g m)) = logs (execution_context m)"
  by (simp_all add: after_gas_def)

lemma gas_room_after:
  assumes "gas_room n m" "unat g + k \<le> n"
  shows "gas_room k (after_gas g m)"
proof -
  have "unat (gas_used (execution_context m) + (ucast g :: u256)) = unat (gas_used (execution_context m)) + unat g"
    using assms by (subst unat_add_lem[THEN iffD1]) (simp_all add: gas_room_def unat_ucast_u64)
  then show ?thesis using assms by (simp add: gas_room_def after_gas_def)
qed

lemma gas_room_mono: "gas_room n m \<Longrightarrow> k \<le> n \<Longrightarrow> gas_room k m"
  by (simp add: gas_room_def)

lemma gas_room_fields [simp]:
  "gas_room n (push v m) = gas_room n m" "gas_room n (with_stack st m) = gas_room n m"
  "gas_room n (with_mem mem m) = gas_room n m" "gas_room n (upd_world f m) = gas_room n m"
  "gas_room n (m\<lparr>bytecode_pc := pc\<rparr>) = gas_room n m"
  "gas_room n (m\<lparr>temp_storage_writes := w\<rparr>) = gas_room n m"
  "gas_room n (m\<lparr>evm_stack := st\<rparr>) = gas_room n m"
  by (simp_all add: gas_room_def)

lemma gas_room_initial [simp]:
  "gas_used c = 0 \<Longrightarrow> n < 2 ^ 256 \<Longrightarrow> gas_room n (initial_machine A c)"
  by (simp add: gas_room_def initial_machine_def)

lemma u256_add_below:
  assumes "unat a < 2 ^ 255" "unat b < 2 ^ 255"
  shows "u256_add a b = Some (a + b)"
proof -
  have "unat a + unat b < 2 ^ 256" using assms by simp
  then have "int (unat a + unat b) < int (2 ^ 256)" by (simp only: of_nat_less_iff)
  then have "uint a + uint b < 2 ^ 256" by simp
  then show ?thesis by (simp add: u256_add_def)
qed

section \<open>Opcode numbers\<close>

lemma dispatch_codes [simp]:
  "dispatch E exec prog A 0x00 m = op_stop E m"
  "dispatch E exec prog A 0x05 m = op_sdiv (overflow_checks E) m"
  "dispatch E exec prog A 0x08 m = op_addmod m"
  "dispatch E exec prog A 0x09 m = op_mulmod m"
  "dispatch E exec prog A 0x0b m = op_signextend m"
  "dispatch E exec prog A 0x1a m = op_byte m"
  "dispatch E exec prog A 0x1d m = op_sar m"
  "dispatch E exec prog A 0x35 m = op_calldataload E A m"
  "dispatch E exec prog A 0x37 m = op_calldatacopy E A m"
  "dispatch E exec prog A 0x51 m = op_mload m"
  "dispatch E exec prog A 0x52 m = op_mstore m"
  "dispatch E exec prog A 0x54 m = op_sload E A m"
  "dispatch E exec prog A 0x55 m = op_sstore A m"
  "dispatch E exec prog A 0x56 m = op_jump m"
  "dispatch E exec prog A 0x5a m = op_gas m"
  "dispatch E exec prog A 0x5b m = op_jumpdest m"
  "dispatch E exec prog A 0x5c m = op_tload m"
  "dispatch E exec prog A 0x5d m = op_tstore m"
  "dispatch E exec prog A 0x5e m = op_mcopy E m"
  "dispatch E exec prog A 0x5f m = op_push0 m"
  "dispatch E exec prog A 0xf3 m = op_return E m"
  "dispatch E exec prog A 0xfa m = op_staticcall E exec A m"
  "dispatch E exec prog A 0xfd m = op_revert E m"
  by (simp_all add: dispatch_def)

lemma dispatch_ranges:
  "0x60 \<le> op \<Longrightarrow> op \<le> 0x7f \<Longrightarrow> dispatch E exec prog A op m = op_push prog op m"
  "0x80 \<le> op \<Longrightarrow> op \<le> 0x8f \<Longrightarrow> dispatch E exec prog A op m = op_dup op m"
  "0x90 \<le> op \<Longrightarrow> op \<le> 0x9f \<Longrightarrow> dispatch E exec prog A op m = op_swap op m"
  by (simp_all add: dispatch_def)

section \<open>An instance of the code outside the repository\<close>

definition hex_of_bytes :: "bytes \<Rightarrow> string" where
  "hex_of_bytes bs = concat (map (\<lambda>b. [hex_digit (unat b div 16), hex_digit (unat b mod 16)]) bs)"

fun bytes_of_hex :: "string \<Rightarrow> bytes option" where
  "bytes_of_hex [] = Some []"
| "bytes_of_hex [c] = None"
| "bytes_of_hex (c # d # s) =
     (if is_ascii_hexdigit c \<and> is_ascii_hexdigit d
      then map_option (\<lambda>bs. of_nat (digit_val c * 16 + digit_val d) # bs) (bytes_of_hex s) else None)"

text \<open>\<open>digit_val\<close> reads lower case, which is what \<open>hex::encode\<close> writes.\<close>

definition sample_externals :: "(string, bytes) hmap externals" where
  "sample_externals = \<lparr>
     overflow_checks = False,
     keccak256 = (\<lambda>bs. to_big_endian (of_nat (length bs))),
     hex_encode = hex_of_bytes, hex_decode = bytes_of_hex,
     db_read = hm_get, db_write = (\<lambda>db k v. hm_insert k v db),
     now_secs = 1700000000, json_buffer_ptr = 4096, ss7_json_len = (\<lambda>_. 0)\<rparr>"

definition sample_args :: interpreter_args where
  "sample_args = \<lparr>
     function_name = ''main'', contract_address = ''vault'', sender_address = ''alice'', args = [],
     state_data = [], gas_limit = 0, gas_price = 1, call_value = 0, call_depth = 0, block_number = 1,
     timestamp = 1, caller = ''alice'', origin = ''alice'', beneficiary = ''miner'', function_offset = None,
     base_fee = None, blob_base_fee = None, blob_hash = None\<rparr>"

lemma sample_args_fields [simp]:
  "call_depth sample_args = 0" "state_data sample_args = []" "contract_address sample_args = ''vault''"
  "caller sample_args = ''alice''" "gas_limit sample_args = 0"
  by (simp_all add: sample_args_def)

lemma bytes_of_hex_of_bytes [simp]: "bytes_of_hex (hex_of_bytes bs) = Some bs"
proof (induction bs)
  case (Cons b bs)
  have "unat b < 256" using unsigned_less[of b] by simp
  then have "unat b div 16 < 16" "unat b mod 16 < 16" by simp_all
  with Cons show ?case by (simp add: hex_of_bytes_def hex_digit_ascii)
qed (simp add: hex_of_bytes_def)

lemma length_hex_of_bytes [simp]: "length (hex_of_bytes bs) = 2 * length bs"
  by (induction bs) (simp_all add: hex_of_bytes_def)

lemma hex_ok_sample: "hex_ok sample_externals"
  by (simp add: hex_ok_def sample_externals_def)

lemma sample_externals_fields [simp]:
  "db_read sample_externals db k = hm_get db k" "overflow_checks sample_externals = False"
  "hex_decode sample_externals s = bytes_of_hex s" "hex_encode sample_externals bs = hex_of_bytes bs"
  by (simp_all add: sample_externals_def)

text \<open>A machine at the start of a run of \<open>sample_args\<close>, with a given stack.\<close>

definition sample_machine :: "u256 list \<Rightarrow> (string, bytes) hmap machine" where
  "sample_machine st =
     (initial_machine sample_args (initial_context sample_externals sample_args None None False))\<lparr>evm_stack := st\<rparr>"

abbreviation no_calls :: "'d exec" where
  "no_calls \<equiv> \<lambda>_ _ _ _ _. Out_Of_Fuel"

lemma sample_machine_fields [simp]:
  "evm_stack (sample_machine st) = st" "bytecode_pc (sample_machine st) = 0"
  "global_mem (sample_machine st) = zero_memory 65536"
  "storage_manager (execution_context (sample_machine st)) = None"
  "auth_context (execution_context (sample_machine st)) = None"
  "n < 2 ^ 256 \<Longrightarrow> gas_room n (sample_machine st)"
  by (simp_all add: sample_machine_def initial_machine_def initial_context_def gas_room_def)

lemma mem_len_zero_memory [simp]: "mem_len (zero_memory n) = n"
  by (simp add: zero_memory_def)

lemma with_mem_with_mem [simp]: "with_mem mem (with_mem mem' m) = with_mem mem m"
  by (simp add: with_mem_def)

section \<open>The shared shape of the arithmetic arms, with gas\<close>

lemma binary_op_room:
  assumes "evm_stack m = a # b # st" "gas_room n m" "unat g \<le> n"
  shows "binary_op name g f m =
    (case f a b of None \<Rightarrow> Panic | Some r \<Rightarrow> Next 1 (after_gas g (with_stack (r # st) m)))"
  using assms by (simp add: binary_op_def or_panic_def charge_room[of n] split: option.split)

lemma ternary_op_room:
  assumes "evm_stack m = a # b # k # st" "gas_room n m" "unat g \<le> n"
  shows "ternary_op name g f m =
    (case f a b k of None \<Rightarrow> Panic | Some r \<Rightarrow> Next 1 (after_gas g (with_stack (r # st) m)))"
  using assms by (simp add: ternary_op_def or_panic_def charge_room[of n] split: option.split)

end
