(* ===== verification/Evm_Arith_Claims.thy ===== *)
theory Evm_Arith_Claims
  imports Evm_Steps
begin

text \<open>
  What the arithmetic opcodes compute, stated on the \<open>match\<close> of the interpreter with the
  values read as integers: ADDMOD and MULMOD over unbounded integers, SAR as floor division,
  SIGNEXTEND, BYTE and SDIV.
\<close>

text \<open>ADDMOD never panics and replaces its three operands by the sum, taken over unbounded
  integers, modulo the third one (0 when that is 0); no intermediate overflow shows.\<close>

theorem addmod_exact:
  assumes "evm_stack m = a # b # n # st" "gas_room 8 m"
  shows "\<exists>r. dispatch E exec prog A 0x08 m = Next 1 (after_gas 8 (with_stack (r # st) m)) \<and>
    uint r = (if n = 0 then 0 else (uint a + uint b) mod uint n)"
proof (cases "n = 0")
  case True
  with assms show ?thesis by (intro exI[of _ 0]) (simp add: op_addmod_def ternary_op_room[of _ _ _ _ _ 8] evm_addmod_def)
next
  case False
  with assms addmod_safe_correct[OF False, of a b] show ?thesis
    by (auto simp: op_addmod_def ternary_op_room[of _ _ _ _ _ 8] evm_addmod_def)
qed

theorem addmod_exact_witness:
  "\<exists>r. dispatch sample_externals no_calls [] sample_args 0x08 (sample_machine [- 1, - 1, 7]) =
      Next 1 (after_gas 8 (with_stack [r] (sample_machine [- 1, - 1, 7]))) \<and>
    uint r = (uint (- 1 :: u256) + uint (- 1 :: u256)) mod 7"
  using addmod_exact[of "sample_machine [- 1, - 1, 7]" "- 1" "- 1" 7 "[]" sample_externals no_calls "[]" sample_args]
  by simp

text \<open>C34: MULMOD never panics, its shift-and-add loop ends, and the result is the product over
  unbounded integers modulo the third operand (0 when that is 0).\<close>

theorem mulmod_exact:
  assumes "evm_stack m = a # b # n # st" "gas_room 8 m"
  shows "\<exists>r. dispatch E exec prog A 0x09 m = Next 1 (after_gas 8 (with_stack (r # st) m)) \<and>
    uint r = (if n = 0 then 0 else (uint a * uint b) mod uint n)"
proof (cases "n = 0")
  case True
  with assms show ?thesis by (intro exI[of _ 0]) (simp add: op_mulmod_def ternary_op_room[of _ _ _ _ _ 8] evm_mulmod_def)
next
  case False
  with assms mulmod_safe_correct[OF False, of a b] show ?thesis
    by (auto simp: op_mulmod_def ternary_op_room[of _ _ _ _ _ 8] evm_mulmod_def)
qed

theorem mulmod_exact_witness:
  "\<exists>r. dispatch sample_externals no_calls [] sample_args 0x09 (sample_machine [- 1, - 1, 7]) =
      Next 1 (after_gas 8 (with_stack [r] (sample_machine [- 1, - 1, 7]))) \<and>
    uint r = (uint (- 1 :: u256) * uint (- 1 :: u256)) mod 7"
  using mulmod_exact[of "sample_machine [- 1, - 1, 7]" "- 1" "- 1" 7 "[]" sample_externals no_calls "[]" sample_args]
  by simp

text \<open>SAR divides the two's-complement value by a power of two and rounds down; from a
  shift of 256 on, the result is -1 or 0 by the sign.\<close>

theorem sar_floor:
  assumes "evm_stack m = shift # v # st" "gas_room 3 m"
  shows "\<exists>r. dispatch E exec prog A 0x1d m = Next 1 (after_gas 3 (with_stack (r # st) m)) \<and>
    sint r = sint v div 2 ^ (if 256 \<le> shift then 256 else unat shift)"
  using assms evm_sar_floor[of shift v]
  by (intro exI[of _ "evm_sar shift v"]) (simp add: op_sar_def binary_op_room[of _ _ _ _ 3])

theorem sar_floor_witness:
  "\<exists>r. dispatch sample_externals no_calls [] sample_args 0x1d (sample_machine [1, - 5]) =
      Next 1 (after_gas 3 (with_stack [r] (sample_machine [1, - 5]))) \<and> sint r = - 3"
  using sar_floor[of "sample_machine [1, - 5]" 1 "- 5" "[]" sample_externals no_calls "[]" sample_args]
  by (simp add: word_le_nat_alt)

text \<open>SIGNEXTEND extends the sign of the low \<open>b + 1\<close> bytes for \<open>b < 31\<close>, leaves the value
  alone from 32 on, and for \<open>b = 31\<close>, a no-op in the EVM, the interpreter panics (the mask
  \<open>(1 << 256) - 1\<close> underflows).\<close>

theorem signextend_cases:
  assumes "evm_stack m = b # x # st" "gas_room 5 m"
  shows "dispatch E exec prog A 0x0b m =
    (if b = 31 then Panic
     else Next 1 (after_gas 5 (with_stack
       ((if b < 31 then word_of_int (signed_take_bit (8 * unat b + 7) (uint x)) else x) # st) m)))"
proof -
  consider "b = 31" | "b < 31" | "32 \<le> b" by (cases "b < 31"; cases "b = 31") (auto simp: word_less_nat_alt word_le_nat_alt word_unat_eq_iff)
  then show ?thesis
  proof cases
    case 1
    with assms show ?thesis by (simp add: op_signextend_def binary_op_room[of _ _ _ _ 5] evm_signextend_31)
  next
    case 2
    with assms show ?thesis
      by (auto simp: op_signextend_def binary_op_room[of _ _ _ _ 5] evm_signextend_small)
  next
    case 3
    then have "\<not> b < 31" "b \<noteq> 31" by (auto simp: word_less_nat_alt word_le_nat_alt)
    with assms 3 show ?thesis by (simp add: op_signextend_def binary_op_room[of _ _ _ _ 5] evm_signextend_def)
  qed
qed

theorem signextend_cases_witness:
  "dispatch sample_externals no_calls [] sample_args 0x0b (sample_machine [0, 0xff]) =
     Next 1 (after_gas 5 (with_stack [- 1] (sample_machine [0, 0xff])))"
  using signextend_cases[of "sample_machine [0, 0xff]" 0 "0xff" "[]" sample_externals no_calls "[]" sample_args]
  by (simp add: signed_take_bit_eq_if_negative)

text \<open>SDIV goes through \<open>i64\<close>.  When both operands lie strictly inside the \<open>i64\<close> range the
  result is the truncated quotient of the signed values.\<close>

theorem sdiv_small_exact:
  assumes "evm_stack m = a # b # st" "gas_room 5 m" "in_i64 (sint a)" "in_i64 (sint b)" "b \<noteq> 0"
  shows "dispatch E exec prog A 0x05 m =
    Next 1 (after_gas 5 (with_stack (word_of_int (sint a sdiv sint b) # st) m))"
  using assms by (simp add: op_sdiv_def binary_op_room[of _ _ _ _ 5] evm_sdiv_in_range)

theorem sdiv_small_exact_witness:
  "dispatch sample_externals no_calls [] sample_args 0x05 (sample_machine [- 7, 2]) =
     Next 1 (after_gas 5 (with_stack [- 3] (sample_machine [- 7, 2])))"
  using sdiv_small_exact[of "sample_machine [- 7, 2]" "- 7" 2 "[]" sample_externals no_calls "[]" sample_args]
  by (simp add: in_i64_def signed_divide_int_def)

text \<open>a non-zero SDIV divisor whose low 64 bits are zero, such as \<open>2 ^ 64\<close>, becomes the
  \<open>i64\<close> 0, and the division panics instead of giving a result.\<close>

theorem sdiv_truncated_divisor_panics:
  assumes "evm_stack m = a # b # st" "gas_room 5 m" "b \<noteq> 0" "low_u64 b = 0"
  shows "dispatch E exec prog A 0x05 m = Panic"
  using assms by (simp add: op_sdiv_def binary_op_room[of _ _ _ _ 5] evm_sdiv_truncated_divisor)

theorem sdiv_truncated_divisor_panics_witness:
  "dispatch sample_externals no_calls [] sample_args 0x05 (sample_machine [1, 2 ^ 64]) = Panic"
  using sdiv_truncated_divisor_panics[of "sample_machine [1, 2 ^ 64]" 1 "2 ^ 64" "[]" sample_externals no_calls "[]" sample_args]
  by (simp add: low_u64_def)

end
