(* ===== verification/Evm_Data_Claims.thy ===== *)
theory Evm_Data_Claims
  imports Evm_Steps
begin

text \<open>
  Memory, storage, call data and stack opcodes.  The abstract view of the memory is a total
  function from addresses to bytes, zero beyond the allocated length (\<open>abs_mem\<close>); MLOAD and
  MSTORE are shown to refine reads and updates of that function.
\<close>

section \<open>Memory\<close>

definition abs_mem :: "memory \<Rightarrow> nat \<Rightarrow> u8" where
  "abs_mem mem i = (if i < mem_len mem then mem_byte mem i else 0)"

definition abs_word :: "memory \<Rightarrow> nat \<Rightarrow> u256" where
  "abs_word mem off = be32 (map (abs_mem mem) [off..<off + 32])"

lemma abs_mem_resize: "abs_mem (fst (resize_memory_ebpf mem off sz)) = abs_mem mem"
  by (auto simp: fun_eq_iff abs_mem_def resize_memory_ebpf_def mem_grow_def split: option.splits)

lemma resize_in_range:
  assumes "off + sz \<le> max_mem"
  shows "\<exists>mem'. resize_memory_ebpf mem off sz = (mem', True) \<and> off + sz \<le> mem_len mem' \<and> abs_mem mem' = abs_mem mem"
proof -
  obtain mem' ok where r: "resize_memory_ebpf mem off sz = (mem', ok)" by fastforce
  moreover from assms r have ok by (auto simp: resize_memory_ebpf_def split: if_splits)
  ultimately show ?thesis
    using assms resize_covers[of mem off sz mem'] abs_mem_resize[of mem off sz] by auto
qed

lemma memory_slice_abs:
  assumes "off + n \<le> mem_len mem" "off + n \<le> usize_max"
  shows "memory_slice_len mem off n = map (abs_mem mem) [off..<off + n]"
  using assms by (auto simp: memory_slice_len_full abs_mem_def)

lemma mload_step:
  assumes "evm_stack m = off # st" "gas_room 3 m" "unat off + 32 \<le> max_mem"
  shows "\<exists>mem'. op_mload m =
      Next 1 (after_gas 3 (push (abs_word (global_mem m) (unat off)) (with_mem mem' (with_stack st m)))) \<and>
    abs_mem mem' = abs_mem (global_mem m)"
proof -
  have o: "as_usize_or_fail off = unat off" using assms by (intro as_usize_or_fail_small) simp
  obtain mem' where r: "resize_memory_ebpf (global_mem m) (unat off) 32 = (mem', True)"
    "unat off + 32 \<le> mem_len mem'" "abs_mem mem' = abs_mem (global_mem m)"
    using resize_in_range[OF assms(3)] by blast
  have "memory_slice_len mem' (unat off) 32 = map (abs_mem (global_mem m)) [unat off..<unat off + 32]"
    using r assms by (simp add: memory_slice_abs)
  then have "op_mload m =
      Next 1 (after_gas 3 (push (abs_word (global_mem m) (unat off)) (with_mem mem' (with_stack st m))))"
    using assms o r
    by (simp add: op_mload_def with_resize_def abs_word_def pad_right_def charge_room[of 3] Let_def)
  with r show ?thesis by blast
qed

lemma mstore_step:
  assumes "evm_stack m = off # v # st" "gas_room 3 m" "unat off + 32 \<le> max_mem"
  shows "\<exists>mem'. op_mstore m = Next 1 (after_gas 3 (with_mem mem' (with_stack st m))) \<and>
    (\<forall>i. abs_mem mem' i =
      (if unat off \<le> i \<and> i < unat off + 32 then to_big_endian v ! (i - unat off) else abs_mem (global_mem m) i))"
proof -
  have o: "as_usize_or_fail off = unat off" using assms by (intro as_usize_or_fail_small) simp
  obtain mem1 where r: "resize_memory_ebpf (global_mem m) (unat off) 32 = (mem1, True)"
    "unat off + 32 \<le> mem_len mem1" "abs_mem mem1 = abs_mem (global_mem m)"
    using resize_in_range[OF assms(3)] by blast
  obtain mem' where w: "mem_write (unat off) (to_big_endian v) mem1 = Some mem'"
    using r vec.wr_Some[of "unat off" "to_big_endian v" mem1] by auto
  have "op_mstore m = Next 1 (after_gas 3 (with_mem mem' (with_stack st m)))"
    using assms o r w
    by (simp add: op_mstore_def with_resize_def or_panic_def charge_room[of 3] Let_def)
  moreover have "abs_mem mem' i =
      (if unat off \<le> i \<and> i < unat off + 32 then to_big_endian v ! (i - unat off) else abs_mem (global_mem m) i)" for i
  proof -
    have "abs_mem mem' i = (if unat off \<le> i \<and> i < unat off + 32 then to_big_endian v ! (i - unat off) else abs_mem mem1 i)"
      using vec.rd_wr[OF w] vec.wr_len[OF w] r(2) by (simp add: abs_mem_def)
    with r(3) show ?thesis by simp
  qed
  ultimately show ?thesis by blast
qed

lemma abs_word_updated:
  assumes "\<forall>i. abs_mem mem' i = (if off \<le> i \<and> i < off + 32 then to_big_endian v ! (i - off) else abs_mem mem i)"
  shows "abs_word mem' off = v"
    and "a + 32 \<le> off \<or> off + 32 \<le> a \<Longrightarrow> abs_word mem' a = abs_word mem a"
proof -
  have "map (abs_mem mem') [off..<off + 32] = to_big_endian v"
    using assms by (intro nth_equalityI) simp_all
  then show "abs_word mem' off = v" by (simp add: abs_word_def)
  assume "a + 32 \<le> off \<or> off + 32 \<le> a"
  then have "map (abs_mem mem') [a..<a + 32] = map (abs_mem mem) [a..<a + 32]"
    using assms by auto
  then show "abs_word mem' a = abs_word mem a" unfolding abs_word_def by (simp only:)
qed

text \<open>C35: MSTORE then MLOAD at the same offset gives the stored word back, and MLOAD at an offset
  32 bytes or more away reads what was there before the MSTORE, wherever the two ranges lie
  below 16 MiB and whether or not the memory had to grow.\<close>

theorem mstore_mload:
  assumes "evm_stack m = off # v # st" "gas_room 6 m" "unat off + 32 \<le> max_mem"
    and "unat a + 32 \<le> max_mem" "a = off \<or> unat a + 32 \<le> unat off \<or> unat off + 32 \<le> unat a"
  shows "\<exists>m1 m2. dispatch E exec prog A 0x52 m = Next 1 m1 \<and>
    dispatch E exec prog A 0x51 (push a m1) = Next 1 m2 \<and>
    evm_stack m2 = (if a = off then v else abs_word (global_mem m) (unat a)) # st"
proof -
  obtain mem1 where s: "op_mstore m = Next 1 (after_gas 3 (with_mem mem1 (with_stack st m)))"
    and u: "\<forall>i. abs_mem mem1 i =
      (if unat off \<le> i \<and> i < unat off + 32 then to_big_endian v ! (i - unat off) else abs_mem (global_mem m) i)"
    using mstore_step[OF assms(1) gas_room_mono[OF assms(2)] assms(3)] by auto
  define m1 where "m1 = after_gas 3 (with_mem mem1 (with_stack st m))"
  have "gas_room 3 (push a m1)" "evm_stack (push a m1) = a # st" "global_mem (push a m1) = mem1"
    using gas_room_after[of 6 "with_mem mem1 (with_stack st m)" 3 3] assms(2) by (simp_all add: m1_def)
  from mload_step[OF this(2,1) assms(4)] this(3) obtain mem2 where
    "op_mload (push a m1) = Next 1 (after_gas 3 (push (abs_word mem1 (unat a)) (with_mem mem2 (with_stack st (push a m1)))))"
    by auto
  moreover have "abs_word mem1 (unat a) = (if a = off then v else abs_word (global_mem m) (unat a))"
    using abs_word_updated[OF u] assms(5) by auto
  ultimately show ?thesis using s by (auto simp: m1_def)
qed

theorem mstore_mload_witness:
  "\<exists>m1 m2. dispatch sample_externals no_calls [] sample_args 0x52 (sample_machine [70000, 42]) = Next 1 m1 \<and>
    dispatch sample_externals no_calls [] sample_args 0x51 (push 70000 m1) = Next 1 m2 \<and> evm_stack m2 = [42]"
  using mstore_mload[of "sample_machine [70000, 42]" 70000 42 "[]" 70000 sample_externals no_calls "[]" sample_args]
  by simp

section \<open>Storage\<close>

lemma sload_fallback_nonzero [simp]:
  "bs \<noteq> replicate 32 0 \<Longrightarrow> sload_fallback E A k bs m = (bs, m)"
  by (simp add: sload_fallback_def)

text \<open>The slot as the run sees it, without the database.\<close>

definition slot_of :: "interpreter_args \<Rightarrow> 'd machine \<Rightarrow> u256 \<Rightarrow> bytes" where
  "slot_of A m key = slot_lookup (world_state (execution_context m)) (contract_address A) (fmt_064x key)"

lemma sload_step:
  assumes "evm_stack m = key # st" "gas_room 100 m" "slot_of A m key = to_big_endian v" "v \<noteq> 0"
  shows "op_sload E A m = Next 1 (after_gas 100 (push v (with_stack st m)))"
proof -
  have "to_big_endian v \<noteq> replicate 32 0" using assms(4) by (simp add: to_big_endian_eq_zeros)
  with assms show ?thesis
    by (simp add: op_sload_def slot_of_def Let_def or_panic_def charge_room[of 100])
qed

lemma sstore_step:
  assumes "evm_stack m = key # v # st" "gas_room 100 m"
  shows "\<exists>m'. op_sstore A m = Next 1 (after_gas 100 m') \<and> evm_stack m' = st \<and> (\<forall>n. gas_room n m' = gas_room n m) \<and>
    (\<forall>k. slot_of A m' k = (if k = key then to_big_endian v else slot_of A m k)) \<and>
    storage_manager (execution_context m') = storage_manager (execution_context m)"
proof -
  define m1 where "m1 = (with_stack st m)\<lparr>temp_storage_writes := hm_insert (fmt_064x key) (to_big_endian v) (temp_storage_writes m)\<rparr>"
  define m' where "m' = upd_world (\<lambda>ws. set_storage ws (contract_address A) (fmt_064x key) (to_big_endian v)) m1"
  have "gas_room n m' = gas_room n m" for n by (simp add: m'_def m1_def)
  moreover from this[of 100] have "op_sstore A m = Next 1 (after_gas 100 m')"
    using assms by (simp add: op_sstore_def m'_def m1_def Let_def charge_room[of 100])
  ultimately show ?thesis
    by (intro exI[of _ m']) (auto simp: m'_def m1_def slot_of_def slot_lookup_set_storage)
qed

text \<open>C36: after SSTORE of a non-zero value an SLOAD of the same key gives that value, whatever the
  database holds, and an SLOAD of a different key that reads a non-zero word gives the word it
  would have given before.\<close>

theorem sstore_sload:
  assumes "evm_stack m = key # v # st" "gas_room 200 m"
    and "w \<noteq> 0" "if k = key then w = v else slot_of A m k = to_big_endian w"
  shows "\<exists>m1 m2. dispatch E exec prog A 0x55 m = Next 1 m1 \<and>
    dispatch E exec prog A 0x54 (push k m1) = Next 1 m2 \<and> evm_stack m2 = w # st"
proof -
  obtain m' where s: "op_sstore A m = Next 1 (after_gas 100 m')" "evm_stack m' = st" "\<forall>n. gas_room n m' = gas_room n m"
    "\<forall>k. slot_of A m' k = (if k = key then to_big_endian v else slot_of A m k)"
    using sstore_step[OF assms(1) gas_room_mono[OF assms(2)], of A] by auto
  have "gas_room 100 (push k (after_gas 100 m'))"
    using gas_room_after[of 200 m' 100 100] s(3) assms(2) by simp
  moreover have "slot_of A (push k (after_gas 100 m')) k = to_big_endian w"
    using s(4) assms(4) by (auto simp: slot_of_def split: if_splits)
  ultimately show ?thesis
    using sload_step[of "push k (after_gas 100 m')" k st A w E] s(1,2) assms(3) by simp
qed

theorem sstore_sload_witness:
  "\<exists>m1 m2. dispatch sample_externals no_calls [] sample_args 0x55 (sample_machine [5, 77]) = Next 1 m1 \<and>
    dispatch sample_externals no_calls [] sample_args 0x54 (push 5 m1) = Next 1 m2 \<and> evm_stack m2 = [77]"
  using sstore_sload[of "sample_machine [5, 77]" 5 77 "[]" 77 5 sample_args sample_externals no_calls "[]"]
  by simp

lemma be32_of_from_big_endian: "length bs \<le> 32 \<Longrightarrow> from_big_endian bs = Some (be32 bs)"
  by (simp add: from_big_endian_def be32_def)

text \<open>C37: storing zero does not clear a slot that the database knows: after SSTORE of 0 an SLOAD
  of the key gives the value in the database, because the fallback of SLOAD takes a zero word
  for an absent one.\<close>

theorem sstore_zero_resurrects:
  assumes "evm_stack m = key # 0 # st" "gas_room 200 m"
    and "storage_manager (execution_context m) = Some db"
    and "db_read E db (storage_key (contract_address A) (fmt_064x key)) = Some (to_big_endian v)" "v \<noteq> 0"
  shows "\<exists>m1 m2. dispatch E exec prog A 0x55 m = Next 1 m1 \<and>
    dispatch E exec prog A 0x54 (push key m1) = Next 1 m2 \<and> evm_stack m2 = v # st"
proof -
  obtain m' where s: "op_sstore A m = Next 1 (after_gas 100 m')" "evm_stack m' = st" "\<forall>n. gas_room n m' = gas_room n m"
    "\<forall>k. slot_of A m' k = (if k = key then to_big_endian 0 else slot_of A m k)"
    "storage_manager (execution_context m') = storage_manager (execution_context m)"
    using sstore_step[OF assms(1) gas_room_mono[OF assms(2)], of A] by auto
  let ?m1 = "after_gas 100 m'"
  have z: "slot_lookup (world_state (execution_context m')) (contract_address A) (fmt_064x key) = replicate 32 0"
    using s(4) by (auto simp: slot_of_def to_big_endian_eq_zeros)
  have v: "to_big_endian v \<noteq> replicate 32 0" "to_big_endian v \<noteq> []"
    using assms(5) to_big_endian_eq_zeros[of v] length_to_big_endian[of v] by (auto simp del: length_to_big_endian)
  have "gas_room 100 ?m1" using gas_room_after[of 200 m' 100 100] s(3) assms(2) by simp
  then have "\<exists>m2. op_sload E A (push key ?m1) = Next 1 m2 \<and> evm_stack m2 = v # st"
    using s assms z v
    by (simp add: op_sload_def Let_def or_panic_def sload_fallback_def charge_room[of 100])
  with s(1) show ?thesis by auto
qed

theorem sstore_zero_resurrects_witness:
  "\<exists>m1 m2. dispatch sample_externals no_calls [] sample_args 0x55
      (upd_context (\<lambda>c. c\<lparr>storage_manager := Some [(storage_key ''vault'' (fmt_064x 5), to_big_endian 9)]\<rparr>)
        (sample_machine [5, 0])) = Next 1 m1 \<and>
    dispatch sample_externals no_calls [] sample_args 0x54 (push 5 m1) = Next 1 m2 \<and> evm_stack m2 = [9]"
  by (rule sstore_zero_resurrects[where key = 5 and v = 9 and db = "[(storage_key ''vault'' (fmt_064x 5), to_big_endian 9)]"])
     (simp_all add: gas_room_def sample_machine_def initial_machine_def initial_context_def
       sample_args_def)

text \<open>TSTORE takes the value from the top of the stack and the key below it; a TLOAD of the
  same key then gives the value, zero included, and one of another key is not affected.\<close>

theorem tstore_tload:
  assumes "evm_stack m = v # key # st" "gas_room 200 m"
    and "if k = key then w = v
      else hm_get (transient_storage (world_state (execution_context m))) (to_big_endian k) = Some (to_big_endian w)"
  shows "\<exists>m1 m2. dispatch E exec prog A 0x5d m = Next 1 m1 \<and>
    dispatch E exec prog A 0x5c (push k m1) = Next 1 m2 \<and> evm_stack m2 = w # st"
proof -
  define m1 where "m1 = upd_world (\<lambda>ws. ws\<lparr>transient_storage :=
       (if v = 0 then hm_remove (to_big_endian key) (transient_storage ws)
        else hm_insert (to_big_endian key) (to_big_endian v) (transient_storage ws))\<rparr>) (with_stack st m)"
  have g: "gas_room n m1 = gas_room n m" for n by (simp add: m1_def)
  have st: "op_tstore m = Next 1 (after_gas 100 m1)"
    using assms(1,2) gas_room_mono[OF assms(2), of 100] unfolding m1_def
    by (simp add: op_tstore_def charge_room[of 100] Let_def)
  have "gas_room 100 (push k (after_gas 100 m1))"
    using gas_room_after[of 200 m1 100 100] g assms(2) by simp
  moreover have "be32 (replicate 32 0) = 0" by (simp add: be32_def)
  ultimately have "op_tload (push k (after_gas 100 m1)) = Next 1 (after_gas 100 (with_stack (w # st) (push k (after_gas 100 m1))))"
    using assms(3) by (auto simp: op_tload_def charge_room[of 100] m1_def split: if_splits)
  with st show ?thesis by simp
qed

theorem tstore_tload_witness:
  "\<exists>m1 m2. dispatch sample_externals no_calls [] sample_args 0x5d (sample_machine [0, 5]) = Next 1 m1 \<and>
    dispatch sample_externals no_calls [] sample_args 0x5c (push 5 m1) = Next 1 m2 \<and> evm_stack m2 = [0]"
  using tstore_tload[of "sample_machine [0, 5]" 0 5 "[]" 5 0 sample_externals no_calls "[]" sample_args]
  by simp

section \<open>Call data\<close>

lemma usize_add_wraps: "0 < i \<Longrightarrow> i \<le> 32 \<Longrightarrow> usize_add False usize_max i = Some (i - 1)"
  by (cases i) (simp_all add: usize_add_def)

lemma load_word_wraps:
  assumes "length calldata \<le> usize_max"
  shows "load_word oc calldata usize_max =
    (if oc then None else Some (0 # map (\<lambda>i. if i < length calldata then calldata ! i else 0) [0..<31]))"
proof (cases oc)
  case True
  have "[0..<32] = 0 # 1 # [2..<32]" by (simp add: upt_conv_Cons)
  moreover have "usize_add True usize_max 1 = None" by (simp add: usize_add_def)
  ultimately show ?thesis using True by (simp add: load_word_def)
next
  case False
  have tail: "map (\<lambda>i. do { s \<leftarrow> usize_add False usize_max i; Some (if s < length calldata then calldata ! s else 0) }) [1..<32]
      = map (\<lambda>i. Some (if i < length calldata then calldata ! i else 0)) [0..<31]"
    by (intro nth_equalityI) (simp_all add: usize_add_wraps)
  have "[0..<32] = 0 # [1..<32]" by (simp add: upt_conv_Cons)
  then have "load_word False calldata usize_max =
      those (Some 0 # map (\<lambda>i. Some (if i < length calldata then calldata ! i else 0)) [0..<31])"
    using assms unfolding load_word_def by (simp only: list.map tail) simp
  then show ?thesis using False by simp
qed

text \<open>CALLDATALOAD gives the 32 bytes of the call data from the offset on, zero-extended and
  read big-endian.  From an offset of \<open>2 ^ 64\<close> on, where the EVM gives 0, the \<open>usize\<close> index
  overflows: a build with overflow checks panics, and one without wraps around and returns the
  first 31 bytes of the call data.\<close>

theorem calldataload_value:
  assumes "evm_stack m = off # st" "gas_room 3 m" "length (state_data A) \<le> usize_max"
    and "unat off + 31 \<le> usize_max \<or> 2 ^ 64 \<le> unat off"
  shows "dispatch E exec prog A 0x35 m =
    (if unat off + 31 \<le> usize_max then
       Next 1 (after_gas 3 (with_stack
         (be32 (map (\<lambda>i. if unat off + i < length (state_data A) then state_data A ! (unat off + i) else 0) [0..<32])
          # st) m))
     else if overflow_checks E then Panic
     else Next 1 (after_gas 3 (with_stack
         (be32 (0 # map (\<lambda>i. if i < length (state_data A) then state_data A ! i else 0) [0..<31]) # st) m)))"
proof (cases "unat off + 31 \<le> usize_max")
  case True
  then have "as_usize_or_fail off = unat off" by (intro as_usize_or_fail_small) simp
  with True assms show ?thesis
    by (simp add: op_calldataload_def load_word_in_range or_panic_def charge_room[of 3])
next
  case False
  then have "as_usize_or_fail off = usize_max" using assms(4) by (intro as_usize_or_fail_large) simp
  with False assms show ?thesis
    by (simp add: op_calldataload_def load_word_wraps or_panic_def charge_room[of 3] split del: if_split)
       (simp split: if_split)
qed

theorem calldataload_value_witness:
  "dispatch sample_externals no_calls [] (sample_args\<lparr>state_data := replicate 31 1\<rparr>) 0x35 (sample_machine [2 ^ 64]) =
     Next 1 (after_gas 3 (with_stack [be32 (0 # replicate 31 1)] (sample_machine [2 ^ 64])))"
proof -
  let ?A = "sample_args\<lparr>state_data := replicate 31 1\<rparr>"
  have "map (\<lambda>i. if i < length (state_data ?A) then state_data ?A ! i else 0) [0..<31] = replicate 31 1"
    by (intro nth_equalityI) simp_all
  then show ?thesis
    using calldataload_value[of "sample_machine [2 ^ 64]" "2 ^ 64" "[]" "sample_args\<lparr>state_data := replicate 31 1\<rparr>"
      sample_externals no_calls "[]"] by simp
qed

section \<open>Stack\<close>

text \<open>PUSH1 to PUSH32 push the big-endian value of the bytes that follow in the program,
  taken as zero past its end, and advance past them.\<close>

theorem push_value:
  assumes "gas_room 3 m" "k < 32"
  shows "dispatch E exec prog A (0x60 + k) m =
    Next (k + 2) (after_gas 3 (push (be32 (take (k + 1) (drop (bytecode_pc m + 1) prog @ replicate 32 0))) m))"
proof -
  have "map (\<lambda>i. if bytecode_pc m + 1 + i < length prog then prog ! (bytecode_pc m + 1 + i) else 0) [0..<k + 1]
      = take (k + 1) (drop (bytecode_pc m + 1) prog @ replicate 32 0)"
    using assms(2) by (intro nth_equalityI) (auto simp: nth_append not_less simp del: upt_Suc)
  moreover have "be32 (replicate n 0 @ bs) = be32 bs" for n bs by (simp add: be32_def)
  ultimately have "op_push prog (0x60 + k) m =
      charge 3 (Next (k + 2)) (push (be32 (take (k + 1) (drop (bytecode_pc m + 1) prog @ replicate 32 0))) m)"
    by (simp add: op_push_def Let_def)
  then show ?thesis using assms by (simp add: dispatch_ranges charge_room[of 3])
qed

theorem push_value_witness:
  "dispatch sample_externals no_calls [0x61, 0x12] sample_args (0x60 + 1) (sample_machine []) =
     Next 3 (after_gas 3 (push 0x1200 (sample_machine [])))"
  using push_value[of "sample_machine []" 1 sample_externals no_calls "[0x61, 0x12]" sample_args]
  by (simp add: be32_def be_val_def)

text \<open>SWAPn exchanges the top of the stack with the entry \<open>n\<close> below it, leaves the rest alone,
  and a second SWAPn restores the stack.\<close>

theorem swap_involution:
  assumes "gas_room 6 m" "k < 16" "k + 1 < length (evm_stack m)"
  shows "\<exists>m1 m2. dispatch E exec prog A (0x90 + k) m = Next 1 m1 \<and>
    length (evm_stack m1) = length (evm_stack m) \<and>
    (\<forall>i < length (evm_stack m). evm_stack m1 ! i =
       evm_stack m ! (if i = 0 then k + 1 else if i = k + 1 then 0 else i)) \<and>
    dispatch E exec prog A (0x90 + k) m1 = Next 1 m2 \<and> evm_stack m2 = evm_stack m"
proof -
  let ?st = "evm_stack m"
  define m1 where "m1 = after_gas 3 (with_stack (?st[0 := ?st ! (k + 1), k + 1 := ?st ! 0]) m)"
  have s1: "op_swap (0x90 + k) m = Next 1 m1"
    using assms by (simp add: op_swap_def Let_def charge_room[of 6] m1_def)
  have "gas_room 3 m1" unfolding m1_def by (rule gas_room_after[of 6]) (use assms(1) in simp_all)
  then have s2: "op_swap (0x90 + k) m1 =
      Next 1 (after_gas 3 (with_stack ((evm_stack m1)[0 := evm_stack m1 ! (k + 1), k + 1 := evm_stack m1 ! 0]) m1))"
    using assms by (simp add: op_swap_def Let_def charge_room[of 3] m1_def)
  have ne: "?st \<noteq> []" using assms(3) by auto
  have nths: "\<forall>i < length ?st. evm_stack m1 ! i = ?st ! (if i = 0 then k + 1 else if i = k + 1 then 0 else i)"
    using assms ne by (auto simp: m1_def nth_list_update)
  have "(evm_stack m1)[0 := evm_stack m1 ! (k + 1), k + 1 := evm_stack m1 ! 0] = ?st"
    using assms ne by (intro nth_equalityI) (auto simp: m1_def nth_list_update)
  with s1 s2 nths assms(2) show ?thesis by (simp add: dispatch_ranges m1_def)
qed

theorem swap_involution_witness:
  "\<exists>m1 m2. dispatch sample_externals no_calls [] sample_args (0x90 + 1) (sample_machine [7, 8, 9]) = Next 1 m1 \<and>
    dispatch sample_externals no_calls [] sample_args (0x90 + 1) m1 = Next 1 m2 \<and> evm_stack m2 = [7, 8, 9]"
  using swap_involution[of "sample_machine [7, 8, 9]" 1 sample_externals no_calls "[]" sample_args]
  by auto

section \<open>Copying\<close>

lemma copy_gas_small:
  assumes "n \<le> max_mem"
  shows "unat (3 + of_nat (3 * ((n + 31) div 32)) :: u64) = 3 + 3 * ((n + 31) div 32)"
proof -
  have "3 + 3 * ((n + 31) div 32) < 2 ^ 64" using assms by simp
  then have "unat (of_nat (3 + 3 * ((n + 31) div 32)) :: u64) = 3 + 3 * ((n + 31) div 32)"
    by (simp only: unat_of_nat) simp
  then show ?thesis by (simp only: of_nat_add of_nat_numeral)
qed

lemma abs_mem_copy_result:
  assumes "dest + n \<le> mem_len mem"
  shows "abs_mem (copy_result src dest off n mem) i =
    (if dest \<le> i \<and> i < dest + n
     then (let j = off + (i - dest) in if j < length src then src ! j else 0) else abs_mem mem i)"
  using assms by (cases "dest \<le> i \<and> i < dest + n") (auto simp: abs_mem_def copy_result_def)

text \<open>The copy opcodes share this step.\<close>

lemma copy_to_memory_fits:
  assumes "memory_bounded m" "unat d + unat n \<le> max_mem" "unat s + unat n \<le> usize_max"
    and "\<And>m. source m = (src, m)"
  shows "\<exists>mem'. copy_to_memory oc name base source d s n m =
      charge (base + of_nat (3 * ((unat n + 31) div 32))) (Next 1) (with_mem mem' m) \<and>
    (\<forall>i. abs_mem mem' i =
      (if unat d \<le> i \<and> i < unat d + unat n
       then (let j = unat s + (i - unat d) in if j < length src then src ! j else 0)
       else abs_mem (global_mem m) i))"
proof -
  have d: "as_usize_or_fail d = unat d" using assms(2) by (intro as_usize_or_fail_small) simp
  have s: "as_usize_or_fail s = unat s" using assms(3) by (intro as_usize_or_fail_small) simp
  have n: "as_usize_or_fail n = unat n" using assms(2) by (intro as_usize_or_fail_small) simp
  obtain mem1 where r: "resize_memory_ebpf (global_mem m) (unat d) (unat n) = (mem1, True)"
    "unat d + unat n \<le> mem_len mem1" "abs_mem mem1 = abs_mem (global_mem m)"
    using resize_in_range[OF assms(2)] by blast
  have "mem_len mem1 \<le> max_mem" using resize_len_bound[OF r(1)] assms(1) by (simp add: memory_bounded_def)
  then have c: "copy_bytes oc src (unat d) (unat s) (unat n) mem1
      = Some (copy_result src (unat d) (unat s) (unat n) mem1)"
    using r(2) assms(3) by (intro copy_bytes_fits) simp_all
  have a: "u256_add s n = Some (s + n)" using assms(2,3) by (intro u256_add_below) simp_all
  have w: "word_count oc (unat n) = Some ((unat n + 31) div 32)"
    using assms(2) by (simp add: word_count_def)
  have "copy_to_memory oc name base source d s n m =
      charge (base + of_nat (3 * ((unat n + 31) div 32))) (Next 1)
        (with_mem (copy_result src (unat d) (unat s) (unat n) mem1) m)"
    unfolding copy_to_memory_def with_resize_def Let_def d s n r(1) prod.case assms(4)
      or_panic_def if_True with_mem_fields c a w option.case with_mem_with_mem by (rule refl)
  moreover have "abs_mem (copy_result src (unat d) (unat s) (unat n) mem1) i =
      (if unat d \<le> i \<and> i < unat d + unat n
       then (let j = unat s + (i - unat d) in if j < length src then src ! j else 0)
       else abs_mem (global_mem m) i)" for i
    unfolding abs_mem_copy_result[OF r(2)] r(3) by (rule refl)
  ultimately show ?thesis by blast
qed

text \<open>C40: CALLDATACOPY copies the requested range of the call data, zero-extended, to the memory
  and changes nothing else there, for every destination below 16 MiB and every source offset
  whose range does not leave \<open>usize\<close>.\<close>

theorem calldatacopy_copies:
  assumes "evm_stack m = d # s # n # st" "memory_bounded m"
    and "unat d + unat n \<le> max_mem" "unat s + unat n \<le> usize_max"
    and "gas_room (3 + 3 * ((unat n + 31) div 32)) m"
  shows "\<exists>m'. dispatch E exec prog A 0x37 m = Next 1 m' \<and> evm_stack m' = st \<and>
    (\<forall>i. abs_mem (global_mem m') i =
      (if unat d \<le> i \<and> i < unat d + unat n
       then (let j = unat s + (i - unat d) in if j < length (state_data A) then state_data A ! j else 0)
       else abs_mem (global_mem m) i))"
proof -
  have m: "memory_bounded (with_stack st m)" using assms(2) by (simp add: memory_bounded_def)
  from copy_to_memory_fits[OF m assms(3,4), of "\<lambda>m. (state_data A, m)" "state_data A" "overflow_checks E" "''CALLDATACOPY''" 3]
  obtain mem' where c: "op_calldatacopy E A m =
      charge (3 + of_nat (3 * ((unat n + 31) div 32))) (Next 1) (with_mem mem' (with_stack st m))"
    and u: "\<forall>i. abs_mem mem' i =
      (if unat d \<le> i \<and> i < unat d + unat n
       then (let j = unat s + (i - unat d) in if j < length (state_data A) then state_data A ! j else 0)
       else abs_mem (global_mem m) i)"
    using assms(1) by (auto simp: op_calldatacopy_def)
  have "gas_room (3 + 3 * ((unat n + 31) div 32)) (with_mem mem' (with_stack st m))" using assms(5) by simp
  moreover have "unat (3 + of_nat (3 * ((unat n + 31) div 32)) :: u64) = 3 + 3 * ((unat n + 31) div 32)"
    using assms(3) by (intro copy_gas_small) linarith
  ultimately have "op_calldatacopy E A m =
      Next 1 (after_gas (3 + of_nat (3 * ((unat n + 31) div 32))) (with_mem mem' (with_stack st m)))"
    unfolding c by (intro charge_room) (assumption, simp only: order_refl)
  then show ?thesis using u by simp
qed

theorem calldatacopy_copies_witness:
  "\<exists>m'. dispatch sample_externals no_calls [] (sample_args\<lparr>state_data := [1, 2]\<rparr>) 0x37 (sample_machine [4, 1, 3]) =
      Next 1 m' \<and> evm_stack m' = [] \<and> abs_mem (global_mem m') 4 = 2"
proof -
  have "\<exists>m'. dispatch sample_externals no_calls [] (sample_args\<lparr>state_data := [1, 2]\<rparr>) 0x37 (sample_machine [4, 1, 3]) =
      Next 1 m' \<and> evm_stack m' = [] \<and>
    (\<forall>i. abs_mem (global_mem m') i =
      (if unat (4 :: u256) \<le> i \<and> i < unat (4 :: u256) + unat (3 :: u256)
       then (let j = unat (1 :: u256) + (i - unat (4 :: u256)) in
         if j < length (state_data (sample_args\<lparr>state_data := [1, 2]\<rparr>))
         then state_data (sample_args\<lparr>state_data := [1, 2]\<rparr>) ! j else 0)
       else abs_mem (global_mem (sample_machine [4, 1, 3])) i))"
    by (rule calldatacopy_copies) (simp_all add: memory_bounded_def)
  then show ?thesis by (auto simp: Let_def)
qed

end
