(* ===== verification/Evm_Run_Claims.thy ===== *)
theory Evm_Run_Claims
  imports Evm_Steps
begin

text \<open>
  Whole runs of \<open>execute_program\<close>: the bounds that hold at every loop head, fuel, gas, the call
  depth, control flow, the owner check, and what a caller reads from the result of a callee.
\<close>

section \<open>Every loop head\<close>

lemma initial_machine_fields [simp]:
  "evm_stack (initial_machine A c) = []" "bytecode_pc (initial_machine A c) = 0"
  "temp_storage_writes (initial_machine A c) = []"
  by (simp_all add: initial_machine_def)

lemma sample_one_push:
  "reaches sample_externals no_calls [0x5f] sample_args (sample_machine [])
     ((after_gas 2 (push 0 (sample_machine [])))\<lparr>bytecode_pc := 1\<rparr>)"
  by (rule reaches.pass[OF reaches.start])
     (simp_all add: iterate_def op_push0_def charge_room[of 2] end_of_body_def)

lemma sample_machine_initial:
  "sample_machine [] = initial_machine sample_args (initial_context sample_externals sample_args None None False)"
  by (simp add: sample_machine_def initial_machine_def)

text \<open>C1: at every loop head of a run the memory is at least its initial 64 KiB and at most
  16 MiB long.\<close>

theorem memory_stays_bounded:
  assumes "reaches E exec prog A (initial_machine A c) m"
  shows "65536 \<le> mem_len (global_mem m) \<and> mem_len (global_mem m) \<le> 16777216"
  using memory.reached[OF assms memory_bounded_initial] by (simp add: memory_bounded_def)

theorem memory_stays_bounded_witness:
  "\<exists>m. bytecode_pc m = 1 \<and> 65536 \<le> mem_len (global_mem m) \<and>
     reaches sample_externals no_calls [0x5f] sample_args (sample_machine []) m"
  using memory_stays_bounded[OF sample_one_push[unfolded sample_machine_initial]] sample_one_push
  by (intro exI[of _ "(after_gas 2 (push 0 (sample_machine [])))\<lparr>bytecode_pc := 1\<rparr>"])
     (simp add: sample_machine_initial)

text \<open>C2: at every loop head of a run the stack holds at most 1024 words: the check at the end of
  the body catches every arm that pushes, and the arms that skip it with \<open>continue\<close> leave the
  stack no longer than they found it.\<close>

theorem stack_stays_bounded:
  assumes "reaches E exec prog A (initial_machine A c) m"
  shows "length (evm_stack m) \<le> 1024"
  using stack.reached[OF assms stack_bounded_initial] by (simp add: stack_bounded_def)

theorem stack_stays_bounded_witness:
  "\<exists>m. evm_stack m = [0] \<and> length (evm_stack m) \<le> 1024 \<and>
     reaches sample_externals no_calls [0x5f] sample_args (sample_machine []) m"
  using stack_stays_bounded[OF sample_one_push[unfolded sample_machine_initial]] sample_one_push
  by (intro exI[of _ "(after_gas 2 (push 0 (sample_machine [])))\<lparr>bytecode_pc := 1\<rparr>"])
     (simp add: sample_machine_initial)

text \<open>C39: during a run \<open>gas_remaining\<close> keeps the gas limit of the call (it is what the opcode GAS
  pushes), \<open>gas_used\<close> does not decrease, the logs are only appended to, and the block context
  and the chain id do not change.\<close>

theorem run_frame:
  assumes "reaches E exec prog A (initial_machine A (initial_context E A sm s cb)) m0"
    and "reaches E exec prog A m0 m"
  shows "gas_remaining (execution_context m) = gas_limit A \<and>
    gas_used (execution_context m0) \<le> gas_used (execution_context m) \<and>
    prefix (logs (execution_context m0)) (logs (execution_context m)) \<and>
    block_info (world_state (execution_context m)) = block_info (default_world_state E) \<and>
    chain_id (world_state (execution_context m)) = 45056"
proof -
  have "context_extends (execution_context (initial_machine A (initial_context E A sm s cb))) (execution_context m0)"
    using frame.related[OF assms(1)] by (simp add: extends_def)
  moreover have "context_extends (execution_context m0) (execution_context m)"
    using frame.related[OF assms(2)] by (simp add: extends_def)
  moreover have "block_info (world_state (initial_context E A sm s cb)) = block_info (default_world_state E)"
    "chain_id (world_state (initial_context E A sm s cb)) = 45056"
    by (simp_all add: initial_context_def default_world_state_def Let_def split: option.split)
  ultimately show ?thesis
    by (simp add: context_extends_def initial_machine_def set_balance_def Let_def initial_context_def)
qed

theorem run_frame_witness:
  "\<exists>m. bytecode_pc m = 1 \<and> gas_remaining (execution_context m) = gas_limit sample_args \<and>
     reaches sample_externals no_calls [0x5f] sample_args (sample_machine []) m"
  using run_frame[OF reaches.start sample_one_push[unfolded sample_machine_initial]] sample_one_push
  by (intro exI[of _ "(after_gas 2 (push 0 (sample_machine [])))\<lparr>bytecode_pc := 1\<rparr>"])
     (simp add: sample_machine_initial)

section \<open>Fuel\<close>



section \<open>Call depth\<close>


text \<open>At depth 1024 no call arm uses the recursive call.\<close>

named_theorems depth_intros \<open>congruence of the arms in what they do below the depth limit\<close>

lemma with_resize_cong [depth_intros]:
  "(\<And>m. k m = k' m) \<Longrightarrow> with_resize off sz reason k m = with_resize off sz reason k' m"
  by (simp add: with_resize_def Let_def split: prod.split)

lemma or_panic_cong [depth_intros]: "(\<And>v. r = Some v \<Longrightarrow> k v = k' v) \<Longrightarrow> or_panic r k = or_panic r k'"
  by (simp add: or_panic_def split: option.split)

lemma if_cong_depth [depth_intros]:
  "(b \<Longrightarrow> x = x') \<Longrightarrow> (\<not> b \<Longrightarrow> y = y') \<Longrightarrow> (if b then x else y) = (if b then x' else y')"
  by simp

lemma pair_cong_depth [depth_intros]:
  "(\<And>a b. k a b = k' a b) \<Longrightarrow> (case p of (a, b) \<Rightarrow> k a b) = (case p of (a, b) \<Rightarrow> k' a b)"
  by (simp split: prod.split)






section \<open>Gas is not enforced\<close>

text \<open>The loop JUMPDEST, PUSH0, JUMP: what holds at its heads.\<close>

definition in_spin :: "'d machine \<Rightarrow> bool" where
  "in_spin m \<longleftrightarrow> (bytecode_pc m = 0 \<or> bytecode_pc m = 1) \<and> evm_stack m = [] \<or>
     bytecode_pc m = 2 \<and> evm_stack m = [0]"

abbreviation spin :: bytes where
  "spin \<equiv> [0x5b, 0x5f, 0x56]"

lemma charge_Next_cases:
  "charge g (Next n) m = Panic \<or> (\<exists>m'. charge g (Next n) m = Next n m' \<and> evm_stack m' = evm_stack m \<and> bytecode_pc m' = bytecode_pc m)"
  by (auto simp: charge_def split: option.split)

lemma charge_Jumped_cases:
  "charge g Jumped m = Panic \<or> (\<exists>m'. charge g Jumped m = Jumped m' \<and> evm_stack m' = evm_stack m \<and> bytecode_pc m' = bytecode_pc m)"
  by (auto simp: charge_def split: option.split)

lemma spin_pass:
  assumes "in_spin m"
  shows "iterate E exec spin A m = Inr Crashed \<or> (\<exists>m'. iterate E exec spin A m = Inl m' \<and> in_spin m')"
proof -
  consider "bytecode_pc m = 0" "evm_stack m = []" | "bytecode_pc m = 1" "evm_stack m = []"
    | "bytecode_pc m = 2" "evm_stack m = [0]"
    using assms by (auto simp: in_spin_def)
  then show ?thesis
  proof cases
    case 1
    then show ?thesis using charge_Next_cases[of 1 1 m]
      by (auto simp: iterate_def op_jumpdest_def end_of_body_def in_spin_def)
  next
    case 2
    then show ?thesis using charge_Next_cases[of 2 1 "push 0 m"]
      by (auto simp: iterate_def op_push0_def end_of_body_def in_spin_def)
  next
    case 3
    then show ?thesis using charge_Jumped_cases[of 8 "(with_stack [] m)\<lparr>bytecode_pc := 0\<rparr>"]
      by (auto simp: iterate_def op_jump_def end_of_body_def in_spin_def as_usize_saturated_eq as_usize_or_fail_small)
  qed
qed

lemma spin_run: "in_spin m \<Longrightarrow> run fuel E exec spin A m = Out_Of_Fuel \<or> run fuel E exec spin A m = Crashed"
proof (induction fuel arbitrary: m)
  case (Suc fuel)
  then have pc: "bytecode_pc m < length spin" by (auto simp: in_spin_def)
  from spin_pass[OF Suc.prems, of E exec A] show ?case
  proof (elim disjE exE conjE)
    assume "iterate E exec spin A m = Inr Crashed"
    with pc show ?thesis by simp
  next
    fix m' assume "iterate E exec spin A m = Inl m'" "in_spin m'"
    with pc Suc.IH[of m'] show ?thesis by simp
  qed
qed simp

text \<open>C38: the gas limit does not stop a run: the program JUMPDEST, PUSH0, JUMP called without
  call data never gives a result, for any gas limit (0 included) and any amount of fuel.\<close>

theorem gas_limit_not_enforced:
  assumes "state_data A = []"
  shows "execute_program fuel E (Some spin) A sm s cb \<noteq> Done db evs r"
proof (cases fuel)
  case (Suc f)
  have "in_spin (initial_machine A c)" for c :: "'a uvm_context" by (simp add: in_spin_def)
  then have "run f E exec spin A (initial_machine A c) \<noteq> Done db evs r" for exec c
    using spin_run[of "initial_machine A c" f E exec A] by auto
  then show ?thesis
    using assms Suc
    by (simp add: Let_def permission_granted_def extract_function_selector_def split: option.split)
qed simp

theorem gas_limit_not_enforced_witness:
  "execute_program 100 sample_externals (Some spin) sample_args None None False \<noteq> Done None [] (Inr JNull)"
  by (rule gas_limit_not_enforced) (simp add: sample_args_def)

section \<open>Control flow\<close>

text \<open>JUMP goes to any target below \<open>2 ^ 64\<close> on the stack; the byte there need not be
  JUMPDEST, so execution can enter the data bytes of a PUSH.\<close>

theorem jump_unchecked:
  assumes "evm_stack m = target # st" "unat target < 2 ^ 64" "gas_room 8 m"
    and "length st \<le> 1024" "prog ! bytecode_pc m = 0x56"
  shows "iterate E exec prog A m = Inl (after_gas 8 ((with_stack st m)\<lparr>bytecode_pc := unat target\<rparr>))"
  using assms
  by (simp add: iterate_def op_jump_def charge_room[of 8] end_of_body_def as_usize_saturated_eq as_usize_or_fail_small)

theorem jump_unchecked_witness:
  "iterate sample_externals no_calls [0x56, 0x60, 0x00] sample_args (sample_machine [2]) =
     Inl (after_gas 8 ((with_stack [] (sample_machine [2]))\<lparr>bytecode_pc := 2\<rparr>))"
  using jump_unchecked[of "sample_machine [2]" 2 "[]" "[0x56, 0x60, 0x00]" sample_externals no_calls sample_args]
  by simp

text \<open>an MCOPY of length 0 executes \<open>continue\<close> without advancing: it pops its operands and the
  same MCOPY is executed again, on the three words below.\<close>

theorem mcopy_zero_repeats:
  assumes "evm_stack m = 0 # src # dst # st" "gas_room 3 m" "prog ! bytecode_pc m = 0x5e"
  shows "\<exists>m'. iterate E exec prog A m = Inl m' \<and> bytecode_pc m' = bytecode_pc m \<and> evm_stack m' = st"
proof -
  have "as_usize_or_fail 0 = 0" by (simp add: as_usize_or_fail_small)
  with assms show ?thesis
    by (simp add: iterate_def op_mcopy_def charge_room[of 3] or_panic_def word_count_def Let_def)
qed

theorem mcopy_zero_repeats_witness:
  "\<exists>m'. iterate sample_externals no_calls [0x5e] sample_args (sample_machine [0, 1, 2]) = Inl m' \<and>
     bytecode_pc m' = 0 \<and> evm_stack m' = []"
  using mcopy_zero_repeats[of "sample_machine [0, 1, 2]" 1 2 "[]" "[0x5e]" sample_externals no_calls sample_args]
  by simp

lemma as_usize_zero [simp]: "as_usize_or_fail 0 = 0" "as_usize_saturated 0 = 0"
  by (simp_all add: as_usize_saturated_eq as_usize_or_fail_small)

lemma resize_zero [simp]: "resize_memory_ebpf mem 0 0 = (mem, True)"
  by (simp add: resize_memory_ebpf_def)

lemma slice_zero [simp]: "memory_slice_len mem 0 0 = []"
  by (simp add: memory_slice_len_def)

text \<open>A STATICCALL that reaches its callee advances the program counter twice: the opcode
  after it is skipped.  (Stated for empty input and output ranges.)\<close>

theorem staticcall_skips_next_opcode:
  assumes "evm_stack m = g # t # 0 # 0 # 0 # 0 # st" "gas_room 700 m" "prog ! bytecode_pc m = 0xfa"
    and "cached_code (world_state (execution_context m)) (u256_to_address E t) \<noteq> []"
    and "call_depth A < 1024" "length st < 1024" "\<And>p A sm s cb. exec p A sm s cb = Done db evs r"
  shows "\<exists>m'. iterate E exec prog A m = Inl m' \<and> bytecode_pc m' = bytecode_pc m + 2"
proof -
  have d: "u256_add (call_depth A) 1 = Some (call_depth A + 1)"
    using assms(5) by (intro u256_add_below) (simp_all add: word_less_nat_alt)
  have "uint (call_depth A + 1) = uint (call_depth A) + 1" using u256_add_Some[OF d] by simp
  then have nd: "\<not> 1024 < call_depth A + 1" using assms(5) by (simp add: word_less_def)
  obtain ok data ws where r: "read_sub_result E r = (ok, data, ws)" by (cases "read_sub_result E r") auto
  have "\<exists>m'. op_staticcall E exec A m = Next 1 m' \<and> bytecode_pc m' = bytecode_pc m + 1 \<and> length (evm_stack m') \<le> 1024"
    using assms d nd r
    by (simp add: op_staticcall_def Let_def load_code_def clean_call_data_def or_panic_def sub_call_def
        set_return_data_def charge_room[of 700] gas_room_def)
  then show ?thesis using assms(3) by (auto simp: iterate_def end_of_body_def)
qed

theorem staticcall_skips_next_opcode_witness:
  "\<exists>m'. iterate sample_externals (\<lambda>_ _ _ _ _. Done None [] (Inr create_stop_action)) [0xfa, 0x50, 0x00] sample_args
      (upd_world (\<lambda>ws. ws\<lparr>code := [(u256_to_address sample_externals 5, [0])]\<rparr>) (sample_machine [9, 5, 0, 0, 0, 0])) =
    Inl m' \<and> bytecode_pc m' = Suc (Suc 0)"
  using staticcall_skips_next_opcode[of
      "upd_world (\<lambda>ws. ws\<lparr>code := [(u256_to_address sample_externals 5, [0])]\<rparr>) (sample_machine [9, 5, 0, 0, 0, 0])"
      9 5 "[]" "[0xfa, 0x50, 0x00]" sample_externals sample_args
      "\<lambda>_ _ _ _ _. Done None [] (Inr create_stop_action)" None "[]" "Inr create_stop_action"]
  by (simp add: cached_code_def)

section \<open>What a caller reads of its callee\<close>




lemma bytes_of_slot_hex0x [simp]: "hex_ok E \<Longrightarrow> bytes_of_slot E (hex0x E bs) = bs"
  by (simp add: bytes_of_slot_def hex0x_def hex_ok_def starts_with_def)




text \<open>CALLCODE and AUTHCALL read the decoded field \<open>data\<close> instead, and that is lossy: a
  callee that returns no bytes is read as having returned the 32-byte word 1, and a return of 1 to
  8 bytes is read as 32 bytes.\<close>

theorem return_data_widened:
  assumes "length output \<le> 8"
  shows "read_sub_result_data E (Inr (return_result E output [])) =
    (True, to_big_endian (if output = [] then 1 else of_nat (be_val output)))"
proof -
  have "be_val output < 256 ^ length output" by (rule be_val_bound)
  also have "\<dots> \<le> 256 ^ 8" using assms by (intro power_increasing) simp_all
  finally have "be_val output < 18446744073709551616" by simp
  with assms show ?thesis
    by (auto simp: return_result_def create_return_action_def read_sub_result_data_def result_success_def
        result_action_def storage_written_def bytes_of_data_def decode_return_data_generic_def Let_def)
qed

theorem return_data_widened_witness:
  "read_sub_result_data sample_externals (Inr (return_result sample_externals [] [])) = (True, to_big_endian 1)"
  using return_data_widened[of "[]" sample_externals] by simp

text \<open>For a caller, a callee that reverts, halts, executes INVALID, or runs off the end of its
  code has failed, with empty return data and no storage writes; in the EVM running off the end
  is a successful STOP, and a revert hands back its data.\<close>

theorem failed_callee_is_empty:
  "r \<in> {JNull, revert_result E d, halt_json_ebpf reason, invalid_result} \<Longrightarrow>
   read_sub_result E (Inr r) = (False, [], [])"
  by (auto simp: read_sub_result_def revert_result_def halt_json_ebpf_def invalid_result_def
      result_success_def result_action_def)

theorem failed_callee_is_empty_witness:
  "read_sub_result sample_externals (Inr (revert_result sample_externals [7])) = (False, [], [])"
  by (rule failed_callee_is_empty[of _ _ "[7]"]) simp

section \<open>Owner check\<close>

lemma protected_selector:
  assumes "extract_function_selector E (state_data A) = Some sel" "sel \<in> set protected_functions"
    and "slot_lookup ws (contract_address A) owner_slot = to_big_endian owner"
  shows "permission_granted E A ws = Some (owner = encode_address_to_u256 E (caller A))"
  using assms by (simp add: permission_granted_def auto_validate_owner_permission_def)

lemma ensure_owner_kept:
  assumes "slot_lookup ws c owner_slot = to_big_endian owner" "owner \<noteq> 0"
  shows "ensure_contract_owner_initialized E ws c clr = Some ws"
proof -
  have "to_big_endian owner \<noteq> replicate 32 0" using assms(2) by (simp add: to_big_endian_eq_zeros)
  then have "\<not> list_all (\<lambda>b. b = 0) (to_big_endian owner)"
    using replicate_length_same[of "to_big_endian owner" 0] by (auto simp: list_all_iff)
  with assms show ?thesis by (simp add: ensure_contract_owner_initialized_def)
qed

lemma ensure_owner_set:
  assumes "slot_lookup ws c owner_slot = replicate 32 0"
  shows "ensure_contract_owner_initialized E ws c clr =
    Some (set_storage ws c owner_slot (to_big_endian (encode_address_to_u256 E clr)))"
  using assms by (simp add: ensure_contract_owner_initialized_def list_all_iff)

text \<open>C4: when the contract's slot 0 holds a non-zero owner word other than the caller's, a call
  of a protected selector (\<open>owner()\<close>, \<open>transferOwnership\<close>, \<open>renounceOwnership\<close>,
  \<open>upgrade\<close>) runs no opcode: the database is unchanged, no event is emitted and the result
  is the unauthorized-account revert.\<close>

theorem stranger_is_rejected:
  assumes "extract_function_selector E (state_data A) = Some sel" "sel \<in> set protected_functions"
    and "slot_lookup ((default_world_state E)\<lparr>storage := s\<rparr>) (contract_address A) owner_slot = to_big_endian owner"
    and "owner \<noteq> 0" "owner \<noteq> encode_address_to_u256 E (caller A)"
  shows "execute_program (Suc fuel) E (Some prog) A sm (Some s) cb = Done sm [] (Inr (unauthorized_result E A))"
  using assms(3) protected_selector[OF assms(1,2,3)] ensure_owner_kept[OF assms(3,4), of E "caller A"] assms(5)
  by (simp add: initial_context_def Let_def)

theorem stranger_is_rejected_witness:
  "execute_program 1 sample_externals (Some [0x00]) (sample_args\<lparr>state_data := [0xf2, 0xfd, 0xe3, 0x8b]\<rparr>)
     (Some []) (Some [(''vault'', [(owner_slot, to_big_endian 5)])]) False =
   Done (Some []) [] (Inr (unauthorized_result sample_externals (sample_args\<lparr>state_data := [0xf2, 0xfd, 0xe3, 0x8b]\<rparr>)))"
proof -
  have "extract_function_selector sample_externals [0xf2, 0xfd, 0xe3, 0x8b] = Some ''0xf2fde38b''"
    by (simp add: extract_function_selector_def hex_of_bytes_def hex_digit_def)
  moreover have "(5 :: u256) \<noteq> encode_address_to_u256 sample_externals ''alice''"
    by (simp add: encode_address_to_u256_def encode_address_to_u64_def starts_with_def)
  ultimately show ?thesis
    using stranger_is_rejected[of sample_externals "sample_args\<lparr>state_data := [0xf2, 0xfd, 0xe3, 0x8b]\<rparr>" "''0xf2fde38b''"
        "[(''vault'', [(owner_slot, to_big_endian 5)])]" 5 0 "[0x00]" "Some []" False]
    by (simp add: protected_functions_def slot_lookup_def)
qed

text \<open>a contract whose slot 0 is zero has no owner, and its next caller becomes the owner: the
  check then grants that caller every selector, and the owner word is in the storage the run
  starts from.\<close>

theorem first_caller_becomes_owner:
  assumes "slot_lookup ws (contract_address A) owner_slot = replicate 32 0"
  shows "\<exists>ws'. ensure_contract_owner_initialized E ws (contract_address A) (caller A) = Some ws' \<and>
    permission_granted E A ws' = Some True \<and>
    slot_lookup ws' (contract_address A) owner_slot = to_big_endian (encode_address_to_u256 E (caller A))"
  using ensure_owner_set[OF assms, of E "caller A"]
  by (auto simp: permission_granted_def auto_validate_owner_permission_def split: option.split)

theorem first_caller_becomes_owner_witness:
  "\<exists>ws'. ensure_contract_owner_initialized sample_externals (default_world_state sample_externals) ''vault'' ''alice'' = Some ws' \<and>
    permission_granted sample_externals sample_args ws' = Some True \<and>
    slot_lookup ws' ''vault'' owner_slot = to_big_endian (encode_address_to_u256 sample_externals ''alice'')"
  using first_caller_becomes_owner[of "default_world_state sample_externals" sample_args sample_externals]
  by (simp add: default_world_state_def slot_lookup_def)

section \<open>Addresses\<close>

text \<open>writing a word as an address string and reading it back keeps its low 160 bits, so on
  addresses the two conversions are inverse.\<close>

theorem address_roundtrip:
  assumes "hex_ok E"
  shows "encode_address_to_u256 E (u256_to_address E w) = w AND mask 160"
  by (rule encode_u256_to_address[OF assms])

theorem address_roundtrip_witness:
  "encode_address_to_u256 sample_externals (u256_to_address sample_externals 0xdeadbeef) = 0xdeadbeef"
proof -
  have "(0xdeadbeef :: u256) AND mask 160 = 0xdeadbeef" by (simp add: mask_numeral)
  then show ?thesis using address_roundtrip[OF hex_ok_sample, of "0xdeadbeef"] by simp
qed

end
