(* ===== verification/Store.thy ===== *)
theory Store
  imports Formats "HOL-Library.List_Lexorder"
begin

text \<open>
  The metadata store of the node (\<open>vuc-storage/src/storing_access.rs\<close>): the trait
  \<open>RocksDBManager\<close> as \<open>RocksDBManagerImpl\<close> implements it over RocksDB, and the JSON accessors
  of \<open>serde_json\<close> that the node uses.

  RocksDB and the text form of JSON are not part of the repository: they are the fields of
  \<open>store_env\<close>, over an arbitrary database state \<open>'d\<close>.  Their documented behaviour is the
  predicates \<open>rocks_ok\<close> (point reads see the last write; an iterator started at a key lists
  the entries from that key on in byte order) and \<open>json_ok\<close> (a document that is printed and
  parsed comes back).  The locale \<open>metadata_store\<close> is what the consensus relies on;
  \<open>get_metadata\<close> and \<open>store_metadata\<close> interpret it.
\<close>

section \<open>JSON accessors\<close>

text \<open>\<open>v["key"]\<close>: \<open>Null\<close> when the value is no object or has no such key.\<close>

definition json_index :: "json \<Rightarrow> string \<Rightarrow> json" where
  "json_index v k = (case as_object v of
      None \<Rightarrow> JNull
    | Some m \<Rightarrow> (case jmap_get m k of None \<Rightarrow> JNull | Some w \<Rightarrow> w))"

fun as_array :: "json \<Rightarrow> json list option" where
  "as_array (JArray vs) = Some vs"
| "as_array _ = None"

fun as_u64 :: "json \<Rightarrow> u64 option" where
  "as_u64 (JNumber n) = (if n < 2 ^ 64 then Some (word_of_nat n) else None)"
| "as_u64 _ = None"

fun as_bool :: "json \<Rightarrow> bool option" where
  "as_bool (JBool b) = Some b"
| "as_bool _ = None"

definition json_u64 :: "u64 \<Rightarrow> json" where
  "json_u64 n = JNumber (unat n)"

fun json_opt_str :: "string option \<Rightarrow> json" where
  "json_opt_str None = JNull"
| "json_opt_str (Some s) = JString s"

lemma as_u64_json_u64 [simp]: "as_u64 (json_u64 n) = Some n"
  using unsigned_less[of n] by (simp add: json_u64_def)

text \<open>Documents that \<open>serde_json\<close> can hold: objects have distinct keys.\<close>

fun json_wf :: "json \<Rightarrow> bool" where
  "json_wf (JArray vs) = list_all json_wf vs"
| "json_wf (JObject kvs) = (distinct (map fst kvs) \<and> list_all (\<lambda>kv. json_wf (snd kv)) kvs)"
| "json_wf _ = True"

lemma json_wf_u64 [simp]: "json_wf (json_u64 n)"
  by (simp add: json_u64_def)

lemma json_wf_opt_str [simp]: "json_wf (json_opt_str s)"
  by (cases s) simp_all

section \<open>Code outside the repository\<close>

record 'd store_env =
  rocks_get :: "'d \<Rightarrow> bytes \<Rightarrow> bytes option option"
  rocks_put :: "'d \<Rightarrow> bytes \<Rightarrow> bytes \<Rightarrow> 'd option"
  rocks_from :: "'d \<Rightarrow> bytes \<Rightarrow> (bytes \<times> bytes) option list"
  json_text :: "json \<Rightarrow> string"
  json_parse :: "string \<Rightarrow> json option"

text \<open>The outer \<open>None\<close> of a read and the \<open>None\<close> of a write are I/O errors.\<close>

definition rocks_ok :: "('d, 'a) store_env_scheme \<Rightarrow> bool" where
  "rocks_ok S \<longleftrightarrow> (\<forall>d k v d'. rocks_put S d k v = Some d' \<longrightarrow>
     rocks_get S d' k = Some (Some v) \<and> (\<forall>k'. k' \<noteq> k \<longrightarrow> rocks_get S d' k' = rocks_get S d k'))"

definition json_ok :: "('d, 'a) store_env_scheme \<Rightarrow> bool" where
  "json_ok S \<longleftrightarrow> (\<forall>j. json_wf j \<longrightarrow> json_parse S (json_text S j) = Some j)"

text \<open>The entries of a database that answers every read, in byte order from a key on.\<close>

definition entries_from :: "(bytes \<times> bytes) list \<Rightarrow> bytes \<Rightarrow> (bytes \<times> bytes) list" where
  "entries_from kvs p = filter (\<lambda>kv. p \<le> fst kv) kvs"

section \<open>Data\<close>

record slurachain_metadata =
  md_from_op :: string
  md_receiver_op :: string
  md_fees_tx :: u64
  md_value_tx :: string
  md_nonce_tx :: u64
  md_hash_tx :: string

datatype store_error =
    ReadFailed
  | KeyNotFound string
  | WriteFailed
  | IterationFailed
  | NotUtf8
  | DecodeFailed

text \<open>The derived \<open>Serialize\<close> and \<open>Deserialize\<close> of \<open>SlurachainMetadata\<close>.\<close>

definition metadata_json :: "slurachain_metadata \<Rightarrow> json" where
  "metadata_json md = JObject
     [(''from_op'', JString (md_from_op md)), (''receiver_op'', JString (md_receiver_op md)),
      (''fees_tx'', json_u64 (md_fees_tx md)), (''value_tx'', JString (md_value_tx md)),
      (''nonce_tx'', json_u64 (md_nonce_tx md)), (''hash_tx'', JString (md_hash_tx md))]"

definition metadata_of_json :: "json \<Rightarrow> slurachain_metadata option" where
  "metadata_of_json j = do {
     from_op \<leftarrow> as_str (json_index j ''from_op'');
     receiver_op \<leftarrow> as_str (json_index j ''receiver_op'');
     fees_tx \<leftarrow> as_u64 (json_index j ''fees_tx'');
     value_tx \<leftarrow> as_str (json_index j ''value_tx'');
     nonce_tx \<leftarrow> as_u64 (json_index j ''nonce_tx'');
     hash_tx \<leftarrow> as_str (json_index j ''hash_tx'');
     Some \<lparr>md_from_op = from_op, md_receiver_op = receiver_op, md_fees_tx = fees_tx,
           md_value_tx = value_tx, md_nonce_tx = nonce_tx, md_hash_tx = hash_tx\<rparr> }"

section \<open>Operations of RocksDBManagerImpl\<close>

definition db_read :: "('d, 'a) store_env_scheme \<Rightarrow> 'd \<Rightarrow> string \<Rightarrow> store_error + bytes" where
  "db_read S d key = (case rocks_get S d (bytes_of_string key) of
      None \<Rightarrow> Inl ReadFailed
    | Some None \<Rightarrow> Inl (KeyNotFound key)
    | Some (Some v) \<Rightarrow> Inr v)"

definition db_write :: "('d, 'a) store_env_scheme \<Rightarrow> 'd \<Rightarrow> string \<Rightarrow> bytes \<Rightarrow> store_error + 'd" where
  "db_write S d key v = (case rocks_put S d (bytes_of_string key) v of
      None \<Rightarrow> Inl WriteFailed
    | Some d' \<Rightarrow> Inr d')"

fun scan_loop :: "string \<Rightarrow> (bytes \<times> bytes) option list \<Rightarrow> store_error + (string \<times> bytes) list" where
  "scan_loop p [] = Inr []"
| "scan_loop p (None # r) = Inl IterationFailed"
| "scan_loop p (Some (k, v) # r) =
     (if \<not> utf8_valid k then Inl NotUtf8
      else if \<not> starts_with p (string_of_bytes k) then Inr []
      else (case scan_loop p r of Inl e \<Rightarrow> Inl e | Inr rs \<Rightarrow> Inr ((string_of_bytes k, v) # rs)))"

definition scan_prefix ::
    "('d, 'a) store_env_scheme \<Rightarrow> 'd \<Rightarrow> string \<Rightarrow> store_error + (string \<times> bytes) list" where
  "scan_prefix S d p = scan_loop p (rocks_from S d (bytes_of_string p))"

definition store_metadata ::
    "('d, 'a) store_env_scheme \<Rightarrow> 'd \<Rightarrow> string \<Rightarrow> slurachain_metadata \<Rightarrow> store_error + 'd" where
  "store_metadata S d key md = db_write S d key (bytes_of_string (json_text S (metadata_json md)))"

definition get_metadata ::
    "('d, 'a) store_env_scheme \<Rightarrow> 'd \<Rightarrow> string \<Rightarrow> store_error + slurachain_metadata option" where
  "get_metadata S d key = (case db_read S d key of
      Inr v \<Rightarrow> (case Option.bind (json_parse S (string_of_bytes v)) metadata_of_json of
                 None \<Rightarrow> Inl DecodeFailed | Some md \<Rightarrow> Inr (Some md))
    | Inl (KeyNotFound _) \<Rightarrow> Inr None
    | Inl e \<Rightarrow> Inl e)"

section \<open>The store keeps what is written\<close>

lemma bytes_of_string_inject [simp]: "bytes_of_string s = bytes_of_string t \<longleftrightarrow> s = t"
  by (metis string_of_bytes_of_string)

lemma metadata_of_json_of [simp]: "metadata_of_json (metadata_json md) = Some md"
  by (simp add: metadata_of_json_def metadata_json_def json_index_def)

lemma json_wf_metadata [simp]: "json_wf (metadata_json md)"
  by (simp add: metadata_json_def)

text \<open>What the consensus relies on of the store.\<close>

locale metadata_store =
  fixes ok :: "'e \<Rightarrow> bool"
    and get :: "'e \<Rightarrow> 'd \<Rightarrow> string \<Rightarrow> 'x + 'm option"
    and put :: "'e \<Rightarrow> 'd \<Rightarrow> string \<Rightarrow> 'm \<Rightarrow> 'x + 'd"
  assumes get_put_same: "ok S \<Longrightarrow> put S d k v = Inr d' \<Longrightarrow> get S d' k = Inr (Some v)"
    and get_put_other: "ok S \<Longrightarrow> put S d k v = Inr d' \<Longrightarrow> k' \<noteq> k \<Longrightarrow> get S d' k' = get S d k'"
begin

lemma get_put: "ok S \<Longrightarrow> put S d k v = Inr d' \<Longrightarrow>
    get S d' k' = (if k' = k then Inr (Some v) else get S d k')"
  by (simp add: get_put_same get_put_other)

lemma put_put_last: "ok S \<Longrightarrow> put S d k v = Inr d' \<Longrightarrow> put S d' k w = Inr d'' \<Longrightarrow>
    get S d'' k = Inr (Some w)"
  by (simp add: get_put_same)

lemma put_put_keeps: "ok S \<Longrightarrow> put S d k v = Inr d' \<Longrightarrow> put S d' k' w = Inr d'' \<Longrightarrow> k \<noteq> k' \<Longrightarrow>
    get S d'' k = Inr (Some v)"
  by (simp add: get_put_same get_put_other)

end

interpretation meta: metadata_store "\<lambda>S :: ('d, 'a) store_env_scheme. rocks_ok S \<and> json_ok S" get_metadata store_metadata
proof
  fix S :: "('d, 'a) store_env_scheme" and d d' k v
  assume ok: "rocks_ok S \<and> json_ok S" and put: "store_metadata S d k v = Inr d'"
  from put have *: "rocks_put S d (bytes_of_string k) (bytes_of_string (json_text S (metadata_json v)))
      = Some d'"
    by (auto simp: store_metadata_def db_write_def split: option.splits)
  from ok * have "rocks_get S d' (bytes_of_string k)
      = Some (Some (bytes_of_string (json_text S (metadata_json v))))"
    by (auto simp: rocks_ok_def)
  with ok show "get_metadata S d' k = Inr (Some v)"
    by (simp add: get_metadata_def db_read_def json_ok_def)
next
  fix S :: "('d, 'a) store_env_scheme" and d d' k v k'
  assume ok: "rocks_ok S \<and> json_ok S" and put: "store_metadata S d k v = Inr d'"
    and other: "(k' :: string) \<noteq> k"
  from put have "rocks_put S d (bytes_of_string k) (bytes_of_string (json_text S (metadata_json v)))
      = Some d'"
    by (auto simp: store_metadata_def db_write_def split: option.splits)
  with ok other have "rocks_get S d' (bytes_of_string k') = rocks_get S d (bytes_of_string k')"
    by (auto simp: rocks_ok_def)
  then show "get_metadata S d' k' = get_metadata S d k'"
    by (simp add: get_metadata_def db_read_def)
qed

end
