(* ===== verification/Locks.thy ===== *)
theory Locks
  imports Prelude
begin

text \<open>
  The locks of the asynchronous code.  A \<open>tokio::sync::RwLock\<close> is not reentrant: \<open>write()\<close>
  waits until every guard of the lock is dropped and \<open>read()\<close> until no write guard is left, so a
  task that waits for a lock it holds itself waits forever.  A \<open>guard\<close> is what the running
  task holds of one lock; acquiring gives the new guard, or \<open>None\<close> when the task would never
  be woken.  Guards of other tasks are dropped eventually and only delay it.

  Each operation of the node is one step: the guards it takes serialise it against the others.
\<close>

datatype guard = Unheld | Read_Held | Write_Held

definition lock_read :: "guard \<Rightarrow> guard option" where
  "lock_read g = (if g = Write_Held then None else Some Read_Held)"

definition lock_write :: "guard \<Rightarrow> guard option" where
  "lock_write g = (if g = Unheld then Some Write_Held else None)"

lemma lock_read_simps [simp]:
  "lock_read Unheld = Some Read_Held" "lock_read Read_Held = Some Read_Held"
  "lock_read Write_Held = None"
  by (simp_all add: lock_read_def)

lemma lock_write_simps [simp]:
  "lock_write Unheld = Some Write_Held" "lock_write Read_Held = None"
  "lock_write Write_Held = None"
  by (simp_all add: lock_write_def)

end
