(* ===== verification/Bridge.thy ===== *)
theory Bridge
  imports Store Locks
begin

text \<open>
  The Bitcoin bridge (\<open>vuc-bridge/src/lib.rs\<close>): the queries to the Bitcoin node, the anchor of
  a Bitcoin block, the registration and minting of deposits, and one pass of the watcher.

  The HTTP client with the node behind it, SHA3-256, hexadecimal coding and the environment
  variables are the fields of \<open>bridge_env\<close>.  The answer of the node is an arbitrary JSON document.
\<close>

section \<open>Code outside the repository\<close>

record bridge_env =
  rpc_call :: "string \<Rightarrow> string \<Rightarrow> json list \<Rightarrow> string + json"
  sha3_256 :: "bytes \<Rightarrow> bytes"
  hex_text :: "bytes \<Rightarrow> string"
  env_var :: "string \<Rightarrow> string option"

section \<open>Data\<close>

datatype network_type = Mainnet | Testnet | Devnet

datatype block_validation_status = BlockPending | BlockConfirmed u32 | Reorged | Invalid

datatype deposit_status = Pending | Confirmed | Minted | Failed

record btc_deposit =
  dep_txid :: string
  dep_amount_satoshi :: u64
  dep_sender_btc :: string
  dep_recipient_evm :: string
  dep_confirmations :: u32
  dep_status :: deposit_status
  dep_fee_satoshi :: u64
  dep_block_hash :: "string option"
  dep_block_height :: "u64 option"
  dep_merkle_proof :: "string list option"

record bitcoin_block_anchor =
  anc_height :: u64
  anc_block_hash :: string
  anc_previous_block_hash :: "string option"
  anc_txids :: "string list"
  anc_merkle_root :: "string option"

record bitcoin_bridge =
  br_api_key :: string
  br_network :: network_type
  br_deposits :: "(string, btc_deposit) hmap"
  br_vez_contract :: string
  br_bridge_address :: string
  br_last_btc_height :: u64

text \<open>The error strings of the queries.\<close>

datatype bridge_error =
    Transport string
  | No_Block_Hash
  | No_Tx_Array
  | Invalid_Result
  | Invalid_Tx_Array

section \<open>Queries to the Bitcoin node\<close>

fun network_url :: "bitcoin_bridge \<Rightarrow> string" where
  "network_url B = (case br_network B of
      Mainnet \<Rightarrow> ''https://bitcoin-mainnet.g.alchemy.com/v2/'' @ br_api_key B
    | Testnet \<Rightarrow> ''https://bitcoin-testnet.g.alchemy.com/v2/'' @ br_api_key B
    | Devnet \<Rightarrow> ''https://bitcoin-devnet.g.alchemy.com/v2/'' @ br_api_key B)"

definition get_bridge_address :: "bridge_env \<Rightarrow> string" where
  "get_bridge_address V = (case env_var V ''BTC_BRIDGE_ADDRESS'' of
      Some a \<Rightarrow> a | None \<Rightarrow> ''bc1qexample1234567890abcdefghijklmnopqrstuvwxyz'')"

definition rpc :: "bridge_env \<Rightarrow> bitcoin_bridge \<Rightarrow> string \<Rightarrow> json list \<Rightarrow> bridge_error + json" where
  "rpc V B method params = (case rpc_call V (network_url B) method params of
      Inl e \<Rightarrow> Inl (Transport e) | Inr r \<Rightarrow> Inr r)"

definition ok_or :: "'a option \<Rightarrow> 'e \<Rightarrow> 'e + 'a" where
  "ok_or x e = (case x of None \<Rightarrow> Inl e | Some v \<Rightarrow> Inr v)"

definition and_then :: "'e + 'a \<Rightarrow> ('a \<Rightarrow> 'e + 'b) \<Rightarrow> 'e + 'b" where
  "and_then x f = (case x of Inl e \<Rightarrow> Inl e | Inr v \<Rightarrow> f v)"

lemma and_then_simps [simp]: "and_then (Inl e) f = Inl e" "and_then (Inr v) f = f v"
  by (simp_all add: and_then_def)

lemma and_then_Inr: "and_then x f = Inr w \<longleftrightarrow> (\<exists>v. x = Inr v \<and> f v = Inr w)"
  by (cases x) simp_all

lemma ok_or_Inr [simp]: "ok_or x e = Inr v \<longleftrightarrow> x = Some v"
  by (cases x) (simp_all add: ok_or_def)

definition get_blockcount :: "bridge_env \<Rightarrow> bitcoin_bridge \<Rightarrow> bridge_error + u64" where
  "get_blockcount V B = and_then (rpc V B ''getblockcount'' [])
     (\<lambda>resp. ok_or (as_u64 (json_index resp ''result'')) Invalid_Result)"

definition get_block_hash :: "bridge_env \<Rightarrow> bitcoin_bridge \<Rightarrow> u64 \<Rightarrow> bridge_error + string" where
  "get_block_hash V B height = and_then (rpc V B ''getblockhash'' [json_u64 height])
     (\<lambda>resp. ok_or (as_str (json_index resp ''result'')) Invalid_Result)"

definition get_block_txs :: "bridge_env \<Rightarrow> bitcoin_bridge \<Rightarrow> string \<Rightarrow> bridge_error + string list" where
  "get_block_txs V B block_hash = and_then (rpc V B ''getblock'' [JString block_hash, JBool True])
     (\<lambda>resp. and_then (ok_or (as_array (json_index (json_index resp ''result'') ''tx'')) Invalid_Tx_Array)
       (\<lambda>txs. Inr (List.map_filter as_str txs)))"

definition get_block_data ::
    "bridge_env \<Rightarrow> bitcoin_bridge \<Rightarrow> u64 \<Rightarrow> bridge_error + string \<times> string list" where
  "get_block_data V B height = and_then (get_block_hash V B height)
     (\<lambda>block_hash. and_then (get_block_txs V B block_hash) (\<lambda>txids. Inr (block_hash, txids)))"

definition get_block_merkle_root :: "bridge_env \<Rightarrow> bitcoin_bridge \<Rightarrow> string \<Rightarrow> string option" where
  "get_block_merkle_root V B block_hash =
     (case rpc V B ''getblock'' [JString block_hash, JBool True] of
        Inl _ \<Rightarrow> None
      | Inr resp \<Rightarrow> as_str (json_index (json_index resp ''result'') ''mrklRoot''))"

definition get_block_anchor ::
    "bridge_env \<Rightarrow> bitcoin_bridge \<Rightarrow> u64 \<Rightarrow> bridge_error + bitcoin_block_anchor" where
  "get_block_anchor V B height = and_then (get_block_hash V B height) (\<lambda>block_hash.
     and_then (get_block_txs V B block_hash) (\<lambda>txids.
     and_then (if 0 < height then and_then (get_block_hash V B (height - 1)) (\<lambda>h. Inr (Some h)) else Inr None)
       (\<lambda>previous. Inr \<lparr>anc_height = height, anc_block_hash = block_hash,
          anc_previous_block_hash = previous, anc_txids = txids,
          anc_merkle_root = get_block_merkle_root V B block_hash\<rparr>)))"

definition validate_bitcoin_block ::
    "bridge_env \<Rightarrow> bitcoin_bridge \<Rightarrow> u64 \<Rightarrow> string \<Rightarrow> bridge_error + block_validation_status" where
  "validate_bitcoin_block V B height txid = and_then (rpc V B ''getblockhash'' [json_u64 height])
     (\<lambda>resp. and_then (ok_or (as_str (json_index resp ''result'')) No_Block_Hash)
     (\<lambda>block_hash. and_then (rpc V B ''getblock'' [JString block_hash, JBool False])
     (\<lambda>resp2. and_then (ok_or (as_array (json_index (json_index resp2 ''result'') ''tx'')) No_Tx_Array)
     (\<lambda>txs. Inr (if list_ex (\<lambda>v. as_str v = Some txid) txs then BlockConfirmed 6 else Invalid)))))"

section \<open>Deposits\<close>

definition generate_evm_address :: "bridge_env \<Rightarrow> string \<Rightarrow> string" where
  "generate_evm_address V btc_address =
     ''0x'' @ hex_text V (drop 12 (sha3_256 V (bytes_of_string btc_address)))"

text \<open>
  \<open>mint_vez_for_deposit\<close>; \<open>g\<close> is what the caller holds of the lock of \<open>deposits\<close>.
\<close>

definition mint_vez_for_deposit ::
    "guard \<Rightarrow> string \<Rightarrow> bitcoin_bridge \<Rightarrow> (string \<times> bitcoin_bridge) option" where
  "mint_vez_for_deposit g txid B =
     (if br_vez_contract B = [] then Some (''error: no contract'', B)
      else do {
        _ \<leftarrow> lock_write g;
        Some (''minted'',
          case hm_get (br_deposits B) txid of
            None \<Rightarrow> B
          | Some d \<Rightarrow> B\<lparr>br_deposits := hm_insert txid (d\<lparr>dep_status := Minted\<rparr>) (br_deposits B)\<rparr>) })"

definition new_deposit ::
    "bridge_env \<Rightarrow> string \<Rightarrow> u64 \<Rightarrow> string \<Rightarrow> u32 \<Rightarrow> u64 option \<Rightarrow> btc_deposit" where
  "new_deposit V txid amount sender confirmations block_height =
     \<lparr>dep_txid = txid, dep_amount_satoshi = amount, dep_sender_btc = sender,
      dep_recipient_evm = generate_evm_address V sender, dep_confirmations = confirmations,
      dep_status = (if 6 \<le> confirmations then Confirmed else Pending), dep_fee_satoshi = 0,
      dep_block_hash = None, dep_block_height = block_height, dep_merkle_proof = None\<rparr>"

definition register_deposit ::
    "bridge_env \<Rightarrow> string \<Rightarrow> u64 \<Rightarrow> string \<Rightarrow> u32 \<Rightarrow> u64 option \<Rightarrow> bitcoin_bridge
      \<Rightarrow> bitcoin_bridge option" where
  "register_deposit V txid amount sender confirmations block_height B = do {
     g \<leftarrow> lock_write Unheld;
     let B1 = B\<lparr>br_deposits :=
       hm_insert txid (new_deposit V txid amount sender confirmations block_height) (br_deposits B)\<rparr>;
     if 6 \<le> confirmations then do {
       (_, B2) \<leftarrow> mint_vez_for_deposit g txid B1;
       Some B2 }
     else Some B1 }"

text \<open>The address an output of a transaction pays to.\<close>

definition output_address :: "json \<Rightarrow> string option" where
  "output_address output = do {
     spk \<leftarrow> as_object (json_index output ''scriptPubKey'');
     a \<leftarrow> jmap_get spk ''addresses'';
     arr \<leftarrow> as_array a;
     v \<leftarrow> (case arr of [] \<Rightarrow> None | v # _ \<Rightarrow> Some v);
     as_str v }"

definition u64_or_zero :: "json \<Rightarrow> u64" where
  "u64_or_zero v = (case as_u64 v of None \<Rightarrow> 0 | Some n \<Rightarrow> n)"

fun check_outputs ::
    "bridge_env \<Rightarrow> string \<Rightarrow> json \<Rightarrow> json list \<Rightarrow> bitcoin_bridge \<Rightarrow> bitcoin_bridge option" where
  "check_outputs V txid tx [] B = Some B"
| "check_outputs V txid tx (output # outputs) B = do {
     B' \<leftarrow> (case output_address output of
        Some addr \<Rightarrow>
          if addr = get_bridge_address V then
            register_deposit V txid (u64_or_zero (json_index output ''value'')) addr
              (ucast (u64_or_zero (json_index (json_index tx ''result'') ''confirmations''))) None B
          else Some B
      | None \<Rightarrow> Some B);
     check_outputs V txid tx outputs B' }"

definition check_deposit :: "bridge_env \<Rightarrow> string \<Rightarrow> bitcoin_bridge \<Rightarrow> bitcoin_bridge option" where
  "check_deposit V txid B = (case rpc V B ''gettransaction'' [JString txid] of
      Inl _ \<Rightarrow> Some B
    | Inr tx \<Rightarrow> (case as_array (json_index (json_index tx ''result'') ''vout'') of
          None \<Rightarrow> Some B
        | Some vout \<Rightarrow> check_outputs V txid tx vout B))"

fun check_deposits :: "bridge_env \<Rightarrow> string list \<Rightarrow> bitcoin_bridge \<Rightarrow> bitcoin_bridge option" where
  "check_deposits V [] B = Some B"
| "check_deposits V (txid # txids) B = do {
     B' \<leftarrow> check_deposit V txid B;
     check_deposits V txids B' }"

definition process_new_block :: "bridge_env \<Rightarrow> u64 \<Rightarrow> bitcoin_bridge \<Rightarrow> bitcoin_bridge option" where
  "process_new_block V height B = (case get_block_hash V B height of
      Inl _ \<Rightarrow> Some B
    | Inr block_hash \<Rightarrow> (case get_block_txs V B block_hash of
          Inl _ \<Rightarrow> Some B
        | Inr txids \<Rightarrow> check_deposits V txids B))"

text \<open>One pass of the loop of \<open>watch_blocks\<close>, with its local \<open>last_height\<close>.\<close>

definition watch_pass :: "bridge_env \<Rightarrow> u64 \<Rightarrow> bitcoin_bridge \<Rightarrow> (u64 \<times> bitcoin_bridge) option" where
  "watch_pass V last_height B = (case get_blockcount V B of
      Inr height \<Rightarrow>
        if last_height < height then do {
          B' \<leftarrow> process_new_block V height (B\<lparr>br_last_btc_height := height\<rparr>);
          Some (height, B') }
        else Some (last_height, B)
    | Inl _ \<Rightarrow> Some (last_height, B))"

definition get_pending_deposits :: "bitcoin_bridge \<Rightarrow> btc_deposit list" where
  "get_pending_deposits B =
     filter (\<lambda>d. dep_status d = Pending \<or> dep_status d = Confirmed) (map snd (br_deposits B))"

definition new_bridge :: "string \<Rightarrow> network_type \<Rightarrow> bitcoin_bridge" where
  "new_bridge api_key network =
     \<lparr>br_api_key = api_key, br_network = network, br_deposits = [], br_vez_contract = [],
      br_bridge_address = [], br_last_btc_height = 0\<rparr>"

definition set_vez_contract :: "string \<Rightarrow> bitcoin_bridge \<Rightarrow> bitcoin_bridge" where
  "set_vez_contract address B = B\<lparr>br_vez_contract := address\<rparr>"

definition set_bridge_address :: "string \<Rightarrow> bitcoin_bridge \<Rightarrow> bitcoin_bridge" where
  "set_bridge_address address B = B\<lparr>br_bridge_address := address\<rparr>"

end
