(* ===== verification/Consensus_State.thy ===== *)
theory Consensus_State
  imports Bridge
begin

text \<open>
  Data of the consensus (\<open>lurosonie_manager.rs\<close>, \<open>TxRequest\<close> of \<open>slurachain_rpc_service.rs\<close>,
  \<open>TimestampRelease\<close> of \<open>vuc-events\<close>): transactions, blocks with their JSON forms, validators,
  delegations and the manager.

  The manager owns the state behind its \<open>Arc<RwLock<..>>\<close> fields.  The virtual machine
  (\<open>SlurachainVm\<close>) is a state \<open>'v\<close> with \<open>vm_execute\<close>, which also writes to the database \<open>'d\<close> it
  shares with the manager; chrono, SHA3-256 and the VM are fields of \<open>node_env\<close>, next to those
  of the store.  A timestamp is the number of nanoseconds since the epoch.
\<close>

section \<open>Code outside the component\<close>

record ('d, 'v) node_env = "'d store_env" +
  arith_checks :: bool
  rfc3339 :: "int \<Rightarrow> string"
  parse_rfc3339 :: "string \<Rightarrow> int option"
  sha3_hex :: "string \<Rightarrow> string"
  hex_of :: "bytes \<Rightarrow> string"
  unhex :: "string \<Rightarrow> bytes option"
  vm_execute :: "'v \<Rightarrow> 'd \<Rightarrow> string \<Rightarrow> string \<Rightarrow> json list \<Rightarrow> string option \<Rightarrow> (string + json) \<times> 'v \<times> 'd"
  vm_address_map :: "'v \<Rightarrow> string \<Rightarrow> string option"
  vm_load_state :: "'v \<Rightarrow> 'd \<Rightarrow> string \<Rightarrow> (string + bytes) \<times> 'v \<times> 'd"
  bridge_env_of :: bridge_env

definition chrono_ok :: "('d, 'v, 'a) node_env_scheme \<Rightarrow> bool" where
  "chrono_ok N \<longleftrightarrow> (\<forall>t. parse_rfc3339 N (rfc3339 N t) = Some t)"

section \<open>Constants\<close>

definition LUROSONIE_MIN_RELAY_STAKE :: u64 where
  "LUROSONIE_MIN_RELAY_STAKE = 30000"

definition LUROSONIE_SYSTEM_VALIDATOR :: string where
  "LUROSONIE_SYSTEM_VALIDATOR = ''0x53ae54b11251d5003e9aa51422405bc35a2ef32d''"

section \<open>Transactions and blocks\<close>

record tx_request =
  tx_from_op :: string
  tx_receiver_op :: string
  tx_value_tx :: string
  tx_nonce_tx :: u64
  tx_hash :: string
  tx_contract_addr :: "string option"
  tx_function_name :: "string option"
  tx_arguments :: "json list option"

record timestamp_release =
  tr_timestamp :: int
  tr_log :: string
  tr_block_number :: u64
  tr_vyfties_id :: string

record block_data =
  bd_block :: timestamp_release
  bd_transactions :: "tx_request list"
  bd_validator :: string
  bd_contract_states :: "(string, bytes) hmap"
  bd_execution_results :: "(string, json) hmap"
  bd_relay_power :: u64
  bd_delegated_stake :: u64
  bd_is_system_block :: bool
  bd_bitcoin_anchor :: "bitcoin_block_anchor option"
  bd_parent_slura_hash :: "string option"

abbreviation block_number :: "block_data \<Rightarrow> u64" where
  "block_number b \<equiv> tr_block_number (bd_block b)"

text \<open>\<open>format!("{}", n)\<close> on \<open>u64\<close>.\<close>

definition show_u64 :: "u64 \<Rightarrow> string" where
  "show_u64 n = fmt_dec (unat n)"

text \<open>The key of a transaction in the pending map: \<open>"{}:{}:{}:{}"\<close>.\<close>

definition tx_key :: "tx_request \<Rightarrow> string" where
  "tx_key tx = tx_from_op tx @ '':'' @ tx_receiver_op tx @ '':'' @ tx_value_tx tx @ '':'' @
     show_u64 (tx_nonce_tx tx)"

section \<open>JSON forms\<close>

text \<open>The derived \<open>Serialize\<close> and \<open>Deserialize\<close>; a missing or null \<open>Option\<close> is \<open>None\<close>.\<close>

definition opt_json :: "('a \<Rightarrow> json) \<Rightarrow> 'a option \<Rightarrow> json" where
  "opt_json f x = (case x of None \<Rightarrow> JNull | Some v \<Rightarrow> f v)"

definition opt_of_json :: "(json \<Rightarrow> 'a option) \<Rightarrow> json \<Rightarrow> 'a option option" where
  "opt_of_json f j = (if j = JNull then Some None else (case f j of None \<Rightarrow> None | Some v \<Rightarrow> Some (Some v)))"

fun all_of_json :: "('a \<Rightarrow> 'b option) \<Rightarrow> 'a list \<Rightarrow> 'b list option" where
  "all_of_json f [] = Some []"
| "all_of_json f (j # js) = do { v \<leftarrow> f j; vs \<leftarrow> all_of_json f js; Some (v # vs) }"

definition list_of_json :: "(json \<Rightarrow> 'a option) \<Rightarrow> json \<Rightarrow> 'a list option" where
  "list_of_json f j = Option.bind (as_array j) (all_of_json f)"

definition map_json :: "('a \<Rightarrow> json) \<Rightarrow> (string, 'a) hmap \<Rightarrow> json" where
  "map_json f m = JObject (map (\<lambda>(k, v). (k, f v)) m)"

definition map_of_json :: "(json \<Rightarrow> 'a option) \<Rightarrow> json \<Rightarrow> (string, 'a) hmap option" where
  "map_of_json f j = Option.bind (as_object j)
     (all_of_json (\<lambda>(k, v). map_option (Pair k) (f v)))"

fun u8_of_json :: "json \<Rightarrow> u8 option" where
  "u8_of_json (JNumber n) = (if n < 256 then Some (word_of_nat n) else None)"
| "u8_of_json _ = None"

definition bytes_json :: "bytes \<Rightarrow> json" where
  "bytes_json bs = JArray (map (\<lambda>b. JNumber (unat b)) bs)"

definition tx_json :: "tx_request \<Rightarrow> json" where
  "tx_json tx = JObject
     [(''from_op'', JString (tx_from_op tx)), (''receiver_op'', JString (tx_receiver_op tx)),
      (''value_tx'', JString (tx_value_tx tx)), (''nonce_tx'', json_u64 (tx_nonce_tx tx)),
      (''hash'', JString (tx_hash tx)), (''contract_addr'', opt_json JString (tx_contract_addr tx)),
      (''function_name'', opt_json JString (tx_function_name tx)),
      (''arguments'', opt_json JArray (tx_arguments tx))]"

definition tx_of_json :: "json \<Rightarrow> tx_request option" where
  "tx_of_json j = do {
     a \<leftarrow> as_str (json_index j ''from_op'');
     b \<leftarrow> as_str (json_index j ''receiver_op'');
     c \<leftarrow> as_str (json_index j ''value_tx'');
     d \<leftarrow> as_u64 (json_index j ''nonce_tx'');
     e \<leftarrow> as_str (json_index j ''hash'');
     f \<leftarrow> opt_of_json as_str (json_index j ''contract_addr'');
     g \<leftarrow> opt_of_json as_str (json_index j ''function_name'');
     h \<leftarrow> opt_of_json as_array (json_index j ''arguments'');
     Some \<lparr>tx_from_op = a, tx_receiver_op = b, tx_value_tx = c, tx_nonce_tx = d, tx_hash = e,
           tx_contract_addr = f, tx_function_name = g, tx_arguments = h\<rparr> }"

definition release_json :: "('d, 'v, 'a) node_env_scheme \<Rightarrow> timestamp_release \<Rightarrow> json" where
  "release_json N r = JObject
     [(''timestamp'', JString (rfc3339 N (tr_timestamp r))), (''log'', JString (tr_log r)),
      (''block_number'', json_u64 (tr_block_number r)), (''vyfties_id'', JString (tr_vyfties_id r))]"

definition release_of_json :: "('d, 'v, 'a) node_env_scheme \<Rightarrow> json \<Rightarrow> timestamp_release option" where
  "release_of_json N j = do {
     s \<leftarrow> as_str (json_index j ''timestamp'');
     t \<leftarrow> parse_rfc3339 N s;
     l \<leftarrow> as_str (json_index j ''log'');
     n \<leftarrow> as_u64 (json_index j ''block_number'');
     v \<leftarrow> as_str (json_index j ''vyfties_id'');
     Some \<lparr>tr_timestamp = t, tr_log = l, tr_block_number = n, tr_vyfties_id = v\<rparr> }"

definition anchor_json :: "bitcoin_block_anchor \<Rightarrow> json" where
  "anchor_json a = JObject
     [(''height'', json_u64 (anc_height a)), (''block_hash'', JString (anc_block_hash a)),
      (''previous_block_hash'', opt_json JString (anc_previous_block_hash a)),
      (''txids'', JArray (map JString (anc_txids a))),
      (''merkle_root'', opt_json JString (anc_merkle_root a))]"

definition anchor_of_json :: "json \<Rightarrow> bitcoin_block_anchor option" where
  "anchor_of_json j = do {
     h \<leftarrow> as_u64 (json_index j ''height'');
     b \<leftarrow> as_str (json_index j ''block_hash'');
     p \<leftarrow> opt_of_json as_str (json_index j ''previous_block_hash'');
     t \<leftarrow> list_of_json as_str (json_index j ''txids'');
     r \<leftarrow> opt_of_json as_str (json_index j ''merkle_root'');
     Some \<lparr>anc_height = h, anc_block_hash = b, anc_previous_block_hash = p, anc_txids = t,
           anc_merkle_root = r\<rparr> }"

definition block_json :: "('d, 'v, 'a) node_env_scheme \<Rightarrow> block_data \<Rightarrow> json" where
  "block_json N b = JObject
     [(''block'', release_json N (bd_block b)),
      (''transactions'', JArray (map tx_json (bd_transactions b))),
      (''validator'', JString (bd_validator b)),
      (''contract_states'', map_json bytes_json (bd_contract_states b)),
      (''execution_results'', map_json id (bd_execution_results b)),
      (''relay_power'', json_u64 (bd_relay_power b)),
      (''delegated_stake'', json_u64 (bd_delegated_stake b)),
      (''is_system_block'', JBool (bd_is_system_block b)),
      (''bitcoin_anchor'', opt_json anchor_json (bd_bitcoin_anchor b)),
      (''parent_slura_hash'', opt_json JString (bd_parent_slura_hash b))]"

definition block_of_json :: "('d, 'v, 'a) node_env_scheme \<Rightarrow> json \<Rightarrow> block_data option" where
  "block_of_json N j = do {
     r \<leftarrow> release_of_json N (json_index j ''block'');
     txs \<leftarrow> list_of_json tx_of_json (json_index j ''transactions'');
     v \<leftarrow> as_str (json_index j ''validator'');
     cs \<leftarrow> map_of_json (list_of_json u8_of_json) (json_index j ''contract_states'');
     er \<leftarrow> map_of_json Some (json_index j ''execution_results'');
     rp \<leftarrow> as_u64 (json_index j ''relay_power'');
     ds \<leftarrow> as_u64 (json_index j ''delegated_stake'');
     sys \<leftarrow> as_bool (json_index j ''is_system_block'');
     anc \<leftarrow> opt_of_json anchor_of_json (json_index j ''bitcoin_anchor'');
     par \<leftarrow> opt_of_json as_str (json_index j ''parent_slura_hash'');
     Some \<lparr>bd_block = r, bd_transactions = txs, bd_validator = v, bd_contract_states = cs,
           bd_execution_results = er, bd_relay_power = rp, bd_delegated_stake = ds,
           bd_is_system_block = sys, bd_bitcoin_anchor = anc, bd_parent_slura_hash = par\<rparr> }"

section \<open>Validators, delegations, the manager\<close>

record relay_validator =
  rv_address :: string
  rv_stake :: u64
  rv_delegated_stake :: u64
  rv_total_power :: u64
  rv_is_active :: bool
  rv_relay_count :: u64
  rv_last_relay_time :: u64
  rv_is_system :: bool

record stake_delegation =
  sd_delegator :: string
  sd_validator :: string
  sd_amount :: u64
  sd_timestamp :: u64

record slurachain_governance =
  vez_stacking_locked :: u64
  vez_stacking_unlocked :: u64
  vez_stacking_totalvalue :: u64
  vez_stacking_allocated :: u64
  account_address :: string

record ('d, 'v) manager =
  mg_storage :: 'd
  mg_vm :: 'v
  mg_balances :: "(string, u64) hmap"
  mg_pending :: "(string, tx_request) hmap"
  mg_governance :: "(string, slurachain_governance) hmap"
  mg_last_block_hash :: "string option"
  mg_slurachain :: "block_data list"
  mg_validators :: "(string, relay_validator) hmap"
  mg_delegations :: "stake_delegation list"
  mg_current_leader :: "string option"
  mg_min_relay_stake :: u64
  mg_btc_bridge :: "bitcoin_bridge option"
  mg_last_btc_height :: u64
  mg_sent_blocks :: "timestamp_release list"
  mg_mempool_channel :: "tx_request list"
  mg_state_history :: "(string, bytes list) hmap"

datatype consensus_error =
    Insufficient_Power u64 u64 u64
  | Unknown_Validator string
  | Insufficient_Balance u64 u64
  | Not_A_Producer string
  | Vm_Error string
  | Invalid_Relay_Return
  | No_Bridge
  | Db_Error

definition new_manager :: "'d \<Rightarrow> 'v \<Rightarrow> bitcoin_bridge option \<Rightarrow> ('d, 'v) manager" where
  "new_manager d v bridge =
     \<lparr>mg_storage = d, mg_vm = v, mg_balances = [], mg_pending = [], mg_governance = [],
      mg_last_block_hash = None, mg_slurachain = [], mg_validators = [], mg_delegations = [],
      mg_current_leader = None, mg_min_relay_stake = LUROSONIE_MIN_RELAY_STAKE,
      mg_btc_bridge = bridge, mg_last_btc_height = 0, mg_sent_blocks = [],
      mg_mempool_channel = [], mg_state_history = []\<rparr>"

text \<open>The bridge of the environment: \<open>SLURACHAIN_NETWORK\<close> and \<open>BTC_BRIDGE_API_KEY\<close>.\<close>

definition bridge_of_environment :: "bridge_env \<Rightarrow> bitcoin_bridge option" where
  "bridge_of_environment V =
     (let network_str = (case env_var V ''SLURACHAIN_NETWORK'' of Some s \<Rightarrow> s | None \<Rightarrow> ''testnet'');
          network = (if network_str = ''mainnet'' then Mainnet
                     else if network_str = ''testnet'' then Testnet else Devnet);
          api_key = (case env_var V ''BTC_BRIDGE_API_KEY'' of Some k \<Rightarrow> k | None \<Rightarrow> [])
      in if api_key \<noteq> [] then Some (new_bridge api_key network) else None)"

definition new_with_storage :: "('d, 'v, 'a) node_env_scheme \<Rightarrow> 'd \<Rightarrow> 'v \<Rightarrow> ('d, 'v) manager" where
  "new_with_storage N d v = new_manager d v (bridge_of_environment (bridge_env_of N))"

section \<open>JSON round trips\<close>

lemma all_of_json_map: "(\<And>x. x \<in> set xs \<Longrightarrow> f (g x) = Some x) \<Longrightarrow> all_of_json f (map g xs) = Some xs"
  by (induction xs) simp_all

lemma opt_of_json_opt: "(\<And>x. f (g x) = Some x \<and> g x \<noteq> JNull) \<Longrightarrow> opt_of_json f (opt_json g v) = Some v"
  by (cases v) (simp_all add: opt_of_json_def opt_json_def)

lemma map_of_json_map: "(\<And>x. f (g x) = Some x) \<Longrightarrow> map_of_json f (map_json g m) = Some m"
  by (induction m) (auto simp: map_of_json_def map_json_def)

lemma tx_of_json_of [simp]: "tx_of_json (tx_json tx) = Some tx"
  by (simp add: tx_of_json_def tx_json_def json_index_def opt_of_json_opt)

lemma release_of_json_of: "chrono_ok N \<Longrightarrow> release_of_json N (release_json N r) = Some r"
  by (simp add: release_of_json_def release_json_def json_index_def chrono_ok_def)

lemma anchor_of_json_of [simp]: "anchor_of_json (anchor_json a) = Some a"
  by (simp add: anchor_of_json_def anchor_json_def json_index_def opt_of_json_opt
      list_of_json_def all_of_json_map)

lemma bytes_of_json_of: "list_of_json u8_of_json (bytes_json bs) = Some bs"
proof -
  have "u8_of_json (JNumber (unat b)) = Some b" for b :: u8
    using unat_u8_bound[of b] by simp
  then show ?thesis by (simp add: list_of_json_def bytes_json_def all_of_json_map)
qed

lemma list_of_json_map:
  "(\<And>x. x \<in> set xs \<Longrightarrow> f (g x) = Some x) \<Longrightarrow> list_of_json f (JArray (map g xs)) = Some xs"
  by (simp add: list_of_json_def all_of_json_map)

lemma anchor_json_not_null [simp]: "anchor_json a \<noteq> JNull"
  by (simp add: anchor_json_def)

lemma block_of_json_of: "chrono_ok N \<Longrightarrow> block_of_json N (block_json N b) = Some b"
  by (simp add: block_of_json_def block_json_def json_index_def release_of_json_of
      opt_of_json_opt list_of_json_map map_of_json_map bytes_of_json_of map_of_json_map[where g = id])

end
