(* ===== verification/Consensus_Power.thy ===== *)
theory Consensus_Power
  imports Consensus_State
begin

text \<open>
  Validators and power (\<open>lurosonie_manager.rs\<close>): the address of the VEZ contract, the system
  validator, delegation, the powers, the threshold of the consensus, and the choice of a leader.

  An operation that can panic has an option type.  A map is iterated in the order of its
  list, which the theorems leave arbitrary.
\<close>

section \<open>The VEZ contract\<close>

fun first_known :: "('k \<Rightarrow> 'v option) \<Rightarrow> 'k list \<Rightarrow> 'v option" where
  "first_known f [] = None"
| "first_known f (k # ks) = (case f k of Some v \<Rightarrow> Some v | None \<Rightarrow> first_known f ks)"

definition find_vezcur_contract_address :: "('d, 'v, 'a) node_env_scheme \<Rightarrow> ('d, 'v) manager \<Rightarrow> string" where
  "find_vezcur_contract_address N M =
     (case first_known (vm_address_map N (mg_vm M)) [''vezcur'', ''vez'', ''token'', ''main_token''] of
        Some a \<Rightarrow> a
      | None \<Rightarrow> ''0xeeeeeeeeeeeeeeeeeeeeeeeeeeeeeeeeeeeeeeee'')"

text \<open>\<open>vm.execute_module(..)\<close> under the write lock of the VM.\<close>

definition execute_module ::
    "('d, 'v, 'a) node_env_scheme \<Rightarrow> string \<Rightarrow> string \<Rightarrow> json list \<Rightarrow> string option \<Rightarrow> ('d, 'v) manager
      \<Rightarrow> (string + json) \<times> ('d, 'v) manager" where
  "execute_module N addr fname args caller M =
     (case vm_execute N (mg_vm M) (mg_storage M) addr fname args caller of
        (r, v, d) \<Rightarrow> (r, M\<lparr>mg_vm := v, mg_storage := d\<rparr>))"

text \<open>\<open>.ok().and_then(|r| r.as_u64()).unwrap_or(0)\<close>.\<close>

fun result_u64 :: "string + json \<Rightarrow> u64" where
  "result_u64 (Inl _) = 0"
| "result_u64 (Inr j) = u64_or_zero j"

definition timestamp_secs :: "int \<Rightarrow> u64" where
  "timestamp_secs now = word_of_int (now div 1000000000)"

section \<open>The system validator\<close>

definition system_validator :: "('d, 'v) manager \<Rightarrow> u64 \<Rightarrow> int \<Rightarrow> relay_validator" where
  "system_validator M stake now =
     \<lparr>rv_address = LUROSONIE_SYSTEM_VALIDATOR, rv_stake = stake, rv_delegated_stake = 0,
      rv_total_power = stake, rv_is_active = (mg_min_relay_stake M \<le> stake), rv_relay_count = 0,
      rv_last_relay_time = timestamp_secs now, rv_is_system = True\<rparr>"

definition initialize_system_validator ::
    "('d, 'v, 'a) node_env_scheme \<Rightarrow> int \<Rightarrow> ('d, 'v) manager \<Rightarrow> ('d, 'v) manager" where
  "initialize_system_validator N now M =
     (let vez_addr = find_vezcur_contract_address N M;
          (stake, M1) =
            (if vez_addr = [] then (0, M)
             else (case execute_module N vez_addr ''balanceOf'' [JString LUROSONIE_SYSTEM_VALIDATOR]
                          (Some LUROSONIE_SYSTEM_VALIDATOR) M of (r, M') \<Rightarrow> (result_u64 r, M')))
      in M1\<lparr>mg_validators := hm_insert LUROSONIE_SYSTEM_VALIDATOR (system_validator M1 stake now)
               (mg_validators M1),
            mg_current_leader := Some LUROSONIE_SYSTEM_VALIDATOR\<rparr>)"

definition sync_relay_validators_from_vm ::
    "('d, 'v, 'a) node_env_scheme \<Rightarrow> int \<Rightarrow> ('d, 'v) manager \<Rightarrow> ('d, 'v) manager" where
  "sync_relay_validators_from_vm N now M =
     (let vez_addr = find_vezcur_contract_address N M;
          (r, M1) = execute_module N vez_addr ''balanceOf'' [JString LUROSONIE_SYSTEM_VALIDATOR]
                      (Some LUROSONIE_SYSTEM_VALIDATOR) M
      in M1\<lparr>mg_validators := hm_insert LUROSONIE_SYSTEM_VALIDATOR (system_validator M1 (result_u64 r) now) [],
            mg_current_leader := Some LUROSONIE_SYSTEM_VALIDATOR\<rparr>)"

definition update_validator_power_onchain ::
    "('d, 'v, 'a) node_env_scheme \<Rightarrow> string \<Rightarrow> u64 \<Rightarrow> ('d, 'v) manager
      \<Rightarrow> (consensus_error + u64) \<times> ('d, 'v) manager" where
  "update_validator_power_onchain N validator delegated_amount M =
     (case execute_module N (find_vezcur_contract_address N M) ''relay_master''
             [JString validator, json_u64 delegated_amount] (Some LUROSONIE_SYSTEM_VALIDATOR) M of
        (Inl e, M') \<Rightarrow> (Inl (Vm_Error e), M')
      | (Inr j, M') \<Rightarrow> (ok_or (as_u64 j) Invalid_Relay_Return, M'))"

definition distribute_block_reward ::
    "('d, 'v, 'a) node_env_scheme \<Rightarrow> string \<Rightarrow> u64 \<Rightarrow> ('d, 'v) manager
      \<Rightarrow> (consensus_error + unit) \<times> ('d, 'v) manager" where
  "distribute_block_reward N producer reward_amount M =
     (case execute_module N (find_vezcur_contract_address N M) ''reward_lurosonie_holder''
             [JString producer, json_u64 reward_amount] (Some LUROSONIE_SYSTEM_VALIDATOR) M of
        (Inl e, M') \<Rightarrow> (Inl (Vm_Error e), M')
      | (Inr _, M') \<Rightarrow> (Inr (), M'))"

section \<open>Delegation and power\<close>

definition get_delegated_stake :: "bool \<Rightarrow> string \<Rightarrow> stake_delegation list \<Rightarrow> u64 option" where
  "get_delegated_stake oc validator ds =
     u64_sum oc (map sd_amount (filter (\<lambda>d. sd_validator d = validator) ds))"

fun relay_powers_loop ::
    "bool \<Rightarrow> stake_delegation list \<Rightarrow> (string, relay_validator) hmap \<Rightarrow> u64
      \<Rightarrow> ((string, relay_validator) hmap \<times> u64) option" where
  "relay_powers_loop oc ds [] tot = Some ([], tot)"
| "relay_powers_loop oc ds ((address, v) # vs) tot = do {
     delegated \<leftarrow> get_delegated_stake oc address ds;
     let v' = v\<lparr>rv_delegated_stake := delegated, rv_total_power := u64_sat_add (rv_stake v) delegated\<rparr>;
     (vs', tot') \<leftarrow> relay_powers_loop oc ds vs (u64_sat_add tot (rv_total_power v'));
     Some ((address, v') # vs', tot') }"

definition calculate_relay_powers ::
    "('d, 'v, 'a) node_env_scheme \<Rightarrow> ('d, 'v) manager \<Rightarrow> (u64 \<times> ('d, 'v) manager) option" where
  "calculate_relay_powers N M = do {
     (vs, tot) \<leftarrow> relay_powers_loop (arith_checks N) (mg_delegations M) (mg_validators M) 0;
     Some (tot, M\<lparr>mg_validators := vs\<rparr>) }"

definition calculate_stake_power ::
    "('d, 'v, 'a) node_env_scheme \<Rightarrow> ('d, 'v) manager \<Rightarrow> u64 option" where
  "calculate_stake_power N M = do {
     _ \<leftarrow> u64_sum (arith_checks N) (map sd_amount (mg_delegations M));
     Some (foldl (\<lambda>t av. u64_sat_add t (rv_total_power (snd av))) 0 (mg_validators M)) }"

definition total_powers :: "('d, 'v) manager \<Rightarrow> u64 list" where
  "total_powers M = map (\<lambda>av. rv_total_power (snd av)) (mg_validators M)"

definition get_consensus_threshold ::
    "('d, 'v, 'a) node_env_scheme \<Rightarrow> ('d, 'v) manager \<Rightarrow> u64 option" where
  "get_consensus_threshold N M = do {
     total_power \<leftarrow> u64_sum (arith_checks N) (total_powers M);
     if total_power = 0 then Some 1
     else do { p \<leftarrow> u64_mul (arith_checks N) total_power 2; Some (p div 3) } }"

definition delegate_stake ::
    "('d, 'v, 'a) node_env_scheme \<Rightarrow> int \<Rightarrow> string \<Rightarrow> string \<Rightarrow> u64 \<Rightarrow> ('d, 'v) manager
      \<Rightarrow> (consensus_error + unit) \<times> ('d, 'v) manager" where
  "delegate_stake N now delegator validator amount M =
     (if hm_get (mg_validators M) validator = None then (Inl (Unknown_Validator validator), M)
      else
        let module_address = (case vm_address_map N (mg_vm M) ''vezcur'' of
                                Some a \<Rightarrow> a | None \<Rightarrow> ''*frame000*'');
            (r, M1) = execute_module N (module_address @ ''::vezcur'') ''solde_of'' [JString delegator]
                        (Some delegator) M;
            delegator_balance = result_u64 r
        in if delegator_balance < amount then (Inl (Insufficient_Balance delegator_balance amount), M1)
           else (Inr (), M1\<lparr>mg_delegations := mg_delegations M1 @
                  [\<lparr>sd_delegator = delegator, sd_validator = validator, sd_amount = amount,
                    sd_timestamp = timestamp_secs now\<rparr>]\<rparr>))"

section \<open>Leader\<close>

definition select_block_producer :: "('d, 'v) manager \<Rightarrow> string" where
  "select_block_producer M = (case mg_current_leader M of
      Some l \<Rightarrow> l | None \<Rightarrow> LUROSONIE_SYSTEM_VALIDATOR)"

definition leader_seed :: "int \<Rightarrow> string option \<Rightarrow> u64" where
  "leader_seed now last_hash = (case last_hash of
      None \<Rightarrow> timestamp_secs now
    | Some h \<Rightarrow> foldl (\<lambda>s b. s XOR ucast b) (timestamp_secs now) (take 8 (bytes_of_string h)))"

fun pick_leader :: "u64 \<Rightarrow> u64 \<Rightarrow> (string, relay_validator) hmap \<Rightarrow> string option" where
  "pick_leader target cumulative [] = None"
| "pick_leader target cumulative ((address, v) # vs) =
     (let cumulative' = u64_sat_add cumulative (rv_total_power v)
      in if target < cumulative' then Some address else pick_leader target cumulative' vs)"

definition select_lurosonie_relay_leader ::
    "('d, 'v, 'a) node_env_scheme \<Rightarrow> int \<Rightarrow> ('d, 'v) manager \<Rightarrow> string option" where
  "select_lurosonie_relay_leader N now M =
     (case mg_validators M of
        [] \<Rightarrow> Some LUROSONIE_SYSTEM_VALIDATOR
      | (first, _) # _ \<Rightarrow> do {
          total_power \<leftarrow> u64_sum (arith_checks N) (total_powers M);
          if total_power = 0 then Some LUROSONIE_SYSTEM_VALIDATOR
          else (case pick_leader (leader_seed now (mg_last_block_hash M) mod total_power) 0
                       (mg_validators M) of
                  Some l \<Rightarrow> Some l
                | None \<Rightarrow> Some first) })"

definition lurosonie_relay_power_rotation ::
    "('d, 'v, 'a) node_env_scheme \<Rightarrow> int \<Rightarrow> int \<Rightarrow> ('d, 'v) manager \<Rightarrow> ('d, 'v) manager option" where
  "lurosonie_relay_power_rotation N now now2 M = do {
     (_, M1) \<leftarrow> calculate_relay_powers N (sync_relay_validators_from_vm N now M);
     new_leader \<leftarrow> select_lurosonie_relay_leader N now2 M1;
     Some (M1\<lparr>mg_current_leader := Some new_leader\<rparr>) }"

section \<open>Permissions\<close>

definition can_validator_produce_block :: "string \<Rightarrow> ('d, 'v) manager \<Rightarrow> bool" where
  "can_validator_produce_block validator M = (case hm_get (mg_validators M) validator of
      Some v \<Rightarrow> rv_is_active v \<and> (rv_is_system v \<or> mg_min_relay_stake M \<le> rv_total_power v)
    | None \<Rightarrow> False)"

definition verify_relay_validator :: "string \<Rightarrow> ('d, 'v) manager \<Rightarrow> bool" where
  "verify_relay_validator validator_id M = (case hm_get (mg_validators M) validator_id of
      Some v \<Rightarrow> rv_is_active v \<and> mg_min_relay_stake M \<le> rv_total_power v
    | None \<Rightarrow> False)"

definition select_validators :: "('d, 'v) manager \<Rightarrow> string list" where
  "select_validators M = map fst
     (filter (\<lambda>av. rv_is_active (snd av) \<and> mg_min_relay_stake M \<le> rv_total_power (snd av)) (mg_validators M))"

section \<open>Governance\<close>

definition default_governance :: slurachain_governance where
  "default_governance = \<lparr>vez_stacking_locked = 0, vez_stacking_unlocked = 0,
     vez_stacking_totalvalue = 0, vez_stacking_allocated = 0, account_address = []\<rparr>"

text \<open>The call of the governance module that \<open>stake_vez\<close>, \<open>unstake_vez\<close> and \<open>vote_proposal\<close> make.\<close>

definition governance_call ::
    "('d, 'v, 'a) node_env_scheme \<Rightarrow> string \<Rightarrow> slurachain_governance \<Rightarrow> ('d, 'v) manager
      \<Rightarrow> (string + json) \<times> ('d, 'v) manager" where
  "governance_call N fname G M = (case vm_address_map N (mg_vm M) ''vezcur'' of
      None \<Rightarrow> (Inl (''Adresse du module vezcur non trouv'' @ [CHR 0xC3, CHR 0xA9] @ ''e''), M)
    | Some a \<Rightarrow> execute_module N (a @ ''::vez_std_gov'') fname [] (Some (account_address G)) M)"

definition stake_vez ::
    "('d, 'v, 'a) node_env_scheme \<Rightarrow> u64 \<Rightarrow> slurachain_governance \<Rightarrow> ('d, 'v) manager
      \<Rightarrow> ((string + slurachain_governance) \<times> ('d, 'v) manager) option" where
  "stake_vez N amount G M = (case governance_call N ''stake'' G M of
      (Inl e, M') \<Rightarrow> Some (Inl e, M')
    | (Inr _, M') \<Rightarrow> do {
        l \<leftarrow> u64_add (arith_checks N) (vez_stacking_locked G) amount;
        Some (Inr (G\<lparr>vez_stacking_locked := l,
                     vez_stacking_unlocked := u64_sat_sub (vez_stacking_unlocked G) amount\<rparr>), M') })"

definition unstake_vez ::
    "('d, 'v, 'a) node_env_scheme \<Rightarrow> u64 \<Rightarrow> slurachain_governance \<Rightarrow> ('d, 'v) manager
      \<Rightarrow> ((string + slurachain_governance) \<times> ('d, 'v) manager) option" where
  "unstake_vez N amount G M = (case governance_call N ''unstake'' G M of
      (Inl e, M') \<Rightarrow> Some (Inl e, M')
    | (Inr _, M') \<Rightarrow> do {
        u \<leftarrow> u64_add (arith_checks N) (vez_stacking_unlocked G) amount;
        Some (Inr (G\<lparr>vez_stacking_locked := u64_sat_sub (vez_stacking_locked G) amount,
                     vez_stacking_unlocked := u\<rparr>), M') })"

definition vote_proposal ::
    "('d, 'v, 'a) node_env_scheme \<Rightarrow> nat \<Rightarrow> bool \<Rightarrow> u64 \<Rightarrow> slurachain_governance \<Rightarrow> ('d, 'v) manager
      \<Rightarrow> (string + unit) \<times> ('d, 'v) manager" where
  "vote_proposal N proposal_id support voting_power G M = (case governance_call N ''vote'' G M of
      (Inl e, M') \<Rightarrow> (Inl e, M')
    | (Inr _, M') \<Rightarrow> (Inr (), M'))"

end
