(* ===== verification/Consensus_Chain.thy ===== *)
theory Consensus_Chain
  imports Consensus_Power
begin

text \<open>
  The chain and the pending transactions (\<open>lurosonie_manager.rs\<close>): the mempool, balances,
  the blocks in memory and in the database, block production with its checks, and one round
  of the consensus loop driven by the height of the Bitcoin chain.
\<close>

section \<open>Balances\<close>

text \<open>\<open>g\<close> is what the caller holds of the lock of \<open>balances\<close>; \<open>None\<close> is a task that waits forever.\<close>

definition update_balance :: "guard \<Rightarrow> string \<Rightarrow> u64 \<Rightarrow> ('d, 'v) manager \<Rightarrow> ('d, 'v) manager option" where
  "update_balance g account amount M = do {
     _ \<leftarrow> lock_write g;
     Some (M\<lparr>mg_balances := hm_insert account amount (mg_balances M)\<rparr>) }"

definition tx_value :: "tx_request \<Rightarrow> u64" where
  "tx_value tx = (case parse_u64 (tx_value_tx tx) of Some n \<Rightarrow> word_of_nat n | None \<Rightarrow> 0)"

definition validate_transaction ::
    "tx_request \<Rightarrow> ('d, 'v) manager \<Rightarrow> (bool \<times> ('d, 'v) manager) option" where
  "validate_transaction tx M = do {
     g \<leftarrow> lock_read Unheld;
     case hm_get (mg_balances M) (tx_from_op tx) of
       Some balance \<Rightarrow> Some (tx_value tx \<le> balance, M)
     | None \<Rightarrow> do { M' \<leftarrow> update_balance g (tx_from_op tx) 0 M; Some (False, M') } }"

definition balance_of :: "('d, 'v) manager \<Rightarrow> string \<Rightarrow> u64" where
  "balance_of M a = (case hm_get (mg_balances M) a of Some b \<Rightarrow> b | None \<Rightarrow> 0)"

definition execute_native_transfer ::
    "('d, 'v, 'a) node_env_scheme \<Rightarrow> string \<Rightarrow> string \<Rightarrow> u64 \<Rightarrow> ('d, 'v) manager
      \<Rightarrow> ((consensus_error + unit) \<times> ('d, 'v) manager) option" where
  "execute_native_transfer N src dst amount M =
     (if balance_of M src < amount then Some (Inl (Insufficient_Balance (balance_of M src) amount), M)
      else
        let M1 = M\<lparr>mg_balances := hm_insert src (balance_of M src - amount) (mg_balances M)\<rparr>
        in do {
          b \<leftarrow> u64_add (arith_checks N) (balance_of M1 dst) amount;
          Some (Inr (), M1\<lparr>mg_balances := hm_insert dst b (mg_balances M1)\<rparr>) })"

section \<open>Pending transactions\<close>

text \<open>The channel is drained by a task of \<open>engine_platform.rs\<close>; a full channel delays the sender.\<close>

definition add_transaction_to_mempool :: "tx_request \<Rightarrow> ('d, 'v) manager \<Rightarrow> ('d, 'v) manager" where
  "add_transaction_to_mempool tx M =
     M\<lparr>mg_pending := hm_insert (tx_hash tx) tx (mg_pending M),
       mg_mempool_channel := mg_mempool_channel M @ [tx]\<rparr>"

definition has_transaction_in_mempool :: "string \<Rightarrow> ('d, 'v) manager \<Rightarrow> bool" where
  "has_transaction_in_mempool h M \<longleftrightarrow> hm_get (mg_pending M) h \<noteq> None"

definition get_pending_transaction_count :: "('d, 'v) manager \<Rightarrow> nat" where
  "get_pending_transaction_count M = hm_len (mg_pending M)"

definition add_pending_transaction :: "tx_request \<Rightarrow> ('d, 'v) manager \<Rightarrow> ('d, 'v) manager option" where
  "add_pending_transaction tx M = do {
     M1 \<leftarrow> update_balance Unheld (tx_from_op tx) 0 M;
     Some (M1\<lparr>mg_pending := hm_insert (tx_key tx) tx (mg_pending M1)\<rparr>) }"

definition remove_processed_transactions :: "string list \<Rightarrow> ('d, 'v) manager \<Rightarrow> ('d, 'v) manager" where
  "remove_processed_transactions hashes M =
     M\<lparr>mg_pending := foldl (\<lambda>p h. hm_remove h p) (mg_pending M) hashes\<rparr>"

section \<open>The chain in memory\<close>

definition get_block_height :: "('d, 'v) manager \<Rightarrow> u64" where
  "get_block_height M = (if mg_slurachain M = [] then 0 else block_number (last (mg_slurachain M)))"

definition get_oldest_block_height :: "('d, 'v) manager \<Rightarrow> u64" where
  "get_oldest_block_height M = (case mg_slurachain M of [] \<Rightarrow> 0 | b # _ \<Rightarrow> block_number b)"

definition get_last_block_info :: "('d, 'v) manager \<Rightarrow> (u64 \<times> string) option" where
  "get_last_block_info M = (if mg_slurachain M = [] then None
     else Some (block_number (last (mg_slurachain M)), bd_validator (last (mg_slurachain M))))"

definition get_block_by_number :: "u64 \<Rightarrow> ('d, 'v) manager \<Rightarrow> block_data option" where
  "get_block_by_number n M = find (\<lambda>b. block_number b = n) (mg_slurachain M)"

definition validate_lurosonie_block :: "u64 \<Rightarrow> string \<Rightarrow> ('d, 'v) manager \<Rightarrow> bool" where
  "validate_lurosonie_block n validator M = (case get_block_by_number n M of
      Some b \<Rightarrow> tr_vyfties_id (bd_block b) \<noteq> [] \<and> 0 < block_number b
                \<and> mg_min_relay_stake M \<le> bd_relay_power b
    | None \<Rightarrow> False)"

text \<open>The document that is hashed when a block is looked up, and the one when it is added.\<close>

definition lookup_json :: "('d, 'v, 'a) node_env_scheme \<Rightarrow> block_data \<Rightarrow> json" where
  "lookup_json N b = JObject
     [(''block'', release_json N (bd_block b)), (''relay_power'', json_u64 (bd_relay_power b)),
      (''delegated_stake'', json_u64 (bd_delegated_stake b)), (''validator'', JString (bd_validator b))]"

definition chain_json :: "('d, 'v, 'a) node_env_scheme \<Rightarrow> block_data \<Rightarrow> json" where
  "chain_json N b = JObject
     [(''block'', release_json N (bd_block b)), (''relay_power'', json_u64 (bd_relay_power b)),
      (''delegated_stake'', json_u64 (bd_delegated_stake b)), (''validator'', JString (bd_validator b)),
      (''contract_states_count'', JNumber (hm_len (bd_contract_states b))),
      (''transactions_count'', JNumber (length (bd_transactions b))),
      (''bitcoin_anchor'', opt_json anchor_json (bd_bitcoin_anchor b)),
      (''parent_slura_hash'', opt_json JString (bd_parent_slura_hash b))]"

definition doc_hash :: "('d, 'v, 'a) node_env_scheme \<Rightarrow> json \<Rightarrow> string" where
  "doc_hash N j = ''0x'' @ sha3_hex N (json_text N j)"

definition ascii_lower :: "char \<Rightarrow> char" where
  "ascii_lower c = (let n = of_char c :: nat in if 65 \<le> n \<and> n \<le> 90 then char_of (n + 32) else c)"

definition eq_ignore_ascii_case :: "string \<Rightarrow> string \<Rightarrow> bool" where
  "eq_ignore_ascii_case s t \<longleftrightarrow> map ascii_lower s = map ascii_lower t"

definition get_block_by_hash :: "('d, 'v, 'a) node_env_scheme \<Rightarrow> string \<Rightarrow> ('d, 'v) manager \<Rightarrow> block_data option" where
  "get_block_by_hash N block_hash M =
     find (\<lambda>b. eq_ignore_ascii_case (doc_hash N (lookup_json N b)) block_hash) (mg_slurachain M)"

definition get_all_block_hashes :: "('d, 'v, 'a) node_env_scheme \<Rightarrow> ('d, 'v) manager \<Rightarrow> string list" where
  "get_all_block_hashes N M = map (\<lambda>b. doc_hash N (lookup_json N b)) (mg_slurachain M)"

text \<open>The genesis block.\<close>

definition add_block_to_chain ::
    "('d, 'v, 'a) node_env_scheme \<Rightarrow> timestamp_release \<Rightarrow> string option \<Rightarrow> ('d, 'v) manager \<Rightarrow> ('d, 'v) manager" where
  "add_block_to_chain N block prev_hash M =
     M\<lparr>mg_last_block_hash := Some (sha3_hex N (json_text N (release_json N block)))\<rparr>"

section \<open>Adding a block\<close>

text \<open>\<open>if let Err(e) = self.storage.store_metadata(..)\<close>: a failed write is only logged.\<close>

definition try_store ::
    "('d, 'v, 'a) node_env_scheme \<Rightarrow> string \<Rightarrow> slurachain_metadata \<Rightarrow> ('d, 'v) manager \<Rightarrow> ('d, 'v) manager" where
  "try_store N key md M = (case store_metadata N (mg_storage M) key md of
      Inl _ \<Rightarrow> M | Inr d \<Rightarrow> M\<lparr>mg_storage := d\<rparr>)"

definition block_key :: "u64 \<Rightarrow> string" where
  "block_key n = ''lurosonie_block:'' @ show_u64 n"

definition state_key :: "string \<Rightarrow> u64 \<Rightarrow> string" where
  "state_key k n = ''lurosonie_contract_state:'' @ k @ '':'' @ show_u64 n"

definition block_metadata :: "('d, 'v, 'a) node_env_scheme \<Rightarrow> block_data \<Rightarrow> string \<Rightarrow> slurachain_metadata" where
  "block_metadata N b h =
     \<lparr>md_from_op = ''lurosonie_system'', md_receiver_op = bd_validator b, md_fees_tx = bd_relay_power b,
      md_value_tx = json_text N (block_json N b), md_nonce_tx = block_number b, md_hash_tx = h\<rparr>"

fun store_states ::
    "('d, 'v, 'a) node_env_scheme \<Rightarrow> u64 \<Rightarrow> string \<Rightarrow> (string \<times> bytes) list \<Rightarrow> ('d, 'v) manager \<Rightarrow> ('d, 'v) manager" where
  "store_states N n h [] M = M"
| "store_states N n h ((k, bs) # r) M = store_states N n h r
     (try_store N (state_key k n)
        \<lparr>md_from_op = ''lurosonie_system'', md_receiver_op = k, md_fees_tx = 0, md_value_tx = hex_of N bs,
         md_nonce_tx = n, md_hash_tx = h\<rparr> M)"

definition add_lurosonie_block_to_chain ::
    "('d, 'v, 'a) node_env_scheme \<Rightarrow> block_data \<Rightarrow> ('d, 'v) manager \<Rightarrow> ('d, 'v) manager" where
  "add_lurosonie_block_to_chain N b M =
     (let h = doc_hash N (chain_json N b);
          M1 = M\<lparr>mg_last_block_hash := Some h, mg_slurachain := mg_slurachain M @ [b]\<rparr>;
          M2 = try_store N (block_key (block_number b)) (block_metadata N b h) M1;
          M3 = store_states N (block_number b) h (bd_contract_states b) M2
      in M3\<lparr>mg_sent_blocks := mg_sent_blocks M3 @ [bd_block b]\<rparr>)"

section \<open>Production\<close>

definition block_log :: "u64 \<Rightarrow> string \<Rightarrow> u64 \<Rightarrow> string" where
  "block_log n producer btc_height =
     ''Bloc #'' @ show_u64 n @ '' produit avec consensus BFT (producer: '' @ producer @ '', BTC #'' @
     show_u64 btc_height @ '')''"

definition fetch_anchor ::
    "('d, 'v, 'a) node_env_scheme \<Rightarrow> ('d, 'v) manager \<Rightarrow> u64 \<Rightarrow> bitcoin_block_anchor option" where
  "fetch_anchor N M height = (case mg_btc_bridge M of
      None \<Rightarrow> None
    | Some B \<Rightarrow> (case get_block_anchor (bridge_env_of N) B height of Inl _ \<Rightarrow> None | Inr a \<Rightarrow> Some a))"

definition new_block ::
    "('d, 'v, 'a) node_env_scheme \<Rightarrow> int \<Rightarrow> u64 \<Rightarrow> string \<Rightarrow> bool \<Rightarrow> u64 \<Rightarrow> tx_request list \<Rightarrow> u64
      \<Rightarrow> ('d, 'v) manager \<Rightarrow> block_data" where
  "new_block N now n producer is_system btc_height transactions relay_power M =
     \<lparr>bd_block = \<lparr>tr_timestamp = now, tr_log = block_log n producer btc_height,
                 tr_block_number = n, tr_vyfties_id = producer\<rparr>,
      bd_transactions = transactions, bd_validator = producer, bd_contract_states = [],
      bd_execution_results = [], bd_relay_power = relay_power, bd_delegated_stake = 0,
      bd_is_system_block = is_system, bd_bitcoin_anchor = fetch_anchor N M btc_height,
      bd_parent_slura_hash = mg_last_block_hash M\<rparr>"

definition produce_lurosonie_block_with_consensus ::
    "('d, 'v, 'a) node_env_scheme \<Rightarrow> int \<Rightarrow> u64 \<Rightarrow> string \<Rightarrow> bool \<Rightarrow> u64 \<Rightarrow> ('d, 'v) manager
      \<Rightarrow> ((consensus_error + unit) \<times> ('d, 'v) manager) option" where
  "produce_lurosonie_block_with_consensus N now n producer is_system btc_height M =
     (let transactions = map snd (mg_pending M);
          processed_hashes = map tx_key transactions
      in do {
        (relay_power, M1) \<leftarrow> calculate_relay_powers N M;
        stake_power \<leftarrow> calculate_stake_power N M1;
        total_power \<leftarrow> u64_add (arith_checks N) relay_power stake_power;
        threshold \<leftarrow> get_consensus_threshold N M1;
        if total_power < threshold then Some (Inl (Insufficient_Power n total_power threshold), M1)
        else Some (Inr (), remove_processed_transactions processed_hashes
          (add_lurosonie_block_to_chain N
            (new_block N now n producer is_system btc_height transactions relay_power M1) M1)) })"

definition lurosonie_bft_consensus ::
    "('d, 'v, 'a) node_env_scheme \<Rightarrow> u64 \<Rightarrow> ('d, 'v) manager \<Rightarrow> (consensus_error + unit) \<times> ('d, 'v) manager" where
  "lurosonie_bft_consensus N n M =
     (let vez_addr = find_vezcur_contract_address N M;
          (r, M1) = (if vez_addr = [] then (Inr JNull, M)
             else execute_module N vez_addr ''getValidatorRelayPower''
                    [JString LUROSONIE_SYSTEM_VALIDATOR] (Some LUROSONIE_SYSTEM_VALIDATOR) M)
      in (case r of
            Inl e \<Rightarrow> (Inl (Vm_Error e), M1)
          | Inr _ \<Rightarrow> (Inr (), snd (update_validator_power_onchain N LUROSONIE_SYSTEM_VALIDATOR 0 M1))))"

definition validate_and_add_transaction ::
    "('d, 'v, 'a) node_env_scheme \<Rightarrow> int \<Rightarrow> tx_request \<Rightarrow> string \<Rightarrow> ('d, 'v) manager
      \<Rightarrow> ((consensus_error + unit) \<times> ('d, 'v) manager) option" where
  "validate_and_add_transaction N now tx validator_addr M =
     (if \<not> can_validator_produce_block validator_addr M then Some (Inl (Not_A_Producer validator_addr), M)
      else do {
        M1 \<leftarrow> add_pending_transaction tx M;
        block_height \<leftarrow> u64_add (arith_checks N) (get_block_height M1) 1;
        (r, M2) \<leftarrow> produce_lurosonie_block_with_consensus N now block_height validator_addr False 0 M1;
        case r of
          Inl e \<Rightarrow> Some (Inl e, M2)
        | Inr _ \<Rightarrow> Some (lurosonie_bft_consensus N block_height M2) })"

section \<open>The consensus loop\<close>

definition btc_height_key :: string where
  "btc_height_key = ''lurosonie:last_btc_height''"

definition save_last_processed_btc_height ::
    "('d, 'v, 'a) node_env_scheme \<Rightarrow> u64 \<Rightarrow> ('d, 'v) manager \<Rightarrow> ('d, 'v) manager" where
  "save_last_processed_btc_height N height M = try_store N btc_height_key
     \<lparr>md_from_op = ''lurosonie_system'', md_receiver_op = ''btc_height_tracker'', md_fees_tx = 0,
      md_value_tx = json_text N (json_u64 height), md_nonce_tx = height, md_hash_tx = ''btc_height''\<rparr> M"

definition load_last_processed_btc_height ::
    "('d, 'v, 'a) node_env_scheme \<Rightarrow> ('d, 'v) manager \<Rightarrow> consensus_error + u64" where
  "load_last_processed_btc_height N M = (case get_metadata N (mg_storage M) btc_height_key of
      Inl _ \<Rightarrow> Inl Db_Error
    | Inr None \<Rightarrow> Inr 0
    | Inr (Some md) \<Rightarrow> ok_or (Option.bind (json_parse N (md_value_tx md)) as_u64) Db_Error)"

definition get_blockcount_from_bridge ::
    "('d, 'v, 'a) node_env_scheme \<Rightarrow> ('d, 'v) manager \<Rightarrow> consensus_error + u64" where
  "get_blockcount_from_bridge N M = (case mg_btc_bridge M of
      None \<Rightarrow> Inl No_Bridge
    | Some B \<Rightarrow> (case get_blockcount (bridge_env_of N) B of Inl _ \<Rightarrow> Inl Db_Error | Inr h \<Rightarrow> Inr h))"

text \<open>The start of the loop: the last processed height.\<close>

definition start_height :: "('d, 'v, 'a) node_env_scheme \<Rightarrow> ('d, 'v) manager \<Rightarrow> u64 \<times> ('d, 'v) manager" where
  "start_height N M =
     (let saved = (case load_last_processed_btc_height N M of Inl _ \<Rightarrow> 0 | Inr h \<Rightarrow> h);
          last_processed = max saved (mg_last_btc_height M)
      in if last_processed = 0 then
           (case get_blockcount_from_bridge N M of
              Inr current \<Rightarrow> (current, save_last_processed_btc_height N current M)
            | Inl _ \<Rightarrow> (last_processed, M))
         else (last_processed, M))"

text \<open>The body of the loop for one Bitcoin height; every error ends it with \<open>continue\<close>.\<close>

definition process_btc_height ::
    "('d, 'v, 'a) node_env_scheme \<Rightarrow> int \<Rightarrow> u64 \<Rightarrow> ('d, 'v) manager \<Rightarrow> ('d, 'v) manager option" where
  "process_btc_height N now btc_height M = do {
     n \<leftarrow> u64_add (arith_checks N) (get_block_height M) 1;
     let producer = select_block_producer M;
     (r, M1) \<leftarrow> produce_lurosonie_block_with_consensus N now n producer
                 (producer = LUROSONIE_SYSTEM_VALIDATOR) btc_height M;
     case r of
       Inl _ \<Rightarrow> Some M1
     | Inr _ \<Rightarrow> (case lurosonie_bft_consensus N n M1 of
           (Inl _, M2) \<Rightarrow> Some M2
         | (Inr _, M2) \<Rightarrow> Some (save_last_processed_btc_height N btc_height M2)) }"

text \<open>\<open>clock i\<close> is the time the clock shows when the block for the \<open>i\<close>-th height is made.\<close>

fun process_btc_heights ::
    "('d, 'v, 'a) node_env_scheme \<Rightarrow> (nat \<Rightarrow> int) \<Rightarrow> u64 \<Rightarrow> nat list \<Rightarrow> ('d, 'v) manager
      \<Rightarrow> ('d, 'v) manager option" where
  "process_btc_heights N clock last_processed [] M = Some M"
| "process_btc_heights N clock last_processed (i # is) M = do {
     M' \<leftarrow> process_btc_height N (clock i) (last_processed + word_of_nat i) M;
     process_btc_heights N clock last_processed is M' }"

definition consensus_round ::
    "('d, 'v, 'a) node_env_scheme \<Rightarrow> (nat \<Rightarrow> int) \<Rightarrow> u64 \<Rightarrow> ('d, 'v) manager
      \<Rightarrow> (u64 \<times> ('d, 'v) manager) option" where
  "consensus_round N clock last_processed M = (case get_blockcount_from_bridge N M of
      Inl _ \<Rightarrow> Some (last_processed, M)
    | Inr current \<Rightarrow>
        if last_processed < current then do {
          M' \<leftarrow> process_btc_heights N clock last_processed
                 [1..<Suc (unat (current - last_processed))] M;
          Some (current, M') }
        else Some (last_processed, M))"

end
