(* ===== verification/Consensus_Query.thy ===== *)
theory Consensus_Query
  imports Consensus_Chain
begin

text \<open>
  Reading back the database and the reports of the node (\<open>lurosonie_manager.rs\<close>): the
  synchronisation of the chain, the contract states of a block, the statistics.

  The loop of \<open>sync_from_database\<close> counts a \<open>u64\<close> up and has no other bound: at the last
  number it panics with overflow checks and starts over without them, so \<open>sync_loop\<close> gives
  \<open>None\<close> there in both builds and terminates by the distance to that number.
\<close>

section \<open>Synchronisation from the database\<close>

definition load_block ::
    "('d, 'v, 'a) node_env_scheme \<Rightarrow> slurachain_metadata \<Rightarrow> block_data option" where
  "load_block N md = Option.bind (json_parse N (md_value_tx md)) (block_of_json N)"

definition push_block :: "u64 \<Rightarrow> block_data \<Rightarrow> block_data list \<Rightarrow> block_data list" where
  "push_block n b chain = (if list_ex (\<lambda>c. block_number c = n) chain then chain else chain @ [b])"

lemma unat_succ_u64: "n \<noteq> - 1 \<Longrightarrow> unat (n + 1 :: u64) = Suc (unat n)"
  by (metis Suc_eq_plus1 add.commute add_eq_0_iff unatSuc)

lemma sync_distance:
  assumes "n \<noteq> - 1"
  shows "2 ^ 64 - unat (n + 1 :: u64) < 2 ^ 64 - unat n"
  unfolding unat_succ_u64[OF assms] using unat_u64_bound[of n] by arith

function (sequential) sync_loop ::
    "('d, 'v, 'a) node_env_scheme \<Rightarrow> 'd \<Rightarrow> u64 \<Rightarrow> block_data list \<Rightarrow> block_data list option" where
  "sync_loop N d n chain = (case get_metadata N d (block_key n) of
      Inr (Some md) \<Rightarrow>
        let chain' = (case load_block N md of None \<Rightarrow> chain | Some b \<Rightarrow> push_block n b chain)
        in if n = - 1 then None else sync_loop N d (n + 1) chain'
    | Inr None \<Rightarrow> Some chain
    | Inl _ \<Rightarrow> Some chain)"
  by pat_completeness auto

termination
  by (relation "measure (\<lambda>(N, d, n, chain). 2 ^ 64 - unat n)") (use sync_distance in auto)

declare sync_loop.simps [simp del]

definition sync_from_database ::
    "('d, 'v, 'a) node_env_scheme \<Rightarrow> ('d, 'v) manager \<Rightarrow> ('d, 'v) manager option" where
  "sync_from_database N M = do {
     chain \<leftarrow> sync_loop N (mg_storage M) 0 (mg_slurachain M);
     Some (M\<lparr>mg_slurachain := chain\<rparr>) }"

section \<open>Contract states\<close>

definition slot_state_key :: "string \<Rightarrow> nat \<Rightarrow> u64 \<Rightarrow> string" where
  "slot_state_key addr slot_id n =
     ''lurosonie_contract_state:'' @ addr @ '':'' @ fmt_hex 64 slot_id @ '':'' @ show_u64 n"

definition load_slot ::
    "('d, 'v, 'a) node_env_scheme \<Rightarrow> ('d, 'v) manager \<Rightarrow> string \<Rightarrow> u64 \<Rightarrow> nat
      \<Rightarrow> (string, bytes) hmap \<Rightarrow> (string, bytes) hmap" where
  "load_slot N M addr n slot_id state =
     (case get_metadata N (mg_storage M) (slot_state_key addr slot_id n) of
        Inr (Some md) \<Rightarrow> (case unhex N (md_value_tx md) of
            Some bs \<Rightarrow> if bs \<noteq> replicate 32 0 then hm_insert (fmt_hex 64 slot_id) bs state else state
          | None \<Rightarrow> state)
      | _ \<Rightarrow> state)"

definition load_contract_state_from_db ::
    "('d, 'v, 'a) node_env_scheme \<Rightarrow> string \<Rightarrow> u64 option \<Rightarrow> ('d, 'v) manager \<Rightarrow> (string, bytes) hmap option" where
  "load_contract_state_from_db N addr at_block M =
     (let n = (case at_block of Some b \<Rightarrow> b | None \<Rightarrow> get_block_height M);
          state = fold (load_slot N M addr n) [0..<256] []
      in if state = [] then None else Some state)"

definition load_complete_contract_state ::
    "('d, 'v, 'a) node_env_scheme \<Rightarrow> string \<Rightarrow> ('d, 'v) manager \<Rightarrow> (string + bytes) \<times> ('d, 'v) manager" where
  "load_complete_contract_state N addr M = (case vm_load_state N (mg_vm M) (mg_storage M) addr of
      (r, v, d) \<Rightarrow> (r, M\<lparr>mg_vm := v, mg_storage := d\<rparr>))"

definition get_contract_state_at_block ::
    "('d, 'v, 'a) node_env_scheme \<Rightarrow> string \<Rightarrow> u64 \<Rightarrow> ('d, 'v) manager \<Rightarrow> bytes option \<times> ('d, 'v) manager" where
  "get_contract_state_at_block N addr n M =
     (case Option.bind (get_block_by_number n M) (\<lambda>b. hm_get (bd_contract_states b) addr) of
        Some state \<Rightarrow> (Some state, M)
      | None \<Rightarrow>
          (case Option.bind (hm_get (mg_state_history M) addr)
                  (\<lambda>h. if h = [] then None else Some (last h)) of
             Some state \<Rightarrow> (Some state, M)
           | None \<Rightarrow>
               (case load_complete_contract_state N addr M of
                  (Inr state, M') \<Rightarrow>
                    (if state \<noteq> replicate 4096 0 then Some state else None, M')
                | (Inl _, M') \<Rightarrow> (None, M'))))"

section \<open>Reports\<close>

definition validator_stats_json :: "relay_validator \<Rightarrow> json" where
  "validator_stats_json v = JObject
     [(''stake'', json_u64 (rv_stake v)), (''delegated_stake'', json_u64 (rv_delegated_stake v)),
      (''total_power'', json_u64 (rv_total_power v)), (''relay_count'', json_u64 (rv_relay_count v)),
      (''is_active'', JBool (rv_is_active v))]"

definition get_lurosonie_stats ::
    "('d, 'v, 'a) node_env_scheme \<Rightarrow> u64 \<Rightarrow> u64 \<Rightarrow> ('d, 'v) manager \<Rightarrow> json option" where
  "get_lurosonie_stats N relay_round_duration block_time_ms M = do {
     total_relay_power \<leftarrow> u64_sum (arith_checks N) (total_powers M);
     total_delegated \<leftarrow> u64_sum (arith_checks N) (map sd_amount (mg_delegations M));
     Some (JObject
       [(''consensus'', JString ''Lurosonie Relayed PoS BFT''),
        (''min_relay_stake'', json_u64 (mg_min_relay_stake M)),
        (''relay_round_duration_ms'', json_u64 relay_round_duration),
        (''current_relay_leader'', opt_json JString (mg_current_leader M)),
        (''total_blocks'', JNumber (length (mg_slurachain M))),
        (''total_relay_validators'', JNumber (hm_len (mg_validators M))),
        (''total_relay_power'', json_u64 total_relay_power),
        (''total_delegated_stake'', json_u64 total_delegated),
        (''block_time_ms'', json_u64 block_time_ms),
        (''validators'', map_json validator_stats_json (mg_validators M)),
        (''delegation_count'', JNumber (length (mg_delegations M)))]) }"

text \<open>The average block time of \<open>get_network_metrics\<close>, over the last ten blocks, newest first.\<close>

definition block_secs :: "block_data \<Rightarrow> int" where
  "block_secs b = tr_timestamp (bd_block b) div 1000000000"

fun time_diffs :: "block_data list \<Rightarrow> int list" where
  "time_diffs (a # b # r) = (block_secs a - block_secs b) # time_diffs (b # r)"
| "time_diffs _ = []"

text \<open>Division of \<open>i64\<close> truncates towards zero.\<close>

definition trunc_div :: "int \<Rightarrow> int \<Rightarrow> int" where
  "trunc_div a b = (if a < 0 then - ((- a) div b) else a div b)"

definition avg_block_time :: "u64 \<Rightarrow> ('d, 'v) manager \<Rightarrow> int" where
  "avg_block_time block_time_ms M =
     (let latest = take 10 (rev (mg_slurachain M))
      in if 1 < length latest then
           trunc_div (sum_list (time_diffs latest)) (int (length (time_diffs latest)))
         else uint (block_time_ms div 1000))"

definition active_validators :: "('d, 'v) manager \<Rightarrow> nat" where
  "active_validators M =
     length (filter (\<lambda>av. rv_is_active (snd av) \<and> \<not> rv_is_system (snd av)) (mg_validators M))"

definition total_staked :: "('d, 'v, 'a) node_env_scheme \<Rightarrow> ('d, 'v) manager \<Rightarrow> u64 option" where
  "total_staked N M = u64_sum (arith_checks N)
     (map (\<lambda>av. rv_total_power (snd av)) (filter (\<lambda>av. \<not> rv_is_system (snd av)) (mg_validators M)))"

definition blocks_produced :: "('d, 'v) manager \<Rightarrow> string \<Rightarrow> nat" where
  "blocks_produced M addr = length (filter (\<lambda>b. bd_validator b = addr) (mg_slurachain M))"

end
