(* ===== verification/Bridge_Claims.thy ===== *)
theory Bridge_Claims
  imports Bridge
begin

text \<open>
  Properties of the store and of the Bitcoin bridge.  The locale \<open>deposit_invariant\<close> is a
  property of deposits that every deposit made for the address of the bridge has; its
  lemmas carry it through the registration of a block.
\<close>

section \<open>Prefix scans\<close>

lemma starts_with_string_of_bytes:
  "starts_with p (string_of_bytes k) \<longleftrightarrow> take (length p) k = bytes_of_string p"
proof -
  have "take (length p) (string_of_bytes k) = string_of_bytes (take (length p) k)"
    by (simp add: string_of_bytes_def take_map)
  moreover have "string_of_bytes xs = p \<longleftrightarrow> xs = bytes_of_string p" for xs
    by (metis string_of_bytes_of_string bytes_of_string_of_bytes)
  ultimately show ?thesis by (simp add: starts_with_def)
qed

text \<open>Between the prefix and a key with the prefix, every key in byte order has it.\<close>

lemma prefix_between:
  fixes p k k' :: "'a :: linorder list"
  assumes "p \<le> k" "k \<le> k'" "take (length p) k' = p"
  shows "take (length p) k = p"
  using assms
proof (induction p arbitrary: k k')
  case (Cons a p)
  from Cons.prems(1) obtain b l where k: "k = b # l" by (cases k) auto
  with Cons.prems(2,3) obtain l' where k': "k' = a # l'" and t: "take (length p) l' = p"
    by (cases k') auto
  from Cons.prems(1,2) k k' have "a = b" "p \<le> l" "l \<le> l'" by auto
  with Cons.IH[OF _ _ t] k show ?case by simp
qed simp

lemma prefix_le: "take (length p) k = p \<Longrightarrow> p \<le> (k :: 'a :: linorder list)"
proof (induction p arbitrary: k)
  case (Cons a p)
  then obtain l where "k = a # l" "take (length p) l = p" by (cases k) auto
  with Cons.IH show ?case by simp
qed simp

lemma scan_loop_sorted:
  assumes "sorted (map fst kvs)" "\<forall>kv \<in> set kvs. utf8_valid (fst kv) \<and> bytes_of_string p \<le> fst kv"
  shows "scan_loop p (map Some kvs)
    = Inr (map (\<lambda>(k, v). (string_of_bytes k, v)) (filter (\<lambda>kv. starts_with p (string_of_bytes (fst kv))) kvs))"
  using assms
proof (induction kvs)
  case (Cons kv kvs)
  obtain k v where kv: "kv = (k, v)" by (cases kv)
  show ?case
  proof (cases "starts_with p (string_of_bytes k)")
    case True
    with Cons kv show ?thesis by simp
  next
    case False
    have "\<not> starts_with p (string_of_bytes (fst kv'))" if "kv' \<in> set kvs" for kv'
    proof -
      have "bytes_of_string p \<le> k" "k \<le> fst kv'" using Cons.prems kv that by auto
      from prefix_between[OF this] False show ?thesis
        by (auto simp: starts_with_string_of_bytes bytes_of_string_def)
    qed
    with False Cons.prems kv show ?thesis by (auto simp: filter_empty_conv)
  qed
qed simp

text \<open>\<open>scan_prefix\<close> gives exactly the entries of the database whose key starts with the
  prefix, in byte order, when RocksDB iterates in byte order from the prefix on and the keys are
  the text that the node wrote: stopping at the first other key loses nothing.\<close>

theorem scan_prefix_exact:
  assumes "sorted (map fst kvs)" "\<forall>kv \<in> set kvs. utf8_valid (fst kv)"
    and "rocks_from S d (bytes_of_string p) = map Some (entries_from kvs (bytes_of_string p))"
  shows "scan_prefix S d p
    = Inr (map (\<lambda>(k, v). (string_of_bytes k, v)) (filter (\<lambda>kv. starts_with p (string_of_bytes (fst kv))) kvs))"
proof -
  let ?q = "\<lambda>kv. starts_with p (string_of_bytes (fst kv))"
  have sub: "sorted (map fst (filter P kvs))" for P
    using assms(1) by (induction kvs) auto
  have "filter ?q (filter (\<lambda>kv. bytes_of_string p \<le> fst kv) kvs) = filter ?q kvs"
    by (auto simp: starts_with_string_of_bytes intro!: filter_cong prefix_le)
  moreover have "scan_loop p (map Some (entries_from kvs (bytes_of_string p)))
      = Inr (map (\<lambda>(k, v). (string_of_bytes k, v)) (filter ?q (entries_from kvs (bytes_of_string p))))"
    by (rule scan_loop_sorted) (use sub assms(2) in \<open>auto simp: entries_from_def\<close>)
  ultimately show ?thesis using assms(3) by (simp add: scan_prefix_def entries_from_def)
qed

definition sample_store :: "(bytes \<times> bytes) list store_env" where
  "sample_store = \<lparr>rocks_get = (\<lambda>d k. Some (map_of d k)), rocks_put = (\<lambda>d k v. Some ((k, v) # d)),
     rocks_from = (\<lambda>d k. map Some (entries_from d k)), json_text = (\<lambda>_. []), json_parse = (\<lambda>_. None)\<rparr>"

theorem scan_prefix_exact_witness:
  "scan_prefix sample_store [([97], [1]), ([98], [2]), ([98, 99], [3]), ([100], [4])] ''b''
    = Inr [(''b'', [2]), (''bc'', [3])]"
proof -
  have "string_of_bytes [97] = ''a''" "string_of_bytes [98] = ''b''" "string_of_bytes [98, 99] = ''bc''"
    "string_of_bytes [100] = ''d''"
    by code_simp+
  then show ?thesis
    by (subst scan_prefix_exact[of "[([97], [1]), ([98], [2]), ([98, 99], [3]), ([100], [4])]"])
       (simp_all add: sample_store_def starts_with_def)
qed

section \<open>Registration of deposits\<close>

text \<open>A call that returns has only inserted the new deposit: the mint under the guard never returns.\<close>

lemma register_deposit_returns:
  "register_deposit V txid amount sender conf h B = Some B' \<Longrightarrow>
   B' = B\<lparr>br_deposits := hm_insert txid (new_deposit V txid amount sender conf h) (br_deposits B)\<rparr>"
  by (auto simp: register_deposit_def mint_vez_for_deposit_def Let_def split: if_splits)

definition all_deposits :: "(btc_deposit \<Rightarrow> bool) \<Rightarrow> bitcoin_bridge \<Rightarrow> bool" where
  "all_deposits P B \<longleftrightarrow> (\<forall>txid d. hm_get (br_deposits B) txid = Some d \<longrightarrow> P d)"

locale deposit_invariant =
  fixes V :: bridge_env and P :: "btc_deposit \<Rightarrow> bool"
  assumes new: "P (new_deposit V txid amount (get_bridge_address V) conf h)"
begin

lemma register:
  "register_deposit V txid amount (get_bridge_address V) conf h B = Some B' \<Longrightarrow>
   all_deposits P B \<Longrightarrow> all_deposits P B'"
  by (drule register_deposit_returns) (auto simp: all_deposits_def new split: if_splits)

lemma check_outputs: "check_outputs V txid tx outputs B = Some B' \<Longrightarrow> all_deposits P B \<Longrightarrow> all_deposits P B'"
  by (induction outputs arbitrary: B)
     (auto simp: bind_eq_Some_conv split: option.splits if_splits dest: register)

lemma check_deposit: "check_deposit V txid B = Some B' \<Longrightarrow> all_deposits P B \<Longrightarrow> all_deposits P B'"
  by (auto simp: check_deposit_def split: sum.splits option.splits dest: check_outputs)

lemma check_deposits: "check_deposits V txids B = Some B' \<Longrightarrow> all_deposits P B \<Longrightarrow> all_deposits P B'"
  by (induction txids arbitrary: B) (auto simp: bind_eq_Some_conv dest: check_deposit)

lemma process_new_block: "process_new_block V h B = Some B' \<Longrightarrow> all_deposits P B \<Longrightarrow> all_deposits P B'"
  by (auto simp: process_new_block_def split: sum.splits dest: check_deposits)

lemma watch_pass: "watch_pass V lh B = Some (lh', B') \<Longrightarrow> all_deposits P B \<Longrightarrow> all_deposits P B'"
  by (auto simp: watch_pass_def bind_eq_Some_conv split: sum.splits if_splits
      dest!: process_new_block) (simp_all add: all_deposits_def)

end


interpretation to_bridge: deposit_invariant V
    "\<lambda>d. dep_sender_btc d = get_bridge_address V \<and>
         dep_recipient_evm d = generate_evm_address V (get_bridge_address V)" for V
  by unfold_locales (simp add: new_deposit_def)


text \<open>A node that serves one block with two outputs to the bridge in one transaction.\<close>

definition sample_output :: "nat \<Rightarrow> json" where
  "sample_output amount = JObject [(''value'', JNumber amount),
     (''scriptPubKey'', JObject [(''addresses'', JArray [JString ''bc1q'']) ])]"

definition sample_rpc :: "nat \<Rightarrow> string \<Rightarrow> string \<Rightarrow> json list \<Rightarrow> string + json" where
  "sample_rpc conf url method params =
     (if method = ''getblockcount'' then Inr (JObject [(''result'', JNumber 7)])
      else if method = ''getblockhash'' then Inr (JObject [(''result'', JString ''aa'')])
      else if method = ''getblock'' then
        Inr (JObject [(''result'', JObject [(''tx'', JArray [JString ''t''])])])
      else Inr (JObject [(''result'', JObject [(''confirmations'', JNumber conf),
             (''vout'', JArray [sample_output 3, sample_output 5])])]))"

definition sample_bridge_env :: "nat \<Rightarrow> bridge_env" where
  "sample_bridge_env conf = \<lparr>rpc_call = sample_rpc conf, sha3_256 = (\<lambda>_. replicate 32 1),
     hex_text = (\<lambda>bs. replicate (length bs) (CHR ''1'')), env_var = (\<lambda>_. Some ''bc1q'')\<rparr>"

definition sample_bridge :: bitcoin_bridge where
  "sample_bridge = set_vez_contract ''0xee'' (new_bridge ''key'' Testnet)"

lemmas sample_bridge_simps = sample_bridge_def set_vez_contract_def new_bridge_def
  sample_bridge_env_def sample_rpc_def sample_output_def

lemma sample_bridge_unminted: "all_deposits P sample_bridge"
  by (simp add: all_deposits_def sample_bridge_simps)


lemma not_six: "\<not> (6 :: u32) \<le> 1"
  by (simp add: word_le_nat_alt)

lemmas run_bridge_simps = watch_pass_def get_blockcount_def process_new_block_def get_block_hash_def
  get_block_txs_def rpc_def json_index_def check_deposit_def output_address_def
  get_bridge_address_def register_deposit_def u64_or_zero_def ok_or_def Let_def List.map_filter_simps

text \<open>Every deposit the watcher registers has the address of the bridge itself as its
  sender, so all of them are credited to the same EVM address, the one derived from the address of the
  bridge: the invariant is kept by every pass.\<close>

theorem bridge_credits_itself:
  assumes "all_deposits (\<lambda>d. dep_sender_btc d = get_bridge_address V \<and>
      dep_recipient_evm d = generate_evm_address V (get_bridge_address V)) B"
    and "watch_pass V lh B = Some (lh', B')"
    and "hm_get (br_deposits B') txid = Some d"
  shows "dep_sender_btc d = get_bridge_address V \<and>
    dep_recipient_evm d = generate_evm_address V (get_bridge_address V)"
  using to_bridge.watch_pass[OF assms(2,1)] assms(3) by (auto simp: all_deposits_def)

theorem bridge_credits_itself_witness:
  "\<exists>B' d. watch_pass (sample_bridge_env 1) 0 sample_bridge = Some (7, B') \<and>
     hm_get (br_deposits B') ''t'' = Some d \<and> dep_amount_satoshi d = 5 \<and> dep_status d = Pending \<and>
     dep_recipient_evm d = generate_evm_address (sample_bridge_env 1) ''bc1q''"
proof -
  let ?V = "sample_bridge_env 1"
  let ?d = "new_deposit ?V ''t'' 5 ''bc1q'' 1 None"
  have "\<exists>B'. watch_pass ?V 0 sample_bridge = Some (7, B') \<and> hm_get (br_deposits B') ''t'' = Some ?d"
    by (simp add: run_bridge_simps sample_bridge_simps not_six)
  then obtain B' where B': "watch_pass ?V 0 sample_bridge = Some (7, B')"
      "hm_get (br_deposits B') ''t'' = Some ?d" by blast
  have "dep_recipient_evm ?d = generate_evm_address ?V (get_bridge_address ?V)"
    using bridge_credits_itself[OF sample_bridge_unminted B'] by blast
  with B' show ?thesis
    by (intro exI[of _ B'] exI[of _ ?d]) (simp add: new_deposit_def get_bridge_address_def sample_bridge_env_def not_six)
qed

end
