(* ===== verification/Sample_Node.thy ===== *)
theory Sample_Node
  imports Consensus_Query Bridge_Claims
begin

text \<open>
  A concrete environment in which the hypotheses of the properties hold, for their witnesses:
  a database that is a list of entries, a printer and a parser of JSON documents with their
  round trip, a clock text, and a virtual machine that answers every call with one number.
\<close>

section \<open>A text form of JSON\<close>

definition print_nat :: "nat \<Rightarrow> string" where
  "print_nat n = replicate n (CHR ''1'') @ [CHR '';'']"

definition print_str :: "string \<Rightarrow> string" where
  "print_str s = print_nat (length s) @ s"

fun print_json :: "json \<Rightarrow> string" where
  "print_json JNull = ''n''"
| "print_json (JBool b) = (if b then ''t'' else ''f'')"
| "print_json (JNumber n) = CHR ''#'' # print_nat n"
| "print_json (JDecimal s) = CHR ''d'' # print_str s"
| "print_json (JString s) = CHR ''s'' # print_str s"
| "print_json (JArray vs) = CHR ''a'' # print_nat (length vs) @ concat (map print_json vs)"
| "print_json (JObject kvs) = CHR ''o'' # print_nat (length kvs) @
     concat (map (\<lambda>kv. print_str (fst kv) @ print_json (snd kv)) kvs)"

fun read_nat :: "string \<Rightarrow> (nat \<times> string) option" where
  "read_nat (c # s) =
     (if c = CHR '';'' then Some (0, s)
      else (case read_nat s of Some (n, r) \<Rightarrow> Some (Suc n, r) | None \<Rightarrow> None))"
| "read_nat [] = None"

definition read_str :: "string \<Rightarrow> (string \<times> string) option" where
  "read_str s = (case read_nat s of Some (n, r) \<Rightarrow> Some (take n r, drop n r) | None \<Rightarrow> None)"

fun read_json :: "nat \<Rightarrow> string \<Rightarrow> (json \<times> string) option"
  and read_values :: "nat \<Rightarrow> nat \<Rightarrow> string \<Rightarrow> (json list \<times> string) option"
  and read_fields :: "nat \<Rightarrow> nat \<Rightarrow> string \<Rightarrow> ((string \<times> json) list \<times> string) option"
where
  "read_json 0 s = None"
| "read_json (Suc f) [] = None"
| "read_json (Suc f) (c # s) =
     (if c = CHR ''n'' then Some (JNull, s)
      else if c = CHR ''t'' then Some (JBool True, s)
      else if c = CHR ''f'' then Some (JBool False, s)
      else if c = CHR ''#'' then do { (n, r) \<leftarrow> read_nat s; Some (JNumber n, r) }
      else if c = CHR ''d'' then do { (t, r) \<leftarrow> read_str s; Some (JDecimal t, r) }
      else if c = CHR ''s'' then do { (t, r) \<leftarrow> read_str s; Some (JString t, r) }
      else if c = CHR ''a'' then
        do { (n, r) \<leftarrow> read_nat s; (vs, r') \<leftarrow> read_values f n r; Some (JArray vs, r') }
      else do { (n, r) \<leftarrow> read_nat s; (kvs, r') \<leftarrow> read_fields f n r; Some (JObject kvs, r') })"
| "read_values f 0 s = Some ([], s)"
| "read_values f (Suc n) s =
     do { (v, r) \<leftarrow> read_json f s; (vs, r') \<leftarrow> read_values f n r; Some (v # vs, r') }"
| "read_fields f 0 s = Some ([], s)"
| "read_fields f (Suc n) s =
     do { (k, r) \<leftarrow> read_str s; (v, r') \<leftarrow> read_json f r; (kvs, r'') \<leftarrow> read_fields f n r'; Some ((k, v) # kvs, r'') }"

lemma read_print_nat [simp]: "read_nat (print_nat n @ r) = Some (n, r)"
  by (induction n) (simp_all add: print_nat_def)

lemma read_print_str [simp]: "read_str (print_str s @ r) = Some (s, r)"
  by (simp add: read_str_def print_str_def)

lemma read_print_values:
  assumes "\<And>v r. v \<in> set vs \<Longrightarrow> read_json f (print_json v @ r) = Some (v, r)"
  shows "read_values f (length vs) (concat (map print_json vs) @ r) = Some (vs, r)"
  using assms by (induction vs) simp_all

lemma read_print_fields:
  assumes "\<And>kv r. kv \<in> set kvs \<Longrightarrow> read_json f (print_json (snd kv) @ r) = Some (snd kv, r)"
  shows "read_fields f (length kvs) (concat (map (\<lambda>kv. print_str (fst kv) @ print_json (snd kv)) kvs) @ r)
    = Some (kvs, r)"
  using assms by (induction kvs) simp_all

lemma length_concat_ge: "x \<in> set xs \<Longrightarrow> length (f x) \<le> length (concat (map f xs))"
  by (induction xs) auto

lemma read_print_array:
  assumes "\<And>v r. v \<in> set vs \<Longrightarrow> read_json f (print_json v @ r) = Some (v, r)"
  shows "read_json (Suc f) (print_json (JArray vs) @ r) = Some (JArray vs, r)"
  using read_print_values[OF assms, of vs] by simp

lemma read_print_object:
  assumes "\<And>kv r. kv \<in> set kvs \<Longrightarrow> read_json f (print_json (snd kv) @ r) = Some (snd kv, r)"
  shows "read_json (Suc f) (print_json (JObject kvs) @ r) = Some (JObject kvs, r)"
  using read_print_fields[OF assms, of kvs] by simp

lemma field_shorter: "kv \<in> set kvs \<Longrightarrow> length (print_json (JObject kvs)) \<le> Suc f \<Longrightarrow> length (print_json (snd kv)) \<le> f"
  using length_concat_ge[of kv kvs "\<lambda>kv. print_str (fst kv) @ print_json (snd kv)"] by simp

lemma value_shorter: "v \<in> set vs \<Longrightarrow> length (print_json (JArray vs)) \<le> Suc f \<Longrightarrow> length (print_json v) \<le> f"
  using length_concat_ge[of v vs print_json] by simp

lemma read_print_json: "length (print_json j) \<le> f \<Longrightarrow> read_json f (print_json j @ r) = Some (j, r)"
proof (induction j arbitrary: f r)
  case (JArray vs)
  then obtain f' where f: "f = Suc f'" by (cases f) auto
  show ?case unfolding f
    by (rule read_print_array) (rule JArray.IH, assumption, rule value_shorter, assumption, rule JArray.prems[unfolded f])
next
  case (JObject kvs)
  then obtain f' where f: "f = Suc f'" by (cases f) auto
  show ?case unfolding f
  proof (rule read_print_object)
    fix kv r assume kv: "kv \<in> set kvs"
    have s: "snd kv \<in> Basic_BNFs.snds kv" by (cases kv) simp
    show "read_json f' (print_json (snd kv) @ r) = Some (snd kv, r)"
      by (rule JObject.IH[OF kv s]) (rule field_shorter[OF kv JObject.prems[unfolded f]])
  qed
next
  case (JBool b)
  then show ?case by (cases f; cases b) simp_all
next
  case JNull
  then show ?case by (cases f) simp_all
next
  case (JNumber n)
  then show ?case by (cases f) simp_all
next
  case (JDecimal n)
  then show ?case by (cases f) simp_all
next
  case (JString n)
  then show ?case by (cases f) simp_all
qed

definition parse_json :: "string \<Rightarrow> json option" where
  "parse_json s = map_option fst (read_json (length s) s)"

lemma parse_print_json [simp]: "parse_json (print_json j) = Some j"
  using read_print_json[of j "length (print_json j)" "[]"] by (simp add: parse_json_def)

section \<open>A text form of times\<close>

definition print_time :: "int \<Rightarrow> string" where
  "print_time t = (if t < 0 then CHR ''-'' else CHR ''+'') # replicate (nat \<bar>t\<bar>) (CHR ''1'')"

fun parse_time :: "string \<Rightarrow> int option" where
  "parse_time [] = None"
| "parse_time (c # s) = Some (if c = CHR ''-'' then - int (length s) else int (length s))"

lemma parse_print_time [simp]: "parse_time (print_time t) = Some t"
  by (simp add: print_time_def)

section \<open>The node\<close>

definition sample_node :: "u64 \<Rightarrow> ((bytes \<times> bytes) list, unit) node_env" where
  "sample_node b = \<lparr>rocks_get = (\<lambda>d k. Some (map_of d k)), rocks_put = (\<lambda>d k v. Some ((k, v) # d)),
     rocks_from = (\<lambda>d k. map Some (entries_from d k)), json_text = print_json, json_parse = parse_json,
     arith_checks = True, rfc3339 = print_time, parse_rfc3339 = parse_time, sha3_hex = (\<lambda>s. s),
     hex_of = (\<lambda>_. []), unhex = (\<lambda>_. None),
     vm_execute = (\<lambda>v d _ _ _ _. (Inr (json_u64 b), v, d)), vm_address_map = (\<lambda>_ _. None),
     vm_load_state = (\<lambda>v d _. (Inr [], v, d)), bridge_env_of = sample_bridge_env 1\<rparr>"

lemma sample_node_ok: "rocks_ok (sample_node b)" "json_ok (sample_node b)" "chrono_ok (sample_node b)"
  by (simp_all add: sample_node_def rocks_ok_def json_ok_def chrono_ok_def)

definition sample_validator :: "string \<Rightarrow> u64 \<Rightarrow> relay_validator" where
  "sample_validator a stake = \<lparr>rv_address = a, rv_stake = stake, rv_delegated_stake = 0,
     rv_total_power = stake, rv_is_active = True, rv_relay_count = 0, rv_last_relay_time = 0,
     rv_is_system = False\<rparr>"

definition sample_manager :: "((bytes \<times> bytes) list, unit) manager" where
  "sample_manager = (new_manager [] () None)\<lparr>
     mg_validators := [(''a'', sample_validator ''a'' 40), (''b'', sample_validator ''b'' 0),
                       (''c'', sample_validator ''c'' 60)],
     mg_balances := [(''a'', 100), (''b'', 7)]\<rparr>"

lemmas sample_manager_simps = sample_manager_def new_manager_def sample_validator_def

end
