(* ===== verification/Consensus_Power_Claims.thy ===== *)
theory Consensus_Power_Claims
  imports Sample_Node
begin

text \<open>
  Properties of powers, leaders, delegations and balances.
\<close>

section \<open>Powers\<close>

definition delegated_to :: "stake_delegation list \<Rightarrow> string \<Rightarrow> nat" where
  "delegated_to ds a = sum_list (map (\<lambda>d. unat (sd_amount d)) (filter (\<lambda>d. sd_validator d = a) ds))"

definition relay_power_of :: "stake_delegation list \<Rightarrow> string \<times> relay_validator \<Rightarrow> nat" where
  "relay_power_of ds av = unat (rv_stake (snd av)) + delegated_to ds (fst av)"

abbreviation (input) power_sum :: "(string, relay_validator) hmap \<Rightarrow> nat" where
  "power_sum vs \<equiv> sum_list (map (\<lambda>av. unat (rv_total_power (snd av))) vs)"

lemma get_delegated_stake_fits:
  "delegated_to ds a < 2 ^ 64 \<Longrightarrow>
   \<exists>s. get_delegated_stake oc a ds = Some s \<and> unat s = delegated_to ds a"
  using u64_sum_fits[of "map sd_amount (filter (\<lambda>d. sd_validator d = a) ds)" oc]
  by (simp add: get_delegated_stake_def delegated_to_def comp_def)

lemma relay_powers_loop_fits:
  "unat tot + sum_list (map (relay_power_of ds) vs) < 2 ^ 64 \<Longrightarrow>
   \<exists>vs' t. relay_powers_loop oc ds vs tot = Some (vs', t) \<and>
     unat t = unat tot + sum_list (map (relay_power_of ds) vs) \<and>
     map (\<lambda>av. unat (rv_total_power (snd av))) vs' = map (relay_power_of ds) vs"
proof (induction vs arbitrary: tot)
  case (Cons av vs)
  obtain a v where av: "av = (a, v)" by (cases av)
  let ?p = "relay_power_of ds (a, v)"
  have "delegated_to ds a < 2 ^ 64" using Cons.prems av by (simp add: relay_power_of_def)
  then obtain s where s: "get_delegated_stake oc a ds = Some s" "unat s = delegated_to ds a"
    using get_delegated_stake_fits by blast
  let ?w = "u64_sat_add (rv_stake v) s"
  have w: "unat ?w = ?p" using Cons.prems av s by (simp add: unat_u64_sat_add relay_power_of_def)
  have t: "unat (u64_sat_add tot ?w) = unat tot + ?p"
    unfolding unat_u64_sat_add[of tot] w using Cons.prems av by simp
  have "unat (u64_sat_add tot ?w) + sum_list (map (relay_power_of ds) vs) < 2 ^ 64"
    using Cons.prems av by (simp only: t list.map sum_list.Cons add.assoc)
  from Cons.IH[OF this] obtain vs' t' where
    "relay_powers_loop oc ds vs (u64_sat_add tot ?w) = Some (vs', t')"
    "unat t' = unat (u64_sat_add tot ?w) + sum_list (map (relay_power_of ds) vs)"
    "map (\<lambda>av. unat (rv_total_power (snd av))) vs' = map (relay_power_of ds) vs" by blast
  then show ?case using av s by (simp add: w t)
qed simp

lemma stake_power_fold:
  "unat t + power_sum vs < 2 ^ 64 \<Longrightarrow>
   unat (foldl (\<lambda>t av. u64_sat_add t (rv_total_power (snd av))) t vs) = unat t + power_sum vs"
proof (induction vs arbitrary: t)
  case (Cons av vs)
  then have "unat (u64_sat_add t (rv_total_power (snd av))) = unat t + unat (rv_total_power (snd av))"
    by (simp add: unat_u64_sat_add)
  with Cons show ?case by simp
qed simp

lemma total_powers_fits:
  "power_sum (mg_validators M) < 2 ^ 64 \<Longrightarrow>
   \<exists>s. u64_sum oc (total_powers M) = Some s \<and> unat s = power_sum (mg_validators M)"
  using u64_sum_fits[of "total_powers M" oc] by (simp add: total_powers_def comp_def)

lemma u64_mul_fits: "unat a * unat b < 2 ^ 64 \<Longrightarrow> u64_mul oc a b = Some (a * b) \<and> unat (a * b) = unat a * unat b"
  by (simp add: u64_mul_def unat_word_ariths)

lemma get_consensus_threshold_fits:
  assumes "2 * power_sum (mg_validators M) < 2 ^ 64"
  shows "\<exists>t. get_consensus_threshold N M = Some t \<and>
    unat t = (if power_sum (mg_validators M) = 0 then 1 else 2 * power_sum (mg_validators M) div 3)"
proof -
  obtain W where W: "power_sum (mg_validators M) = W" by blast
  from assms obtain s where s: "u64_sum (arith_checks N) (total_powers M) = Some s" "unat s = W"
    using total_powers_fits[of M "arith_checks N"] unfolding W by auto
  have "unat (2 :: u64) = 2" by simp
  with assms s u64_mul_fits[of s 2 "arith_checks N"]
  have m: "u64_mul (arith_checks N) s 2 = Some (s * 2)" "unat (s * 2) = 2 * W"
    unfolding W by (auto simp: mult.commute)
  show ?thesis
  proof (cases "s = 0")
    case True
    then show ?thesis unfolding W using s by (simp add: get_consensus_threshold_def)
  next
    case False
    then have "W \<noteq> 0" using s by (metis unat_0_iff)
    moreover have "unat (s * 2 div 3) = 2 * W div 3"
      by (simp only: unat_div m(2)) simp
    ultimately show ?thesis
      unfolding W using s(1) False m(1) by (simp add: get_consensus_threshold_def)
  qed
qed

lemma calculate_relay_powers_fits:
  assumes "sum_list (map (relay_power_of (mg_delegations M)) (mg_validators M)) < 2 ^ 64"
  shows "\<exists>p vs. calculate_relay_powers N M = Some (p, M\<lparr>mg_validators := vs\<rparr>) \<and>
    unat p = sum_list (map (relay_power_of (mg_delegations M)) (mg_validators M)) \<and>
    map (\<lambda>av. unat (rv_total_power (snd av))) vs = map (relay_power_of (mg_delegations M)) (mg_validators M)"
proof -
  have "unat (0 :: u64) + sum_list (map (relay_power_of (mg_delegations M)) (mg_validators M)) < 2 ^ 64"
    using assms by simp
  from relay_powers_loop_fits[OF this, of "arith_checks N"] show ?thesis
    by (auto simp: calculate_relay_powers_def)
qed

text \<open>C25: The two-thirds check of block production never rejects a set of validators with any
  power: while the sum of all powers stays below \<open>2\<^sup>6\<^sup>3\<close>, the block is produced exactly when that sum is
  not zero, whoever the producer is, because the sum is counted twice and compared with two thirds of
  itself.\<close>

theorem bft_power_check_vacuous:
  fixes M :: "('d, 'v) manager"
  assumes "2 * sum_list (map (relay_power_of (mg_delegations M)) (mg_validators M)) < 2 ^ 64"
    and "sum_list (map (\<lambda>d. unat (sd_amount d)) (mg_delegations M)) < 2 ^ 64"
  shows "\<exists>r M'. produce_lurosonie_block_with_consensus N now n producer is_system h M = Some (r, M') \<and>
    (r = Inr () \<longleftrightarrow> (\<exists>av \<in> set (mg_validators M). relay_power_of (mg_delegations M) av \<noteq> 0))"
proof -
  let ?W = "sum_list (map (relay_power_of (mg_delegations M)) (mg_validators M))"
  from assms(1) have W: "?W < 2 ^ 64" by simp
  from calculate_relay_powers_fits[OF W] obtain p vs where
    p: "calculate_relay_powers N M = Some (p, M\<lparr>mg_validators := vs\<rparr>)" "unat p = ?W"
    and vs: "map (\<lambda>av. unat (rv_total_power (snd av))) vs = map (relay_power_of (mg_delegations M)) (mg_validators M)"
    by blast
  let ?M1 = "M\<lparr>mg_validators := vs\<rparr>"
  have sum: "power_sum vs = ?W" by (simp add: vs)
  have del: "\<exists>s. u64_sum (arith_checks N) (map sd_amount (mg_delegations M)) = Some s"
    using u64_sum_fits[of "map sd_amount (mg_delegations M)" "arith_checks N"] assms(2)
    by (auto simp: comp_def)
  obtain q where q: "calculate_stake_power N ?M1 = Some q" "unat q = ?W"
    using del stake_power_fold[of 0 vs] W by (auto simp: calculate_stake_power_def sum)
  have t: "u64_add (arith_checks N) p q = Some (p + q)" "unat (p + q) = 2 * ?W"
    using p(2) q(2) assms(1) by (simp_all add: unat_u64_add)
  have "2 * power_sum (mg_validators ?M1) < 2 ^ 64" using assms(1) by (simp add: sum)
  from get_consensus_threshold_fits[OF this, of N] obtain th where
    th: "get_consensus_threshold N ?M1 = Some th" "unat th = (if ?W = 0 then 1 else 2 * ?W div 3)"
    by (auto simp: sum)
  have "p + q < th \<longleftrightarrow> ?W = 0" by (auto simp: word_less_nat_alt t(2) th(2))
  moreover have "?W \<noteq> 0 \<longleftrightarrow> (\<exists>av \<in> set (mg_validators M). relay_power_of (mg_delegations M) av \<noteq> 0)"
    by auto
  ultimately show ?thesis
    using p(1) q(1) t(1) th(1) by (simp add: produce_lurosonie_block_with_consensus_def Let_def)
qed

theorem bft_power_check_vacuous_witness:
  "\<exists>M'. produce_lurosonie_block_with_consensus (sample_node 0) 0 1 ''nobody'' False 9 sample_manager = Some (Inr (), M')"
proof -
  have "\<exists>av \<in> set (mg_validators sample_manager). relay_power_of (mg_delegations sample_manager) av \<noteq> 0"
    by (simp add: sample_manager_simps relay_power_of_def)
  then show ?thesis
    using bft_power_check_vacuous[of sample_manager "sample_node 0" 0 1 "''nobody''" False 9]
    by (auto simp: sample_manager_simps relay_power_of_def delegated_to_def)
qed

section \<open>Leader\<close>

lemma pick_leader_interval:
  "unat c \<le> unat t \<Longrightarrow> unat t < unat c + power_sum vs \<Longrightarrow> unat c + power_sum vs < 2 ^ 64 \<Longrightarrow>
   \<exists>i < length vs. pick_leader t c vs = Some (fst (vs ! i)) \<and>
     unat c + power_sum (take i vs) \<le> unat t \<and> unat t < unat c + power_sum (take (Suc i) vs)"
proof (induction vs arbitrary: c)
  case (Cons av vs)
  obtain a v where av: "av = (a, v)" by (cases av)
  let ?c = "u64_sat_add c (rv_total_power v)"
  have c: "unat ?c = unat c + unat (rv_total_power v)"
    using Cons.prems(3) av by (simp add: unat_u64_sat_add)
  show ?case
  proof (cases "t < ?c")
    case True
    then have "unat t < unat ?c" by (simp add: word_less_nat_alt)
    with True Cons.prems(1) c av show ?thesis by (intro exI[of _ 0]) simp
  next
    case False
    then have "unat ?c \<le> unat t" by (simp add: word_less_nat_alt)
    moreover have "unat t < unat ?c + power_sum vs" "unat ?c + power_sum vs < 2 ^ 64"
      using Cons.prems(2,3) av c by simp_all
    ultimately obtain i where "i < length vs" "pick_leader t ?c vs = Some (fst (vs ! i))"
        "unat ?c + power_sum (take i vs) \<le> unat t" "unat t < unat ?c + power_sum (take (Suc i) vs)"
      using Cons.IH by blast
    then show ?thesis using False av c by (intro exI[of _ "Suc i"]) simp
  qed
qed simp

text \<open>C32: A leader is selected by weight: the seed modulo the total power falls into the interval
  of exactly the selected validator when the powers are laid end to end, so its power is not
  zero and the fallback to the first validator is never taken.\<close>

theorem leader_selected_by_weight:
  fixes M :: "('d, 'v) manager"
  assumes "power_sum (mg_validators M) < 2 ^ 64" "power_sum (mg_validators M) \<noteq> 0"
  shows "\<exists>i < length (mg_validators M).
    select_lurosonie_relay_leader N now M = Some (fst (mg_validators M ! i)) \<and>
    power_sum (take i (mg_validators M))
      \<le> unat (leader_seed now (mg_last_block_hash M)) mod power_sum (mg_validators M) \<and>
    unat (leader_seed now (mg_last_block_hash M)) mod power_sum (mg_validators M)
      < power_sum (take (Suc i) (mg_validators M))"
proof -
  let ?vs = "mg_validators M" and ?seed = "leader_seed now (mg_last_block_hash M)"
  obtain W where W: "power_sum ?vs = W" by blast
  obtain s where s: "u64_sum (arith_checks N) (total_powers M) = Some s" "unat s = W"
    using total_powers_fits[OF assms(1), of "arith_checks N"] unfolding W by blast
  have nz: "s \<noteq> 0" using s(2) assms(2) unfolding W by (metis unat_0)
  have t: "unat (?seed mod s) = unat ?seed mod W" by (simp only: unat_mod s(2))
  have "unat (0 :: u64) \<le> unat (?seed mod s)" by simp
  moreover have "unat (?seed mod s) < unat (0 :: u64) + power_sum ?vs"
    unfolding W t using assms(2) W by simp
  moreover have "unat (0 :: u64) + power_sum ?vs < 2 ^ 64" using assms(1) by simp
  ultimately have "\<exists>i < length ?vs. pick_leader (?seed mod s) 0 ?vs = Some (fst (?vs ! i)) \<and>
      unat (0 :: u64) + power_sum (take i ?vs) \<le> unat (?seed mod s) \<and>
      unat (?seed mod s) < unat (0 :: u64) + power_sum (take (Suc i) ?vs)"
    by (rule pick_leader_interval)
  then obtain i where i: "i < length ?vs" "pick_leader (?seed mod s) 0 ?vs = Some (fst (?vs ! i))"
      "power_sum (take i ?vs) \<le> unat ?seed mod W" "unat ?seed mod W < power_sum (take (Suc i) ?vs)"
    unfolding t by auto
  from i(1) obtain f v r where "?vs = (f, v) # r" by (cases ?vs) auto
  then have "select_lurosonie_relay_leader N now M = Some (fst (?vs ! i))"
    using s(1) nz i(2) by (simp add: select_lurosonie_relay_leader_def)
  with i show ?thesis unfolding W by blast
qed

theorem leader_selected_by_weight_witness:
  "select_lurosonie_relay_leader (sample_node 0) 45000000000 sample_manager = Some ''c''"
proof -
  let ?vs = "[(''a'', sample_validator ''a'' 40), (''b'', sample_validator ''b'' 0), (''c'', sample_validator ''c'' 60)]"
  have vs: "mg_validators sample_manager = ?vs" and h: "mg_last_block_hash sample_manager = None"
    by (simp_all add: sample_manager_def new_manager_def)
  have p: "power_sum ?vs = 100" by (simp add: sample_validator_def)
  have "unat (leader_seed 45000000000 None) = 45" by (simp add: leader_seed_def timestamp_secs_def)
  with leader_selected_by_weight[of sample_manager "sample_node 0" 45000000000]
  have "\<exists>i < 3. select_lurosonie_relay_leader (sample_node 0) 45000000000 sample_manager = Some (fst (?vs ! i)) \<and>
      45 < power_sum (take (Suc i) ?vs)"
    unfolding vs h p by (simp add: numeral_3_eq_3 del: take_Suc_Cons sum_list.Cons list.map) blast
  then obtain i where i: "i < 3" "select_lurosonie_relay_leader (sample_node 0) 45000000000 sample_manager = Some (fst (?vs ! i))"
      "45 < power_sum (take (Suc i) ?vs)"
    by blast
  from i(1) consider "i = 0" | "i = 1" | "i = 2" by linarith
  then show ?thesis using i(2,3) by cases (simp_all add: sample_validator_def)
qed

section \<open>Delegation\<close>

abbreviation delegate_again ::
    "('d, 'v, 'a) node_env_scheme \<Rightarrow> int \<Rightarrow> string \<Rightarrow> string \<Rightarrow> u64 \<Rightarrow> nat \<Rightarrow> ('d, 'v) manager \<Rightarrow> ('d, 'v) manager"
  where "delegate_again N now a v amount k M \<equiv> ((\<lambda>M. snd (delegate_stake N now a v amount M)) ^^ k) M"

definition vez_module :: "('d, 'v, 'a) node_env_scheme \<Rightarrow> ('d, 'v) manager \<Rightarrow> string" where
  "vez_module N M = (case vm_address_map N (mg_vm M) ''vezcur'' of Some a \<Rightarrow> a | None \<Rightarrow> ''*frame000*'') @ ''::vezcur''"

text \<open>A delegation locks nothing: while the contract answers the same balance, the
  delegator can delegate all of it any number of times, each call succeeds, and the power of the validator
  grows by the whole amount each time.\<close>

theorem delegation_locks_nothing:
  fixes M :: "('d, 'v) manager"
  assumes known: "hm_get (mg_validators M) validator \<noteq> None"
    and vm: "vm_execute N (mg_vm M) (mg_storage M) (vez_module N M) ''solde_of'' [JString delegator] (Some delegator)
      = (Inr (json_u64 balance), mg_vm M, mg_storage M)"
    and le: "amount \<le> balance"
  shows "fst (delegate_stake N now delegator validator amount (delegate_again N now delegator validator amount k M)) = Inr () \<and>
    delegated_to (mg_delegations (delegate_again N now delegator validator amount k M)) validator
      = delegated_to (mg_delegations M) validator + k * unat amount"
proof -
  let ?d = "\<lparr>sd_delegator = delegator, sd_validator = validator, sd_amount = amount, sd_timestamp = timestamp_secs now\<rparr>"
  have "\<not> balance < amount" using le by simp
  then have one: "delegate_stake N now delegator validator amount (M\<lparr>mg_delegations := ds\<rparr>)
      = (Inr (), M\<lparr>mg_delegations := ds @ [?d]\<rparr>)" for ds
    using known vm by (auto simp: delegate_stake_def execute_module_def vez_module_def u64_or_zero_def)
  have all: "delegate_again N now delegator validator amount k M
      = M\<lparr>mg_delegations := mg_delegations M @ replicate k ?d\<rparr>" for k
  proof (induction k)
    case (Suc k)
    then show ?case using one[of "mg_delegations M @ replicate k ?d"]
      by (simp add: replicate_append_same)
  qed simp
  show ?thesis
    unfolding all by (simp add: one delegated_to_def sum_list_replicate)
qed

theorem delegation_locks_nothing_witness:
  "delegated_to (mg_delegations (delegate_again (sample_node 100) 0 ''z'' ''a'' 100 5 sample_manager)) ''a'' = 500"
proof -
  have "mg_delegations sample_manager = []" by (simp add: sample_manager_simps)
  moreover have "unat (100 :: u64) = 100" by simp
  ultimately show ?thesis
    using delegation_locks_nothing[of sample_manager "''a''" "sample_node 100" "''z''" 100 100 0 5]
    by (simp add: delegated_to_def) (simp add: sample_manager_simps sample_node_def vez_module_def)
qed

section \<open>Balances\<close>

definition balance_sum :: "(string, u64) hmap \<Rightarrow> nat" where
  "balance_sum m = sum_list (map (\<lambda>kv. unat (snd kv)) m)"

lemma balance_sum_insert:
  "balance_sum (hm_insert k v m) + (case hm_get m k of None \<Rightarrow> 0 | Some b \<Rightarrow> unat b) = balance_sum m + unat v"
  unfolding hm_insert_def hm_get_def
proof (induction m)
  case (Cons kv m)
  then show ?case by (cases kv) (auto simp: balance_sum_def)
qed (simp add: balance_sum_def)

lemma balance_sum_set:
  "balance_sum (hm_insert k v (mg_balances M)) + unat (balance_of M k) = balance_sum (mg_balances M) + unat v"
  using balance_sum_insert[of k v "mg_balances M"] by (auto simp: balance_of_def split: option.splits)

lemma balance_of_le: "unat (balance_of M a) \<le> balance_sum (mg_balances M)"
proof (cases "hm_get (mg_balances M) a")
  case (Some b)
  then have "(a, b) \<in> set (mg_balances M)" by (simp add: hm_get_def map_of_SomeD)
  then have "unat b \<le> balance_sum (mg_balances M)"
    unfolding balance_sum_def by (force intro: member_le_sum_list)
  with Some show ?thesis by (simp add: balance_of_def)
qed (simp add: balance_of_def)

text \<open>C31: A native transfer moves the amount and nothing else: while the sum of all balances is a
  \<open>u64\<close> it never panics, it keeps that sum, also from an account to itself, leaves every
  other account alone, and fails without a change exactly when the sender has less than the amount.\<close>

theorem transfer_conserves:
  fixes M :: "('d, 'v) manager"
  assumes "balance_sum (mg_balances M) < 2 ^ 64"
  shows "\<exists>r M'. execute_native_transfer N src dst amount M = Some (r, M') \<and>
    balance_sum (mg_balances M') = balance_sum (mg_balances M) \<and>
    (r = Inr () \<longleftrightarrow> amount \<le> balance_of M src) \<and>
    (if amount \<le> balance_of M src \<and> src \<noteq> dst
     then unat (balance_of M' src) + unat amount = unat (balance_of M src) \<and>
          unat (balance_of M' dst) = unat (balance_of M dst) + unat amount
     else balance_of M' src = balance_of M src \<and> balance_of M' dst = balance_of M dst) \<and>
    (\<forall>a. a \<noteq> src \<longrightarrow> a \<noteq> dst \<longrightarrow> balance_of M' a = balance_of M a)"
proof (cases "balance_of M src < amount")
  case True
  then show ?thesis by (auto simp: execute_native_transfer_def)
next
  case False
  then have le: "amount \<le> balance_of M src" by simp
  obtain M1 where M1: "M1 = M\<lparr>mg_balances := hm_insert src (balance_of M src - amount) (mg_balances M)\<rparr>"
    by blast
  obtain b where b: "b = balance_of M1 dst + amount" by blast
  obtain M' where M': "M' = M1\<lparr>mg_balances := hm_insert dst b (mg_balances M1)\<rparr>" by blast
  have sub: "unat (balance_of M src - amount) + unat amount = unat (balance_of M src)"
    using le by (simp add: unat_u64_sub word_le_nat_alt)
  have sum1: "balance_sum (mg_balances M1) + unat amount = balance_sum (mg_balances M)"
    using balance_sum_set[of src "balance_of M src - amount" M] sub by (simp add: M1)
  have fits: "unat (balance_of M1 dst) + unat amount < 2 ^ 64"
    using balance_of_le[of M1 dst] sum1 assms by linarith
  then have run: "execute_native_transfer N src dst amount M = Some (Inr (), M')"
    using False by (simp add: execute_native_transfer_def Let_def flip: M1) (simp add: M' b)
  have ub: "unat b = unat (balance_of M1 dst) + unat amount" using unat_u64_add[OF fits] by (simp add: b)
  have "balance_sum (mg_balances M') = balance_sum (mg_balances M)"
    using balance_sum_set[of dst b M1] ub sum1 by (simp add: M')
  moreover have "balance_of M' a = balance_of M a" if "a \<noteq> src" "a \<noteq> dst" for a
    using that by (simp add: balance_of_def M' M1)
  moreover have at_dst: "balance_of M' dst = b" by (simp add: balance_of_def M')
  moreover have "balance_of M' src = balance_of M src - amount \<and> balance_of M1 dst = balance_of M dst"
    if "src \<noteq> dst" using that by (simp add: balance_of_def M' M1)
  moreover have "b = balance_of M src" if "src = dst" using that by (simp add: b balance_of_def M1)
  ultimately show ?thesis using run le sub ub by (cases "src = dst") auto
qed

theorem transfer_conserves_witness:
  "\<exists>M'. execute_native_transfer (sample_node 0) ''a'' ''b'' 30 sample_manager = Some (Inr (), M') \<and>
     balance_sum (mg_balances M') = 107"
proof -
  have "balance_sum (mg_balances sample_manager) = 107" "(30 :: u64) \<le> balance_of sample_manager ''a''"
    by (simp_all add: sample_manager_simps balance_sum_def balance_of_def)
  then show ?thesis
    using transfer_conserves[of sample_manager "sample_node 0" "''a''" "''b''" 30] by auto
qed

text \<open>\<open>validate_transaction\<close> never returns for an account without an entry: it asks for the write
  lock of the balances under its own read guard.  For the other accounts it compares the
  balance; the account of a transaction added by \<open>add_pending_transaction\<close> has its
  balance set to zero, so that such a transaction of a positive value is then never valid.\<close>

theorem validate_transaction_blocks:
  fixes M :: "('d, 'v) manager"
  shows "(validate_transaction tx M = None \<longleftrightarrow> hm_get (mg_balances M) (tx_from_op tx) = None) \<and>
    (\<exists>M'. add_pending_transaction tx M = Some M' \<and> balance_of M' (tx_from_op tx) = 0 \<and>
      validate_transaction tx M' = Some (tx_value tx = 0, M'))"
  by (auto simp: validate_transaction_def add_pending_transaction_def update_balance_def balance_of_def
      split: option.splits)

end
