(* ===== verification/Consensus_Invariants.thy ===== *)
theory Consensus_Invariants
  imports Sample_Node
begin

text \<open>
  What block production does to the manager.  \<open>production_invariant\<close> is the contract of a property
  that the steps of production keep (a call of the VM, new powers, an added block with the
  pending transactions removed, the saved height); \<open>submission_invariant\<close> adds the
  submission of a transaction.  Their lemmas carry it through the consensus loop.
\<close>

section \<open>Frames\<close>

lemma try_store_frame [simp]:
  "mg_slurachain (try_store N k md M) = mg_slurachain M"
  "mg_last_block_hash (try_store N k md M) = mg_last_block_hash M"
  "mg_pending (try_store N k md M) = mg_pending M"
  "mg_vm (try_store N k md M) = mg_vm M"
  by (simp_all add: try_store_def split: sum.split)

lemma store_states_frame [simp]:
  "mg_slurachain (store_states N n h sts M) = mg_slurachain M"
  "mg_last_block_hash (store_states N n h sts M) = mg_last_block_hash M"
  "mg_pending (store_states N n h sts M) = mg_pending M"
  by (induction sts arbitrary: M) auto

lemma add_block_frame [simp]:
  "mg_slurachain (add_lurosonie_block_to_chain N b M) = mg_slurachain M @ [b]"
  "mg_last_block_hash (add_lurosonie_block_to_chain N b M) = Some (doc_hash N (chain_json N b))"
  "mg_pending (add_lurosonie_block_to_chain N b M) = mg_pending M"
  by (simp_all add: add_lurosonie_block_to_chain_def Let_def)

lemma remove_processed_frame [simp]:
  "mg_slurachain (remove_processed_transactions hs M) = mg_slurachain M"
  "mg_last_block_hash (remove_processed_transactions hs M) = mg_last_block_hash M"
  "mg_storage (remove_processed_transactions hs M) = mg_storage M"
  by (simp_all add: remove_processed_transactions_def)

lemma new_block_simps [simp]:
  "block_number (new_block N now n p s h txs rp M) = n"
  "bd_transactions (new_block N now n p s h txs rp M) = txs"
  "bd_parent_slura_hash (new_block N now n p s h txs rp M) = mg_last_block_hash M"
  "bd_contract_states (new_block N now n p s h txs rp M) = []"
  by (simp_all add: new_block_def)

lemma try_store_frame2 [simp]:
  "mg_validators (try_store N k md M) = mg_validators M"
  "mg_delegations (try_store N k md M) = mg_delegations M"
  "mg_current_leader (try_store N k md M) = mg_current_leader M"
  by (simp_all add: try_store_def split: sum.split)

lemma produced_frame [simp]:
  "mg_validators (remove_processed_transactions hs (add_lurosonie_block_to_chain N
     (new_block N now n p s h txs rp M) M')) = mg_validators M'"
  "mg_delegations (remove_processed_transactions hs (add_lurosonie_block_to_chain N
     (new_block N now n p s h txs rp M) M')) = mg_delegations M'"
  "mg_current_leader (remove_processed_transactions hs (add_lurosonie_block_to_chain N
     (new_block N now n p s h txs rp M) M')) = mg_current_leader M'"
  "mg_vm (remove_processed_transactions hs (add_lurosonie_block_to_chain N
     (new_block N now n p s h txs rp M) M')) = mg_vm M'"
  by (simp_all add: remove_processed_transactions_def add_lurosonie_block_to_chain_def Let_def)

section \<open>The contract of production\<close>

locale production_invariant =
  fixes N :: "('d, 'v, 'a) node_env_scheme" and P :: "('d, 'v) manager \<Rightarrow> bool"
  assumes vm_call: "P M \<Longrightarrow> vm_execute N (mg_vm M) (mg_storage M) addr f args c = (r, v, d) \<Longrightarrow>
      P (M\<lparr>mg_vm := v, mg_storage := d\<rparr>)"
    and powers: "P M \<Longrightarrow> P (M\<lparr>mg_validators := vs\<rparr>)"
    and add: "P M \<Longrightarrow> P (remove_processed_transactions (map tx_key (map snd (mg_pending M)))
      (add_lurosonie_block_to_chain N
        (new_block N now (get_block_height M + 1) producer sys h (map snd (mg_pending M)) rp M) M))"
    and save: "P M \<Longrightarrow> P (save_last_processed_btc_height N h M)"
begin

lemma execute: "execute_module N addr f args c M = (r, M') \<Longrightarrow> P M \<Longrightarrow> P M'"
  by (auto simp: execute_module_def split: prod.splits intro: vm_call)

lemma produce:
  assumes "produce_lurosonie_block_with_consensus N now (get_block_height M + 1) producer sys h M = Some (r, M')"
    and "P M"
  shows "P M'"
proof -
  from assms(1) obtain rp M1 where M1: "calculate_relay_powers N M = Some (rp, M1)"
    and M': "M' = M1 \<or> M' = remove_processed_transactions (map tx_key (map snd (mg_pending M)))
      (add_lurosonie_block_to_chain N
        (new_block N now (get_block_height M + 1) producer sys h (map snd (mg_pending M)) rp M1) M1)"
    by (auto simp: produce_lurosonie_block_with_consensus_def Let_def bind_eq_Some_conv split: if_splits)
  from M1 obtain vs where vs: "M1 = M\<lparr>mg_validators := vs\<rparr>"
    by (auto simp: calculate_relay_powers_def bind_eq_Some_conv)
  have "P M1" unfolding vs using assms(2) by (rule powers)
  moreover have "mg_pending M1 = mg_pending M" "get_block_height M1 = get_block_height M"
    by (simp_all add: vs get_block_height_def)
  ultimately show ?thesis using M' add[of M1] by auto
qed

lemma bft: "P M \<Longrightarrow> P (snd (lurosonie_bft_consensus N n M))"
  by (auto simp: lurosonie_bft_consensus_def update_validator_power_onchain_def Let_def
      split: prod.splits sum.splits dest: execute)

lemma process_btc_height:
  assumes "process_btc_height N now h M = Some M'" "P M"
  shows "P M'"
proof -
  from assms(1) obtain r M1 where
    M1: "produce_lurosonie_block_with_consensus N now (get_block_height M + 1) (select_block_producer M)
      (select_block_producer M = LUROSONIE_SYSTEM_VALIDATOR) h M = Some (r, M1)"
    and M': "M' = M1 \<or> M' = snd (lurosonie_bft_consensus N (get_block_height M + 1) M1) \<or>
      M' = save_last_processed_btc_height N h (snd (lurosonie_bft_consensus N (get_block_height M + 1) M1))"
  proof -
    from assms(1) obtain n r M1 where n: "u64_add (arith_checks N) (get_block_height M) 1 = Some n"
      and M1: "produce_lurosonie_block_with_consensus N now n (select_block_producer M)
        (select_block_producer M = LUROSONIE_SYSTEM_VALIDATOR) h M = Some (r, M1)"
      and r: "(case r of Inl _ \<Rightarrow> Some M1
        | Inr _ \<Rightarrow> (case lurosonie_bft_consensus N n M1 of
           (Inl _, M2) \<Rightarrow> Some M2
         | (Inr _, M2) \<Rightarrow> Some (save_last_processed_btc_height N h M2))) = Some M'"
      by (auto simp: process_btc_height_def Let_def bind_eq_Some_conv)
    obtain q M2 where "lurosonie_bft_consensus N n M1 = (q, M2)" by fastforce
    with r M1 that u64_add_Some[OF n] show thesis by (cases r; cases q) auto
  qed
  from produce[OF M1 assms(2)] M' bft[of M1] save show ?thesis by auto
qed

lemma process_btc_heights: "process_btc_heights N clock lp is M = Some M' \<Longrightarrow> P M \<Longrightarrow> P M'"
  by (induction "is" arbitrary: M) (auto simp: bind_eq_Some_conv dest: process_btc_height)

lemma consensus_round: "consensus_round N clock lp M = Some (lp', M') \<Longrightarrow> P M \<Longrightarrow> P M'"
  by (auto simp: consensus_round_def bind_eq_Some_conv split: sum.splits if_splits dest: process_btc_heights)

end

locale submission_invariant = production_invariant N P
  for N :: "('d, 'v, 'a) node_env_scheme" and P :: "('d, 'v) manager \<Rightarrow> bool" +
  assumes submit: "P M \<Longrightarrow> add_pending_transaction tx M = Some M' \<Longrightarrow> P M'"
begin

lemma validate_and_add:
  assumes "validate_and_add_transaction N now tx v M = Some (r, M')" "P M"
  shows "P M'"
proof (cases "can_validator_produce_block v M")
  case True
  with assms(1) obtain M1 n q M2 where M1: "add_pending_transaction tx M = Some M1"
    and n: "u64_add (arith_checks N) (get_block_height M1) 1 = Some n"
    and M2: "produce_lurosonie_block_with_consensus N now n v False 0 M1 = Some (q, M2)"
    and r: "(case q of Inl e \<Rightarrow> Some (Inl e, M2) | Inr _ \<Rightarrow> Some (lurosonie_bft_consensus N n M2)) = Some (r, M')"
    by (auto simp: validate_and_add_transaction_def bind_eq_Some_conv)
  have "P M2" using produce[OF M2[unfolded u64_add_Some[OF n]] submit[OF assms(2) M1]] .
  with r bft[of M2 n] show ?thesis by (cases q) auto
next
  case False
  with assms show ?thesis by (simp add: validate_and_add_transaction_def)
qed

end

section \<open>Linked chains\<close>

text \<open>Consecutive numbers, and each block names the hash its predecessor was added with.\<close>

definition linked :: "('d, 'v, 'a) node_env_scheme \<Rightarrow> block_data list \<Rightarrow> bool" where
  "linked N c \<longleftrightarrow> (\<forall>i. Suc i < length c \<longrightarrow>
     block_number (c ! Suc i) = block_number (c ! i) + 1 \<and>
     bd_parent_slura_hash (c ! Suc i) = Some (doc_hash N (chain_json N (c ! i))))"

definition chain_inv :: "('d, 'v, 'a) node_env_scheme \<Rightarrow> ('d, 'v) manager \<Rightarrow> bool" where
  "chain_inv N M \<longleftrightarrow> linked N (mg_slurachain M) \<and>
     (mg_slurachain M \<noteq> [] \<longrightarrow> mg_last_block_hash M = Some (doc_hash N (chain_json N (last (mg_slurachain M)))))"

lemma linked_single [simp]: "linked N [b]"
  by (simp add: linked_def)

lemma linked_snoc:
  assumes "linked N c" "c \<noteq> []" "block_number b = block_number (last c) + 1"
    and "bd_parent_slura_hash b = Some (doc_hash N (chain_json N (last c)))"
  shows "linked N (c @ [b])"
  unfolding linked_def
proof (intro allI impI)
  fix i assume i: "Suc i < length (c @ [b])"
  show "block_number ((c @ [b]) ! Suc i) = block_number ((c @ [b]) ! i) + 1 \<and>
    bd_parent_slura_hash ((c @ [b]) ! Suc i) = Some (doc_hash N (chain_json N ((c @ [b]) ! i)))"
  proof (cases "Suc i < length c")
    case True
    with assms(1) show ?thesis by (simp add: linked_def nth_append)
  next
    case False
    with i have "Suc i = length c" by simp
    then have "c ! i = last c" "i < length c" using assms(2) by (auto simp: last_conv_nth simp flip: \<open>Suc i = length c\<close>)
    with assms(3,4) \<open>Suc i = length c\<close> show ?thesis by (simp add: nth_append)
  qed
qed

interpretation chain: submission_invariant N "chain_inv N" for N
proof
  fix M now producer sys h rp
  assume "chain_inv N M"
  then show "chain_inv N (remove_processed_transactions (map tx_key (map snd (mg_pending M)))
      (add_lurosonie_block_to_chain N
        (new_block N now (get_block_height M + 1) producer sys h (map snd (mg_pending M)) rp M) M))"
    by (cases "mg_slurachain M = []") (auto simp: chain_inv_def get_block_height_def intro!: linked_snoc)
qed (auto simp: chain_inv_def save_last_processed_btc_height_def add_pending_transaction_def
    update_balance_def)

section \<open>Transactions under their hash\<close>

text \<open>A pending transaction under a key that no composite key equals is in every new block.\<close>

definition stuck :: "block_data list \<Rightarrow> tx_request \<Rightarrow> ('d, 'v) manager \<Rightarrow> bool" where
  "stuck chain0 tx M \<longleftrightarrow> hm_get (mg_pending M) (tx_hash tx) = Some tx \<and>
     (\<exists>bs. mg_slurachain M = chain0 @ bs \<and> (\<forall>b \<in> set bs. tx \<in> set (bd_transactions b)))"

lemma get_foldl_remove:
  "k \<notin> set hs \<Longrightarrow> hm_get (foldl (\<lambda>p h. hm_remove h p) m hs) k = hm_get m k"
  by (induction hs arbitrary: m) simp_all

lemma stuck_pending:
  "hm_get m k = Some tx \<Longrightarrow> tx \<in> set (map snd m)"
  by (force simp: hm_get_def dest: map_of_SomeD)

lemma colon_in_tx_key: "CHR '':'' \<in> set (tx_key tx)"
  by (simp add: tx_key_def)

lemma stuck_production:
  fixes N :: "('d, 'v, 'a) node_env_scheme"
  assumes "CHR '':'' \<notin> set (tx_hash tx)"
  shows "production_invariant N (stuck chain0 tx)"
proof
  fix M :: "('d, 'v) manager" and now producer sys h rp
  assume s: "stuck chain0 tx M"
  have "tx_hash tx \<notin> set (map tx_key (map snd (mg_pending M)))"
    using assms colon_in_tx_key by auto
  with s show "stuck chain0 tx (remove_processed_transactions (map tx_key (map snd (mg_pending M)))
      (add_lurosonie_block_to_chain N
        (new_block N now (get_block_height M + 1) producer sys h (map snd (mg_pending M)) rp M) M))"
    using stuck_pending[of "mg_pending M" "tx_hash tx" tx]
    by (auto simp: stuck_def remove_processed_transactions_def get_foldl_remove simp del: set_map)
qed (auto simp: stuck_def save_last_processed_btc_height_def)

end
