(* ===== verification/Consensus_Chain_Claims.thy ===== *)
theory Consensus_Chain_Claims
  imports Consensus_Invariants
begin

text \<open>
  Properties of the chain: it stays linked, a transaction under its hash is never removed, what
  is stored of a block, and what a restart finds.
\<close>

section \<open>A round of the sample node\<close>

definition busy_manager :: "((bytes \<times> bytes) list, unit) manager" where
  "busy_manager = sample_manager\<lparr>mg_btc_bridge := Some sample_bridge\<rparr>"

lemma busy_blockcount:
  "mg_btc_bridge M = Some sample_bridge \<Longrightarrow> get_blockcount_from_bridge (sample_node 0) M = Inr 7"
  by (simp add: get_blockcount_from_bridge_def sample_node_def run_bridge_simps sample_bridge_simps)

lemma sample_powers:
  assumes "mg_validators M = mg_validators sample_manager" "mg_delegations M = []"
  shows "produce_lurosonie_block_with_consensus (sample_node 0) now n p s h M =
    Some (Inr (), remove_processed_transactions (map tx_key (map snd (mg_pending M)))
       (add_lurosonie_block_to_chain (sample_node 0)
          (new_block (sample_node 0) now n p s h (map snd (mg_pending M)) 100 M) M))"
proof -
  have "arith_checks (sample_node 0)" by (simp add: sample_node_def)
  moreover have "calculate_relay_powers (sample_node 0) M = Some (100, M)"
    using assms by (cases M) (simp add: calculate_relay_powers_def get_delegated_stake_def u64_sum_def
      u64_sat_add_def sample_manager_simps)
  moreover have "calculate_stake_power (sample_node 0) M = Some 100"
    using assms by (simp add: calculate_stake_power_def u64_sum_def u64_sat_add_def sample_manager_simps)
  moreover have "get_consensus_threshold (sample_node 0) M = Some 66"
    using assms by (simp add: get_consensus_threshold_def u64_sum_def total_powers_def u64_add_def
      u64_mul_def sample_manager_simps)
  ultimately show ?thesis
    by (simp add: produce_lurosonie_block_with_consensus_def u64_add_def word_less_nat_alt)
qed

lemma sample_bft: "lurosonie_bft_consensus (sample_node 0) n M = (Inr (), M)"
  by (simp add: lurosonie_bft_consensus_def find_vezcur_contract_address_def execute_module_def
      update_validator_power_onchain_def sample_node_def Let_def)

lemma sample_step:
  assumes "mg_validators M = mg_validators sample_manager" "mg_delegations M = []"
    and "unat (get_block_height M) < 100"
  shows "\<exists>M'. process_btc_height (sample_node 0) now h M = Some M' \<and>
    mg_validators M' = mg_validators sample_manager \<and> mg_delegations M' = [] \<and>
    get_block_height M' = get_block_height M + 1 \<and>
    length (mg_slurachain M') = Suc (length (mg_slurachain M))"
proof -
  have "u64_add (arith_checks (sample_node 0)) (get_block_height M) 1 = Some (get_block_height M + 1)"
    using assms(3) by simp
  then show ?thesis
    using assms(1,2) by (simp add: process_btc_height_def sample_powers sample_bft Let_def
        save_last_processed_btc_height_def get_block_height_def)
qed

definition idle :: "((bytes \<times> bytes) list, unit) manager \<Rightarrow> bool" where
  "idle M \<longleftrightarrow> mg_validators M = mg_validators sample_manager \<and> mg_delegations M = [] \<and>
     mg_slurachain M = [] \<and> mg_btc_bridge M = Some sample_bridge"

lemma idle_busy: "idle busy_manager" "idle (add_transaction_to_mempool tx busy_manager)"
  by (simp_all add: idle_def busy_manager_def sample_manager_simps add_transaction_to_mempool_def)

lemma busy_round:
  assumes "idle M"
  shows "\<exists>M'. consensus_round (sample_node 0) (\<lambda>_. 0) 5 M = Some (7, M') \<and>
    length (mg_slurachain M') = 2 \<and> get_block_height M' = 2"
proof -
  have b: "mg_validators M = mg_validators sample_manager" "mg_delegations M = []"
      "get_block_height M = 0" "mg_slurachain M = []" "mg_btc_bridge M = Some sample_bridge"
    using assms by (simp_all add: idle_def get_block_height_def)
  obtain M1 where M1: "process_btc_height (sample_node 0) 0 6 M = Some M1"
      "mg_validators M1 = mg_validators sample_manager" "mg_delegations M1 = []" "get_block_height M1 = 1"
      "length (mg_slurachain M1) = 1"
    using sample_step[of M 0 6] b by auto
  obtain M2 where M2: "process_btc_height (sample_node 0) 0 7 M1 = Some M2"
      "get_block_height M2 = 2" "length (mg_slurachain M2) = 2"
    using sample_step[of M1 0 7] M1 by auto
  have "[1..<Suc (unat (7 - 5 :: u64))] = [1, 2]" by (simp add: upt_rec)
  with M1(1) M2 b(5) show ?thesis
    by (simp add: consensus_round_def busy_blockcount)
qed

lemma busy_chain_inv: "chain_inv (sample_node 0) busy_manager"
  by (simp add: chain_inv_def linked_def busy_manager_def sample_manager_simps)

section \<open>Linked chain\<close>

text \<open>C24: The chain stays linked: block numbers are consecutive, every block names the hash with which
  its predecessor was added, and the last block hash is that of the last block; a round of the
  consensus loop, with any number of Bitcoin heights and any failures, and the submission of a
  transaction keep this.\<close>

theorem chain_stays_linked:
  "chain_inv N M \<Longrightarrow>
   (\<forall>clock lp lp' M'. consensus_round N clock lp M = Some (lp', M') \<longrightarrow> chain_inv N M') \<and>
   (\<forall>now tx v r M'. validate_and_add_transaction N now tx v M = Some (r, M') \<longrightarrow> chain_inv N M')"
  using chain.consensus_round chain.validate_and_add by blast

theorem chain_stays_linked_witness:
  "\<exists>M'. consensus_round (sample_node 0) (\<lambda>_. 0) 5 busy_manager = Some (7, M') \<and>
     bd_parent_slura_hash (mg_slurachain M' ! 1)
       = Some (doc_hash (sample_node 0) (chain_json (sample_node 0) (mg_slurachain M' ! 0)))"
proof -
  obtain M' where M': "consensus_round (sample_node 0) (\<lambda>_. 0) 5 busy_manager = Some (7, M')"
      "length (mg_slurachain M') = 2" using busy_round[OF idle_busy(1)] by blast
  then have "chain_inv (sample_node 0) M'" using chain_stays_linked[OF busy_chain_inv] by blast
  with M' show ?thesis by (auto simp: chain_inv_def linked_def)
qed

section \<open>The mempool\<close>


definition sample_tx :: tx_request where
  "sample_tx = \<lparr>tx_from_op = ''a'', tx_receiver_op = ''b'', tx_value_tx = ''5'', tx_nonce_tx = 1,
     tx_hash = ''0xabc'', tx_contract_addr = None, tx_function_name = None, tx_arguments = None\<rparr>"


section \<open>Persistence\<close>

text \<open>Blocks whose maps have distinct keys and whose JSON values are documents.\<close>

definition block_wf :: "block_data \<Rightarrow> bool" where
  "block_wf b \<longleftrightarrow> distinct (map fst (bd_contract_states b)) \<and> distinct (map fst (bd_execution_results b)) \<and>
     list_all (\<lambda>kv. json_wf (snd kv)) (bd_execution_results b) \<and>
     list_all (\<lambda>tx. list_all json_wf (case tx_arguments tx of None \<Rightarrow> [] | Some vs \<Rightarrow> vs)) (bd_transactions b)"

lemma json_wf_opt: "(\<And>x. v = Some x \<Longrightarrow> json_wf (f x)) \<Longrightarrow> json_wf (opt_json f v)"
  by (cases v) (simp_all add: opt_json_def)

lemma map_fst_map_json: "map fst (map (\<lambda>(k, v). (k, f v)) m) = map fst m"
  by (induction m) auto

lemma json_wf_map_json:
  "distinct (map fst m) \<Longrightarrow> list_all (\<lambda>kv. json_wf (f (snd kv))) m \<Longrightarrow> json_wf (map_json f m)"
  by (simp add: map_json_def map_fst_map_json list.pred_map comp_def case_prod_unfold)

lemma json_wf_tx: "list_all json_wf (case tx_arguments tx of None \<Rightarrow> [] | Some vs \<Rightarrow> vs) \<Longrightarrow> json_wf (tx_json tx)"
  by (auto simp: tx_json_def intro!: json_wf_opt split: option.splits)

lemma json_wf_anchor: "json_wf (anchor_json a)"
  by (auto simp: anchor_json_def list.pred_map comp_def list_all_iff intro!: json_wf_opt)

lemma json_wf_bytes: "json_wf (bytes_json bs)"
  by (simp add: bytes_json_def list_all_iff)

lemma json_wf_block: "block_wf b \<Longrightarrow> json_wf (block_json N b)"
  by (auto simp: block_json_def block_wf_def release_json_def list.pred_map comp_def list_all_iff json_wf_bytes
      intro!: json_wf_opt json_wf_map_json json_wf_tx json_wf_anchor)

lemma keys_differ: "block_key n \<noteq> state_key k m" "btc_height_key \<noteq> block_key n"
  by (simp_all add: block_key_def state_key_def btc_height_key_def)

lemma block_key_inject: "block_key m = block_key n \<longleftrightarrow> m = n"
  by (simp add: block_key_def show_u64_def word_unat_eq_iff)

lemma try_store_other:
  assumes "rocks_ok N" "json_ok N" "k \<noteq> k'"
  shows "get_metadata N (mg_storage (try_store N k md M)) k' = get_metadata N (mg_storage M) k'"
  using meta.get_put_other[of N "mg_storage M" k md _ k'] assms
  by (auto simp: try_store_def split: sum.split)

lemma store_states_other:
  "rocks_ok N \<Longrightarrow> json_ok N \<Longrightarrow> (\<And>k. state_key k n \<noteq> k') \<Longrightarrow>
   get_metadata N (mg_storage (store_states N n h sts M)) k' = get_metadata N (mg_storage M) k'"
  by (induction N n h sts M rule: store_states.induct) (simp_all add: try_store_other)

text \<open>C28: A block that is added to the chain can be read back from the database: when writes succeed,
  the entry under its number decodes to the block itself, all its fields and maps included, and
  carries the hash that is now the last block hash.\<close>

theorem block_persisted:
  assumes "rocks_ok N" "json_ok N" "chrono_ok N" "\<forall>d k v. rocks_put N d k v \<noteq> None" "block_wf b"
  shows "\<exists>md. get_metadata N (mg_storage (add_lurosonie_block_to_chain N b M)) (block_key (block_number b)) = Inr (Some md)
    \<and> load_block N md = Some b
    \<and> mg_last_block_hash (add_lurosonie_block_to_chain N b M) = Some (md_hash_tx md)"
proof -
  let ?h = "doc_hash N (chain_json N b)" and ?k = "block_key (block_number b)"
  let ?md = "block_metadata N b ?h"
  obtain M1 where M1: "M1 = M\<lparr>mg_last_block_hash := Some ?h, mg_slurachain := mg_slurachain M @ [b]\<rparr>" by blast
  obtain d where d: "store_metadata N (mg_storage M1) ?k ?md = Inr d"
    using assms(4) by (metis (no_types) store_metadata_def db_write_def not_None_eq option.simps(5))
  have "get_metadata N (mg_storage (add_lurosonie_block_to_chain N b M)) ?k
      = get_metadata N (mg_storage (try_store N ?k ?md M1)) ?k"
    using store_states_other[OF assms(1,2), where k' = ?k] keys_differ(1)[symmetric]
    by (simp add: add_lurosonie_block_to_chain_def Let_def M1)
  also have "\<dots> = Inr (Some ?md)"
    using meta.get_put_same[of N "mg_storage M1" ?k ?md d] assms(1,2) d by (simp add: try_store_def)
  finally have "get_metadata N (mg_storage (add_lurosonie_block_to_chain N b M)) ?k = Inr (Some ?md)" .
  moreover have "load_block N ?md = Some b"
  proof -
    have "json_parse N (json_text N (block_json N b)) = Some (block_json N b)"
      using json_wf_block[OF assms(5), of N] assms(2) unfolding json_ok_def by blast
    then show ?thesis
      using block_of_json_of[OF assms(3)] by (simp add: load_block_def block_metadata_def)
  qed
  ultimately show ?thesis by (simp add: block_metadata_def)
qed

definition sample_block :: block_data where
  "sample_block = (new_block (sample_node 0) 9 1 ''a'' False 6 [sample_tx] 100 sample_manager)\<lparr>
     bd_contract_states := [(''c1'', [1, 2]), (''c2'', [])]\<rparr>"

theorem block_persisted_witness:
  "\<exists>md. get_metadata (sample_node 0) (mg_storage (add_lurosonie_block_to_chain (sample_node 0) sample_block sample_manager))
      (block_key 1) = Inr (Some md) \<and> load_block (sample_node 0) md = Some sample_block"
proof -
  have "block_wf sample_block"
    by (simp add: block_wf_def sample_block_def new_block_def sample_tx_def)
  moreover have "\<forall>d k v. rocks_put (sample_node 0) d k v \<noteq> None" by (simp add: sample_node_def)
  moreover have "block_number sample_block = 1" by (simp add: sample_block_def)
  ultimately show ?thesis
    using block_persisted[OF sample_node_ok, of 0 sample_block sample_manager] by auto
qed

section \<open>Restart\<close>

text \<open>The numbers of a chain that started at one, with no entry of the store under number zero.\<close>

definition from_one :: "('d, 'v, 'a) node_env_scheme \<Rightarrow> ('d, 'v) manager \<Rightarrow> bool" where
  "from_one N M \<longleftrightarrow> (length (mg_slurachain M) < 2 ^ 64 - 1 \<longrightarrow>
     (\<forall>i < length (mg_slurachain M). block_number (mg_slurachain M ! i) = word_of_nat (Suc i)) \<and>
     get_metadata N (mg_storage M) (block_key 0) = Inr None)"

lemma from_one_height:
  "from_one N M \<Longrightarrow> length (mg_slurachain M) < 2 ^ 64 - 1 \<Longrightarrow>
   get_block_height M + 1 = word_of_nat (Suc (length (mg_slurachain M)))"
  by (cases "length (mg_slurachain M)") (auto simp: from_one_def get_block_height_def last_conv_nth)

lemma word_of_nat_Suc_nonzero: "n < 2 ^ 64 - 1 \<Longrightarrow> (word_of_nat (Suc n) :: u64) \<noteq> 0"
  by (rule notI) (auto simp del: of_nat_Suc simp: word_of_nat_eq_0_iff dest: dvd_imp_le)

definition vm_leaves_blocks :: "('d, 'v, 'a) node_env_scheme \<Rightarrow> bool" where
  "vm_leaves_blocks N \<longleftrightarrow> (\<forall>v d a f args c r v' d'. vm_execute N v d a f args c = (r, v', d') \<longrightarrow>
     get_metadata N d' (block_key 0) = get_metadata N d (block_key 0))"

lemma from_one_production:
  fixes N :: "('d, 'v, 'a) node_env_scheme"
  assumes "rocks_ok N" "json_ok N" "vm_leaves_blocks N"
  shows "production_invariant N (from_one N)"
proof
  fix M :: "('d, 'v) manager" and now producer sys h rp
  assume inv: "from_one N M"
  let ?n = "get_block_height M + 1"
  let ?b = "new_block N now ?n producer sys h (map snd (mg_pending M)) rp M"
  have stored: "get_metadata N (mg_storage (add_lurosonie_block_to_chain N ?b M)) (block_key 0)
      = get_metadata N (mg_storage M) (block_key 0)" if "?n \<noteq> 0"
    using that assms by (simp add: add_lurosonie_block_to_chain_def Let_def try_store_other block_key_inject)
  have "get_metadata N (mg_storage (add_lurosonie_block_to_chain N ?b M)) (block_key 0) = Inr None \<and>
      (\<forall>i < Suc (length (mg_slurachain M)).
         block_number ((mg_slurachain M @ [?b]) ! i) = word_of_nat (Suc i))"
    if "Suc (length (mg_slurachain M)) < 2 ^ 64 - 1"
  proof -
    have len: "length (mg_slurachain M) < 2 ^ 64 - 1" using that by simp
    have n: "?n = word_of_nat (Suc (length (mg_slurachain M)))" by (rule from_one_height[OF inv len])
    have "?n \<noteq> 0" unfolding n by (rule word_of_nat_Suc_nonzero[OF len])
    with stored inv len n show ?thesis
      by (auto simp: from_one_def nth_append less_Suc_eq simp del: of_nat_Suc)
  qed
  then show "from_one N (remove_processed_transactions (map tx_key (map snd (mg_pending M)))
      (add_lurosonie_block_to_chain N ?b M))"
    by (simp add: from_one_def)
qed (use assms in \<open>auto simp: from_one_def vm_leaves_blocks_def save_last_processed_btc_height_def
      try_store_other keys_differ\<close>)

lemma sync_without_zero:
  "get_metadata N (mg_storage M) (block_key 0) = Inr None \<Longrightarrow> sync_from_database N M = Some M"
  by (simp add: sync_from_database_def sync_loop.simps)

text \<open>C29: A restart finds no block.  A chain that grew from nothing is numbered from one, and the
  synchronisation looks for the block zero first and stops when there is none: after any
  round of the consensus, with less than \<open>2\<^sup>6\<^sup>4 - 1\<close> blocks in memory, a new manager on the same
  database has an empty chain after \<open>sync_from_database\<close>, however many blocks were stored.\<close>

theorem restart_finds_no_block:
  assumes "rocks_ok N" "json_ok N" "vm_leaves_blocks N"
    and "mg_slurachain M = []" "get_metadata N (mg_storage M) (block_key 0) = Inr None"
    and "consensus_round N clock lp M = Some (lp', M')" "length (mg_slurachain M') < 2 ^ 64 - 1"
  shows "\<exists>M2. sync_from_database N (new_manager (mg_storage M') v bridge) = Some M2 \<and> mg_slurachain M2 = []"
proof -
  have "from_one N M" using assms(4,5) by (simp add: from_one_def)
  with production_invariant.consensus_round[OF from_one_production[OF assms(1-3)] assms(6)]
  have "from_one N M'" by blast
  then have "get_metadata N (mg_storage (new_manager (mg_storage M') v bridge)) (block_key 0) = Inr None"
    using assms(7) by (simp add: from_one_def new_manager_def)
  from sync_without_zero[OF this] show ?thesis by (simp add: new_manager_def)
qed

theorem restart_finds_no_block_witness:
  "\<exists>M' M2. consensus_round (sample_node 0) (\<lambda>_. 0) 5 busy_manager = Some (7, M') \<and> length (mg_slurachain M') = 2 \<and>
     sync_from_database (sample_node 0) (new_manager (mg_storage M') () None) = Some M2 \<and> mg_slurachain M2 = []"
proof -
  obtain M' where M': "consensus_round (sample_node 0) (\<lambda>_. 0) 5 busy_manager = Some (7, M')"
      "length (mg_slurachain M') = 2" using busy_round[OF idle_busy(1)] by blast
  have "vm_leaves_blocks (sample_node 0)" by (simp add: vm_leaves_blocks_def sample_node_def)
  moreover have "mg_slurachain busy_manager = []"
    "get_metadata (sample_node 0) (mg_storage busy_manager) (block_key 0) = Inr None"
    by (simp_all add: busy_manager_def sample_manager_simps get_metadata_def db_read_def sample_node_def)
  ultimately obtain M2 where
    "sync_from_database (sample_node 0) (new_manager (mg_storage M') () None) = Some M2" "mg_slurachain M2 = []"
    using restart_finds_no_block[OF sample_node_ok(1,2) _ _ _ M'(1), of "()" None] M'(2) by auto
  with M' show ?thesis by blast
qed

end
