(* ===== verification/Ebpf.thy ===== *)
theory Ebpf
  imports Prelude
begin

text \<open>
  eBPF instructions (\<open>uvm/runtime/src/ebpf.rs\<close>): the opcodes, the instruction \<open>Insn\<close>, its
  encoding in eight bytes and the decoding of a program.  The lemmas show that both are
  inverse to each other.

  \<open>INSN_SIZE\<close> is 8 and \<open>PROG_MAX_SIZE\<close> is 8000000 bytes.  \<open>off\<close> and \<open>imm\<close> are the words that
  hold the \<open>i16\<close> and the \<open>i32\<close>.
\<close>

section \<open>Opcodes\<close>

text \<open>The opcodes of each group, in the order of the file, composed as the constants there.\<close>

definition BPF_LD :: u8 where "BPF_LD = 0x00"
definition BPF_LDX :: u8 where "BPF_LDX = 0x01"
definition BPF_ST :: u8 where "BPF_ST = 0x02"
definition BPF_STX :: u8 where "BPF_STX = 0x03"
definition BPF_ALU :: u8 where "BPF_ALU = 0x04"
definition BPF_JMP :: u8 where "BPF_JMP = 0x05"
definition BPF_JMP32 :: u8 where "BPF_JMP32 = 0x06"
definition BPF_ALU64 :: u8 where "BPF_ALU64 = 0x07"
definition BPF_CLS_MASK :: u8 where "BPF_CLS_MASK = 0x07"

text \<open>\<open>BPF_W\<close>, \<open>BPF_H\<close>, \<open>BPF_B\<close>, \<open>BPF_DW\<close>, and the modes \<open>BPF_ABS\<close>, \<open>BPF_IND\<close>, \<open>BPF_MEM\<close>, \<open>BPF_XADD\<close>.\<close>

definition ld_abs_ind_opcodes :: "u8 list" where
  "ld_abs_ind_opcodes =
     [BPF_LD OR 0x20 OR 0x10, BPF_LD OR 0x20 OR 0x08, BPF_LD OR 0x20 OR 0x00, BPF_LD OR 0x20 OR 0x18,
      BPF_LD OR 0x40 OR 0x10, BPF_LD OR 0x40 OR 0x08, BPF_LD OR 0x40 OR 0x00, BPF_LD OR 0x40 OR 0x18]"

definition LD_DW_IMM :: u8 where "LD_DW_IMM = BPF_LD OR 0x00 OR 0x18"

definition ldx_opcodes :: "u8 list" where
  "ldx_opcodes = [BPF_LDX OR 0x60 OR 0x10, BPF_LDX OR 0x60 OR 0x08, BPF_LDX OR 0x60 OR 0x00, BPF_LDX OR 0x60 OR 0x18]"

definition store_opcodes :: "u8 list" where
  "store_opcodes =
     [BPF_ST OR 0x60 OR 0x10, BPF_ST OR 0x60 OR 0x08, BPF_ST OR 0x60 OR 0x00, BPF_ST OR 0x60 OR 0x18,
      BPF_STX OR 0x60 OR 0x10, BPF_STX OR 0x60 OR 0x08, BPF_STX OR 0x60 OR 0x00, BPF_STX OR 0x60 OR 0x18]"

definition xadd_opcodes :: "u8 list" where
  "xadd_opcodes = [BPF_STX OR 0xc0 OR 0x00, BPF_STX OR 0xc0 OR 0x18]"

text \<open>\<open>BPF_NEG\<close> has no source bit, \<open>BPF_END\<close> is the endianness conversion.\<close>

definition alu_opcodes :: "u8 list" where
  "alu_opcodes = concat (map (\<lambda>cls. (cls OR 0x80) #
     concat (map (\<lambda>op. [cls OR 0x00 OR op, cls OR 0x08 OR op])
       [0x00, 0x10, 0x20, 0x30, 0x40, 0x50, 0x60, 0x70, 0x90, 0xa0, 0xb0, 0xc0])) [BPF_ALU, BPF_ALU64])"

definition endian_opcodes :: "u8 list" where
  "endian_opcodes = [BPF_ALU OR 0x00 OR 0xd0, BPF_ALU OR 0x08 OR 0xd0]"

definition JA :: u8 where "JA = BPF_JMP OR 0x00"

definition cond_jump_opcodes :: "u8 list" where
  "cond_jump_opcodes = concat (map (\<lambda>cls. concat (map (\<lambda>op. [cls OR 0x00 OR op, cls OR 0x08 OR op])
     [0x10, 0x20, 0x30, 0xa0, 0xb0, 0x40, 0x50, 0x60, 0x70, 0xc0, 0xd0])) [BPF_JMP, BPF_JMP32])"

definition CALL :: u8 where "CALL = BPF_JMP OR 0x80"
definition TAIL_CALL :: u8 where "TAIL_CALL = BPF_JMP OR 0x08 OR 0x80"
definition EXIT :: u8 where "EXIT = BPF_JMP OR 0x90"

section \<open>Instructions\<close>

record insn =
  opc :: u8
  dst :: u8
  src :: u8
  off :: "16 word"
  imm :: "32 word"

definition to_array :: "insn \<Rightarrow> bytes" where
  "to_array i =
     [opc i,
      push_bit 4 (src i) OR dst i,
      ucast (off i AND 0xff),
      ucast (signed_drop_bit 8 (off i)),
      ucast (imm i AND 0xff),
      ucast (signed_drop_bit 8 (imm i AND 0xff00)),
      ucast (drop_bit 16 (imm i AND 0xff0000)),
      ucast (drop_bit 24 (imm i AND 0xff000000))]"

text \<open>\<open>LittleEndian::read_i16\<close> and \<open>read_i32\<close>.\<close>

definition read_i16 :: "u8 \<Rightarrow> u8 \<Rightarrow> 16 word" where
  "read_i16 b0 b1 = ucast b0 OR push_bit 8 (ucast b1)"

definition read_i32 :: "u8 \<Rightarrow> u8 \<Rightarrow> u8 \<Rightarrow> u8 \<Rightarrow> 32 word" where
  "read_i32 b0 b1 b2 b3 = ucast b0 OR push_bit 8 (ucast b1) OR push_bit 16 (ucast b2) OR push_bit 24 (ucast b3)"

fun decode :: "bytes \<Rightarrow> insn option" where
  "decode (b0 # b1 # b2 # b3 # b4 # b5 # b6 # b7 # _) =
     Some \<lparr>opc = b0, dst = b1 AND 0x0f, src = drop_bit 4 (b1 AND 0xf0), off = read_i16 b2 b3,
           imm = read_i32 b4 b5 b6 b7\<rparr>"
| "decode _ = None"

text \<open>\<open>get_insn\<close>; the products are \<open>usize\<close>.\<close>

definition usize_mul :: "bool \<Rightarrow> nat \<Rightarrow> nat \<Rightarrow> nat option" where
  "usize_mul oc a b =
     (if a * b \<le> usize_max then Some (a * b)
      else if oc then None else Some (a * b mod 18446744073709551616))"

definition get_insn :: "bool \<Rightarrow> bytes \<Rightarrow> nat \<Rightarrow> insn option" where
  "get_insn oc prog idx = do {
     n \<leftarrow> usize_add oc idx 1;
     e \<leftarrow> usize_mul oc n 8;
     if length prog < e then None
     else do { b \<leftarrow> usize_mul oc 8 idx; decode (drop b prog) } }"

function to_insn_loop :: "bool \<Rightarrow> bytes \<Rightarrow> nat \<Rightarrow> insn list option" where
  "to_insn_loop oc prog p =
     (if p * 8 < length prog then do {
        i \<leftarrow> get_insn oc prog p;
        is \<leftarrow> to_insn_loop oc prog (p + 1);
        Some (i # is) }
      else Some [])"
  by pat_completeness auto
termination
  by (relation "measure (\<lambda>(oc, prog, p). length prog - p)") auto

declare to_insn_loop.simps [simp del]

definition to_insn_vec :: "bool \<Rightarrow> bytes \<Rightarrow> insn list option" where
  "to_insn_vec oc prog = (if length prog mod 8 \<noteq> 0 then None else to_insn_loop oc prog 0)"

section \<open>Encoding and decoding are inverse\<close>

definition insn_ok :: "insn \<Rightarrow> bool" where
  "insn_ok i \<longleftrightarrow> dst i < 16 \<and> src i < 16"

lemma length_to_array [simp]: "length (to_array i) = 8"
  by (simp add: to_array_def)


lemma u8_16_take_bit: "(w :: u8) < 16 \<longleftrightarrow> take_bit 4 w = w"
proof
  assume "w < 16"
  then have "unat w < 2 ^ 4" by (simp add: word_less_nat_alt)
  then show "take_bit 4 w = w" by (metis take_bit_nat_eq_self unsigned_take_bit_eq unsigned_word_eqI)
next
  assume "take_bit 4 w = w"
  then have "unat w = take_bit 4 (unat w)" by (metis unsigned_take_bit_eq)
  then have "unat w < 2 ^ 4" by (metis take_bit_nat_less_exp)
  then show "w < 16" by (simp add: word_less_nat_alt)
qed

lemma word4_bits: "(w :: u8) < 16 \<Longrightarrow> 4 \<le> n \<Longrightarrow> \<not> bit w n"
  by (metis u8_16_take_bit bit_take_bit_iff not_less)

lemma mask_consts:
  "(w :: u8) AND 0x0f = take_bit 4 w" "(v :: 16 word) AND 0xff = take_bit 8 v" "(u :: 32 word) AND 0xff = take_bit 8 u"
  by (simp_all add: take_bit_eq_mask mask_eq_exp_minus_1)

lemma high_masks:
  "(w :: u8) AND 0xf0 = push_bit 4 (drop_bit 4 w)"
  "(u :: 32 word) AND 0xff00 = push_bit 8 (take_bit 8 (drop_bit 8 u))"
  "(u :: 32 word) AND 0xff0000 = push_bit 16 (take_bit 8 (drop_bit 16 u))"
  "(u :: 32 word) AND 0xff000000 = push_bit 24 (take_bit 8 (drop_bit 24 u))"
proof -
  have a: "(0xf0 :: u8) = push_bit 4 (mask 4)" "(0xff00 :: 32 word) = push_bit 8 (mask 8)"
    "(0xff0000 :: 32 word) = push_bit 16 (mask 8)" "(0xff000000 :: 32 word) = push_bit 24 (mask 8)"
    by (simp_all add: mask_eq_exp_minus_1)
  show "(w :: u8) AND 0xf0 = push_bit 4 (drop_bit 4 w)"
    "(u :: 32 word) AND 0xff00 = push_bit 8 (take_bit 8 (drop_bit 8 u))"
    "(u :: 32 word) AND 0xff0000 = push_bit 16 (take_bit 8 (drop_bit 16 u))"
    "(u :: 32 word) AND 0xff000000 = push_bit 24 (take_bit 8 (drop_bit 24 u))"
    unfolding a by (rule bit_word_eqI, auto simp: bit_simps)+
qed

lemma decode_regs:
  assumes "insn_ok i"
  shows "(push_bit 4 (src i) OR dst i) AND 0x0f = dst i"
    and "drop_bit 4 ((push_bit 4 (src i) OR dst i) AND 0xf0) = src i"
  unfolding mask_consts high_masks
  using assms by (auto intro!: bit_word_eqI simp: bit_simps insn_ok_def word4_bits)
     (metis word4_bits not_less)

lemma decode_off: "read_i16 (ucast (v AND 0xff)) (ucast (signed_drop_bit 8 v)) = v"
  unfolding read_i16_def mask_consts
  by (rule bit_word_eqI, rename_tac n, case_tac "n < 8"; auto simp: bit_simps)

lemma decode_imm:
  "read_i32 (ucast (u AND 0xff)) (ucast (signed_drop_bit 8 (u AND 0xff00)))
     (ucast (drop_bit 16 (u AND 0xff0000))) (ucast (drop_bit 24 (u AND 0xff000000))) = u"
  unfolding read_i32_def mask_consts high_masks
  by (rule bit_word_eqI, rename_tac n, case_tac "n < 8"; case_tac "n < 16"; case_tac "n < 24"; auto simp: bit_simps)

lemma decode_to_array: "insn_ok i \<Longrightarrow> decode (to_array i @ r) = Some i"
  unfolding to_array_def append_Cons append_Nil decode.simps
  by (simp only: decode_regs decode_off decode_imm) simp

lemma decode_ok: "decode bs = Some i \<Longrightarrow> insn_ok i \<and> to_array i = take 8 bs"
proof (cases bs rule: decode.cases)
  case (1 b0 b1 b2 b3 b4 b5 b6 b7 r)
  assume "decode bs = Some i"
  then have i: "i = \<lparr>opc = b0, dst = b1 AND 0x0f, src = drop_bit 4 (b1 AND 0xf0), off = read_i16 b2 b3,
           imm = read_i32 b4 b5 b6 b7\<rparr>" using 1 by simp
  have "insn_ok i"
    unfolding insn_ok_def u8_16_take_bit i insn.select_convs mask_consts high_masks
    by (auto intro!: bit_word_eqI simp: bit_simps)
  moreover have "push_bit 4 (drop_bit 4 (b1 AND 0xf0)) OR (b1 AND 0x0f) = b1"
    unfolding mask_consts high_masks
    by (rule bit_word_eqI, rename_tac n, case_tac "n < 4"; auto simp: bit_simps)
  moreover have "ucast (read_i16 b2 b3 AND 0xff) = b2" "ucast (signed_drop_bit 8 (read_i16 b2 b3)) = b3"
    unfolding mask_consts read_i16_def by (rule bit_word_eqI, auto simp: bit_simps dest: bit_imp_le_length)+
  moreover have "ucast (read_i32 b4 b5 b6 b7 AND 0xff) = b4"
    "ucast (signed_drop_bit 8 (read_i32 b4 b5 b6 b7 AND 0xff00)) = b5"
    "ucast (drop_bit 16 (read_i32 b4 b5 b6 b7 AND 0xff0000)) = b6"
    "ucast (drop_bit 24 (read_i32 b4 b5 b6 b7 AND 0xff000000)) = b7"
    unfolding mask_consts high_masks read_i32_def
    by (rule bit_word_eqI, auto simp: bit_simps dest: bit_imp_le_length)+
  ultimately show ?thesis using 1 by (simp add: to_array_def i)
qed auto

lemma get_insn_small:
  "length prog < 2 ^ 64 \<Longrightarrow> 8 * Suc idx \<le> length prog \<Longrightarrow> get_insn oc prog idx = decode (drop (8 * idx) prog)"
  by (simp add: get_insn_def usize_mul_def)

lemma decode_exists: "8 \<le> length bs \<Longrightarrow> \<exists>i. decode bs = Some i"
  by (cases bs rule: decode.cases) auto

lemma to_insn_loop_encoded:
  "length (concat (map to_array pre)) + length (concat (map to_array is)) < 2 ^ 64 \<Longrightarrow> list_all insn_ok is \<Longrightarrow>
   to_insn_loop oc (concat (map to_array pre) @ concat (map to_array is)) (length pre) = Some is"
proof (induction "is" arbitrary: pre)
  case Nil
  then show ?case by (simp add: to_insn_loop.simps length_concat comp_def sum_list_triv)
next
  case (Cons i "is")
  let ?p = "concat (map to_array pre) @ concat (map to_array (i # is))"
  have len: "length (concat (map to_array xs)) = 8 * length xs" for xs
    by (simp add: length_concat comp_def sum_list_triv)
  have "get_insn oc ?p (length pre) = decode (drop (8 * length pre) ?p)"
    by (rule get_insn_small) (use Cons.prems(1) in \<open>simp_all add: len\<close>)
  also have "\<dots> = Some i" using Cons.prems(2) by (simp add: len decode_to_array)
  finally have g: "get_insn oc ?p (length pre) = Some i" .
  have "to_insn_loop oc (concat (map to_array (pre @ [i])) @ concat (map to_array is)) (length (pre @ [i])) = Some is"
    by (rule Cons.IH) (use Cons.prems in simp_all)
  with g show ?case
    by (subst to_insn_loop.simps) (simp add: len)
qed

lemma to_insn_loop_decodes:
  assumes "length prog < 2 ^ 64" "length prog = 8 * n" "p \<le> n"
  shows "\<exists>is. to_insn_loop oc prog p = Some is \<and> concat (map to_array is) = drop (8 * p) prog \<and>
    list_all insn_ok is \<and> length is = n - p"
  using assms(3)
proof (induction "n - p" arbitrary: p)
  case 0
  then show ?case using assms(2) by (simp add: to_insn_loop.simps)
next
  case (Suc k)
  then have p: "p < n" by simp
  have e: "8 * Suc p \<le> length prog" using p assms(2) by simp
  then have "8 \<le> length (drop (8 * p) prog)" by simp
  with e obtain i where i: "get_insn oc prog p = Some i" "decode (drop (8 * p) prog) = Some i"
    using get_insn_small[OF assms(1), of p oc] decode_exists[of "drop (8 * p) prog"] by auto
  have "k = n - Suc p" "Suc p \<le> n" using Suc.hyps(2) p by auto
  from Suc.hyps(1)[OF this] obtain js where js: "to_insn_loop oc prog (Suc p) = Some js"
    "concat (map to_array js) = drop (8 * Suc p) prog" "list_all insn_ok js" "length js = n - Suc p" by blast
  have "to_array i @ drop (8 * Suc p) prog = drop (8 * p) prog"
    using decode_ok[OF i(2)] append_take_drop_id[of 8 "drop (8 * p) prog"] by (simp add: add.commute)
  with i js p assms(2) decode_ok[OF i(2)] show ?case
    by (intro exI[of _ "i # js"]) (simp add: to_insn_loop.simps[of oc prog p])
qed

end
