(* ===== verification/Ebpf_Verifier.thy ===== *)
theory Ebpf_Verifier
  imports Ebpf
begin

text \<open>
  The verifier of eBPF programs (\<open>uvm/runtime/src/verifier.rs\<close>), and what an accepted program
  can reach.  \<open>unimplemented!()\<close> is a panic, \<open>None\<close>.

  The graph of a program has an edge to the next instruction, over the second half of a
  \<open>LD_DW_IMM\<close>, and to the target of a jump; a call is followed to the instruction after it.
\<close>

section \<open>The verifier\<close>

datatype verifier_error =
    Bad_Length
  | Too_Long nat
  | No_Program
  | No_Exit
  | Bad_Endian nat
  | Incomplete_Lddw nat
  | Infinite_Loop nat
  | Jump_Out int nat
  | Jump_Middle int nat
  | Bad_Source nat
  | Write_R10 nat
  | Bad_Destination nat
  | Call_Out int nat
  | Bad_Call u8 nat
  | Unknown_Opcode u8 nat
  | Jumped_Out nat

definition check_prog_len :: "bool \<Rightarrow> bytes \<Rightarrow> (verifier_error + unit) option" where
  "check_prog_len oc prog =
     (if length prog mod 8 \<noteq> 0 then Some (Inl Bad_Length)
      else if 8000000 < length prog then Some (Inl (Too_Long (length prog div 8)))
      else if prog = [] then Some (Inl No_Program)
      else do {
        i \<leftarrow> get_insn oc prog (length prog div 8 - 1);
        Some (if opc i AND BPF_CLS_MASK \<noteq> BPF_JMP then Inl No_Exit else Inr ()) })"

definition check_imm_endian :: "insn \<Rightarrow> nat \<Rightarrow> verifier_error + unit" where
  "check_imm_endian i p = (if imm i \<in> {16, 32, 64} then Inr () else Inl (Bad_Endian p))"

definition check_load_dw :: "bool \<Rightarrow> bytes \<Rightarrow> nat \<Rightarrow> (verifier_error + unit) option" where
  "check_load_dw oc prog p = do {
     i \<leftarrow> get_insn oc prog (p + 1);
     Some (if opc i \<noteq> 0 then Inl (Incomplete_Lddw p) else Inr ()) }"

definition jump_target :: "insn \<Rightarrow> nat \<Rightarrow> int" where
  "jump_target i p = int p + 1 + sint (off i)"

definition check_jmp_offset :: "bool \<Rightarrow> bytes \<Rightarrow> nat \<Rightarrow> (verifier_error + unit) option" where
  "check_jmp_offset oc prog p = do {
     i \<leftarrow> get_insn oc prog p;
     if off i = - 1 then Some (Inl (Infinite_Loop p))
     else let t = jump_target i p
       in if t < 0 \<or> length prog div 8 \<le> nat t then Some (Inl (Jump_Out t p))
          else do {
            j \<leftarrow> get_insn oc prog (nat t);
            Some (if opc j = 0 then Inl (Jump_Middle t p) else Inr ()) } }"

definition check_registers :: "insn \<Rightarrow> bool \<Rightarrow> nat \<Rightarrow> verifier_error + unit" where
  "check_registers i store p =
     (if 10 < src i then Inl (Bad_Source p)
      else if dst i \<le> 9 \<or> dst i = 10 \<and> store then Inr ()
      else if dst i = 10 then Inl (Write_R10 p)
      else Inl (Bad_Destination p))"

definition check_call :: "bytes \<Rightarrow> nat \<Rightarrow> insn \<Rightarrow> verifier_error + unit" where
  "check_call prog p i =
     (if src i = 0 then Inr ()
      else if src i = 1 then
        let t = int p + 1 + sint (imm i)
        in if t < 0 \<or> length prog div 8 \<le> nat t then Inl (Call_Out t p) else Inr ()
      else Inl (Bad_Call (src i) p))"

text \<open>The arms of \<open>match insn.opc\<close>: the instruction pointer and \<open>store\<close> after it.\<close>

definition check_opcode :: "bool \<Rightarrow> bytes \<Rightarrow> nat \<Rightarrow> insn \<Rightarrow> (verifier_error + nat \<times> bool) option" where
  "check_opcode oc prog p i =
     (let go_on = (\<lambda>r. case r of Inl e \<Rightarrow> Inl e | Inr _ \<Rightarrow> Inr (p, False))
      in if opc i \<in> set ld_abs_ind_opcodes then Some (Inr (p, False))
         else if opc i = LD_DW_IMM then do {
           r \<leftarrow> check_load_dw oc prog p;
           Some (case r of Inl e \<Rightarrow> Inl e | Inr _ \<Rightarrow> Inr (p + 1, True)) }
         else if opc i \<in> set ldx_opcodes then Some (Inr (p, False))
         else if opc i \<in> set store_opcodes then Some (Inr (p, True))
         else if opc i \<in> set xadd_opcodes then None
         else if opc i \<in> set alu_opcodes then Some (Inr (p, False))
         else if opc i \<in> set endian_opcodes then Some (go_on (check_imm_endian i p))
         else if opc i = JA \<or> opc i \<in> set cond_jump_opcodes then
           do { r \<leftarrow> check_jmp_offset oc prog p; Some (go_on r) }
         else if opc i = CALL then Some (go_on (check_call prog p i))
         else if opc i = TAIL_CALL then None
         else if opc i = EXIT then Some (Inr (p, False))
         else Some (Inl (Unknown_Opcode (opc i) p)))"

lemma unit_result: "(r :: 'e + unit) \<noteq> Inr () \<Longrightarrow> \<exists>e. r = Inl e"
  by (cases r) simp_all

lemma check_opcode_advances: "check_opcode oc prog p i = Some (Inr (q, s)) \<Longrightarrow> p \<le> q"
  by (auto simp: check_opcode_def Let_def bind_eq_Some_conv split: if_splits sum.splits dest: unit_result)

function check_loop :: "bool \<Rightarrow> bytes \<Rightarrow> nat \<Rightarrow> (verifier_error + unit) option" where
  "check_loop oc prog p =
     (if p * 8 < length prog then do {
        i \<leftarrow> get_insn oc prog p;
        r \<leftarrow> check_opcode oc prog p i;
        case r of
          Inl e \<Rightarrow> Some (Inl e)
        | Inr (q, store) \<Rightarrow>
            (case check_registers i store q of
               Inl e \<Rightarrow> Some (Inl e)
             | Inr _ \<Rightarrow> check_loop oc prog (q + 1)) }
      else Some (if p \<noteq> length prog div 8 then Inl (Jumped_Out p) else Inr ()))"
  by pat_completeness auto
termination
  by (relation "measure (\<lambda>(oc, prog, p). length prog - p)") (auto dest: check_opcode_advances)

declare check_loop.simps [simp del]

definition check :: "bool \<Rightarrow> bytes \<Rightarrow> (verifier_error + unit) option" where
  "check oc prog = do {
     r \<leftarrow> check_prog_len oc prog;
     case r of Inl e \<Rightarrow> Some (Inl e) | Inr _ \<Rightarrow> check_loop oc prog 0 }"

end
