(* ===== verification/Ebpf_Claims.thy ===== *)
theory Ebpf_Claims
  imports Ebpf_Verifier
begin

text \<open>
  Properties of the encoding and of the verifier.  \<open>boundary\<close> are the positions that the verifier
  scans, \<open>reachable\<close> those that a run of the program can reach from its start.
\<close>

section \<open>Encoding\<close>

text \<open>C27: Encoding and decoding of eBPF programs are inverse to each other, in every build: the bytes of a
  list of instructions whose registers have four bits decode to that list, and a program of
  whole instructions decodes to instructions that encode to it.\<close>

theorem ebpf_codec_inverse:
  "(list_all insn_ok is \<and> 8 * length is < 2 ^ 64 \<longrightarrow> to_insn_vec oc (concat (map to_array is)) = Some is) \<and>
   (length prog mod 8 = 0 \<and> length prog < 2 ^ 64 \<longrightarrow>
      (\<exists>is. to_insn_vec oc prog = Some is \<and> concat (map to_array is) = prog \<and> list_all insn_ok is))"
proof (intro conjI impI; elim conjE)
  assume "list_all insn_ok is" "8 * length is < 2 ^ 64"
  moreover have "length (concat (map to_array is)) = 8 * length is"
    by (simp add: length_concat comp_def sum_list_triv)
  ultimately show "to_insn_vec oc (concat (map to_array is)) = Some is"
    using to_insn_loop_encoded[of "[]" "is" oc] by (simp add: to_insn_vec_def)
next
  assume "length prog mod 8 = 0" "length prog < 2 ^ 64"
  then show "\<exists>is. to_insn_vec oc prog = Some is \<and> concat (map to_array is) = prog \<and> list_all insn_ok is"
    using to_insn_loop_decodes[of prog "length prog div 8" 0 oc] by (auto simp: to_insn_vec_def)
qed

theorem ebpf_codec_inverse_witness:
  "to_insn_vec True (concat (map to_array
     [\<lparr>opc = 0xb7, dst = 2, src = 1, off = 0x3456, imm = 0x789abcde\<rparr>, \<lparr>opc = 0x95, dst = 0, src = 0, off = - 1, imm = - 1\<rparr>]))
   = Some [\<lparr>opc = 0xb7, dst = 2, src = 1, off = 0x3456, imm = 0x789abcde\<rparr>, \<lparr>opc = 0x95, dst = 0, src = 0, off = - 1, imm = - 1\<rparr>]"
  by (rule ebpf_codec_inverse[THEN conjunct1, rule_format]) (simp add: insn_ok_def)

section \<open>The graph of a program\<close>

















section \<open>Accepted programs\<close>
















end
