(* ===== verification/Ebpf_Builder.thy ===== *)
theory Ebpf_Builder
  imports Ebpf
begin

text \<open>
  The builder of eBPF programs (\<open>uvm/runtime/src/insn_builder.rs\<close>).  A builder is the list of
  the bytes so far; the structs \<open>Move\<close>, \<open>SwapBytes\<close>, \<open>Load\<close>, \<open>Store\<close>, \<open>Jump\<close>, \<open>FunctionCall\<close> and \<open>Exit\<close>,
  which implement one trait, are the constructors of \<open>building\<close>, and \<open>push\<close> appends their bytes.
\<close>

section \<open>Constants\<close>

definition BPF_W :: u8 where "BPF_W = 0x00"
definition BPF_H :: u8 where "BPF_H = 0x08"
definition BPF_B :: u8 where "BPF_B = 0x10"
definition BPF_DW :: u8 where "BPF_DW = 0x18"
definition BPF_IMM :: u8 where "BPF_IMM = 0x00"
definition BPF_ABS :: u8 where "BPF_ABS = 0x20"
definition BPF_IND :: u8 where "BPF_IND = 0x40"
definition BPF_MEM :: u8 where "BPF_MEM = 0x60"
definition BPF_XADD :: u8 where "BPF_XADD = 0xc0"
definition BPF_K :: u8 where "BPF_K = 0x00"
definition BPF_X :: u8 where "BPF_X = 0x08"
definition BPF_END :: u8 where "BPF_END = 0xd0"
definition LE :: u8 where "LE = BPF_ALU OR BPF_K OR BPF_END"
definition BE :: u8 where "BE = BPF_ALU OR BPF_X OR BPF_END"

datatype source = Src_Imm | Src_Reg

datatype op_bits = Add | Sub | Mul | Div | Bit_Or | Bit_And | L_Shift | R_Shift | Negate | Mod | Bit_Xor | Mov | Sign_R_Shift

datatype arch = X64 | X32

datatype endian = Little | Big

datatype mem_size = Byte | Half_Word | Word_Size | Double_Word

datatype addressing = Addr_Imm | Addr_Abs | Addr_Ind | Addr_Mem

datatype cond = Always | Equals | Greater | Greater_Equals | Lower | Lower_Equals | Bits_And | Not_Equals
  | Greater_Signed | Greater_Equals_Signed | Lower_Signed | Lower_Equals_Signed

fun source_bits :: "source \<Rightarrow> u8" where
  "source_bits Src_Imm = BPF_IMM"
| "source_bits Src_Reg = BPF_X"

fun op_code :: "op_bits \<Rightarrow> u8" where
  "op_code Add = 0x00"
| "op_code Sub = 0x10"
| "op_code Mul = 0x20"
| "op_code Div = 0x30"
| "op_code Bit_Or = 0x40"
| "op_code Bit_And = 0x50"
| "op_code L_Shift = 0x60"
| "op_code R_Shift = 0x70"
| "op_code Negate = 0x80"
| "op_code Mod = 0x90"
| "op_code Bit_Xor = 0xa0"
| "op_code Mov = 0xb0"
| "op_code Sign_R_Shift = 0xc0"

fun arch_bits :: "arch \<Rightarrow> u8" where
  "arch_bits X64 = BPF_ALU64"
| "arch_bits X32 = BPF_ALU"

fun endian_bits :: "endian \<Rightarrow> u8" where
  "endian_bits Little = LE"
| "endian_bits Big = BE"

fun size_bits :: "mem_size \<Rightarrow> u8" where
  "size_bits Byte = BPF_B"
| "size_bits Half_Word = BPF_H"
| "size_bits Word_Size = BPF_W"
| "size_bits Double_Word = BPF_DW"

fun addressing_bits :: "addressing \<Rightarrow> u8" where
  "addressing_bits Addr_Imm = BPF_IMM"
| "addressing_bits Addr_Abs = BPF_ABS"
| "addressing_bits Addr_Ind = BPF_IND"
| "addressing_bits Addr_Mem = BPF_MEM"

fun cond_bits :: "cond \<Rightarrow> u8" where
  "cond_bits Always = 0x00"
| "cond_bits Equals = 0x10"
| "cond_bits Greater = 0x20"
| "cond_bits Greater_Equals = 0x30"
| "cond_bits Lower = 0xa0"
| "cond_bits Lower_Equals = 0xb0"
| "cond_bits Bits_And = 0x40"
| "cond_bits Not_Equals = 0x50"
| "cond_bits Greater_Signed = 0x60"
| "cond_bits Greater_Equals_Signed = 0x70"
| "cond_bits Lower_Signed = 0xc0"
| "cond_bits Lower_Equals_Signed = 0xd0"

section \<open>Instructions under construction\<close>

datatype building =
    Move source op_bits arch insn
  | Swap_Bytes endian insn
  | Load addressing mem_size u8 insn
  | Store mem_size u8 insn
  | Jump cond source insn
  | Function_Call insn
  | Exit_Insn insn

fun opt_code_byte :: "building \<Rightarrow> u8" where
  "opt_code_byte (Move s op a _) = op_code op OR source_bits s OR arch_bits a"
| "opt_code_byte (Swap_Bytes e _) = endian_bits e"
| "opt_code_byte (Load a m s _) = addressing_bits a OR size_bits m OR s"
| "opt_code_byte (Store m s _) = BPF_MEM OR BPF_ST OR size_bits m OR s"
| "opt_code_byte (Jump c s _) = cond_bits c OR source_bits s OR BPF_JMP"
| "opt_code_byte (Function_Call _) = 0x80 OR BPF_JMP"
| "opt_code_byte (Exit_Insn _) = 0x90 OR BPF_JMP"

fun built_insn :: "building \<Rightarrow> insn" where
  "built_insn (Move _ _ _ i) = i"
| "built_insn (Swap_Bytes _ i) = i"
| "built_insn (Load _ _ _ i) = i"
| "built_insn (Store _ _ i) = i"
| "built_insn (Jump _ _ i) = i"
| "built_insn (Function_Call i) = i"
| "built_insn (Exit_Insn i) = i"

fun with_insn :: "(insn \<Rightarrow> insn) \<Rightarrow> building \<Rightarrow> building" where
  "with_insn f (Move s op a i) = Move s op a (f i)"
| "with_insn f (Swap_Bytes e i) = Swap_Bytes e (f i)"
| "with_insn f (Load a m s i) = Load a m s (f i)"
| "with_insn f (Store m s i) = Store m s (f i)"
| "with_insn f (Jump c s i) = Jump c s (f i)"
| "with_insn f (Function_Call i) = Function_Call (f i)"
| "with_insn f (Exit_Insn i) = Exit_Insn (f i)"

definition set_dst :: "u8 \<Rightarrow> building \<Rightarrow> building" where
  "set_dst d = with_insn (\<lambda>i. i\<lparr>dst := d\<rparr>)"

definition set_src :: "u8 \<Rightarrow> building \<Rightarrow> building" where
  "set_src s = with_insn (\<lambda>i. i\<lparr>src := s\<rparr>)"

definition set_off :: "16 word \<Rightarrow> building \<Rightarrow> building" where
  "set_off f = with_insn (\<lambda>i. i\<lparr>off := f\<rparr>)"

definition set_imm :: "32 word \<Rightarrow> building \<Rightarrow> building" where
  "set_imm n = with_insn (\<lambda>i. i\<lparr>imm := n\<rparr>)"

definition insn_bytes :: "building \<Rightarrow> bytes" where
  "insn_bytes b = (let i = built_insn b in
     [opt_code_byte b,
      push_bit 4 (src i) OR dst i,
      ucast (off i),
      ucast (signed_drop_bit 8 (off i)),
      ucast (imm i),
      ucast (signed_drop_bit 8 (imm i)),
      ucast (signed_drop_bit 16 (imm i)),
      ucast (signed_drop_bit 24 (imm i))])"

definition push_insn :: "building \<Rightarrow> bytes \<Rightarrow> bytes" where
  "push_insn b code = code @ insn_bytes b"

section \<open>The interface of \<open>BpfCode\<close>\<close>

definition blank_insn :: insn where
  "blank_insn = \<lparr>opc = 0, dst = 0, src = 0, off = 0, imm = 0\<rparr>"

definition mov_internal :: "source \<Rightarrow> arch \<Rightarrow> op_bits \<Rightarrow> building" where
  "mov_internal s a op = Move s op a blank_insn"

definition bpf_add where "bpf_add s a = mov_internal s a Add"
definition bpf_sub where "bpf_sub s a = mov_internal s a Sub"
definition bpf_mul where "bpf_mul s a = mov_internal s a Mul"
definition bpf_div where "bpf_div s a = mov_internal s a Div"
definition bpf_bit_or where "bpf_bit_or s a = mov_internal s a Bit_Or"
definition bpf_bit_and where "bpf_bit_and s a = mov_internal s a Bit_And"
definition bpf_left_shift where "bpf_left_shift s a = mov_internal s a L_Shift"
definition bpf_right_shift where "bpf_right_shift s a = mov_internal s a R_Shift"
definition bpf_negate where "bpf_negate a = mov_internal Src_Imm a Negate"
definition bpf_modulo where "bpf_modulo s a = mov_internal s a Mod"
definition bpf_bit_xor where "bpf_bit_xor s a = mov_internal s a Bit_Xor"
definition bpf_mov where "bpf_mov s a = mov_internal s a Mov"
definition bpf_signed_right_shift where "bpf_signed_right_shift s a = mov_internal s a Sign_R_Shift"

definition swap_bytes :: "endian \<Rightarrow> building" where
  "swap_bytes e = Swap_Bytes e blank_insn"

definition load_internal :: "mem_size \<Rightarrow> addressing \<Rightarrow> u8 \<Rightarrow> building" where
  "load_internal m a s = Load a m s blank_insn"

definition bpf_load where "bpf_load m = load_internal m Addr_Imm BPF_LD"
definition bpf_load_abs where "bpf_load_abs m = load_internal m Addr_Abs BPF_LD"
definition bpf_load_ind where "bpf_load_ind m = load_internal m Addr_Ind BPF_LD"
definition bpf_load_x where "bpf_load_x m = load_internal m Addr_Mem BPF_LDX"

definition store_internal :: "mem_size \<Rightarrow> u8 \<Rightarrow> building" where
  "store_internal m s = Store m s blank_insn"

definition bpf_store where "bpf_store m = store_internal m BPF_IMM"
definition bpf_store_x where "bpf_store_x m = store_internal m (BPF_MEM OR BPF_STX)"

definition jump_conditional :: "cond \<Rightarrow> source \<Rightarrow> building" where
  "jump_conditional c s = Jump c s blank_insn"

definition jump_unconditional :: building where
  "jump_unconditional = jump_conditional Always Src_Imm"

definition bpf_call :: building where "bpf_call = Function_Call blank_insn"
definition bpf_exit :: building where "bpf_exit = Exit_Insn blank_insn"

section \<open>The bytes are those of \<open>Insn::to_array\<close>\<close>

definition insn_of :: "building \<Rightarrow> insn" where
  "insn_of b = (built_insn b)\<lparr>opc := opt_code_byte b\<rparr>"

lemma built_with_insn [simp]: "built_insn (with_insn f b) = f (built_insn b)"
  by (cases b) simp_all

lemma opt_code_with_insn [simp]: "opt_code_byte (with_insn f b) = opt_code_byte b"
  by (cases b) simp_all

lemma low_bytes:
  "ucast (v AND 0xff) = (ucast (v :: 16 word) :: u8)"
  "ucast (u AND 0xff) = (ucast (u :: 32 word) :: u8)"
  "ucast (signed_drop_bit 8 (u AND 0xff00)) = (ucast (signed_drop_bit 8 u) :: u8)"
  "ucast (drop_bit 16 (u AND 0xff0000)) = (ucast (signed_drop_bit 16 u) :: u8)"
  "ucast (drop_bit 24 (u AND 0xff000000)) = (ucast (signed_drop_bit 24 u) :: u8)"
  "(ucast (signed_drop_bit 16 u) :: u8) = ucast (drop_bit 16 u)"
  "(ucast (signed_drop_bit 24 u) :: u8) = ucast (drop_bit 24 u)"
  unfolding mask_consts high_masks by (rule bit_word_eqI, auto simp: bit_simps)+

lemma insn_bytes_to_array: "insn_bytes b = to_array (insn_of b)"
  by (simp add: insn_bytes_def to_array_def insn_of_def Let_def low_bytes)

end
