(* ===== verification/Ebpf_Assembler.thy ===== *)
theory Ebpf_Assembler
  imports Ebpf_Builder Formats
begin

text \<open>
  The eBPF assembler (\<open>uvm/runtime/src/assembler.rs\<close>) and the grammar of its parser
  (\<open>asm_parser.rs\<close>).

  The parser is put together from the combinators of the crate \<open>combine\<close>, so \<open>parse\<close> itself is a
  parameter.  What its parsers accept, with the value they give, is written as the inductive
  predicates \<open>integer_text\<close>, \<open>register_text\<close>, \<open>operand_text\<close> and \<open>instruction_text\<close>.  An \<open>i64\<close> is a 64-bit word that is
  compared by \<open>sint\<close>.
\<close>

datatype operand =
    Register i64
  | Integer i64
  | Memory i64 i64
  | Nil_Operand

record asm_instruction =
  ai_name :: string
  ai_operands :: "operand list"

datatype instruction_type =
    Alu_Binary
  | Alu_Unary
  | Load_Imm
  | Load_Abs
  | Load_Ind
  | Load_Reg
  | Store_Imm
  | Store_Reg
  | Jump_Unconditional
  | Jump_Conditional
  | Call
  | Callx
  | Endian i64
  | No_Operand

datatype asm_error =
    Invalid_Destination i64
  | Invalid_Source i64
  | Invalid_Offset i64
  | Invalid_Immediate i64
  | Too_Many_Operands
  | Unexpected_Operands "operand list"
  | Failed_To_Encode string asm_error
  | Invalid_Instruction string
  | Parse_Error string

section \<open>The instruction map\<close>

definition alu_binary_ops :: "(string \<times> u8) list" where
  "alu_binary_ops =
     [(''add'', 0x00), (''sub'', 0x10), (''mul'', 0x20), (''div'', 0x30), (''or'', 0x40), (''and'', 0x50),
      (''lsh'', 0x60), (''rsh'', 0x70), (''mod'', 0x90), (''xor'', 0xa0), (''mov'', 0xb0), (''arsh'', 0xc0)]"

definition mem_sizes :: "(string \<times> u8) list" where
  "mem_sizes = [(''w'', BPF_W), (''h'', BPF_H), (''b'', BPF_B), (''dw'', BPF_DW)]"

definition jump_conditions :: "(string \<times> u8) list" where
  "jump_conditions =
     [(''jeq'', 0x10), (''jgt'', 0x20), (''jge'', 0x30), (''jlt'', 0xa0), (''jle'', 0xb0), (''jset'', 0x40),
      (''jne'', 0x50), (''jsgt'', 0x60), (''jsge'', 0x70), (''jslt'', 0xc0), (''jsle'', 0xd0)]"

definition NEG32 :: u8 where "NEG32 = BPF_ALU OR 0x80"
definition NEG64 :: u8 where "NEG64 = BPF_ALU64 OR 0x80"

text \<open>The entries in the order they are inserted; no name occurs twice.\<close>

definition make_instruction_map :: "(string \<times> instruction_type \<times> u8) list" where
  "make_instruction_map =
     [(''exit'', No_Operand, EXIT), (''ja'', Jump_Unconditional, JA), (''call'', Call, CALL),
      (''callx'', Callx, CALL), (''lddw'', Load_Imm, LD_DW_IMM),
      (''neg'', Alu_Unary, NEG64), (''neg32'', Alu_Unary, NEG32), (''neg64'', Alu_Unary, NEG64)] @
     concat (map (\<lambda>(name, op). [(name, Alu_Binary, BPF_ALU64 OR op), (name @ ''32'', Alu_Binary, BPF_ALU OR op),
       (name @ ''64'', Alu_Binary, BPF_ALU64 OR op)]) alu_binary_ops) @
     concat (map (\<lambda>(suffix, sz).
      [(''ldabs'' @ suffix, Load_Abs, BPF_ABS OR BPF_LD OR sz), (''ldind'' @ suffix, Load_Ind, BPF_IND OR BPF_LD OR sz),
       (''ldx'' @ suffix, Load_Reg, BPF_MEM OR BPF_LDX OR sz), (''st'' @ suffix, Store_Imm, BPF_MEM OR BPF_ST OR sz),
       (''stx'' @ suffix, Store_Reg, BPF_MEM OR BPF_STX OR sz)]) mem_sizes) @
     concat (map (\<lambda>(name, c). [(name, Jump_Conditional, BPF_JMP OR c), (name @ ''32'', Jump_Conditional, BPF_JMP32 OR c)])
       jump_conditions) @
     concat (map (\<lambda>(digits, sz). [(''be'' @ digits, Endian sz, BE), (''le'' @ digits, Endian sz, LE)])
       [(''16'', 16), (''32'', 32), (''64'', 64)])"

section \<open>Encoding\<close>

definition checked_insn :: "u8 \<Rightarrow> i64 \<Rightarrow> i64 \<Rightarrow> i64 \<Rightarrow> i64 \<Rightarrow> asm_error + insn" where
  "checked_insn op d s f n =
     (if \<not> (0 \<le> sint d \<and> sint d < 16) then Inl (Invalid_Destination d)
      else if sint d < 0 \<or> 16 \<le> sint s then Inl (Invalid_Source s)
      else if \<not> (-32768 \<le> sint f \<and> sint f < 32768) then Inl (Invalid_Offset f)
      else if \<not> (-2147483648 \<le> sint n \<and> sint n < 2147483648) then Inl (Invalid_Immediate n)
      else Inr \<lparr>opc = op, dst = ucast d, src = ucast s, off = ucast f, imm = ucast n\<rparr>)"

fun operands_tuple :: "operand list \<Rightarrow> asm_error + operand \<times> operand \<times> operand" where
  "operands_tuple [] = Inr (Nil_Operand, Nil_Operand, Nil_Operand)"
| "operands_tuple [a] = Inr (a, Nil_Operand, Nil_Operand)"
| "operands_tuple [a, b] = Inr (a, b, Nil_Operand)"
| "operands_tuple [a, b, c] = Inr (a, b, c)"
| "operands_tuple _ = Inl Too_Many_Operands"

text \<open>\<open>(imm << 32) >> 32\<close> on \<open>i64\<close>.\<close>

definition low_half :: "i64 \<Rightarrow> i64" where
  "low_half n = signed_drop_bit 32 (push_bit 32 n)"

definition encode_operands ::
    "instruction_type \<Rightarrow> u8 \<Rightarrow> operand \<Rightarrow> operand \<Rightarrow> operand \<Rightarrow> (asm_error + insn) option" where
  "encode_operands ty op a b c = (case ty of
       Alu_Binary \<Rightarrow> (case (a, b, c) of
           (Register d, Register s, Nil_Operand) \<Rightarrow> Some (checked_insn (op OR BPF_X) d s 0 0)
         | (Register d, Integer n, Nil_Operand) \<Rightarrow> Some (checked_insn (op OR BPF_K) d 0 0 n)
         | _ \<Rightarrow> None)
     | Alu_Unary \<Rightarrow> (case (a, b, c) of
           (Register d, Nil_Operand, Nil_Operand) \<Rightarrow> Some (checked_insn op d 0 0 0)
         | _ \<Rightarrow> None)
     | Load_Abs \<Rightarrow> (case (a, b, c) of
           (Integer n, Nil_Operand, Nil_Operand) \<Rightarrow> Some (checked_insn op 0 0 0 n)
         | _ \<Rightarrow> None)
     | Load_Ind \<Rightarrow> (case (a, b, c) of
           (Register s, Integer n, Nil_Operand) \<Rightarrow> Some (checked_insn op 0 s 0 n)
         | _ \<Rightarrow> None)
     | Load_Reg \<Rightarrow> (case (a, b, c) of
           (Register d, Memory s f, Nil_Operand) \<Rightarrow> Some (checked_insn op d s f 0)
         | _ \<Rightarrow> None)
     | Store_Reg \<Rightarrow> (case (a, b, c) of
           (Memory d f, Register s, Nil_Operand) \<Rightarrow> Some (checked_insn op d s f 0)
         | _ \<Rightarrow> None)
     | Store_Imm \<Rightarrow> (case (a, b, c) of
           (Memory d f, Integer n, Nil_Operand) \<Rightarrow> Some (checked_insn op d 0 f n)
         | _ \<Rightarrow> None)
     | No_Operand \<Rightarrow> (case (a, b, c) of
           (Nil_Operand, Nil_Operand, Nil_Operand) \<Rightarrow> Some (checked_insn op 0 0 0 0)
         | _ \<Rightarrow> None)
     | Jump_Unconditional \<Rightarrow> (case (a, b, c) of
           (Integer f, Nil_Operand, Nil_Operand) \<Rightarrow> Some (checked_insn op 0 0 f 0)
         | _ \<Rightarrow> None)
     | Jump_Conditional \<Rightarrow> (case (a, b, c) of
           (Register d, Register s, Integer f) \<Rightarrow> Some (checked_insn (op OR BPF_X) d s f 0)
         | (Register d, Integer n, Integer f) \<Rightarrow> Some (checked_insn (op OR BPF_K) d 0 f n)
         | _ \<Rightarrow> None)
     | Call \<Rightarrow> (case (a, b, c) of
           (Integer n, Nil_Operand, Nil_Operand) \<Rightarrow> Some (checked_insn op 0 0 0 n)
         | _ \<Rightarrow> None)
     | Callx \<Rightarrow> (case (a, b, c) of
           (Integer n, Nil_Operand, Nil_Operand) \<Rightarrow> Some (checked_insn op 0 1 0 n)
         | _ \<Rightarrow> None)
     | Endian sz \<Rightarrow> (case (a, b, c) of
           (Register d, Nil_Operand, Nil_Operand) \<Rightarrow> Some (checked_insn op d 0 0 sz)
         | _ \<Rightarrow> None)
     | Load_Imm \<Rightarrow> (case (a, b, c) of
           (Register d, Integer n, Nil_Operand) \<Rightarrow> Some (checked_insn op d 0 0 (low_half n))
         | _ \<Rightarrow> None))"

definition encode :: "instruction_type \<Rightarrow> u8 \<Rightarrow> operand list \<Rightarrow> asm_error + insn" where
  "encode ty op operands = (case operands_tuple operands of
      Inl e \<Rightarrow> Inl e
    | Inr (a, b, c) \<Rightarrow> (case encode_operands ty op a b c of
        Some r \<Rightarrow> r | None \<Rightarrow> Inl (Unexpected_Operands operands)))"

text \<open>
  The second half of \<open>lddw\<close>: \<open>insn(0, 0, 0, 0, imm >> 32).unwrap()\<close>, which always has a value, and
  \<open>operands[1]\<close>, which is there after a successful encoding.
\<close>

definition second_half :: "instruction_type \<Rightarrow> operand list \<Rightarrow> insn list option" where
  "second_half ty operands = (case ty of
      Load_Imm \<Rightarrow> (case operands of
          _ # Integer n # _ \<Rightarrow> (case checked_insn 0 0 0 0 (signed_drop_bit 32 n) of Inr i \<Rightarrow> Some [i] | Inl _ \<Rightarrow> None)
        | _ # _ # _ \<Rightarrow> Some []
        | _ \<Rightarrow> None)
    | _ \<Rightarrow> Some [])"

fun assemble_internal :: "asm_instruction list \<Rightarrow> (asm_error + insn list) option" where
  "assemble_internal [] = Some (Inr [])"
| "assemble_internal (a # as) =
     (case map_of make_instruction_map (ai_name a) of
        None \<Rightarrow> Some (Inl (Invalid_Instruction (ai_name a)))
      | Some (ty, op) \<Rightarrow>
          (case encode ty op (ai_operands a) of
             Inl e \<Rightarrow> Some (Inl (Failed_To_Encode (ai_name a) e))
           | Inr i \<Rightarrow>
               (case second_half ty (ai_operands a) of
                  None \<Rightarrow> None
                | Some extra \<Rightarrow>
                    (case assemble_internal as of
                       None \<Rightarrow> None
                     | Some (Inl e) \<Rightarrow> Some (Inl e)
                     | Some (Inr is) \<Rightarrow> Some (Inr (i # extra @ is))))))"

definition assemble ::
    "(string \<Rightarrow> asm_error + asm_instruction list) \<Rightarrow> string \<Rightarrow> (asm_error + bytes) option" where
  "assemble parse text = (case parse text of
      Inl e \<Rightarrow> Some (Inl e)
    | Inr parsed \<Rightarrow> map_option (\<lambda>r. case r of Inl e \<Rightarrow> Inl e | Inr is \<Rightarrow> Inr (concat (map to_array is)))
        (assemble_internal parsed))"

section \<open>The grammar\<close>

text \<open>
  \<open>alpha_num\<close>, \<open>digit\<close> and \<open>hex_digit\<close> on ASCII text; \<open>u64::from_str_radix(_, 16)\<close>, whose \<open>unwrap\<close> panics
  above \<open>u64::MAX\<close>, and \<open>parse::<i64>\<close>.
\<close>

definition is_alpha_num :: "char \<Rightarrow> bool" where
  "is_alpha_num c \<longleftrightarrow> is_ascii_digit c \<or>
     (let n = (of_char c :: nat) in (65 \<le> n \<and> n \<le> 90) \<or> (97 \<le> n \<and> n \<le> 122))"

definition hex_lower :: "char \<Rightarrow> char" where
  "hex_lower c = (let n = (of_char c :: nat) in if 65 \<le> n \<and> n \<le> 90 then char_of (n + 32) else c)"

inductive magnitude_text :: "string \<Rightarrow> i64 \<Rightarrow> bool" where
  hex: "ds \<noteq> [] \<Longrightarrow> list_all is_ascii_hexdigit ds \<Longrightarrow> hex_val (map hex_lower ds) < 2 ^ 64 \<Longrightarrow>
    magnitude_text (''0x'' @ ds) (word_of_nat (hex_val (map hex_lower ds)))"
| dec: "ds \<noteq> [] \<Longrightarrow> list_all is_ascii_digit ds \<Longrightarrow> dec_val ds < 2 ^ 63 \<Longrightarrow> magnitude_text ds (word_of_nat (dec_val ds))"

text \<open>\<open>integer\<close>, \<open>register\<close>, \<open>operand\<close>; \<open>(s, x)\<close> gives \<open>s * x\<close>, which overflows for the least \<open>i64\<close>.\<close>

inductive integer_text :: "string \<Rightarrow> i64 \<Rightarrow> bool" where
  unsigned: "magnitude_text t n \<Longrightarrow> integer_text t n"
| plus: "magnitude_text t n \<Longrightarrow> integer_text (CHR ''+'' # t) n"
| minus: "magnitude_text t n \<Longrightarrow> n \<noteq> 0x8000000000000000 \<Longrightarrow> integer_text (CHR ''-'' # t) (- n)"

inductive register_text :: "string \<Rightarrow> i64 \<Rightarrow> bool" where
  register: "ds \<noteq> [] \<Longrightarrow> list_all is_ascii_digit ds \<Longrightarrow> dec_val ds < 2 ^ 63 \<Longrightarrow>
    register_text (CHR ''r'' # ds) (word_of_nat (dec_val ds))"

inductive operand_text :: "string \<Rightarrow> operand \<Rightarrow> bool" where
  register_operand: "register_text t n \<Longrightarrow> operand_text t (Register n)"
| immediate: "integer_text t n \<Longrightarrow> operand_text t (Integer n)"
| memory: "register_text t n \<Longrightarrow> operand_text (CHR ''['' # t @ '']'') (Memory n 0)"
| memory_offset: "register_text t n \<Longrightarrow> integer_text u f \<Longrightarrow> operand_text (CHR ''['' # t @ u @ '']'') (Memory n f)"

text \<open>The operands with a comma and spaces between them, and an instruction.\<close>

definition is_space :: "char \<Rightarrow> bool" where
  "is_space c \<longleftrightarrow> c = CHR '' '' \<or> (9 \<le> (of_char c :: nat) \<and> (of_char c :: nat) \<le> 13)"

inductive operands_text :: "string \<Rightarrow> operand list \<Rightarrow> bool" where
  none: "operands_text [] []"
| one: "operand_text t a \<Longrightarrow> operands_text t [a]"
| more: "operand_text t a \<Longrightarrow> list_all is_space sp \<Longrightarrow> operands_text u (b # bs) \<Longrightarrow>
    operands_text (t @ CHR '','' # sp @ u) (a # b # bs)"

inductive instruction_text :: "string \<Rightarrow> asm_instruction \<Rightarrow> bool" where
  instruction: "name \<noteq> [] \<Longrightarrow> list_all is_alpha_num name \<Longrightarrow> list_all is_space sp \<Longrightarrow> operands_text t as \<Longrightarrow>
    sp @ t = [] \<or> \<not> is_alpha_num (hd (sp @ t)) \<Longrightarrow> instruction_text (name @ sp @ t) \<lparr>ai_name = name, ai_operands = as\<rparr>"

end
