(* ===== verification/Ebpf_Disassembler.thy ===== *)
theory Ebpf_Disassembler
  imports Ebpf_Assembler
begin

text \<open>
  The eBPF disassembler (\<open>uvm/runtime/src/disassembler.rs\<close>): the text of each instruction and the
  walk over a program.  The arms of the match that only differ in name and format are the
  table \<open>arms\<close>; \<open>LD_DW_IMM\<close> and \<open>CALL\<close> have their own.  \<open>None\<close> is a panic.
\<close>

section \<open>Formats\<close>

text \<open>\<open>{:#x}\<close>: a negative number is printed as its two's complement.\<close>

definition hex_prefixed :: "nat \<Rightarrow> string" where
  "hex_prefixed n = ''0x'' @ hex_digits n"

definition reg :: "u8 \<Rightarrow> string" where
  "reg r = CHR ''r'' # fmt_dec (unat r)"

text \<open>\<open>[r1+0x5]\<close> or \<open>[r1-0x5]\<close>; \<open>-(insn.off as isize)\<close> does not overflow.\<close>

definition signed_off :: "16 word \<Rightarrow> string" where
  "signed_off f = (if 0 \<le> sint f then CHR ''+'' # hex_prefixed (nat (sint f)) else CHR ''-'' # hex_prefixed (nat (- sint f)))"

definition mem_text :: "u8 \<Rightarrow> 16 word \<Rightarrow> string" where
  "mem_text r f = CHR ''['' # reg r @ signed_off f @ '']''"

definition alu_imm_str :: "string \<Rightarrow> insn \<Rightarrow> string" where
  "alu_imm_str name i = name @ '' '' @ reg (dst i) @ '', '' @ hex_prefixed (unat (imm i))"

definition alu_reg_str :: "string \<Rightarrow> insn \<Rightarrow> string" where
  "alu_reg_str name i = name @ '' '' @ reg (dst i) @ '', '' @ reg (src i)"

text \<open>\<open>{}\<close> of an \<open>i32\<close>.\<close>

definition dec_i32 :: "32 word \<Rightarrow> string" where
  "dec_i32 n = (if 0 \<le> sint n then fmt_dec (nat (sint n)) else CHR ''-'' # fmt_dec (nat (- sint n)))"

definition byteswap_str :: "string \<Rightarrow> insn \<Rightarrow> string" where
  "byteswap_str name i = name @ dec_i32 (imm i) @ '' '' @ reg (dst i)"

definition ld_st_imm_str :: "string \<Rightarrow> insn \<Rightarrow> string" where
  "ld_st_imm_str name i = name @ '' '' @ mem_text (dst i) (off i) @ '', '' @ hex_prefixed (unat (imm i))"

definition ld_reg_str :: "string \<Rightarrow> insn \<Rightarrow> string" where
  "ld_reg_str name i = name @ '' '' @ reg (dst i) @ '', '' @ mem_text (src i) (off i)"

definition st_reg_str :: "string \<Rightarrow> insn \<Rightarrow> string" where
  "st_reg_str name i = name @ '' '' @ mem_text (dst i) (off i) @ '', '' @ reg (src i)"

definition ldabs_str :: "string \<Rightarrow> insn \<Rightarrow> string" where
  "ldabs_str name i = name @ '' '' @ hex_prefixed (unat (imm i))"

definition ldind_str :: "string \<Rightarrow> insn \<Rightarrow> string" where
  "ldind_str name i = name @ '' '' @ reg (src i) @ '', '' @ hex_prefixed (unat (imm i))"

definition jmp_imm_str :: "string \<Rightarrow> insn \<Rightarrow> string" where
  "jmp_imm_str name i =
     name @ '' '' @ reg (dst i) @ '', '' @ hex_prefixed (unat (imm i)) @ '', '' @ signed_off (off i)"

definition jmp_reg_str :: "string \<Rightarrow> insn \<Rightarrow> string" where
  "jmp_reg_str name i = name @ '' '' @ reg (dst i) @ '', '' @ reg (src i) @ '', '' @ signed_off (off i)"

text \<open>The arm of \<open>JA\<close> negates in \<open>i16\<close>.\<close>

definition ja_str :: "bool \<Rightarrow> string \<Rightarrow> insn \<Rightarrow> string option" where
  "ja_str oc name i =
     (if oc \<and> off i = 0x8000 then None else Some (name @ '' '' @ signed_off (off i)))"

section \<open>The arms\<close>

datatype style = Alu_Imm | Alu_Reg | One_Reg | Byteswap | Ld_St_Imm | Ld_Reg | St_Reg | Ld_Abs | Ld_Ind
  | Jmp_Imm | Jmp_Reg | Ja | Bare

definition sizes :: "(string \<times> u8) list" where
  "sizes = [(''b'', BPF_B), (''h'', BPF_H), (''w'', BPF_W), (''dw'', BPF_DW)]"

definition alu_arms :: "string \<Rightarrow> u8 \<Rightarrow> (u8 \<times> string \<times> style) list" where
  "alu_arms bits cls =
     (cls OR 0x80, ''neg'' @ bits, One_Reg) #
     concat (map (\<lambda>(name, op). [(cls OR BPF_K OR op, name @ bits, Alu_Imm), (cls OR BPF_X OR op, name @ bits, Alu_Reg)])
       alu_binary_ops)"

definition jump_arms :: "string \<Rightarrow> u8 \<Rightarrow> (u8 \<times> string \<times> style) list" where
  "jump_arms bits cls =
     concat (map (\<lambda>(name, c). [(cls OR BPF_K OR c, name @ bits, Jmp_Imm), (cls OR BPF_X OR c, name @ bits, Jmp_Reg)])
       jump_conditions)"

definition arms :: "(u8 \<times> string \<times> style) list" where
  "arms =
     map (\<lambda>(s, sz). (BPF_LD OR BPF_ABS OR sz, ''ldabs'' @ s, Ld_Abs)) sizes @
     map (\<lambda>(s, sz). (BPF_LD OR BPF_IND OR sz, ''ldind'' @ s, Ld_Ind)) sizes @
     map (\<lambda>(s, sz). (BPF_LDX OR BPF_MEM OR sz, ''ldx'' @ s, Ld_Reg)) sizes @
     map (\<lambda>(s, sz). (BPF_ST OR BPF_MEM OR sz, ''st'' @ s, Ld_St_Imm)) sizes @
     map (\<lambda>(s, sz). (BPF_STX OR BPF_MEM OR sz, ''stx'' @ s, St_Reg)) sizes @
     [(BPF_STX OR BPF_XADD OR BPF_W, ''stxxaddw'', St_Reg), (BPF_STX OR BPF_XADD OR BPF_DW, ''stxxadddw'', St_Reg)] @
     alu_arms ''32'' BPF_ALU @ [(LE, ''le'', Byteswap), (BE, ''be'', Byteswap)] @ alu_arms ''64'' BPF_ALU64 @
     [(JA, ''ja'', Ja)] @ jump_arms '''' BPF_JMP @ [(TAIL_CALL, ''tail_call'', Bare), (EXIT, ''exit'', Bare)] @
     jump_arms ''32'' BPF_JMP32"

fun style_str :: "bool \<Rightarrow> style \<Rightarrow> string \<Rightarrow> insn \<Rightarrow> string option" where
  "style_str oc Alu_Imm name i = Some (alu_imm_str name i)"
| "style_str oc Alu_Reg name i = Some (alu_reg_str name i)"
| "style_str oc One_Reg name i = Some (name @ '' '' @ reg (dst i))"
| "style_str oc Byteswap name i = Some (byteswap_str name i)"
| "style_str oc Ld_St_Imm name i = Some (ld_st_imm_str name i)"
| "style_str oc Ld_Reg name i = Some (ld_reg_str name i)"
| "style_str oc St_Reg name i = Some (st_reg_str name i)"
| "style_str oc Ld_Abs name i = Some (ldabs_str name i)"
| "style_str oc Ld_Ind name i = Some (ldind_str name i)"
| "style_str oc Jmp_Imm name i = Some (jmp_imm_str name i)"
| "style_str oc Jmp_Reg name i = Some (jmp_reg_str name i)"
| "style_str oc Ja name i = ja_str oc name i"
| "style_str oc Bare name i = Some name"

definition call_name :: "insn \<Rightarrow> string option" where
  "call_name i = (if src i = 0 then Some ''call'' else if src i = 1 then Some ''callx'' else None)"

section \<open>A program\<close>

record hl_insn =
  hl_opc :: u8
  hl_name :: string
  hl_desc :: string
  hl_dst :: u8
  hl_src :: u8
  hl_off :: "16 word"
  hl_imm :: i64

definition hl :: "insn \<Rightarrow> string \<Rightarrow> string \<Rightarrow> i64 \<Rightarrow> hl_insn" where
  "hl i name desc n = \<lparr>hl_opc = opc i, hl_name = name, hl_desc = desc, hl_dst = dst i, hl_src = src i,
     hl_off = off i, hl_imm = n\<rparr>"

definition lddw_imm :: "insn \<Rightarrow> insn \<Rightarrow> i64" where
  "lddw_imm i next_insn = ucast (imm i) + push_bit 32 (scast (imm next_insn))"

text \<open>One pass: the instruction at \<open>p\<close>, and the position behind it.\<close>

definition hl_step :: "bool \<Rightarrow> bytes \<Rightarrow> nat \<Rightarrow> (hl_insn \<times> nat) option" where
  "hl_step oc prog p = do {
     i \<leftarrow> get_insn oc prog p;
     if opc i = LD_DW_IMM then do {
       next_insn \<leftarrow> get_insn oc prog (p + 1);
       let n = lddw_imm i next_insn;
       Some (hl i ''lddw'' (''lddw '' @ reg (dst i) @ '', '' @ hex_prefixed (unat n)) n, p + 2)}
     else if opc i = CALL then do {
       name \<leftarrow> call_name i;
       Some (hl i name (name @ '' '' @ hex_prefixed (unat (imm i))) (scast (imm i)), p + 1)}
     else do {
       (name, style) \<leftarrow> map_of arms (opc i);
       desc \<leftarrow> style_str oc style name i;
       Some (hl i name desc (scast (imm i)), p + 1)}}"

lemma hl_step_next: "hl_step oc prog p = Some (h, q) \<Longrightarrow> p < q"
  by (auto simp: hl_step_def Let_def bind_eq_Some_conv split: if_splits)

function hl_loop :: "bool \<Rightarrow> bytes \<Rightarrow> nat \<Rightarrow> hl_insn list option" where
  "hl_loop oc prog p =
     (if p * 8 < length prog then
        (case hl_step oc prog p of
           None \<Rightarrow> None
         | Some (h, q) \<Rightarrow> (case hl_loop oc prog q of None \<Rightarrow> None | Some hs \<Rightarrow> Some (h # hs)))
      else Some [])"
  by pat_completeness auto
termination
  by (relation "measure (\<lambda>(oc, prog, p). length prog - p)") (auto dest: hl_step_next)

declare hl_loop.simps [simp del]

definition hl_insn_vec :: "bool \<Rightarrow> bytes \<Rightarrow> hl_insn list option" where
  "hl_insn_vec oc prog = (if length prog mod 8 \<noteq> 0 then None else hl_loop oc prog 0)"

text \<open>The lines \<open>disassemble\<close> prints.\<close>

definition disassemble :: "bool \<Rightarrow> bytes \<Rightarrow> string list option" where
  "disassemble oc prog = map_option (map hl_desc) (hl_insn_vec oc prog)"

end
