(* ===== verification/Ebpf_Text.thy ===== *)
theory Ebpf_Text
  imports Ebpf_Disassembler
begin

text \<open>
  The text the disassembler prints, in the grammar of the assembler, and the encoding of the
  operands it names.
\<close>

section \<open>Numbers and registers\<close>

lemma hex_digits_Nil: "hex_digits n \<noteq> []"
  by (subst hex_digits.simps) simp

lemma hex_digit_lower: "n < 16 \<Longrightarrow> hex_lower (hex_digit n) = hex_digit n"
proof -
  have "list_all (\<lambda>n. hex_lower (hex_digit n) = hex_digit n) [0..<16]" by code_simp
  then show "n < 16 \<Longrightarrow> hex_lower (hex_digit n) = hex_digit n" by (simp add: list_all_iff)
qed

lemma hex_digits_lower: "map hex_lower (hex_digits n) = hex_digits n"
  by (induction n rule: hex_digits.induct) (subst (1 2) hex_digits.simps, simp add: hex_digit_lower)

lemma hex_prefixed_text: "n < 2 ^ 64 \<Longrightarrow> magnitude_text (hex_prefixed n) (word_of_nat n)"
  using magnitude_text.hex[of "hex_digits n"] hex_digits_ascii hex_digits_Nil
  by (simp add: hex_prefixed_def hex_digits_lower)

lemma reg_text: "register_text (reg r) (ucast r)"
proof -
  have "unat r < 256" by (rule unat_u8_bound)
  then have "dec_val (fmt_dec (unat r)) < 2 ^ 63" by simp
  then show ?thesis
    using register_text.register[of "fmt_dec (unat r)"] fmt_dec_digits[of "unat r"]
    by (simp add: reg_def)
qed

lemma sint_16_bounds: "- 32768 \<le> sint (f :: 16 word) \<and> sint f < 32768"
  using sint_greater_eq[of f] sint_less[of f] by simp

lemma signed_off_text: "integer_text (signed_off f) (scast f)"
proof (cases "0 \<le> sint f")
  case True
  then have "word_of_nat (nat (sint f)) = (scast f :: i64)"
  proof -
    have "(word_of_nat (nat (sint f)) :: i64) = word_of_int (sint f)" using True by simp
    then show ?thesis by simp
  qed
  moreover have "nat (sint f) \<le> 32768" using sint_16_bounds[of f] by linarith
  then have "nat (sint f) < 2 ^ 64" by simp
  ultimately show ?thesis
    using integer_text.plus[OF hex_prefixed_text[of "nat (sint f)"]] True by (simp add: signed_off_def)
next
  case False
  have b: "nat (- sint f) \<le> 32768" using sint_16_bounds[of f] by linarith
  then have "(word_of_nat (nat (- sint f)) :: i64) \<noteq> 0x8000000000000000"
    by (simp add: word_unat_eq_iff unsigned_of_nat take_bit_nat_eq_self)
  moreover have "- (word_of_nat (nat (- sint f)) :: i64) = scast f"
  proof -
    have "(word_of_nat (nat (- sint f)) :: i64) = word_of_int (- sint f)" using False by simp
    then show ?thesis by simp
  qed
  moreover have "nat (- sint f) < 2 ^ 64" using b by simp
  ultimately show ?thesis
    using integer_text.minus[OF hex_prefixed_text[of "nat (- sint f)"]] False by (simp add: signed_off_def)
qed

lemma mem_text_text: "operand_text (mem_text r f) (Memory (ucast r) (scast f))"
  unfolding mem_text_def by (rule operand_text.memory_offset[OF reg_text signed_off_text])

lemma imm_text: "integer_text (hex_prefixed (unat (n :: 32 word))) (ucast n)"
  using integer_text.unsigned[OF hex_prefixed_text[of "unat n"]] unat_u32_bound[of n] by simp

lemma imm64_text: "integer_text (hex_prefixed (unat (n :: i64))) n"
  using integer_text.unsigned[OF hex_prefixed_text[of "unat n"]] unat_u64_bound[of n] by simp

section \<open>The operands a text names\<close>

abbreviation reg_operand :: "u8 \<Rightarrow> operand" where "reg_operand r \<equiv> Register (ucast r)"
abbreviation imm_operand :: "32 word \<Rightarrow> operand" where "imm_operand n \<equiv> Integer (ucast n)"
abbreviation off_operand :: "16 word \<Rightarrow> operand" where "off_operand f \<equiv> Integer (scast f)"
abbreviation mem_operand :: "u8 \<Rightarrow> 16 word \<Rightarrow> operand" where "mem_operand r f \<equiv> Memory (ucast r) (scast f)"

fun operands_of :: "style \<Rightarrow> insn \<Rightarrow> operand list" where
  "operands_of Alu_Imm i = [reg_operand (dst i), imm_operand (imm i)]"
| "operands_of Alu_Reg i = [reg_operand (dst i), reg_operand (src i)]"
| "operands_of One_Reg i = [reg_operand (dst i)]"
| "operands_of Byteswap i = [reg_operand (dst i)]"
| "operands_of Ld_St_Imm i = [mem_operand (dst i) (off i), imm_operand (imm i)]"
| "operands_of Ld_Reg i = [reg_operand (dst i), mem_operand (src i) (off i)]"
| "operands_of St_Reg i = [mem_operand (dst i) (off i), reg_operand (src i)]"
| "operands_of Ld_Abs i = [imm_operand (imm i)]"
| "operands_of Ld_Ind i = [reg_operand (src i), imm_operand (imm i)]"
| "operands_of Jmp_Imm i = [reg_operand (dst i), imm_operand (imm i), off_operand (off i)]"
| "operands_of Jmp_Reg i = [reg_operand (dst i), reg_operand (src i), off_operand (off i)]"
| "operands_of Ja i = [off_operand (off i)]"
| "operands_of Bare i = []"

text \<open>The fields an instruction of a style does not show are zero, and a shown immediate is not negative.\<close>

fun shows_all :: "style \<Rightarrow> insn \<Rightarrow> bool" where
  "shows_all Alu_Imm i \<longleftrightarrow> src i = 0 \<and> off i = 0 \<and> 0 \<le> sint (imm i)"
| "shows_all Alu_Reg i \<longleftrightarrow> off i = 0 \<and> imm i = 0"
| "shows_all One_Reg i \<longleftrightarrow> src i = 0 \<and> off i = 0 \<and> imm i = 0"
| "shows_all Byteswap i \<longleftrightarrow> src i = 0 \<and> off i = 0 \<and> imm i \<in> {16, 32, 64}"
| "shows_all Ld_St_Imm i \<longleftrightarrow> src i = 0 \<and> 0 \<le> sint (imm i)"
| "shows_all Ld_Reg i \<longleftrightarrow> imm i = 0"
| "shows_all St_Reg i \<longleftrightarrow> imm i = 0"
| "shows_all Ld_Abs i \<longleftrightarrow> dst i = 0 \<and> src i = 0 \<and> off i = 0 \<and> 0 \<le> sint (imm i)"
| "shows_all Ld_Ind i \<longleftrightarrow> dst i = 0 \<and> off i = 0 \<and> 0 \<le> sint (imm i)"
| "shows_all Jmp_Imm i \<longleftrightarrow> src i = 0 \<and> 0 \<le> sint (imm i)"
| "shows_all Jmp_Reg i \<longleftrightarrow> imm i = 0"
| "shows_all Ja i \<longleftrightarrow> dst i = 0 \<and> src i = 0 \<and> imm i = 0 \<and> off i \<noteq> 0x8000"
| "shows_all Bare i \<longleftrightarrow> dst i = 0 \<and> src i = 0 \<and> off i = 0 \<and> imm i = 0"

definition arm_name :: "style \<Rightarrow> string \<Rightarrow> insn \<Rightarrow> string" where
  "arm_name st name i = (if st = Byteswap then name @ dec_i32 (imm i) else name)"

lemma two_operands_text:
  "operand_text t a \<Longrightarrow> operand_text u b \<Longrightarrow> operands_text (t @ '', '' @ u) [a, b]"
  using operands_text.more[OF _ _ operands_text.one, of t a "'' ''" u b] by (simp add: is_space_def)

lemma three_operands_text:
  "operand_text t a \<Longrightarrow> operand_text u b \<Longrightarrow> operand_text v c \<Longrightarrow> operands_text (t @ '', '' @ u @ '', '' @ v) [a, b, c]"
  using operands_text.more[OF _ _ two_operands_text, of t a "'' ''" u b v c] by (simp add: is_space_def)

lemma instruction_text_space:
  "name \<noteq> [] \<Longrightarrow> list_all is_alpha_num name \<Longrightarrow> operands_text t as \<Longrightarrow>
   instruction_text (name @ '' '' @ t) \<lparr>ai_name = name, ai_operands = as\<rparr>"
  by (rule instruction_text.instruction) (simp_all add: is_space_def is_alpha_num_def is_ascii_digit_def)

lemmas operand_texts = operand_text.register_operand[OF reg_text] operand_text.immediate[OF imm_text]
  operand_text.immediate[OF signed_off_text] mem_text_text

lemma style_text:
  assumes "style_str oc st name i = Some desc" "arm_name st name i \<noteq> []" "list_all is_alpha_num (arm_name st name i)"
  shows "instruction_text desc \<lparr>ai_name = arm_name st name i, ai_operands = operands_of st i\<rparr>"
proof (cases st)
  case Bare
  then show ?thesis
    using assms instruction_text.instruction[OF assms(2,3), of "[]" "[]" "[]"]
    by (simp add: arm_name_def operands_text.none)
next
  case Byteswap
  then show ?thesis using assms(1) instruction_text_space[OF assms(2,3) operands_text.one[OF operand_texts(1)]]
    by (auto simp: byteswap_str_def arm_name_def)
next
  case Jmp_Imm
  then show ?thesis using assms(1) instruction_text_space[OF assms(2,3) three_operands_text[OF operand_texts(1,2,3)]]
    by (auto simp: jmp_imm_str_def arm_name_def)
next
  case Jmp_Reg
  then show ?thesis using assms(1) instruction_text_space[OF assms(2,3) three_operands_text[OF operand_texts(1,1,3)]]
    by (auto simp: jmp_reg_str_def arm_name_def)
next
  case Alu_Imm
  then show ?thesis using assms(1) instruction_text_space[OF assms(2,3) two_operands_text[OF operand_texts(1,2)]]
    by (auto simp: alu_imm_str_def arm_name_def)
next
  case Alu_Reg
  then show ?thesis using assms(1) instruction_text_space[OF assms(2,3) two_operands_text[OF operand_texts(1,1)]]
    by (auto simp: alu_reg_str_def arm_name_def)
next
  case One_Reg
  then show ?thesis using assms(1) instruction_text_space[OF assms(2,3) operands_text.one[OF operand_texts(1)]]
    by (auto simp: arm_name_def)
next
  case Ld_St_Imm
  then show ?thesis using assms(1) instruction_text_space[OF assms(2,3) two_operands_text[OF operand_texts(4,2)]]
    by (auto simp: ld_st_imm_str_def arm_name_def)
next
  case Ld_Reg
  then show ?thesis using assms(1) instruction_text_space[OF assms(2,3) two_operands_text[OF operand_texts(1,4)]]
    by (auto simp: ld_reg_str_def arm_name_def)
next
  case St_Reg
  then show ?thesis using assms(1) instruction_text_space[OF assms(2,3) two_operands_text[OF operand_texts(4,1)]]
    by (auto simp: st_reg_str_def arm_name_def)
next
  case Ld_Abs
  then show ?thesis using assms(1) instruction_text_space[OF assms(2,3) operands_text.one[OF operand_texts(2)]]
    by (auto simp: ldabs_str_def arm_name_def)
next
  case Ld_Ind
  then show ?thesis using assms(1) instruction_text_space[OF assms(2,3) two_operands_text[OF operand_texts(1,2)]]
    by (auto simp: ldind_str_def arm_name_def)
next
  case Ja
  then show ?thesis using assms(1) instruction_text_space[OF assms(2,3) operands_text.one[OF operand_texts(3)]]
    by (auto simp: ja_str_def arm_name_def split: if_splits)
qed

section \<open>Encoding the operands\<close>

lemma signed_take_bit_small: "0 \<le> k \<Longrightarrow> k < 9223372036854775808 \<Longrightarrow> signed_take_bit 63 k = (k :: int)"
  by (rule signed_take_bit_int_eq_self) (simp_all add: order_trans[of _ 0])

lemma sint_reg: "(r :: u8) < 16 \<Longrightarrow> 0 \<le> sint (ucast r :: i64) \<and> sint (ucast r :: i64) < 16"
proof -
  assume "r < 16"
  then have "uint r < 16" by (simp add: word_less_def)
  moreover have "sint (ucast r :: i64) = uint r"
    using uint_lt2p[of r] by (simp add: sint_uint unsigned_ucast_eq take_bit_int_eq_self signed_take_bit_small)
  ultimately show ?thesis by simp
qed

lemma sint_off: "sint (scast (f :: 16 word) :: i64) = sint f"
  using sint_16_bounds[of f] by (simp add: signed_scast_eq signed_take_bit_int_eq_self)

lemma sint_imm: "0 \<le> sint (n :: 32 word) \<Longrightarrow> 0 \<le> sint (ucast n :: i64) \<and> sint (ucast n :: i64) < 2147483648"
proof -
  assume "0 \<le> sint n"
  then have "\<not> bit (uint n) 31" by (simp add: sint_uint)
  then have "\<not> bit n 31" by (simp add: bit_uint_iff)
  have "uint n = take_bit 31 (uint n)"
  proof (rule bit_eqI)
    fix k show "bit (uint n) k = bit (take_bit 31 (uint n)) k"
      using \<open>\<not> bit n 31\<close> bit_imp_le_length[of n k] by (cases "k = 31") (auto simp: bit_simps)
  qed
  then have "uint n < 2 ^ 31" by (metis take_bit_int_less_exp)
  moreover have "sint (ucast n :: i64) = uint n"
    using calculation by (simp add: sint_uint unsigned_ucast_eq take_bit_int_eq_self signed_take_bit_small)
  ultimately show ?thesis by simp
qed

lemma cast_back:
  "ucast (ucast (d :: u8) :: i64) = d" "ucast (scast (f :: 16 word) :: i64) = f" "ucast (ucast (n :: 32 word) :: i64) = n"
  by (rule bit_word_eqI, auto simp: bit_simps)+

lemma checked_insn_any:
  assumes "d < 16" "s < 16" "-2147483648 \<le> sint v" "sint v < 2147483648"
  shows "checked_insn op (ucast (d :: u8)) (ucast (s :: u8)) (scast (f :: 16 word)) v =
    Inr \<lparr>opc = op, dst = d, src = s, off = f, imm = ucast v\<rparr>"
  using sint_reg[OF assms(1)] sint_reg[OF assms(2)] assms(3,4) sint_16_bounds[of f]
  by (simp add: checked_insn_def sint_off cast_back)

lemma checked_insn_ok:
  assumes "d < 16" "s < 16" "0 \<le> sint (n :: 32 word)"
  shows "checked_insn op (ucast (d :: u8)) (ucast (s :: u8)) (scast (f :: 16 word)) (ucast n) =
    Inr \<lparr>opc = op, dst = d, src = s, off = f, imm = n\<rparr>"
  using sint_reg[OF assms(1)] sint_reg[OF assms(2)] sint_imm[OF assms(3)] sint_16_bounds[of f]
  by (simp add: checked_insn_def sint_off cast_back)

end
