(* ===== verification/Ebpf_Asm_Claims.thy ===== *)
theory Ebpf_Asm_Claims
  imports Ebpf_Text
begin

text \<open>
  Properties of builder, assembler and disassembler: the three agree on the encoding of an
  instruction, and the text of a program assembles to the program.
\<close>

section \<open>Instruction types of the arms\<close>

text \<open>The entry of the instruction map that belongs to an arm.\<close>

fun entry_of_style :: "style \<Rightarrow> u8 \<Rightarrow> instruction_type \<times> u8 \<Rightarrow> bool" where
  "entry_of_style Alu_Imm o1 (ty, op) \<longleftrightarrow> ty = Alu_Binary \<and> op OR BPF_K = o1"
| "entry_of_style Alu_Reg o1 (ty, op) \<longleftrightarrow> ty = Alu_Binary \<and> op OR BPF_X = o1"
| "entry_of_style One_Reg o1 (ty, op) \<longleftrightarrow> ty = Alu_Unary \<and> op = o1"
| "entry_of_style Byteswap o1 (ty, op) \<longleftrightarrow> op = o1"
| "entry_of_style Ld_St_Imm o1 (ty, op) \<longleftrightarrow> ty = Store_Imm \<and> op = o1"
| "entry_of_style Ld_Reg o1 (ty, op) \<longleftrightarrow> ty = Load_Reg \<and> op = o1"
| "entry_of_style St_Reg o1 (ty, op) \<longleftrightarrow> ty = Store_Reg \<and> op = o1"
| "entry_of_style Ld_Abs o1 (ty, op) \<longleftrightarrow> ty = Load_Abs \<and> op = o1"
| "entry_of_style Ld_Ind o1 (ty, op) \<longleftrightarrow> ty = Load_Ind \<and> op = o1"
| "entry_of_style Jmp_Imm o1 (ty, op) \<longleftrightarrow> ty = Jump_Conditional \<and> op OR BPF_K = o1"
| "entry_of_style Jmp_Reg o1 (ty, op) \<longleftrightarrow> ty = Jump_Conditional \<and> op OR BPF_X = o1"
| "entry_of_style Ja o1 (ty, op) \<longleftrightarrow> ty = Jump_Unconditional \<and> op = o1"
| "entry_of_style Bare o1 (ty, op) \<longleftrightarrow> ty = No_Operand \<and> op = o1"

definition unknown_names :: "string list" where
  "unknown_names = [''stxxaddw'', ''stxxadddw'', ''tail_call'']"

definition arm_ok :: "u8 \<times> string \<times> style \<Rightarrow> bool" where
  "arm_ok = (\<lambda>(o1, name, st). name \<in> set unknown_names \<or> (name \<noteq> [] \<and> list_all is_alpha_num name \<and> o1 \<noteq> LD_DW_IMM \<and>
     (if st = Byteswap
      then list_all (\<lambda>(digits, sz). map_of make_instruction_map (name @ digits) = Some (Endian sz, o1))
        [(''16'', 16), (''32'', 32), (''64'', 64)]
      else case map_of make_instruction_map name of Some e \<Rightarrow> entry_of_style st o1 e | None \<Rightarrow> False)))"

lemma arms_ok: "list_all arm_ok arms"
  by code_simp

section \<open>One instruction\<close>

lemma checked_fields:
  assumes "insn_ok i" "op = opc i"
  shows "src i = 0 \<Longrightarrow> off i = 0 \<Longrightarrow> 0 \<le> sint (imm i) \<Longrightarrow> checked_insn op (ucast (dst i)) 0 0 (ucast (imm i)) = Inr i"
    "off i = 0 \<Longrightarrow> imm i = 0 \<Longrightarrow> checked_insn op (ucast (dst i)) (ucast (src i)) 0 0 = Inr i"
    "src i = 0 \<Longrightarrow> off i = 0 \<Longrightarrow> imm i = 0 \<Longrightarrow> checked_insn op (ucast (dst i)) 0 0 0 = Inr i"
    "src i = 0 \<Longrightarrow> 0 \<le> sint (imm i) \<Longrightarrow> checked_insn op (ucast (dst i)) 0 (scast (off i)) (ucast (imm i)) = Inr i"
    "imm i = 0 \<Longrightarrow> checked_insn op (ucast (dst i)) (ucast (src i)) (scast (off i)) 0 = Inr i"
    "dst i = 0 \<Longrightarrow> src i = 0 \<Longrightarrow> off i = 0 \<Longrightarrow> 0 \<le> sint (imm i) \<Longrightarrow> checked_insn op 0 0 0 (ucast (imm i)) = Inr i"
    "dst i = 0 \<Longrightarrow> off i = 0 \<Longrightarrow> 0 \<le> sint (imm i) \<Longrightarrow> checked_insn op 0 (ucast (src i)) 0 (ucast (imm i)) = Inr i"
    "dst i = 0 \<Longrightarrow> src i = 0 \<Longrightarrow> imm i = 0 \<Longrightarrow> checked_insn op 0 0 (scast (off i)) 0 = Inr i"
    "dst i = 0 \<Longrightarrow> src i = 0 \<Longrightarrow> off i = 0 \<Longrightarrow> imm i = 0 \<Longrightarrow> checked_insn op 0 0 0 0 = Inr i"
    "dst i = 0 \<Longrightarrow> src i = 1 \<Longrightarrow> off i = 0 \<Longrightarrow> 0 \<le> sint (imm i) \<Longrightarrow> checked_insn op 0 1 0 (ucast (imm i)) = Inr i"
  using checked_insn_ok[of "dst i" "src i" "imm i" op "off i"] assms by (simp_all add: insn_ok_def)

lemma byteswap_sizes: "n \<in> {16, 32, 64} \<Longrightarrow> dec_i32 n = (if n = 16 then ''16'' else if n = 32 then ''32'' else ''64'')"
  by (auto simp: dec_i32_def fmt_dec.simps hex_digit_def)

lemma style_encodes:
  assumes "entry_of_style st (opc i) (ty, op)" "shows_all st i" "insn_ok i" "st = Byteswap \<longrightarrow> ty = Endian (ucast (imm i))"
  shows "encode ty op (operands_of st i) = Inr i"
proof -
  note c = checked_fields[OF assms(3)]
  show ?thesis
  proof (cases "st = Byteswap")
    case True
    then have "0 \<le> sint (imm i)" using assms(2) by auto
    then show ?thesis using assms(1,2,4) True by (simp add: encode_def encode_operands_def c(1))
  next
    case False
    with assms(1,2) show ?thesis by (cases st) (auto simp: encode_def encode_operands_def c)
  qed
qed

section \<open>Programs\<close>



lemma map_of_member: "map_of xs k = Some v \<Longrightarrow> list_all P xs \<Longrightarrow> P (k, v)"
  by (auto simp: list_all_iff dest: map_of_SomeD)

lemma arm_assembles:
  assumes "map_of arms (opc i) = Some (name, st)" "name \<notin> set unknown_names" "shows_all st i" "insn_ok i"
  shows "arm_name st name i \<noteq> [] \<and> list_all is_alpha_num (arm_name st name i)"
    and "assemble_internal [\<lparr>ai_name = arm_name st name i, ai_operands = operands_of st i\<rparr>] = Some (Inr [i])"
proof -
  from map_of_member[OF assms(1) arms_ok] assms(2) have ok: "name \<noteq> []" "list_all is_alpha_num name"
    and entry: "if st = Byteswap then list_all (\<lambda>(digits, sz). map_of make_instruction_map (name @ digits) = Some (Endian sz, opc i))
        [(''16'', 16), (''32'', 32), (''64'', 64)]
      else case map_of make_instruction_map name of Some e \<Rightarrow> entry_of_style st (opc i) e | None \<Rightarrow> False"
    by (auto simp: arm_ok_def)
  show "arm_name st name i \<noteq> [] \<and> list_all is_alpha_num (arm_name st name i)"
    using ok assms(3) by (auto simp: arm_name_def byteswap_sizes is_alpha_num_def is_ascii_digit_def)
  obtain ty op where m: "map_of make_instruction_map (arm_name st name i) = Some (ty, op)"
    and e: "entry_of_style st (opc i) (ty, op)" and b: "st = Byteswap \<longrightarrow> ty = Endian (ucast (imm i))"
  proof (cases "st = Byteswap")
    case True
    then have "imm i \<in> {16, 32, 64}" using assms(3) by simp
    then show thesis using that[of "Endian (ucast (imm i))" "opc i"] entry True
      by (auto simp: arm_name_def byteswap_sizes)
  next
    case False
    then show thesis using that entry by (auto simp: arm_name_def split: option.splits)
  qed
  have "ty \<noteq> Load_Imm" using e by (cases st) (auto simp: b)
  then have "second_half ty (operands_of st i) = Some []" by (cases ty) (simp_all add: second_half_def)
  then show "assemble_internal [\<lparr>ai_name = arm_name st name i, ai_operands = operands_of st i\<rparr>] = Some (Inr [i])"
    using style_encodes[OF e assms(3,4) b] m by simp
qed



lemma named_entries:
  "map_of make_instruction_map ''call'' = Some (Call, CALL)" "map_of make_instruction_map ''callx'' = Some (Callx, CALL)"
  "map_of make_instruction_map ''lddw'' = Some (Load_Imm, LD_DW_IMM)"
  by (simp_all add: make_instruction_map_def)







text \<open>Lines that are assembled together give the instructions of each.\<close>

lemma assemble_internal_append:
  "assemble_internal as = Some (Inr is) \<Longrightarrow> assemble_internal bs = Some (Inr js) \<Longrightarrow>
   assemble_internal (as @ bs) = Some (Inr (is @ js))"
  by (induction as arbitrary: "is") (auto split: option.splits sum.splits prod.splits)



section \<open>The text of a program\<close>





section \<open>The builder\<close>

text \<open>The line of assembler text for an instruction under construction.\<close>

fun alu_name :: "op_bits \<Rightarrow> string" where
  "alu_name Add = ''add''" | "alu_name Sub = ''sub''" | "alu_name Mul = ''mul''" | "alu_name Div = ''div''"
| "alu_name Bit_Or = ''or''" | "alu_name Bit_And = ''and''" | "alu_name L_Shift = ''lsh''"
| "alu_name R_Shift = ''rsh''" | "alu_name Negate = ''neg''" | "alu_name Mod = ''mod''"
| "alu_name Bit_Xor = ''xor''" | "alu_name Mov = ''mov''" | "alu_name Sign_R_Shift = ''arsh''"

fun cond_name :: "cond \<Rightarrow> string" where
  "cond_name Always = ''ja''" | "cond_name Equals = ''jeq''" | "cond_name Greater = ''jgt''"
| "cond_name Greater_Equals = ''jge''" | "cond_name Lower = ''jlt''" | "cond_name Lower_Equals = ''jle''"
| "cond_name Bits_And = ''jset''" | "cond_name Not_Equals = ''jne''" | "cond_name Greater_Signed = ''jsgt''"
| "cond_name Greater_Equals_Signed = ''jsge''" | "cond_name Lower_Signed = ''jslt''"
| "cond_name Lower_Equals_Signed = ''jsle''"

fun size_name :: "mem_size \<Rightarrow> string" where
  "size_name Byte = ''b''" | "size_name Half_Word = ''h''" | "size_name Word_Size = ''w''" | "size_name Double_Word = ''dw''"

fun mnemonic :: "building \<Rightarrow> (string \<times> style) option" where
  "mnemonic (Move s op a _) =
     (let name = alu_name op @ (case a of X64 \<Rightarrow> ''64'' | X32 \<Rightarrow> ''32'')
      in if op = Negate then (if s = Src_Imm then Some (name, One_Reg) else None)
         else Some (name, if s = Src_Imm then Alu_Imm else Alu_Reg))"
| "mnemonic (Swap_Bytes e _) = Some (case e of Little \<Rightarrow> ''le'' | Big \<Rightarrow> ''be'', Byteswap)"
| "mnemonic (Load Addr_Imm _ _ _) = None"
| "mnemonic (Load Addr_Abs m s _) = (if s = BPF_LD then Some (''ldabs'' @ size_name m, Ld_Abs) else None)"
| "mnemonic (Load Addr_Ind m s _) = (if s = BPF_LD then Some (''ldind'' @ size_name m, Ld_Ind) else None)"
| "mnemonic (Load Addr_Mem m s _) = (if s = BPF_LDX then Some (''ldx'' @ size_name m, Ld_Reg) else None)"
| "mnemonic (Store m s _) =
     (if s = BPF_IMM then Some (''st'' @ size_name m, Ld_St_Imm)
      else if s = BPF_MEM OR BPF_STX then Some (''stx'' @ size_name m, St_Reg) else None)"
| "mnemonic (Jump c s _) =
     (if c = Always then (if s = Src_Imm then Some (''ja'', Ja) else None)
      else Some (cond_name c, if s = Src_Imm then Jmp_Imm else Jmp_Reg))"
| "mnemonic (Function_Call _) = None"
| "mnemonic (Exit_Insn _) = Some (''exit'', Bare)"

text \<open>Every mnemonic is the arm of the disassembler with the builder's opcode byte.\<close>

definition all_sources where "all_sources = [Src_Imm, Src_Reg]"
definition all_ops where "all_ops = [Add, Sub, Mul, Div, Bit_Or, Bit_And, L_Shift, R_Shift, Negate, Mod, Bit_Xor, Mov, Sign_R_Shift]"
definition all_mem_sizes where "all_mem_sizes = [Byte, Half_Word, Word_Size, Double_Word]"
definition all_conds where "all_conds = [Always, Equals, Greater, Greater_Equals, Lower, Lower_Equals, Bits_And, Not_Equals,
  Greater_Signed, Greater_Equals_Signed, Lower_Signed, Lower_Equals_Signed]"

definition all_buildings :: "insn \<Rightarrow> building list" where
  "all_buildings i =
     [Move s op a i. s \<leftarrow> all_sources, op \<leftarrow> all_ops, a \<leftarrow> [X64, X32]] @
     [Swap_Bytes e i. e \<leftarrow> [Little, Big]] @
     [Load Addr_Abs m BPF_LD i. m \<leftarrow> all_mem_sizes] @
     [Load Addr_Ind m BPF_LD i. m \<leftarrow> all_mem_sizes] @
     [Load Addr_Mem m BPF_LDX i. m \<leftarrow> all_mem_sizes] @
     [Store m s i. m \<leftarrow> all_mem_sizes, s \<leftarrow> [BPF_IMM, BPF_MEM OR BPF_STX]] @
     [Jump c s i. c \<leftarrow> all_conds, s \<leftarrow> all_sources] @ [Exit_Insn i]"

lemma with_blank: "mnemonic (with_insn f b) = mnemonic b"
  by (induction b rule: mnemonic.induct) simp_all

lemma mnemonic_listed: "mnemonic b \<noteq> None \<Longrightarrow> b \<in> set (all_buildings (built_insn b))"
proof (induction b rule: mnemonic.induct)
  case (1 s op a i)
  then show ?case by (cases s; cases op; cases a) (simp_all add: all_buildings_def all_sources_def all_ops_def)
next
  case (2 e i)
  then show ?case by (cases e) (simp_all add: all_buildings_def)
next
  case (8 c s i)
  then show ?case by (cases s; cases c) (simp_all add: all_buildings_def all_sources_def all_conds_def)
qed (auto simp: all_buildings_def all_mem_sizes_def split: if_splits intro: mem_size.exhaust)

lemma mnemonics_checked:
  "list_all (\<lambda>b. case mnemonic b of None \<Rightarrow> True
     | Some (name, st) \<Rightarrow> name \<notin> set unknown_names \<and> map_of arms (opt_code_byte b) = Some (name, st)) (all_buildings blank_insn)"
  by code_simp

lemma mnemonic_arm:
  assumes "mnemonic b = Some (name, st)"
  shows "name \<notin> set unknown_names \<and> map_of arms (opt_code_byte b) = Some (name, st)"
proof -
  let ?b = "with_insn (\<lambda>_. blank_insn) b"
  have "?b \<in> set (all_buildings blank_insn)"
    using mnemonic_listed[of ?b] assms by (simp add: with_blank)
  then show ?thesis using mnemonics_checked assms by (auto simp: list_all_iff with_blank)
qed

text \<open>The assembler instruction for a building, and the condition that it shows every field.\<close>

definition written :: "building \<Rightarrow> asm_instruction option" where
  "written b = (case b of
       Function_Call i \<Rightarrow> Some \<lparr>ai_name = ''call'', ai_operands = [imm_operand (imm i)]\<rparr>
     | _ \<Rightarrow> map_option (\<lambda>(name, st). \<lparr>ai_name = arm_name st name (built_insn b), ai_operands = operands_of st (built_insn b)\<rparr>)
         (mnemonic b))"

definition shown :: "building \<Rightarrow> bool" where
  "shown b = (let i = built_insn b in case b of
       Function_Call _ \<Rightarrow> dst i = 0 \<and> src i = 0 \<and> off i = 0 \<and> 0 \<le> sint (imm i)
     | _ \<Rightarrow> (case mnemonic b of Some (_, st) \<Rightarrow> shows_all st i | None \<Rightarrow> False))"

lemma insn_of_fields [simp]:
  "shows_all st (insn_of b) = shows_all st (built_insn b)" "operands_of st (insn_of b) = operands_of st (built_insn b)"
  "arm_name st name (insn_of b) = arm_name st name (built_insn b)" "insn_ok (insn_of b) = insn_ok (built_insn b)"
  "opc (insn_of b) = opt_code_byte b"
  by (cases st, simp_all add: insn_of_def arm_name_def insn_ok_def)+

lemma building_assembles:
  assumes "written b = Some a" "shown b" "insn_ok (built_insn b)"
  shows "assemble_internal [a] = Some (Inr [insn_of b])"
proof (cases "\<exists>i. b = Function_Call i")
  case True
  then obtain i where b: "b = Function_Call i" by blast
  have op: "opt_code_byte b = CALL" using b by (simp add: BPF_JMP_def CALL_def)
  have "checked_insn CALL 0 0 0 (ucast (imm i)) = Inr (insn_of b)"
    using checked_fields(6)[of "insn_of b" CALL] assms(2,3) b op by (simp add: shown_def insn_of_def insn_ok_def)
  then show ?thesis using assms(1) b
    by (auto simp: written_def named_entries encode_def encode_operands_def second_half_def)
next
  case False
  then obtain name st where m: "mnemonic b = Some (name, st)"
    using assms(2) by (cases b) (auto simp: shown_def Let_def split: option.splits)
  then have "shows_all st (built_insn b)" using assms(2) False by (cases b) (simp_all add: shown_def)
  moreover have "a = \<lparr>ai_name = arm_name st name (built_insn b), ai_operands = operands_of st (built_insn b)\<rparr>"
    using assms(1) m False by (cases b) (simp_all add: written_def)
  ultimately show ?thesis using arm_assembles(2)[of "insn_of b" name st] mnemonic_arm[OF m] assms(3) by simp
qed

lemma pushed_bytes: "fold push_insn bs code = code @ concat (map to_array (map insn_of bs))"
  by (induction bs arbitrary: code) (simp_all add: push_insn_def insn_bytes_to_array)

text \<open>C17: builder and assembler are equivalent on every program they can both express. For every
  sequence of operations of the builder that have a mnemonic (every source, width, size and condition), with
  fields the text shows, pushing them one after the other gives the very bytes the assembler returns for
  their lines, whatever the text its parser read them from.\<close>

theorem builder_assembler_agree:
  assumes "list_all2 (\<lambda>b a. written b = Some a \<and> shown b \<and> insn_ok (built_insn b)) bs as"
  shows "assemble (\<lambda>_. Inr as) t = Some (Inr (fold push_insn bs []))"
proof -
  have "assemble_internal as = Some (Inr (map insn_of bs))"
    using assms
  proof (induction rule: list_all2_induct)
    case (Cons b bs a as)
    then have "assemble_internal ([a] @ as) = Some (Inr ([insn_of b] @ map insn_of bs))"
      by (blast intro: assemble_internal_append building_assembles)
    then show ?case by simp
  qed simp
  then show ?thesis by (simp add: assemble_def pushed_bytes)
qed

lemma builder_assembler_agree_witness:
  "assemble (\<lambda>_. Inr [\<lparr>ai_name = ''stxw'', ai_operands = [mem_operand 10 (- 4), reg_operand 1]\<rparr>, \<lparr>ai_name = ''exit'', ai_operands = []\<rparr>]) []
    = Some (Inr (fold push_insn [set_off (- 4) (set_src 1 (set_dst 10 (bpf_store_x Word_Size))), bpf_exit] []))"
proof -
  let ?b = "set_off (- 4) (set_src 1 (set_dst 10 (bpf_store_x Word_Size)))"
  note api = set_off_def set_src_def set_dst_def bpf_store_x_def store_internal_def written_def shown_def bpf_exit_def
    arm_name_def blank_insn_def insn_ok_def Let_def
  have "(BPF_MEM OR BPF_STX :: u8) \<noteq> BPF_IMM" by (simp add: BPF_MEM_def BPF_STX_def BPF_IMM_def)
  then show ?thesis by (intro builder_assembler_agree) (simp add: api)
qed

section \<open>Negative immediates\<close>

text \<open>A negative immediate is printed as its two's complement, which the assembler refuses.\<close>

lemma negative_immediate_refused:
  assumes "sint (imm i) < 0"
  shows "alu_imm_str name i = name @ '' '' @ reg (dst i) @ '', '' @ hex_prefixed (unat (imm i))"
    and "encode Alu_Binary op (operands_of Alu_Imm i) \<noteq> Inr j"
proof -
  show "alu_imm_str name i = name @ '' '' @ reg (dst i) @ '', '' @ hex_prefixed (unat (imm i))"
    by (simp add: alu_imm_str_def)
  have "sint (imm i) = uint (imm i)" if "uint (imm i) < 2147483648"
    using that signed_take_bit_int_eq_self[of 31 "uint (imm i)"] uint_ge_0[of "imm i"] by (simp add: sint_uint del: uint_ge_0)
  then have "2147483648 \<le> uint (imm i)" using assms uint_ge_0[of "imm i"] by fastforce
  moreover have "sint (ucast (imm i) :: i64) = uint (imm i)"
    using signed_take_bit_int_eq_self[of 63 "uint (imm i)"] uint_ge_0[of "imm i"] uint_bounded[of "imm i"]
    by (simp add: signed_ucast_eq del: uint_ge_0)
  ultimately show "encode Alu_Binary op (operands_of Alu_Imm i) \<noteq> Inr j"
    by (simp add: encode_def encode_operands_def checked_insn_def)
qed

end
