(* ===== verification/Vm_State.thy ===== *)
theory Vm_State
  imports Evm_Interp Store "HOL-Library.Char_ord"
begin

text \<open>
  The data of the virtual machine facade (\<open>vuc-tx/src/slurachain_vm.rs\<close>): function metadata,
  modules, accounts, the machine, its parallel engine, and the error texts.

  \<open>SlurachainVm\<close> is cloned into its own engine.  A clone shares what is behind an \<open>Arc\<close>
  (accounts, world state, block information, database) and copies the rest.  So the shared part
  is the fields of \<open>slura_vm\<close>, and the part each clone owns is the record \<open>vm_private\<close>.

  Not in the model, because nothing on these paths reads it: helpers, allowed memory, the
  interpreter handle, pending logs, \<open>chain_id\<close>, \<open>debug_mode\<close>, the ELF buffer and the layout
  tables of a module.  \<open>on_create2_event\<close> is \<open>None\<close> in every machine the repository builds.
\<close>

section \<open>Code outside the repository\<close>

record 'd vm_env = "'d store_env" +
  vm_checks :: bool
  keccak :: "bytes \<Rightarrow> bytes"
  hex_text :: "bytes \<Rightarrow> string"
  hex_bytes :: "string \<Rightarrow> bytes option"
  clock_secs :: u64
  ss7_buffer_ptr :: u64
  ss7_text_len :: "u64 list \<Rightarrow> u64"

text \<open>The interpreter sees the same crates, and the database through \<open>RocksDBManager\<close>.\<close>

definition interp_env :: "('d, 'a) vm_env_scheme \<Rightarrow> 'd externals" where
  "interp_env S = \<lparr>overflow_checks = vm_checks S, keccak256 = keccak S, hex_encode = hex_text S,
     hex_decode = hex_bytes S,
     db_read = (\<lambda>d k. case Store.db_read S d k of Inr v \<Rightarrow> Some v | Inl _ \<Rightarrow> None),
     db_write = (\<lambda>d k v. case Store.db_write S d k v of Inr d' \<Rightarrow> d' | Inl _ \<Rightarrow> d),
     now_secs = ucast (clock_secs S), json_buffer_ptr = ss7_buffer_ptr S, ss7_json_len = ss7_text_len S\<rparr>"

text \<open>\<open>hex::encode\<close> writes two lower-case digits for each byte, and \<open>hex::decode\<close> reads them back.\<close>

definition is_lower_hexdigit :: "char \<Rightarrow> bool" where
  "is_lower_hexdigit c \<longleftrightarrow> c \<in> set ''0123456789abcdef''"

definition hex_pair_ok :: "('d, 'a) vm_env_scheme \<Rightarrow> bool" where
  "hex_pair_ok S \<longleftrightarrow> (\<forall>bs. hex_bytes S (hex_text S bs) = Some bs \<and>
     length (hex_text S bs) = 2 * length bs \<and> list_all is_lower_hexdigit (hex_text S bs))"

definition keccak_ok :: "('d, 'a) vm_env_scheme \<Rightarrow> bool" where
  "keccak_ok S \<longleftrightarrow> (\<forall>bs. length (keccak S bs) = 32)"

section \<open>Text and JSON of the standard library\<close>

definition ascii_lower :: "char \<Rightarrow> char" where
  "ascii_lower c = (let n = (of_char c :: nat) in if 65 \<le> n \<and> n \<le> 90 then char_of (n + 32) else c)"

text \<open>\<open>str::trim_start_matches\<close> on a string pattern.\<close>

function trim_start_matches :: "string \<Rightarrow> string \<Rightarrow> string" where
  "trim_start_matches p s =
     (if p \<noteq> [] \<and> starts_with p s then trim_start_matches p (drop (length p) s) else s)"
  by pat_completeness auto
termination
  by (relation "measure (\<lambda>(p, s). length s)") (auto simp: starts_with_def intro: diff_less)

declare trim_start_matches.simps [simp del]

text \<open>\<open>u32::from_str_radix(s, 16)\<close>.\<close>

definition parse_hex_u32 :: "string \<Rightarrow> u32 option" where
  "parse_hex_u32 s =
     (let ds = (case s of CHR ''+'' # r \<Rightarrow> r | _ \<Rightarrow> s); v = hex_val (map ascii_lower ds)
      in if ds \<noteq> [] \<and> list_all is_ascii_hexdigit ds \<and> v < 2 ^ 32 then Some (word_of_nat v) else None)"

fun join_commas :: "string list \<Rightarrow> string" where
  "join_commas [] = []"
| "join_commas [t] = t"
| "join_commas (t # ts) = t @ CHR '','' # join_commas ts"

definition json_get :: "json \<Rightarrow> string \<Rightarrow> json option" where
  "json_get v k = Option.bind (as_object v) (\<lambda>m. jmap_get m k)"

text \<open>The entries of a \<open>BTreeMap<String, _>\<close> in the order it is iterated.\<close>

definition btree_entries :: "(string, 'a) hmap \<Rightarrow> (string \<times> 'a) list" where
  "btree_entries m = sort_key fst m"

fun first_some :: "('a \<Rightarrow> 'b option) \<Rightarrow> 'a list \<Rightarrow> 'b option" where
  "first_some f [] = None"
| "first_some f (x # xs) = (case f x of Some y \<Rightarrow> Some y | None \<Rightarrow> first_some f xs)"

text \<open>\<open>u32::to_be_bytes\<close>, \<open>u64::to_be_bytes\<close> and their inverses.\<close>

definition u32_be :: "u32 \<Rightarrow> bytes" where
  "u32_be w = be_bytes 4 (ucast w)"

definition u64_be :: "u64 \<Rightarrow> bytes" where
  "u64_be w = be_bytes 8 (ucast w)"

definition u32_of_be :: "bytes \<Rightarrow> u32" where
  "u32_of_be bs = word_of_nat (be_val bs)"

definition u64_of_be :: "bytes \<Rightarrow> u64" where
  "u64_of_be bs = word_of_nat (be_val bs)"

section \<open>Data\<close>

record function_metadata =
  fm_name :: string
  fm_offset :: nat
  fm_args_count :: nat
  fm_return_type :: string
  fm_gas_limit :: u64
  fm_payable :: bool
  fm_mutability :: string
  fm_selector :: u32
  fm_arg_types :: "string list"
  fm_modifiers :: "string list"

record vm_module =
  mo_name :: string
  mo_address :: string
  mo_bytecode :: bytes
  mo_functions :: "(string, function_metadata) hmap"
  mo_constructor_params :: "string list"

record vm_account =
  va_eth_address :: string
  va_slu_zk_address :: string
  va_balance :: "128 word"
  va_contract_state :: bytes
  va_resources :: "(string, json) hmap"
  va_state_version :: u64
  va_last_block_number :: u64
  va_nonce :: u64
  va_code_hash :: string
  va_storage_root :: string
  va_is_contract :: bool
  va_gas_used :: u64

record vm_private =
  vp_modules :: "(string, vm_module) hmap"
  vp_address_map :: "(string, string) hmap"
  vp_gas_price :: u64
  vp_has_manager :: bool

record 'd slura_vm =
  vm_accounts :: "(string, vm_account) hmap"
  vm_storage :: storage_map
  vm_block_number :: u64
  vm_db :: 'd
  vm_own :: vm_private

record parallel_transaction =
  pt_id :: u64
  pt_contract_address :: string
  pt_function_name :: string
  pt_args :: "json list"
  pt_sender :: string
  pt_version :: u64
  pt_read_set :: "(string, u64) hmap"
  pt_write_set :: "(string, bytes) hmap"
  pt_dependencies :: "u64 list"
  pt_calldata :: "bytes option"

record parallel_engine =
  en_own :: vm_private
  en_global_version :: u64
  en_storage_versions :: "(string, u64) hmap"
  en_active :: "(u64, parallel_transaction) hmap"
  en_queue :: "parallel_transaction list"

text \<open>The handle a node holds: a machine and the engine of \<open>with_parallel_engine\<close>.\<close>

record 'd node_vm =
  nv_vm :: "'d slura_vm"
  nv_engine :: "parallel_engine option"

section \<open>How a call ends\<close>

datatype 'a call =
    Returned 'a
  | Panicked
  | Unfinished

definition and_then :: "'a call \<Rightarrow> ('a \<Rightarrow> 'b call) \<Rightarrow> 'b call" where
  "and_then c k = (case c of Returned x \<Rightarrow> k x | Panicked \<Rightarrow> Panicked | Unfinished \<Rightarrow> Unfinished)"

definition or_panics :: "'a option \<Rightarrow> 'a call" where
  "or_panics r = (case r of Some x \<Rightarrow> Returned x | None \<Rightarrow> Panicked)"

lemma call_then_simps [simp]:
  "and_then (Returned x) k = k x" "and_then Panicked k = Panicked" "and_then Unfinished k = Unfinished"
  by (simp_all add: and_then_def)

lemma or_panics_simps [simp]: "or_panics (Some x) = Returned x" "or_panics None = Panicked"
  by (simp_all add: or_panics_def)

lemma and_then_Returned: "and_then c k = Returned y \<longleftrightarrow> (\<exists>x. c = Returned x \<and> k x = Returned y)"
  by (cases c) simp_all

lemma or_panics_Returned: "or_panics r = Returned x \<longleftrightarrow> r = Some x"
  by (cases r) simp_all

lemma and_then_Unfinished:
  "and_then c k = Unfinished \<longleftrightarrow> c = Unfinished \<or> (\<exists>x. c = Returned x \<and> k x = Unfinished)"
  by (cases c) simp_all

section \<open>Errors\<close>

datatype vm_error =
    No_Manager
  | No_Storage
  | Write_Fail string store_error
  | No_Bytecode string
  | Not_Found string
  | Impl_No_Bytecode string
  | Impl_Not_Found string
  | Unknown_Function string u32 string
  | Module_Missing string
  | Function_Missing string string
  | Account_Missing string
  | Interpreter_Error string
  | Missing_After_Retry u64
  | No_Result

section \<open>Lemmas\<close>

lemma first_some_SomeD: "first_some f xs = Some y \<Longrightarrow> \<exists>x \<in> set xs. f x = Some y"
  by (induction xs) (auto split: option.splits)

lemma first_some_None: "first_some f xs = None \<longleftrightarrow> (\<forall>x \<in> set xs. f x = None)"
  by (induction xs) (auto split: option.splits)

lemma first_some_append:
  "first_some f (xs @ ys) = (case first_some f xs of Some y \<Rightarrow> Some y | None \<Rightarrow> first_some f ys)"
  by (induction xs) (auto split: option.splits)

lemma set_btree_entries [simp]: "set (btree_entries m) = set m"
  by (simp add: btree_entries_def)

lemma length_u32_be [simp]: "length (u32_be w) = 4"
  by (simp add: u32_be_def)

lemma length_u64_be [simp]: "length (u64_be w) = 8"
  by (simp add: u64_be_def)

lemma unat_ucast_u256_u64: "unat (ucast (w :: u64) :: u256) = unat w"
  using unat_u64_bound[of w] by (simp add: unsigned_ucast_eq take_bit_nat_eq_self)

lemma unat_ucast_u256_u32: "unat (ucast (w :: u32) :: u256) = unat w"
  using unat_u32_bound[of w] by (simp add: unsigned_ucast_eq take_bit_nat_eq_self)

lemma be_val_u64_be [simp]: "be_val (u64_be w) = unat w"
  using unat_u64_bound[of w] by (simp add: u64_be_def be_val_be_bytes unat_ucast_u256_u64)

lemma be_val_u32_be [simp]: "be_val (u32_be w) = unat w"
  using unat_u32_bound[of w] by (simp add: u32_be_def be_val_be_bytes unat_ucast_u256_u32)

lemma u64_of_be_u64_be [simp]: "u64_of_be (u64_be w) = w"
  by (simp add: u64_of_be_def)

lemma u32_of_be_u32_be [simp]: "u32_of_be (u32_be w) = w"
  by (simp add: u32_of_be_def)

lemma trim_start_strip [simp]:
  "p \<noteq> [] \<Longrightarrow> \<not> starts_with p s \<Longrightarrow> trim_start_matches p (p @ s) = s"
  by (simp add: trim_start_matches.simps[of p "p @ s"] trim_start_matches.simps[of p s])

end
