(* ===== verification/Vm_Dispatch.thy ===== *)
theory Vm_Dispatch
  imports Vm_State
begin

text \<open>
  How the facade finds a function in EVM bytecode (\<open>slurachain_vm.rs\<close>): selectors from a name
  and its arguments, the scan that fills the function table of a module, the search of a
  selector in a dispatcher, and the lookup that combines them.

  Positions are \<open>usize\<close> values that stay far below \<open>2\<^sup>6\<^sup>4\<close>, so they are numbers.  A read
  \<open>bs ! i\<close> stands for the index expression of the source; each is guarded by the bound the
  source tests.
\<close>

section \<open>Function tables\<close>

text \<open>\<open>format!("function_{:08x}", selector)\<close>.\<close>

definition function_key :: "u32 \<Rightarrow> string" where
  "function_key selector = ''function_'' @ fmt_hex 8 (unat selector)"

definition create_function_metadata :: "u32 \<Rightarrow> nat \<Rightarrow> function_metadata" where
  "create_function_metadata selector offset =
     \<lparr>fm_name = function_key selector, fm_offset = offset, fm_args_count = 0, fm_return_type = ''bytes'',
      fm_gas_limit = 100000, fm_payable = False, fm_mutability = ''nonpayable'', fm_selector = selector,
      fm_arg_types = [], fm_modifiers = []\<rparr>"

definition fallback_metadata :: function_metadata where
  "fallback_metadata =
     \<lparr>fm_name = ''fallback'', fm_offset = 100, fm_args_count = 0, fm_return_type = ''bytes'',
      fm_gas_limit = 100000, fm_payable = True, fm_mutability = ''payable'', fm_selector = 0,
      fm_arg_types = [], fm_modifiers = []\<rparr>"

text \<open>\<open>((bs[p] as usize) << 8) | (bs[p + 1] as usize)\<close> and the four bytes of a selector.\<close>

definition u16_at :: "bytes \<Rightarrow> nat \<Rightarrow> nat" where
  "u16_at bs p = unat (bs ! p) * 256 + unat (bs ! Suc p)"

definition u32_at :: "bytes \<Rightarrow> nat \<Rightarrow> u32" where
  "u32_at bs p = u32_of_be [bs ! p, bs ! (p + 1), bs ! (p + 2), bs ! (p + 3)]"

text \<open>The inner loop of the dispatcher scan: the first accepted \<open>PUSH2 dest JUMPI\<close>.\<close>

definition jumpi_target :: "bytes \<Rightarrow> nat \<Rightarrow> nat option" where
  "jumpi_target bs i = first_some (\<lambda>j.
     if i + j < length bs \<and> bs ! (i + j) = 0x57 \<and> 3 \<le> j \<and> bs ! (i + j - 3) = 0x61 \<and>
        i + 50 < u16_at bs (i + j - 2) \<and> u16_at bs (i + j - 2) < length bs
     then Some (u16_at bs (i + j - 2)) else None) [5..<15]"

definition scan_dispatcher :: "bytes \<Rightarrow> (string, function_metadata) hmap" where
  "scan_dispatcher bs = fold (\<lambda>i detected.
     if bs ! i = 0x63 then
       (case jumpi_target bs i of
          Some offset \<Rightarrow> hm_insert (function_key (u32_at bs (i + 1)))
            (create_function_metadata (u32_at bs (i + 1)) offset) detected
        | None \<Rightarrow> detected)
     else detected) [0..<length bs - 10] []"

definition heuristic_function_detection ::
    "bytes \<Rightarrow> (string, function_metadata) hmap \<Rightarrow> (string, function_metadata) hmap" where
  "heuristic_function_detection bs functions = fold (\<lambda>i detected.
     if bs ! i = 0x63 \<and> 0x100 < u32_at bs (i + 1) \<and> u32_at bs (i + 1) \<noteq> 0xffffffff
     then hm_insert (function_key (u32_at bs (i + 1)))
       (create_function_metadata (u32_at bs (i + 1)) (min (i + 50) (length bs - 1))) detected
     else detected) [0..<length bs - 4] functions"

definition detected_functions :: "bytes \<Rightarrow> (string, function_metadata) hmap" where
  "detected_functions bs =
     (let d1 = scan_dispatcher bs;
          d2 = (if d1 = [] then heuristic_function_detection bs d1 else d1)
      in if d2 = [] then [(''fallback'', fallback_metadata)] else d2)"

definition empty_module :: "string \<Rightarrow> bytes \<Rightarrow> (string, function_metadata) hmap \<Rightarrow> vm_module" where
  "empty_module addr bs functions =
     \<lparr>mo_name = addr, mo_address = addr, mo_bytecode = bs, mo_functions = functions, mo_constructor_params = []\<rparr>"

definition extend_map :: "('k, 'v) hmap \<Rightarrow> ('k, 'v) hmap \<Rightarrow> ('k, 'v) hmap" where
  "extend_map m new = fold (\<lambda>(k, v). hm_insert k v) new m"

definition save_detected_functions ::
    "string \<Rightarrow> (string, function_metadata) hmap \<Rightarrow> vm_private \<Rightarrow> vm_private" where
  "save_detected_functions addr functions P =
     (case hm_get (vp_modules P) addr of
        Some m \<Rightarrow> P\<lparr>vp_modules := hm_insert addr
          (m\<lparr>mo_functions := extend_map (mo_functions m) functions\<rparr>) (vp_modules P)\<rparr>
      | None \<Rightarrow> P\<lparr>vp_modules := hm_insert addr (empty_module addr [] functions) (vp_modules P)\<rparr>)"

text \<open>The module of a contract before its code is analysed.\<close>

definition load_bytecode :: "string \<Rightarrow> bytes \<Rightarrow> vm_private \<Rightarrow> vm_private" where
  "load_bytecode addr bs P =
     (case hm_get (vp_modules P) addr of
        None \<Rightarrow> P\<lparr>vp_modules := hm_insert addr (empty_module addr bs []) (vp_modules P)\<rparr>
      | Some m \<Rightarrow>
          (if mo_bytecode m = [] \<and> bs \<noteq> []
           then P\<lparr>vp_modules := hm_insert addr (m\<lparr>mo_bytecode := bs\<rparr>) (vp_modules P)\<rparr> else P))"

definition auto_detect_contract_functions :: "string \<Rightarrow> bytes \<Rightarrow> vm_private \<Rightarrow> vm_private" where
  "auto_detect_contract_functions addr bs P =
     (let P1 = load_bytecode addr bs P in
      if bs = [] then P1 else save_detected_functions addr (detected_functions bs) P1)"

definition verify_module_and_function :: "vm_private \<Rightarrow> string \<Rightarrow> string \<Rightarrow> vm_error + unit" where
  "verify_module_and_function P module_path fname =
     (case hm_get (vp_modules P) module_path of
        None \<Rightarrow> Inl (Module_Missing module_path)
      | Some m \<Rightarrow> (if hm_get (mo_functions m) fname = None
                  then Inl (Function_Missing fname module_path) else Inr ()))"

section \<open>Selectors\<close>

fun argument_type :: "json \<Rightarrow> string" where
  "argument_type (JString s) = (if starts_with ''0x'' s \<and> length s = 42 then ''address'' else ''string'')"
| "argument_type (JNumber _) = ''uint256''"
| "argument_type (JDecimal _) = ''uint256''"
| "argument_type (JBool _) = ''bool''"
| "argument_type _ = ''bytes''"

definition signature_text :: "string \<Rightarrow> json list \<Rightarrow> string" where
  "signature_text fname as = fname @ ''('' @ join_commas (map argument_type as) @ '')''"

definition calculate_function_selector_from_signature ::
    "('d, 'a) vm_env_scheme \<Rightarrow> string \<Rightarrow> json list \<Rightarrow> u32" where
  "calculate_function_selector_from_signature S fname as =
     (case (if starts_with ''function_'' fname then parse_hex_u32 (drop 9 fname) else None) of
        Some selector \<Rightarrow> selector
      | None \<Rightarrow> u32_of_be (take 4 (keccak S (bytes_of_string (signature_text fname as)))))"

section \<open>The dispatcher of a contract\<close>

text \<open>Strategy A: \<open>EQ PUSH2 dest JUMPI\<close> behind the selector.\<close>

definition eq_pattern :: "bytes \<Rightarrow> nat \<Rightarrow> nat option" where
  "eq_pattern bs pos = first_some (\<lambda>k.
     let c = pos + k in
     if c + 3 < length bs \<and> bs ! c = 0x14 \<and> c + 1 < length bs \<and> bs ! (c + 1) = 0x61 \<and>
        c + 4 < length bs \<and> bs ! (c + 4) = 0x57 \<and>
        u16_at bs (c + 2) < length bs \<and> 0 < u16_at bs (c + 2)
     then Some (u16_at bs (c + 2)) else None) [4..<20]"

text \<open>Strategy B: \<open>DUP1 PUSH4 other\<close> before the selector, a comparison that holds, a jump.\<close>

definition branch_taken :: "u8 \<Rightarrow> u32 \<Rightarrow> u32 \<Rightarrow> bool" where
  "branch_taken op selector other =
     (if op = 0x11 then other < selector else if op = 0x10 then selector < other
      else if op = 0x14 then selector = other else False)"

definition branch_jump :: "bytes \<Rightarrow> nat \<Rightarrow> nat \<Rightarrow> nat option" where
  "branch_jump bs sp op_scan = first_some (\<lambda>j.
     if sp + j + 3 < length bs \<and> bs ! (sp + j) = 0x61 \<and> bs ! (sp + j + 3) = 0x57 \<and>
        u16_at bs (sp + j + 1) < length bs \<and> 0 < u16_at bs (sp + j + 1)
     then Some (u16_at bs (sp + j + 1)) else None) [op_scan + 1..<op_scan + 10]"

definition hierarchical_at :: "bytes \<Rightarrow> u32 \<Rightarrow> nat \<Rightarrow> nat option" where
  "hierarchical_at bs selector sp =
     (if sp + 10 < length bs \<and> bs ! sp = 0x80 \<and> bs ! (sp + 1) = 0x63
      then first_some (\<lambda>op_scan.
        if sp + op_scan < length bs \<and> branch_taken (bs ! (sp + op_scan)) selector (u32_at bs (sp + 2))
        then branch_jump bs sp op_scan else None) [6..<16]
      else None)"

definition hierarchical_pattern :: "bytes \<Rightarrow> u32 \<Rightarrow> nat \<Rightarrow> nat option" where
  "hierarchical_pattern bs selector pos =
     first_some (\<lambda>back. if back \<le> pos then hierarchical_at bs selector (pos - back) else None) [1..<30]"

text \<open>Strategy C: the next \<open>JUMPDEST\<close> that no \<open>PUSH\<close> before it covers.\<close>

definition inside_push :: "bytes \<Rightarrow> nat \<Rightarrow> bool" where
  "inside_push bs target \<longleftrightarrow> list_ex (\<lambda>back.
     back \<le> target \<and> target - back < length bs \<and>
     0x60 \<le> bs ! (target - back) \<and> bs ! (target - back) \<le> 0x7f \<and>
     target \<le> target - back + (unat (bs ! (target - back)) - 0x5f)) [1..<33]"

definition jumpdest_fallback :: "bytes \<Rightarrow> nat \<Rightarrow> nat option" where
  "jumpdest_fallback bs pos = first_some (\<lambda>k.
     if pos + k < length bs \<and> bs ! (pos + k) = 0x5b \<and> \<not> inside_push bs (pos + k)
     then Some (pos + k) else None) [10..<100]"

definition offset_at :: "bytes \<Rightarrow> u32 \<Rightarrow> nat \<Rightarrow> nat option" where
  "offset_at bs selector pos =
     (if take 4 (drop pos bs) = u32_be selector then
        (case eq_pattern bs pos of
           Some offset \<Rightarrow> Some offset
         | None \<Rightarrow> (case hierarchical_pattern bs selector pos of
             Some offset \<Rightarrow> Some offset
           | None \<Rightarrow> jumpdest_fallback bs pos))
      else None)"

definition find_function_offset_in_bytecode :: "bytes \<Rightarrow> u32 \<Rightarrow> nat option" where
  "find_function_offset_in_bytecode bs selector =
     (if length bs < 10 then None
      else if selector = 0 then Some 0
      else first_some (offset_at bs selector) [0..<length bs - 4])"

section \<open>Metadata of a call\<close>

definition direct_call_metadata :: "json list \<Rightarrow> function_metadata" where
  "direct_call_metadata as =
     \<lparr>fm_name = ''*fallback*'', fm_offset = 0, fm_args_count = length as, fm_return_type = ''unknown'',
      fm_gas_limit = 1000000, fm_payable = True, fm_mutability = ''nonpayable'', fm_selector = 0,
      fm_arg_types = [], fm_modifiers = []\<rparr>"

definition module_function :: "vm_module \<Rightarrow> string \<Rightarrow> u32 \<Rightarrow> function_metadata option" where
  "module_function m fname selector =
     (case hm_get (mo_functions m) fname of
        Some meta \<Rightarrow> Some meta
      | None \<Rightarrow>
          (case first_some (\<lambda>(name, meta).
                   if fm_selector meta = selector \<and> starts_with ''function_'' name
                   then Some meta else None) (mo_functions m) of
             Some meta \<Rightarrow> Some meta
           | None \<Rightarrow>
               (case hm_get (mo_functions m) (function_key selector) of
                  Some meta \<Rightarrow> Some meta
                | None \<Rightarrow> map_option (create_function_metadata selector)
                    (find_function_offset_in_bytecode (mo_bytecode m) selector))))"

definition find_or_create_function_metadata ::
    "vm_private \<Rightarrow> string \<Rightarrow> string \<Rightarrow> u32 \<Rightarrow> json list \<Rightarrow> vm_error + function_metadata" where
  "find_or_create_function_metadata P addr fname selector as =
     (if fname = [] then Inr (direct_call_metadata as)
      else (case Option.bind (hm_get (vp_modules P) addr) (\<lambda>m. module_function m fname selector) of
              Some meta \<Rightarrow> Inr meta
            | None \<Rightarrow> Inl (Unknown_Function fname selector addr)))"

end
