(* ===== verification/Vm_Exec.thy ===== *)
theory Vm_Exec
  imports Vm_Dispatch
begin

text \<open>
  A call of a contract through the facade (\<open>slurachain_vm.rs\<close>): the slots and the call data it
  builds, what it reads back from the database, the run of the interpreter
  (\<open>Evm_Interp.execute_program\<close>) and what it writes of the result.

  The arguments \<open>stack_usage\<close>, \<open>return_type\<close> and \<open>initial_storage\<close> of the source are \<open>None\<close> in
  its only call and not used by the interpreter; they are left out.
\<close>

section \<open>Storage slots\<close>

definition ERC1967_IMPLEMENTATION_SLOT :: string where
  "ERC1967_IMPLEMENTATION_SLOT = ''360894a13ba1a3210667c828492db98dca3e2076cc3735a920a3ca505d382bbc''"

definition ERC1967_ADMIN_SLOT :: string where
  "ERC1967_ADMIN_SLOT = ''b53127684a568b3173ae13b9f8a6016e243e63b6e8ee1178d6a717850b5d6103''"

definition ERC1967_BEACON_SLOT :: string where
  "ERC1967_BEACON_SLOT = ''a3f0ad74e5423aebfd80d3ef4346578335a9a72aeaee59ff6cb3582b35133d50''"

definition balances_slot :: string where
  "balances_slot = ''37439836327923360225337895871871055371921111519445254264255886447755104894253''"

definition map_resource_key_to_slot :: "('d, 'a) vm_env_scheme \<Rightarrow> string \<Rightarrow> string" where
  "map_resource_key_to_slot S key =
     (if key = ''implementation'' \<or> key = ''implementation_slot'' then ERC1967_IMPLEMENTATION_SLOT
      else if key = ''admin'' \<or> key = ''admin_slot'' then ERC1967_ADMIN_SLOT
      else if key = ''beacon'' \<or> key = ''beacon_slot'' then ERC1967_BEACON_SLOT
      else let s = trim_start_matches ''0x'' key in
        if length s = 64 \<and> list_all is_ascii_hexdigit s then map ascii_lower s
        else hex_text S (keccak S (bytes_of_string key)))"

text \<open>\<open>format!("storage:{}:", contract)\<close> and \<open>format!("storage:{}:{}", contract, slot)\<close>.\<close>

definition storage_prefix :: "string \<Rightarrow> string" where
  "storage_prefix contract = ''storage:'' @ contract @ '':''"

definition slot_key :: "string \<Rightarrow> string \<Rightarrow> string" where
  "slot_key contract slot = storage_prefix contract @ slot"

definition version_key :: "string \<Rightarrow> string" where
  "version_key contract = ''version:'' @ contract"

text \<open>\<open>format!("0x{}", hex::encode(bytes))\<close> as a JSON string.\<close>

definition hex_json :: "('d, 'a) vm_env_scheme \<Rightarrow> bytes \<Rightarrow> json" where
  "hex_json S bs = JString (''0x'' @ hex_text S bs)"

text \<open>\<open>let _ = manager.write(key, value)\<close>.\<close>

definition try_write :: "('d, 'a) vm_env_scheme \<Rightarrow> string \<Rightarrow> bytes \<Rightarrow> 'd \<Rightarrow> 'd" where
  "try_write S k v d = (case Store.db_write S d k v of Inr d' \<Rightarrow> d' | Inl _ \<Rightarrow> d)"

text \<open>The slots below a prefix; a failed scan gives none.\<close>

definition scan_slots :: "('d, 'a) vm_env_scheme \<Rightarrow> 'd \<Rightarrow> string \<Rightarrow> (string \<times> bytes) list" where
  "scan_slots S d p = (case scan_prefix S d p of
      Inr entries \<Rightarrow> map (\<lambda>(k, v). (trim_start_matches p k, v)) (filter (\<lambda>(k, v). starts_with p k) entries)
    | Inl _ \<Rightarrow> [])"

definition collect_slots :: "(string \<times> bytes) list \<Rightarrow> (string, bytes) hmap" where
  "collect_slots kvs = fold (\<lambda>(k, v). hm_insert k v) kvs []"

text \<open>The debug print of the balances slot panics on more than 32 bytes.\<close>

definition check_balances :: "(string, bytes) hmap \<Rightarrow> unit option" where
  "check_balances slots = (case hm_get slots balances_slot of
      None \<Rightarrow> Some ()
    | Some v \<Rightarrow> map_option (\<lambda>_. ()) (from_big_endian v))"

definition set_world_storage :: "string \<Rightarrow> (string, bytes) hmap \<Rightarrow> 'd slura_vm \<Rightarrow> 'd slura_vm" where
  "set_world_storage contract slots V = V\<lparr>vm_storage := hm_insert contract slots (vm_storage V)\<rparr>"

section \<open>The storage a run starts with\<close>

fun convert_resource_to_storage_bytes :: "('d, 'a) vm_env_scheme \<Rightarrow> json \<Rightarrow> bytes" where
  "convert_resource_to_storage_bytes S (JString s) =
     (if starts_with ''0x'' s \<and> 2 < length s
      then (case hex_bytes S (drop 2 s) of Some b \<Rightarrow> b | None \<Rightarrow> bytes_of_string s)
      else bytes_of_string s)"
| "convert_resource_to_storage_bytes S (JNumber n) =
     (case as_u64 (JNumber n) of Some u \<Rightarrow> u64_be u | None \<Rightarrow> replicate 32 0)"
| "convert_resource_to_storage_bytes S (JDecimal _) = replicate 32 0"
| "convert_resource_to_storage_bytes S (JBool b) = replicate 32 (if b then 1 else 0)"
| "convert_resource_to_storage_bytes S v = bytes_of_string (json_text S v)"

definition build_dynamic_storage_from_contract_state ::
    "('d, 'a) vm_env_scheme \<Rightarrow> string \<Rightarrow> 'd slura_vm \<Rightarrow> storage_map option" where
  "build_dynamic_storage_from_contract_state S contract V =
     map_option (\<lambda>account. [(contract,
        map (\<lambda>(k, v). (k, convert_resource_to_storage_bytes S v)) (va_resources account))])
       (hm_get (vm_accounts V) contract)"

section \<open>The arguments of a run\<close>

text \<open>The 32 bytes of one argument.\<close>

fun abi_word :: "('d, 'a) vm_env_scheme \<Rightarrow> json \<Rightarrow> bytes" where
  "abi_word S (JString s) =
     (if starts_with ''0x'' s \<and> length s = 42 then
        (case hex_bytes S (drop 2 s) of
           Some b \<Rightarrow> (if length b = 20 then replicate 12 0 @ b else replicate 32 0)
         | None \<Rightarrow> replicate 32 0)
      else if length s \<le> 32 then bytes_of_string s @ replicate (32 - length s) 0
      else replicate 32 0)"
| "abi_word S (JNumber n) =
     (case as_u64 (JNumber n) of Some u \<Rightarrow> replicate 24 0 @ u64_be u | None \<Rightarrow> replicate 32 0)"
| "abi_word S (JBool b) = replicate 31 0 @ [if b then 1 else 0]"
| "abi_word S _ = replicate 32 0"

definition generated_calldata :: "('d, 'a) vm_env_scheme \<Rightarrow> u32 \<Rightarrow> json list \<Rightarrow> bytes" where
  "generated_calldata S selector as = u32_be selector @ concat (map (abi_word S) as)"

definition prepare_generic_execution_args ::
    "('d, 'a) vm_env_scheme \<Rightarrow> 'd slura_vm \<Rightarrow> string \<Rightarrow> string \<Rightarrow> json list \<Rightarrow> string \<Rightarrow> bytes option
      \<Rightarrow> function_metadata \<Rightarrow> nat \<Rightarrow> interpreter_args" where
  "prepare_generic_execution_args S V contract fname as sender calldata meta offset =
     \<lparr>function_name = fname, contract_address = contract, sender_address = sender, args = as,
      state_data = (case calldata of Some c \<Rightarrow> c | None \<Rightarrow> generated_calldata S (fm_selector meta) as),
      gas_limit = ucast (fm_gas_limit meta), gas_price = ucast (vp_gas_price (vm_own V)),
      call_value = 0, call_depth = 0, block_number = ucast (vm_block_number V),
      timestamp = ucast (clock_secs S), caller = sender, origin = sender, beneficiary = sender,
      function_offset = Some offset, base_fee = Some 0, blob_base_fee = Some 0,
      blob_hash = Some (replicate 32 0)\<rparr>"

section \<open>What is written of a result\<close>

fun slot_bytes :: "('d, 'a) vm_env_scheme \<Rightarrow> json \<Rightarrow> bytes" where
  "slot_bytes S (JString s) =
     (if starts_with ''0x'' s
      then (case hex_bytes S (drop 2 s) of Some b \<Rightarrow> b | None \<Rightarrow> replicate 32 0) else replicate 32 0)"
| "slot_bytes S (JNumber n) =
     (case as_u64 (JNumber n) of Some u \<Rightarrow> replicate 24 0 @ u64_be u | None \<Rightarrow> replicate 32 0)"
| "slot_bytes S _ = replicate 32 0"

fun balance_bytes :: "('d, 'a) vm_env_scheme \<Rightarrow> json \<Rightarrow> bytes" where
  "balance_bytes S (JString s) =
     (if starts_with ''0x'' s
      then (case hex_bytes S (drop 2 s) of Some b \<Rightarrow> b | None \<Rightarrow> replicate 32 0) else replicate 32 0)"
| "balance_bytes S _ = replicate 32 0"

definition result_storage :: "json \<Rightarrow> (string \<times> json) list" where
  "result_storage result =
     (case Option.bind (json_get result ''storage'') as_object of Some obj \<Rightarrow> obj | None \<Rightarrow> [])"

definition result_balance :: "json \<Rightarrow> json option" where
  "result_balance result =
     (case Option.bind (json_get result ''storage'') (\<lambda>v. json_get v balances_slot) of
        Some v \<Rightarrow> Some v
      | None \<Rightarrow> Option.bind (json_get result ''balances'') (\<lambda>v. json_get v balances_slot))"

definition write_slots :: "('d, 'a) vm_env_scheme \<Rightarrow> string \<Rightarrow> (string \<times> json) list \<Rightarrow> 'd \<Rightarrow> 'd" where
  "write_slots S contract obj d = fold (\<lambda>(slot, v). try_write S (slot_key contract slot) (slot_bytes S v)) obj d"

definition process_execution_result_generically ::
    "('d, 'a) vm_env_scheme \<Rightarrow> string \<Rightarrow> json \<Rightarrow> 'd slura_vm \<Rightarrow> 'd slura_vm option" where
  "process_execution_result_generically S contract result V =
     (if vp_has_manager (vm_own V) then
        (let d = write_slots S contract (result_storage result) (vm_db V) in
         case result_balance result of
           None \<Rightarrow> Some (V\<lparr>vm_db := d\<rparr>)
         | Some v \<Rightarrow>
             (let bs = balance_bytes S v in
              map_option (\<lambda>_. V\<lparr>vm_db := try_write S (slot_key contract balances_slot) bs d\<rparr>)
                (from_big_endian bs)))
      else Some V)"

section \<open>A call\<close>

text \<open>Step 1: the slots of the last persisted version.\<close>

definition persisted_version :: "('d, 'a) vm_env_scheme \<Rightarrow> 'd \<Rightarrow> string \<Rightarrow> u64" where
  "persisted_version S d contract =
     (let bs = (case Store.db_read S d (version_key contract) of Inr b \<Rightarrow> b | Inl _ \<Rightarrow> [])
      in if length bs = 8 then u64_of_be bs else 0)"

definition version_prefix :: "u64 \<Rightarrow> string \<Rightarrow> string" where
  "version_prefix v contract = ''v'' @ fmt_dec (unat v) @ ''/storage:'' @ contract @ '':''"

definition reload_versioned :: "('d, 'a) vm_env_scheme \<Rightarrow> string \<Rightarrow> 'd slura_vm \<Rightarrow> 'd slura_vm option" where
  "reload_versioned S contract V =
     (if vp_has_manager (vm_own V) then
        (let slots = collect_slots (scan_slots S (vm_db V)
               (version_prefix (persisted_version S (vm_db V) contract) contract))
         in map_option (\<lambda>_. set_world_storage contract slots V) (check_balances slots))
      else Some V)"

text \<open>Step 2: the code of the contract.\<close>

definition real_bytecode :: "'d slura_vm \<Rightarrow> string \<Rightarrow> vm_error + bytes" where
  "real_bytecode V contract = (case hm_get (vm_accounts V) contract of
      None \<Rightarrow> Inl (Not_Found contract)
    | Some account \<Rightarrow>
        (if va_is_contract account \<and> va_contract_state account \<noteq> []
         then Inr (va_contract_state account) else Inl (No_Bytecode contract)))"

text \<open>Step 4: the implementation behind a proxy.\<close>

definition proxy_target :: "'d slura_vm \<Rightarrow> string \<Rightarrow> string option" where
  "proxy_target V contract =
     (case Option.bind (Option.bind (hm_get (vm_accounts V) contract)
                          (\<lambda>a. hm_get (va_resources a) ''implementation'')) as_str of
        Some s \<Rightarrow> (if s \<noteq> [] \<and> s \<noteq> ''0x0000000000000000000000000000000000000000'' then Some s else None)
      | None \<Rightarrow> None)"

definition implementation_bytecode :: "'d slura_vm \<Rightarrow> string \<Rightarrow> vm_error + bytes" where
  "implementation_bytecode V impl = (case hm_get (vm_accounts V) impl of
      None \<Rightarrow> Inl (Impl_Not_Found impl)
    | Some account \<Rightarrow>
        (if va_contract_state account \<noteq> [] then Inr (va_contract_state account)
         else Inl (Impl_No_Bytecode impl)))"

definition upd_own :: "(vm_private \<Rightarrow> vm_private) \<Rightarrow> 'd slura_vm \<Rightarrow> 'd slura_vm" where
  "upd_own f V = V\<lparr>vm_own := f (vm_own V)\<rparr>"

text \<open>Step 5: the function table is analysed once, and again when the code has another length.\<close>

definition refresh_module :: "string \<Rightarrow> bytes \<Rightarrow> vm_private \<Rightarrow> vm_private" where
  "refresh_module contract bs P = (case hm_get (vp_modules P) contract of
      None \<Rightarrow> auto_detect_contract_functions contract bs P
    | Some m \<Rightarrow>
        (if length (mo_bytecode m) \<noteq> length bs
         then auto_detect_contract_functions contract bs
           (P\<lparr>vp_modules := hm_insert contract (m\<lparr>mo_bytecode := bs\<rparr>) (vp_modules P)\<rparr>)
         else P))"

text \<open>The run of the interpreter, with or without the database.\<close>

definition run_interpreter ::
    "nat \<Rightarrow> ('d, 'a) vm_env_scheme \<Rightarrow> bytes \<Rightarrow> interpreter_args \<Rightarrow> bool \<Rightarrow> storage_map \<Rightarrow> 'd slura_vm
      \<Rightarrow> ((vm_error + json) \<times> 'd slura_vm) call" where
  "run_interpreter fuel S prog A with_db st V =
     (case Evm_Interp.execute_program fuel (interp_env S) (Some prog) A
             (if with_db \<and> vp_has_manager (vm_own V) then Some (vm_db V) else None) (Some st) False of
        Done sm _ r \<Rightarrow>
          Returned (case r of Inl e \<Rightarrow> Inl (Interpreter_Error e) | Inr v \<Rightarrow> Inr v,
            (case sm of Some d \<Rightarrow> V\<lparr>vm_db := d\<rparr> | None \<Rightarrow> V))
      | Crashed \<Rightarrow> Panicked
      | Out_Of_Fuel \<Rightarrow> Unfinished)"

definition run_and_process ::
    "nat \<Rightarrow> ('d, 'a) vm_env_scheme \<Rightarrow> bytes \<Rightarrow> interpreter_args \<Rightarrow> bool \<Rightarrow> storage_map \<Rightarrow> 'd slura_vm
      \<Rightarrow> ((vm_error + json) \<times> 'd slura_vm) call" where
  "run_and_process fuel S prog A with_db st V =
     and_then (run_interpreter fuel S prog A with_db st V) (\<lambda>(r, V'). case r of
       Inl e \<Rightarrow> Returned (Inl e, V')
     | Inr v \<Rightarrow> and_then (or_panics (process_execution_result_generically S (contract_address A) v V'))
                (\<lambda>V''. Returned (Inr v, V'')))"

definition dynamic_storage :: "('d, 'a) vm_env_scheme \<Rightarrow> string \<Rightarrow> 'd slura_vm \<Rightarrow> storage_map" where
  "dynamic_storage S contract V =
     (case build_dynamic_storage_from_contract_state S contract V of Some st \<Rightarrow> st | None \<Rightarrow> [])"

text \<open>
  The rest of a call from the function lookup on: the table is that of \<open>code_owner\<close> (the
  implementation of a proxy), the program and the storage are those of the contract.
\<close>

definition dispatch_call ::
    "nat \<Rightarrow> ('d, 'a) vm_env_scheme \<Rightarrow> string \<Rightarrow> bytes \<Rightarrow> bool \<Rightarrow> string \<Rightarrow> bytes \<Rightarrow> string \<Rightarrow> json list \<Rightarrow> string
      \<Rightarrow> bytes option \<Rightarrow> u32 \<Rightarrow> 'd slura_vm \<Rightarrow> ((vm_error + json) \<times> 'd slura_vm) call" where
  "dispatch_call fuel S code_owner owner_code with_db contract prog fname as sender calldata selector V =
     (case find_or_create_function_metadata (vm_own V) code_owner fname selector as of
        Inl e \<Rightarrow> Returned (Inl e, V)
      | Inr meta \<Rightarrow>
          and_then (or_panics (find_function_offset_in_bytecode owner_code (fm_selector meta))) (\<lambda>offset.
            run_and_process fuel S prog
              (prepare_generic_execution_args S V contract fname as sender calldata meta offset)
              with_db (dynamic_storage S contract V) V))"

definition vm_execute_program ::
    "nat \<Rightarrow> ('d, 'a) vm_env_scheme \<Rightarrow> string \<Rightarrow> string \<Rightarrow> json list \<Rightarrow> string \<Rightarrow> bytes option \<Rightarrow> 'd slura_vm
      \<Rightarrow> ((vm_error + json) \<times> 'd slura_vm) call" where
  "vm_execute_program fuel S contract fname as sender calldata V0 =
     and_then (or_panics (reload_versioned S contract V0)) (\<lambda>V.
       case real_bytecode V contract of
         Inl e \<Rightarrow> Returned (Inl e, V)
       | Inr prog \<Rightarrow>
           (let selector = calculate_function_selector_from_signature S fname as in
            case proxy_target V contract of
              Some impl \<Rightarrow>
                (case implementation_bytecode V impl of
                   Inl e \<Rightarrow> Returned (Inl e, V)
                 | Inr impl_code \<Rightarrow>
                     (let V1 = (if hm_get (vp_modules (vm_own V)) impl = None
                                then upd_own (auto_detect_contract_functions impl impl_code) V else V)
                      in dispatch_call fuel S impl impl_code False contract prog fname as sender calldata
                           selector V1))
            | None \<Rightarrow>
                dispatch_call fuel S contract prog True contract prog fname as sender calldata selector
                  (upd_own (refresh_module contract prog) V)))"

end
