(* ===== verification/Vm_Engine.thy ===== *)
theory Vm_Engine
  imports Vm_Exec
begin

text \<open>
  The optimistic parallel engine and the entry points of the facade (\<open>slurachain_vm.rs\<close>).

  The read and write sets of a transaction are behind \<open>Arc\<close>s that the batch and
  \<open>active_transactions\<close> share, so the sets of a transaction are those of its entry in
  \<open>en_active\<close>.  The speculative runs of a batch take the one lock of the engine's machine in
  turn; \<open>order\<close> is the order in which they get it, and the theorems leave it arbitrary.  A
  panic in one run unwinds through the whole batch.
\<close>

section \<open>The engine\<close>

definition new_engine :: "vm_private \<Rightarrow> parallel_engine" where
  "new_engine own = \<lparr>en_own = own, en_global_version = 0, en_storage_versions = [], en_active = [], en_queue = []\<rparr>"

definition with_parallel_engine :: "'d node_vm \<Rightarrow> 'd node_vm" where
  "with_parallel_engine nv = nv\<lparr>nv_engine := Some (new_engine (vm_own (nv_vm nv)))\<rparr>"

definition set_storage_manager :: "'d \<Rightarrow> 'd slura_vm \<Rightarrow> 'd slura_vm" where
  "set_storage_manager db V = upd_own (\<lambda>P. P\<lparr>vp_has_manager := True\<rparr>) (V\<lparr>vm_db := db\<rparr>)"

definition submit_transaction :: "parallel_transaction \<Rightarrow> parallel_engine \<Rightarrow> parallel_engine" where
  "submit_transaction tx en =
     en\<lparr>en_active := hm_insert (pt_id tx) tx (en_active en), en_queue := en_queue en @ [tx]\<rparr>"

definition new_transaction ::
    "nat \<Rightarrow> string \<times> string \<times> json list \<times> string \<times> bytes option \<Rightarrow> parallel_transaction" where
  "new_transaction i t = (case t of (contract, fname, as, sender, calldata) \<Rightarrow>
     \<lparr>pt_id = word_of_nat i, pt_contract_address = contract, pt_function_name = fname, pt_args = as,
      pt_sender = sender, pt_version = 0, pt_read_set = [], pt_write_set = [], pt_dependencies = [],
      pt_calldata = calldata\<rparr>)"

text \<open>The committed version: the backup, then the current one, then 1; without a manager a panic.\<close>

definition get_committed_version :: "('d, 'a) vm_env_scheme \<Rightarrow> string \<Rightarrow> 'd slura_vm \<Rightarrow> u64 option" where
  "get_committed_version S contract V =
     (if vp_has_manager (vm_own V) then
        Some (case Store.db_read S (vm_db V) (''backup_version:'' @ contract) of
            Inr bs \<Rightarrow> if length bs = 8 \<and> 0 < u64_of_be bs then u64_of_be bs
                      else (case Store.db_read S (vm_db V) (version_key contract) of
                        Inr b \<Rightarrow> if length b = 8 then u64_of_be b else 1 | Inl _ \<Rightarrow> 1)
          | Inl _ \<Rightarrow> (case Store.db_read S (vm_db V) (version_key contract) of
              Inr b \<Rightarrow> if length b = 8 then u64_of_be b else 1 | Inl _ \<Rightarrow> 1))
      else None)"

section \<open>A speculative run\<close>

definition load_resources :: "('d, 'a) vm_env_scheme \<Rightarrow> (string \<times> bytes) list \<Rightarrow> vm_account \<Rightarrow> vm_account" where
  "load_resources S kvs account =
     account\<lparr>va_resources := fold (\<lambda>(slot, v). hm_insert slot (hex_json S v)) kvs (va_resources account)\<rparr>"

definition reload_stable :: "('d, 'a) vm_env_scheme \<Rightarrow> string \<Rightarrow> 'd slura_vm \<Rightarrow> 'd slura_vm option" where
  "reload_stable S contract V =
     (if vp_has_manager (vm_own V) then
        (let kvs = scan_slots S (vm_db V) (storage_prefix contract);
             V1 = (case hm_get (vm_accounts V) contract of
                 Some account \<Rightarrow>
                   V\<lparr>vm_accounts := hm_insert contract (load_resources S kvs account) (vm_accounts V)\<rparr>
               | None \<Rightarrow> V)
         in map_option (\<lambda>_. set_world_storage contract (collect_slots kvs) V1)
              (check_balances (collect_slots kvs)))
      else Some V)"

text \<open>The slots of a result that become the write set.\<close>

definition write_set_of :: "('d, 'a) vm_env_scheme \<Rightarrow> json \<Rightarrow> (string \<times> bytes) list" where
  "write_set_of S result = concat (map (\<lambda>(slot, v). case as_str v of
      Some s \<Rightarrow> (if starts_with ''0x'' s
                then (case hex_bytes S (drop 2 s) of Some b \<Rightarrow> [(slot, b)] | None \<Rightarrow> []) else [])
    | None \<Rightarrow> []) (result_storage result))"

definition add_writes :: "u64 \<Rightarrow> (string \<times> bytes) list \<Rightarrow> parallel_engine \<Rightarrow> parallel_engine" where
  "add_writes i kvs en = (case hm_get (en_active en) i of
      None \<Rightarrow> en
    | Some tx \<Rightarrow> en\<lparr>en_active := hm_insert i
        (tx\<lparr>pt_write_set := fold (\<lambda>(k, v). hm_insert k v) kvs (pt_write_set tx)\<rparr>) (en_active en)\<rparr>)"

text \<open>
  \<open>execute_speculative_transaction\<close>: the machine of the engine has no engine of its own, so its
  \<open>execute_module\<close> is one \<open>execute_program\<close>.
\<close>

definition execute_speculative_transaction ::
    "nat \<Rightarrow> ('d, 'a) vm_env_scheme \<Rightarrow> parallel_transaction \<Rightarrow> parallel_engine \<times> 'd slura_vm
      \<Rightarrow> ((vm_error + json) \<times> parallel_engine \<times> 'd slura_vm) call" where
  "execute_speculative_transaction fuel S tx st = (case st of (en, V) \<Rightarrow>
     and_then (or_panics (reload_stable S (pt_contract_address tx) V)) (\<lambda>V1.
     and_then (vm_execute_program fuel S (pt_contract_address tx) (pt_function_name tx) (pt_args tx)
                 (pt_sender tx) (pt_calldata tx) V1) (\<lambda>(r, V2). case r of
         Inl e \<Rightarrow> Returned (Inl e, en, V2)
       | Inr result \<Rightarrow> Returned (Inr result, add_writes (pt_id tx) (write_set_of S result) en, V2))))"

section \<open>Validation and commit\<close>

definition validate_transaction_conflicts :: "parallel_engine \<Rightarrow> parallel_transaction \<Rightarrow> bool" where
  "validate_transaction_conflicts en tx = list_all (\<lambda>(slot, version_read).
     (case hm_get (en_storage_versions en) slot of Some v \<Rightarrow> v | None \<Rightarrow> 0) = version_read) (pt_read_set tx)"

definition contract_storage :: "string \<Rightarrow> 'd slura_vm \<Rightarrow> (string, bytes) hmap" where
  "contract_storage contract V = (case hm_get (vm_storage V) contract of Some s \<Rightarrow> s | None \<Rightarrow> [])"

text \<open>One slot of a commit; a write that fails ends the commit.\<close>

definition commit_slot ::
    "('d, 'a) vm_env_scheme \<Rightarrow> string \<Rightarrow> string \<times> bytes \<Rightarrow> parallel_engine \<times> 'd slura_vm
      \<Rightarrow> vm_error + parallel_engine \<times> 'd slura_vm" where
  "commit_slot S contract kv st = (case kv of (slot, v) \<Rightarrow> (case st of (en, V) \<Rightarrow>
     (case Store.db_write S (vm_db V) (slot_key contract slot) v of
        Inl e \<Rightarrow> Inl (Write_Fail (slot_key contract slot) e)
      | Inr d \<Rightarrow> Inr (en\<lparr>en_storage_versions := hm_insert slot 1 (en_storage_versions en)\<rparr>,
          set_world_storage contract (hm_insert slot v (contract_storage contract V)) (V\<lparr>vm_db := d\<rparr>)))))"

fun commit_slots ::
    "('d, 'a) vm_env_scheme \<Rightarrow> string \<Rightarrow> (string \<times> bytes) list \<Rightarrow> parallel_engine \<times> 'd slura_vm
      \<Rightarrow> (vm_error + unit) \<times> parallel_engine \<times> 'd slura_vm" where
  "commit_slots S contract [] st = (Inr (), st)"
| "commit_slots S contract (kv # kvs) st = (case commit_slot S contract kv st of
      Inl e \<Rightarrow> (Inl e, st)
    | Inr st' \<Rightarrow> commit_slots S contract kvs st')"

definition commit_transaction_changes ::
    "('d, 'a) vm_env_scheme \<Rightarrow> parallel_transaction \<Rightarrow> parallel_engine \<times> 'd slura_vm
      \<Rightarrow> (vm_error + unit) \<times> parallel_engine \<times> 'd slura_vm" where
  "commit_transaction_changes S tx st = (case st of (en, V) \<Rightarrow>
     if pt_write_set tx = [] then (Inr (), st)
     else if \<not> vp_has_manager (vm_own V) then (Inl No_Storage, st)
     else (let contract = pt_contract_address tx;
               V0 = set_world_storage contract (contract_storage contract V) V in
       case commit_slots S contract (pt_write_set tx) (en, V0) of
         (Inl e, st') \<Rightarrow> (Inl e, st')
       | (Inr _, (en', V')) \<Rightarrow>
           (Inr (), (en', V'\<lparr>vm_db := try_write S (version_key contract) (u64_be 1) (vm_db V')\<rparr>))))"

fun validate_and_commit_ids ::
    "('d, 'a) vm_env_scheme \<Rightarrow> u64 list \<Rightarrow> parallel_engine \<times> 'd slura_vm
      \<Rightarrow> bool list \<times> parallel_engine \<times> 'd slura_vm" where
  "validate_and_commit_ids S [] st = ([], st)"
| "validate_and_commit_ids S (i # is) st =
     (case hm_get (en_active (fst st)) i of
        None \<Rightarrow> validate_and_commit_ids S is st
      | Some tx \<Rightarrow>
          (if validate_transaction_conflicts (fst st) tx
           then (case validate_and_commit_ids S is (snd (commit_transaction_changes S tx st)) of
                   (vs, st') \<Rightarrow> (True # vs, st'))
           else (case validate_and_commit_ids S is st of (vs, st') \<Rightarrow> (False # vs, st'))))"

definition validate_and_commit_batch ::
    "('d, 'a) vm_env_scheme \<Rightarrow> parallel_engine \<times> 'd slura_vm \<Rightarrow> bool list \<times> parallel_engine \<times> 'd slura_vm" where
  "validate_and_commit_batch S st = validate_and_commit_ids S (sort (map fst (en_active (fst st)))) st"

section \<open>A batch\<close>

definition clear_sets :: "u64 \<Rightarrow> parallel_engine \<Rightarrow> parallel_engine" where
  "clear_sets i en = (case hm_get (en_active en) i of
      None \<Rightarrow> en
    | Some tx \<Rightarrow> en\<lparr>en_active := hm_insert i (tx\<lparr>pt_read_set := [], pt_write_set := []\<rparr>) (en_active en)\<rparr>)"

definition collect_conflicted_transactions_non_recursive ::
    "bool list \<Rightarrow> parallel_transaction list \<Rightarrow> parallel_transaction list" where
  "collect_conflicted_transactions_non_recursive validation originals =
     map (\<lambda>(_, tx). tx\<lparr>pt_version := pt_version tx + 1, pt_read_set := [], pt_write_set := []\<rparr>)
       (filter (\<lambda>(ok, _). \<not> ok) (zip validation originals))"

text \<open>The speculative runs, in the order they get the lock; the results are kept by id.\<close>

fun speculate ::
    "nat \<Rightarrow> ('d, 'a) vm_env_scheme \<Rightarrow> parallel_transaction list
      \<Rightarrow> (u64, vm_error + json) hmap \<Rightarrow> parallel_engine \<times> 'd slura_vm
      \<Rightarrow> ((u64, vm_error + json) hmap \<times> parallel_engine \<times> 'd slura_vm) call" where
  "speculate fuel S [] results st = Returned (results, st)"
| "speculate fuel S (tx # txs) results st =
     and_then (execute_speculative_transaction fuel S tx st) (\<lambda>(r, st').
       speculate fuel S txs (hm_insert (pt_id tx) r results) st')"

definition final_results ::
    "parallel_transaction list \<Rightarrow> (u64, vm_error + json) hmap \<Rightarrow> (vm_error + json) list" where
  "final_results txs results = map (\<lambda>tx. case hm_get results (pt_id tx) of
     Some r \<Rightarrow> r | None \<Rightarrow> Inl (Missing_After_Retry (pt_id tx))) txs"

text \<open>The loop, with the retries that are left (\<open>MAX_RETRIES\<close> is 3).\<close>

fun batch_loop ::
    "nat \<Rightarrow> nat \<Rightarrow> ('d, 'a) vm_env_scheme \<Rightarrow> (parallel_transaction list \<Rightarrow> parallel_transaction list)
      \<Rightarrow> parallel_transaction list \<Rightarrow> parallel_engine \<times> 'd slura_vm
      \<Rightarrow> ((vm_error + json) list \<times> parallel_engine \<times> 'd slura_vm) call" where
  "batch_loop retries fuel S order txs st =
     and_then (speculate fuel S (order txs) [] st) (\<lambda>(results, st1).
       (case validate_and_commit_batch S st1 of (validation, st2) \<Rightarrow>
         (let failed = collect_conflicted_transactions_non_recursive validation txs;
              st3 = (fold clear_sets (map pt_id failed) (fst st2), snd st2) in
          if failed = [] then Returned (final_results txs results, st3)
          else (case retries of
              0 \<Rightarrow> Returned (final_results txs results, st3)
            | Suc n \<Rightarrow> batch_loop n fuel S order failed st3))))"

declare batch_loop.simps [simp del]

definition execute_parallel_batch ::
    "nat \<Rightarrow> ('d, 'a) vm_env_scheme \<Rightarrow> (parallel_transaction list \<Rightarrow> parallel_transaction list)
      \<Rightarrow> parallel_transaction list \<Rightarrow> parallel_engine \<times> 'd slura_vm
      \<Rightarrow> ((vm_error + json) list \<times> parallel_engine \<times> 'd slura_vm) call" where
  "execute_parallel_batch fuel S order txs st = batch_loop 3 fuel S order txs st"

section \<open>Entry points\<close>

definition register_batch :: "parallel_transaction list \<Rightarrow> parallel_engine \<Rightarrow> parallel_engine" where
  "register_batch txs en = en\<lparr>en_active := fold (\<lambda>tx. hm_insert (pt_id tx) tx) txs (en_active en)\<rparr>"

text \<open>The engine works on its own copy of the machine: the shared part with its own modules.\<close>

definition engine_view :: "parallel_engine \<Rightarrow> 'd slura_vm \<Rightarrow> 'd slura_vm" where
  "engine_view en V = V\<lparr>vm_own := en_own en\<rparr>"

definition leave_engine :: "vm_private \<Rightarrow> parallel_engine \<times> 'd slura_vm \<Rightarrow> 'd node_vm" where
  "leave_engine own st = (case st of (en, V) \<Rightarrow>
     \<lparr>nv_vm = V\<lparr>vm_own := own\<rparr>, nv_engine = Some (en\<lparr>en_own := vm_own V\<rparr>)\<rparr>)"

type_synonym vm_request = "string \<times> string \<times> json list \<times> string \<times> bytes option"

fun run_sequentially ::
    "nat \<Rightarrow> ('d, 'a) vm_env_scheme \<Rightarrow> vm_request list \<Rightarrow> 'd slura_vm
      \<Rightarrow> ((vm_error + json) list \<times> 'd slura_vm) call" where
  "run_sequentially fuel S [] V = Returned ([], V)"
| "run_sequentially fuel S ((contract, fname, as, sender, calldata) # rs) V =
     and_then (vm_execute_program fuel S contract fname as sender calldata V) (\<lambda>(r, V').
     and_then (run_sequentially fuel S rs V') (\<lambda>(results, V''). Returned (r # results, V'')))"

definition execute_parallel_transactions ::
    "nat \<Rightarrow> ('d, 'a) vm_env_scheme \<Rightarrow> (parallel_transaction list \<Rightarrow> parallel_transaction list)
      \<Rightarrow> vm_request list \<Rightarrow> 'd node_vm \<Rightarrow> ((vm_error + json) list \<times> 'd node_vm) call" where
  "execute_parallel_transactions fuel S order requests nv =
     (case nv_engine nv of
        Some en \<Rightarrow>
          (let txs = map (\<lambda>(i, t). new_transaction i t) (enumerate 0 requests) in
           and_then (execute_parallel_batch fuel S order txs
               (register_batch txs en, engine_view en (nv_vm nv))) (\<lambda>(results, st).
             Returned (results, leave_engine (vm_own (nv_vm nv)) st)))
      | None \<Rightarrow>
          and_then (run_sequentially fuel S requests (nv_vm nv)) (\<lambda>(results, V).
            Returned (results, nv\<lparr>nv_vm := V\<rparr>)))"

definition vm_execute_module ::
    "nat \<Rightarrow> ('d, 'a) vm_env_scheme \<Rightarrow> string \<Rightarrow> string \<Rightarrow> json list \<Rightarrow> string option \<Rightarrow> bytes option \<Rightarrow> 'd node_vm
      \<Rightarrow> ((vm_error + json) \<times> 'd node_vm) call" where
  "vm_execute_module fuel S module_path fname as sender calldata nv =
     and_then (execute_parallel_transactions fuel S (\<lambda>txs. txs)
       [(module_path, fname, as, (case sender of Some s \<Rightarrow> s | None \<Rightarrow> ''*system*#default#''), calldata)] nv)
       (\<lambda>(results, nv'). Returned (case results of r # _ \<Rightarrow> r | [] \<Rightarrow> Inl No_Result, nv'))"

end
