(* ===== verification/Vm_Frame.thy ===== *)
theory Vm_Frame
  imports Vm_Engine
begin

text \<open>
  What the steps of a call do to the machine and to the database: the case rules that take a
  call apart, the part of the machine that no call changes, and reads after writes.
\<close>

section \<open>What a run does to the machine\<close>

lemma own_simps [simp]:
  "vp_has_manager (load_bytecode c bs P) = vp_has_manager P"
  "vp_has_manager (save_detected_functions c t P) = vp_has_manager P"
  by (simp_all add: load_bytecode_def save_detected_functions_def split: option.split)

lemma detect_manager [simp]:
  "vp_has_manager (auto_detect_contract_functions c bs P) = vp_has_manager P"
  by (simp add: auto_detect_contract_functions_def Let_def)

lemma refresh_manager [simp]: "vp_has_manager (refresh_module c bs P) = vp_has_manager P"
  by (simp add: refresh_module_def split: option.split)

text \<open>The part of a machine a run leaves alone.\<close>

definition same_shell :: "'d slura_vm \<Rightarrow> 'd slura_vm \<Rightarrow> bool" where
  "same_shell V V' \<longleftrightarrow> vm_block_number V' = vm_block_number V \<and>
     vp_has_manager (vm_own V') = vp_has_manager (vm_own V) \<and> vp_gas_price (vm_own V') = vp_gas_price (vm_own V)"

lemma same_shell_refl [simp]: "same_shell V V"
  by (simp add: same_shell_def)

lemma same_shell_trans: "same_shell U V \<Longrightarrow> same_shell V W \<Longrightarrow> same_shell U W"
  by (simp add: same_shell_def)

lemma price_simps [simp]:
  "vp_gas_price (load_bytecode c bs P) = vp_gas_price P"
  "vp_gas_price (save_detected_functions c t P) = vp_gas_price P"
  "vp_gas_price (auto_detect_contract_functions c bs P) = vp_gas_price P"
  "vp_gas_price (refresh_module c bs P) = vp_gas_price P"
  by (simp_all add: load_bytecode_def save_detected_functions_def auto_detect_contract_functions_def
      refresh_module_def Let_def split: option.split)

lemma same_shell_updates [simp]:
  "same_shell V (set_world_storage c slots V)" "same_shell V (V\<lparr>vm_db := d\<rparr>)"
  "same_shell V (V\<lparr>vm_accounts := a\<rparr>)" "same_shell V (upd_own (refresh_module c bs) V)"
  "same_shell V (upd_own (auto_detect_contract_functions c bs) V)"
  by (simp_all add: same_shell_def set_world_storage_def upd_own_def)

lemma process_shell:
  "process_execution_result_generically S c r V = Some V' \<Longrightarrow> same_shell V V'"
  by (auto simp: process_execution_result_generically_def Let_def split: if_splits option.splits)

lemma interpreter_shell:
  "run_interpreter fuel S prog A b st V = Returned (r, V') \<Longrightarrow> same_shell V V'"
  by (auto simp: run_interpreter_def split: outcome.splits option.splits)

lemma run_and_process_cases:
  assumes "run_and_process fuel S prog A b st V = Returned (r, V')"
  obtains V1 where "run_interpreter fuel S prog A b st V = Returned (r, V1)"
    "(case r of Inl _ \<Rightarrow> Some V1 | Inr v \<Rightarrow> process_execution_result_generically S (contract_address A) v V1) = Some V'"
proof -
  from assms obtain r1 V1 where V1: "run_interpreter fuel S prog A b st V = Returned (r1, V1)"
    and rest: "(case r1 of Inl e \<Rightarrow> Returned (Inl e, V1)
      | Inr v \<Rightarrow> and_then (or_panics (process_execution_result_generically S (contract_address A) v V1))
                (\<lambda>V''. Returned (Inr v, V''))) = Returned (r, V')"
    by (force simp: run_and_process_def and_then_Returned)
  from rest have "r1 = r \<and> (case r of Inl _ \<Rightarrow> Some V1
      | Inr v \<Rightarrow> process_execution_result_generically S (contract_address A) v V1) = Some V'"
    by (cases r1) (auto simp: and_then_Returned or_panics_Returned)
  with V1 that show thesis by blast
qed

lemma run_and_process_shell:
  "run_and_process fuel S prog A b st V = Returned (r, V') \<Longrightarrow> same_shell V V'"
  by (elim run_and_process_cases)
    (auto dest!: interpreter_shell process_shell intro: same_shell_trans split: sum.splits)

lemma dispatch_call_cases:
  assumes "dispatch_call fuel S co oc b c prog f as s cd sel V = Returned (r, V')"
  obtains (Failed) e where "r = Inl e" "V' = V"
    | (Ran) meta off where "find_or_create_function_metadata (vm_own V) co f sel as = Inr meta"
      "run_and_process fuel S prog (prepare_generic_execution_args S V c f as s cd meta off) b
        (dynamic_storage S c V) V = Returned (r, V')"
  using assms by (auto simp: dispatch_call_def and_then_Returned or_panics_Returned split: sum.splits)

lemma dispatch_call_shell:
  "dispatch_call fuel S co oc b c prog f as s cd sel V = Returned (r, V') \<Longrightarrow> same_shell V V'"
  by (elim dispatch_call_cases) (auto dest: run_and_process_shell)

text \<open>How a call ends: early with an error, or in a dispatched run.\<close>

lemma execute_program_cases:
  assumes "vm_execute_program fuel S c f as s cd V = Returned (r, V')"
  obtains (Early) e where "r = Inl e" "reload_versioned S c V = Some V'"
    | (Dispatched) V1 g co oc b prog where "reload_versioned S c V = Some V1"
      "dispatch_call fuel S co oc b c prog f as s cd (calculate_function_selector_from_signature S f as)
        (upd_own g V1) = Returned (r, V')"
      "same_shell V1 (upd_own g V1)"
proof -
  from assms obtain V1 where V1: "reload_versioned S c V = Some V1"
    and rest: "(case real_bytecode V1 c of
         Inl e \<Rightarrow> Returned (Inl e, V1)
       | Inr prog \<Rightarrow>
           (let selector = calculate_function_selector_from_signature S f as in
            case proxy_target V1 c of
              Some impl \<Rightarrow>
                (case implementation_bytecode V1 impl of
                   Inl e \<Rightarrow> Returned (Inl e, V1)
                 | Inr impl_code \<Rightarrow>
                     (let V2 = (if hm_get (vp_modules (vm_own V1)) impl = None
                                then upd_own (auto_detect_contract_functions impl impl_code) V1 else V1)
                      in dispatch_call fuel S impl impl_code False c prog f as s cd selector V2))
            | None \<Rightarrow>
                dispatch_call fuel S c prog True c prog f as s cd selector
                  (upd_own (refresh_module c prog) V1))) = Returned (r, V')"
    by (auto simp: vm_execute_program_def and_then_Returned or_panics_Returned)
  have id: "upd_own (\<lambda>P. P) V1 = V1" by (simp add: upd_own_def)
  show thesis
  proof (cases "real_bytecode V1 c")
    case (Inl e)
    with rest V1 show thesis by (intro Early) auto
  next
    case (Inr prog)
    show thesis
    proof (cases "proxy_target V1 c")
      case None
      with rest Inr V1 show thesis by (intro Dispatched[of V1]) (auto simp: Let_def)
    next
      case (Some impl)
      show thesis
      proof (cases "implementation_bytecode V1 impl")
        case (Inl e)
        with rest Inr Some V1 show thesis by (intro Early) auto
      next
        case code: (Inr impl_code)
        show thesis
        proof (cases "hm_get (vp_modules (vm_own V1)) impl")
          case None
          with rest Inr Some code V1 show thesis by (intro Dispatched[of V1]) (auto simp: Let_def)
        next
          case known: (Some m)
          with rest Inr Some code V1 id show thesis
            by (intro Dispatched[of V1 impl impl_code False prog "\<lambda>P. P"]) (auto simp: Let_def)
        qed
      qed
    qed
  qed
qed

lemma reload_versioned_shell: "reload_versioned S c V = Some V' \<Longrightarrow> same_shell V V'"
  by (auto simp: reload_versioned_def Let_def split: if_splits)

lemma reload_stable_shell: "reload_stable S c V = Some V' \<Longrightarrow> same_shell V V'"
  by (auto simp: reload_stable_def Let_def split: if_splits option.splits
      intro: same_shell_trans[OF same_shell_updates(3) same_shell_updates(1)])

lemma execute_program_shell:
  assumes "vm_execute_program fuel S c f as s cd V = Returned (r, V')"
  shows "same_shell V V'"
  using assms
  by (elim execute_program_cases)
    (blast dest: reload_versioned_shell dispatch_call_shell intro: same_shell_trans)+

lemma speculative_cases:
  assumes "execute_speculative_transaction fuel S tx (en, V) = Returned (r, st')"
  obtains V1 V2 where "reload_stable S (pt_contract_address tx) V = Some V1"
    "vm_execute_program fuel S (pt_contract_address tx) (pt_function_name tx) (pt_args tx)
       (pt_sender tx) (pt_calldata tx) V1 = Returned (r, V2)"
    "st' = (case r of Inl _ \<Rightarrow> (en, V2) | Inr result \<Rightarrow> (add_writes (pt_id tx) (write_set_of S result) en, V2))"
proof -
  from assms obtain V1 r' V2 where V1: "reload_stable S (pt_contract_address tx) V = Some V1"
    and V2: "vm_execute_program fuel S (pt_contract_address tx) (pt_function_name tx) (pt_args tx)
       (pt_sender tx) (pt_calldata tx) V1 = Returned (r', V2)"
    and r: "(case r' of Inl e \<Rightarrow> Returned (Inl e, en, V2)
       | Inr result \<Rightarrow> Returned (Inr result, add_writes (pt_id tx) (write_set_of S result) en, V2)) = Returned (r, st')"
    by (force simp: execute_speculative_transaction_def and_then_Returned or_panics_Returned)
  with that[OF V1] show thesis by (cases r') auto
qed

section \<open>Reads after writes\<close>

definition writes_succeed :: "('d, 'a) vm_env_scheme \<Rightarrow> bool" where
  "writes_succeed S \<longleftrightarrow> (\<forall>d k v. rocks_put S d k v \<noteq> None)"

lemma read_after_write:
  "rocks_ok S \<Longrightarrow> Store.db_write S d k v = Inr d' \<Longrightarrow>
   Store.db_read S d' k' = (if k' = k then Inr v else Store.db_read S d k')"
proof -
  assume S: "rocks_ok S" and w: "Store.db_write S d k v = Inr d'"
  from w have "rocks_put S d (bytes_of_string k) v = Some d'"
    by (simp add: Store.db_write_def split: option.splits)
  with S have "rocks_get S d' (bytes_of_string k) = Some (Some v)"
    "k' \<noteq> k \<Longrightarrow> rocks_get S d' (bytes_of_string k') = rocks_get S d (bytes_of_string k')"
    by (simp_all add: rocks_ok_def)
  then show ?thesis by (simp add: Store.db_read_def)
qed

lemma write_total: "writes_succeed S \<Longrightarrow> \<exists>d'. Store.db_write S d k v = Inr d'"
  by (auto simp: writes_succeed_def Store.db_write_def split: option.split)

lemma read_try_write:
  "rocks_ok S \<Longrightarrow> writes_succeed S \<Longrightarrow>
   Store.db_read S (try_write S k v d) k' = (if k' = k then Inr v else Store.db_read S d k')"
  using write_total[of S d k v] read_after_write[of S d k v _ k'] by (auto simp: try_write_def)

lemma slot_key_inject [simp]: "slot_key c s = slot_key c s' \<longleftrightarrow> s = s'"
  by (simp add: slot_key_def)

lemma slot_key_not_version [simp]: "slot_key c s \<noteq> version_key c'" "version_key c' \<noteq> slot_key c s"
  by (simp_all add: slot_key_def storage_prefix_def version_key_def)

lemma set_world_storage_db [simp]: "vm_db (set_world_storage c m V) = vm_db V"
  by (simp add: set_world_storage_def)

end
