(* ===== verification/Sample_Vm.thy ===== *)
theory Sample_Vm
  imports Vm_Frame Evm_Steps
begin

text \<open>
  A concrete environment of the facade for the witnesses of its properties: a database that is
  a sorted list of entries, the hexadecimal coding of \<open>Evm_Steps\<close>, a digest, and a machine
  with two contracts.
\<close>

definition sample_put :: "(bytes \<times> bytes) list \<Rightarrow> bytes \<Rightarrow> bytes \<Rightarrow> (bytes \<times> bytes) list" where
  "sample_put d k v = insort_key fst (k, v) (filter (\<lambda>e. fst e \<noteq> k) d)"

definition sample_vm_env :: "(bytes \<times> bytes) list vm_env" where
  "sample_vm_env = \<lparr>rocks_get = (\<lambda>d k. Some (map_of d k)), rocks_put = (\<lambda>d k v. Some (sample_put d k v)),
     rocks_from = (\<lambda>d k. map Some (entries_from d k)), json_text = (\<lambda>_. []), json_parse = (\<lambda>_. None),
     vm_checks = True, keccak = (\<lambda>bs. to_big_endian (of_nat (length bs))),
     hex_text = hex_of_bytes, hex_bytes = bytes_of_hex, clock_secs = 1700000000,
     ss7_buffer_ptr = 4096, ss7_text_len = (\<lambda>_. 0)\<rparr>"

lemma map_of_insort: "k \<notin> fst ` set d \<Longrightarrow> map_of (insort_key fst (k, v) d) = (map_of d)(k \<mapsto> v)"
  by (induction d) auto

lemma map_of_sample_put: "map_of (sample_put d k v) k' = (if k' = k then Some v else map_of d k')"
proof -
  have "k \<notin> fst ` set (filter (\<lambda>e. fst e \<noteq> k) d)" by auto
  moreover have "map_of (filter (\<lambda>e. fst e \<noteq> k) d) k' = map_of d k'" if "k' \<noteq> k"
    using that by (induction d) auto
  ultimately show ?thesis by (simp add: sample_put_def map_of_insort)
qed

lemma rocks_ok_sample: "rocks_ok sample_vm_env"
  by (simp add: rocks_ok_def sample_vm_env_def map_of_sample_put)

lemma list_all_hex_of_bytes: "list_all is_lower_hexdigit (hex_of_bytes bs)"
proof -
  have t: "\<forall>n \<in> set [0..<16]. is_lower_hexdigit (hex_digit n)" by code_simp
  then have d: "n < 16 \<Longrightarrow> is_lower_hexdigit (hex_digit n)" for n by simp
  have "unat b div 16 < 16" for b :: u8 using unat_u8_bound[of b] by simp
  then show ?thesis by (induction bs) (simp_all add: hex_of_bytes_def d)
qed

lemma hex_pair_ok_sample: "hex_pair_ok sample_vm_env"
  by (simp add: hex_pair_ok_def sample_vm_env_def list_all_hex_of_bytes)

lemma keccak_ok_sample: "keccak_ok sample_vm_env"
  by (simp add: keccak_ok_def sample_vm_env_def)

lemma writes_succeed_sample: "writes_succeed sample_vm_env"
  by (simp add: sample_vm_env_def writes_succeed_def)

definition sample_account :: "bytes \<Rightarrow> vm_account" where
  "sample_account cd = \<lparr>va_eth_address = ''vault'', va_slu_zk_address = ''vault'', va_balance = 0,
     va_contract_state = cd, va_resources = [], va_state_version = 0, va_last_block_number = 0,
     va_nonce = 0, va_code_hash = '''', va_storage_root = '''', va_is_contract = True, va_gas_used = 0\<rparr>"

text \<open>A machine without modules and with a database.\<close>

definition sample_private :: vm_private where
  "sample_private = \<lparr>vp_modules = [], vp_address_map = [], vp_gas_price = 1, vp_has_manager = True\<rparr>"

definition sample_vm :: "bytes \<Rightarrow> (bytes \<times> bytes) list slura_vm" where
  "sample_vm cd = \<lparr>vm_accounts = [(''vault'', sample_account cd)], vm_storage = [], vm_block_number = 1,
     vm_db = [], vm_own = sample_private\<rparr>"

end
