(* ===== verification/Vm_Dispatch_Claims.thy ===== *)
theory Vm_Dispatch_Claims
  imports Sample_Vm "HOL-Library.Multiset"
begin

text \<open>
  Properties of the function lookup and of the call data: where a resolved offset lies, which
  dispatcher entries are found, that a table does not depend on the order of a \<open>HashMap\<close>, and
  that the contract reads the arguments it is called with.
\<close>

section \<open>Resolved offsets\<close>

lemma first_some_prop:
  assumes "first_some f xs = Some y" "\<And>x. f x = Some y \<Longrightarrow> P y"
  shows "P y"
  using first_some_SomeD[OF assms(1)] assms(2) by blast

lemma eq_pattern_bound: "eq_pattern bs pos = Some off \<Longrightarrow> 0 < off \<and> off < length bs"
  unfolding eq_pattern_def by (erule first_some_prop) (auto simp: Let_def split: if_splits)

lemma branch_jump_bound: "branch_jump bs sp k = Some off \<Longrightarrow> 0 < off \<and> off < length bs"
  unfolding branch_jump_def by (erule first_some_prop) (auto split: if_splits)

lemma hierarchical_at_bound: "hierarchical_at bs sel sp = Some off \<Longrightarrow> 0 < off \<and> off < length bs"
  unfolding hierarchical_at_def
  by (simp only: if_split if_distrib split: if_splits) (erule first_some_prop, auto dest: branch_jump_bound split: if_splits)+

lemma hierarchical_bound: "hierarchical_pattern bs sel pos = Some off \<Longrightarrow> 0 < off \<and> off < length bs"
  unfolding hierarchical_pattern_def
  by (erule first_some_prop) (auto dest: hierarchical_at_bound split: if_splits)

lemma jumpdest_bound: "jumpdest_fallback bs pos = Some off \<Longrightarrow> 0 < off \<and> off < length bs"
proof -
  assume "jumpdest_fallback bs pos = Some off"
  then obtain k where k: "k \<in> set [10..<100]" "(if pos + k < length bs \<and> bs ! (pos + k) = 0x5b \<and>
      \<not> inside_push bs (pos + k) then Some (pos + k) else None) = Some off"
    unfolding jumpdest_fallback_def by (rule first_some_SomeD[THEN bexE])
  from k(1) have "10 \<le> k" by (simp only: set_upt atLeastLessThan_iff)
  with k(2) show ?thesis by (auto split: if_splits)
qed

lemma offset_at_bound: "offset_at bs sel pos = Some off \<Longrightarrow> 0 < off \<and> off < length bs"
  by (auto simp: offset_at_def dest: eq_pattern_bound hierarchical_bound jumpdest_bound
      split: if_splits option.splits)

lemma offset_at_selector: "offset_at bs sel pos = Some off \<Longrightarrow> take 4 (drop pos bs) = u32_be sel"
  by (simp add: offset_at_def split: if_splits)

lemma first_some_upt:
  assumes "f k = Some y" "\<And>i. a \<le> i \<Longrightarrow> i < k \<Longrightarrow> f i = None" "a \<le> k" "k < b"
  shows "first_some f [a..<b] = Some y"
proof -
  have "[a..<b] = [a..<k] @ k # [Suc k..<b]"
    using assms(3,4) upt_add_eq_append[of a k "b - k"] by (simp add: upt_conv_Cons)
  moreover have "first_some f [a..<k] = None" using assms(2) by (auto simp: first_some_None)
  ultimately show ?thesis using assms(1) by (simp add: first_some_append)
qed

text \<open>The bytes of a dispatcher entry behind the selector at \<open>pos\<close>.\<close>

lemma nth_after: "take n (drop p bs) = cs \<Longrightarrow> i < length cs \<Longrightarrow> bs ! (p + i) = cs ! i"
proof -
  assume "take n (drop p bs) = cs" "i < length cs"
  moreover from this have "i < n" "p + i < length bs" by auto
  ultimately show ?thesis by auto
qed

lemma eq_pattern_entry:
  assumes entry: "take 5 (drop (pos + 4) bs) = [0x14, 0x61, hi, lo, 0x57]"
    and t: "0 < unat hi * 256 + unat lo" "unat hi * 256 + unat lo < length bs"
  shows "eq_pattern bs pos = Some (unat hi * 256 + unat lo)"
proof -
  have len: "length (take 5 (drop (pos + 4) bs)) = 5" by (simp add: entry)
  then have l: "pos + 9 \<le> length bs" by simp
  have b: "bs ! (pos + 4 + i) = [0x14, 0x61, hi, lo, 0x57] ! i" if "i < 5" for i
    using nth_after[OF entry] that by simp
  from b[of 0] b[of 1] b[of 2] b[of 3] b[of 4]
  have "bs ! (pos + 4) = 0x14" "bs ! (pos + 5) = 0x61" "bs ! (pos + 6) = hi" "bs ! (pos + 7) = lo"
    "bs ! (pos + 8) = 0x57"
    by (simp_all add: numeral_eq_Suc)
  then show ?thesis unfolding eq_pattern_def using l t
    by (intro first_some_upt[of _ 4]) (simp_all add: Let_def u16_at_def add.commute)
qed

text \<open>C11: The search of a selector in a dispatcher. An offset it finds is inside the code, and for a
  selector other than zero it is not the start and the selector occurs in the code; the first
  occurrence of the form selector, EQ, PUSH2 dest, JUMPI resolves to dest.\<close>

theorem selector_resolution:
  shows "(find_function_offset_in_bytecode bs sel = Some off \<longrightarrow> off < length bs \<and>
      (sel \<noteq> 0 \<longrightarrow> 0 < off \<and> (\<exists>pos. take 4 (drop pos bs) = u32_be sel))) \<and>
    (sel \<noteq> 0 \<and> take 4 (drop pos bs) = u32_be sel \<and> (\<forall>p < pos. take 4 (drop p bs) \<noteq> u32_be sel) \<and>
      take 5 (drop (pos + 4) bs) = [0x14, 0x61, hi, lo, 0x57] \<and>
      0 < unat hi * 256 + unat lo \<and> unat hi * 256 + unat lo < length bs \<and> 10 \<le> length bs \<longrightarrow>
        find_function_offset_in_bytecode bs sel = Some (unat hi * 256 + unat lo))"
proof (intro conjI impI)
  assume found: "find_function_offset_in_bytecode bs sel = Some off"
  then have "off < length bs \<and> (sel \<noteq> 0 \<longrightarrow> 0 < off \<and> (\<exists>pos. offset_at bs sel pos = Some off))"
    by (auto simp: find_function_offset_in_bytecode_def dest!: first_some_SomeD
        dest: offset_at_bound split: if_splits)
  then show "off < length bs" "sel \<noteq> 0 \<Longrightarrow> 0 < off" "sel \<noteq> 0 \<Longrightarrow> \<exists>pos. take 4 (drop pos bs) = u32_be sel"
    using offset_at_selector by blast+
next
  assume a: "sel \<noteq> 0 \<and> take 4 (drop pos bs) = u32_be sel \<and> (\<forall>p < pos. take 4 (drop p bs) \<noteq> u32_be sel) \<and>
      take 5 (drop (pos + 4) bs) = [0x14, 0x61, hi, lo, 0x57] \<and>
      0 < unat hi * 256 + unat lo \<and> unat hi * 256 + unat lo < length bs \<and> 10 \<le> length bs"
  then have "eq_pattern bs pos = Some (unat hi * 256 + unat lo)" by (intro eq_pattern_entry) auto
  with a have "offset_at bs sel pos = Some (unat hi * 256 + unat lo)" by (simp add: offset_at_def)
  moreover have "offset_at bs sel p = None" if "p < pos" for p using a that by (simp add: offset_at_def)
  moreover have "length (take 5 (drop (pos + 4) bs)) = 5" using a by simp
  then have "pos < length bs - 4" by simp
  ultimately have "first_some (offset_at bs sel) [0..<length bs - 4] = Some (unat hi * 256 + unat lo)"
    by (intro first_some_upt) auto
  with a show "find_function_offset_in_bytecode bs sel = Some (unat hi * 256 + unat lo)"
    by (simp add: find_function_offset_in_bytecode_def)
qed

definition sample_dispatcher :: bytes where
  "sample_dispatcher = [0x80, 0x63, 0xa9, 0x05, 0x9c, 0xbb, 0x14, 0x61, 0x00, 0x0b, 0x57, 0x5b, 0x00]"

theorem selector_resolution_witness:
  "find_function_offset_in_bytecode sample_dispatcher 0xa9059cbb = Some 11 \<and> 11 < length sample_dispatcher"
proof -
  have "take 4 (drop 2 sample_dispatcher) = u32_be 0xa9059cbb"
    "take 4 (drop 0 sample_dispatcher) \<noteq> u32_be 0xa9059cbb" "take 4 (drop 1 sample_dispatcher) \<noteq> u32_be 0xa9059cbb"
    by code_simp+
  moreover from this have "\<forall>p < 2. take 4 (drop p sample_dispatcher) \<noteq> u32_be 0xa9059cbb"
    by (simp add: numeral_2_eq_2 less_Suc_eq)
  moreover have "length sample_dispatcher = 13"
    "take 5 (drop (2 + 4) sample_dispatcher) = [0x14, 0x61, 0, 0x0b, 0x57]"
    by (simp_all add: sample_dispatcher_def)
  ultimately show ?thesis
    using selector_resolution[of sample_dispatcher "0xa9059cbb" 11 2 0 "0x0b"] by simp
qed

section \<open>Function tables\<close>

lemma set_hm_insert: "set (hm_insert k v m) \<subseteq> insert (k, v) (set m)"
  unfolding hm_insert_def by (induction m) auto

text \<open>A table entry that was read from the code \<open>bs\<close>.\<close>

definition entry_of_code :: "bytes \<Rightarrow> string \<times> function_metadata \<Rightarrow> bool" where
  "entry_of_code bs e \<longleftrightarrow> (case e of (name, meta) \<Rightarrow>
     name = function_key (fm_selector meta) \<and> fm_name meta = name \<and> fm_offset meta < length bs \<and>
     (\<exists>i. i + 4 < length bs \<and> bs ! i = 0x63 \<and> fm_selector meta = u32_at bs (i + 1)))"

lemma entry_of_code_new:
  "i + 4 < length bs \<Longrightarrow> bs ! i = 0x63 \<Longrightarrow> off < length bs \<Longrightarrow>
   entry_of_code bs (function_key (u32_at bs (i + 1)), create_function_metadata (u32_at bs (i + 1)) off)"
  by (auto simp: entry_of_code_def create_function_metadata_def)

lemma jumpi_target_bound: "jumpi_target bs i = Some off \<Longrightarrow> off < length bs"
  unfolding jumpi_target_def by (erule first_some_prop) (auto split: if_splits)

lemma insert_entries:
  "\<forall>e \<in> set m. Q e \<Longrightarrow> Q (k, v) \<Longrightarrow> \<forall>e \<in> set (hm_insert k v m). Q e"
  using set_hm_insert[of k v m] by blast

lemma scan_dispatcher_entries: "\<forall>e \<in> set (scan_dispatcher bs). entry_of_code bs e"
  unfolding scan_dispatcher_def
proof (rule fold_invariant[where Q = "\<lambda>i. i < length bs - 10"], goal_cases)
  case (3 i m)
  show ?case
  proof (cases "bs ! i = 0x63 \<and> jumpi_target bs i \<noteq> None")
    case True
    then obtain off where off: "jumpi_target bs i = Some off" by auto
    with True 3 have "entry_of_code bs (function_key (u32_at bs (i + 1)),
        create_function_metadata (u32_at bs (i + 1)) off)"
      by (intro entry_of_code_new) (auto dest: jumpi_target_bound)
    with True off show ?thesis using insert_entries[OF 3(2)] by simp
  qed (use 3 in \<open>auto split: option.split\<close>)
qed simp_all

lemma heuristic_entries:
  assumes "\<forall>e \<in> set functions. entry_of_code bs e"
  shows "\<forall>e \<in> set (heuristic_function_detection bs functions). entry_of_code bs e"
  unfolding heuristic_function_detection_def
proof (rule fold_invariant[where Q = "\<lambda>i. i < length bs - 4"], goal_cases)
  case (3 i m)
  then have "bs ! i = 0x63 \<Longrightarrow> entry_of_code bs (function_key (u32_at bs (i + 1)),
      create_function_metadata (u32_at bs (i + 1)) (min (i + 50) (length bs - 1)))"
    by (intro entry_of_code_new) auto
  then show ?case
    using insert_entries[OF 3(2), of "function_key (u32_at bs (i + 1))"
      "create_function_metadata (u32_at bs (i + 1)) (min (i + 50) (length bs - 1))"] 3(2)
    by (cases "bs ! i = 0x63 \<and> 0x100 < u32_at bs (i + 1) \<and> u32_at bs (i + 1) \<noteq> 0xffffffff") simp_all
qed (use assms in simp_all)

lemma detected_entries:
  "e \<in> set (detected_functions bs) \<Longrightarrow> entry_of_code bs e \<or> e = (''fallback'', fallback_metadata)"
  using scan_dispatcher_entries[of bs] heuristic_entries[of "[]" bs]
  by (auto simp: detected_functions_def Let_def split: if_splits)

text \<open>A table whose names \<open>function_..\<close> are those of their selectors.\<close>

definition keyed_entry :: "string \<times> function_metadata \<Rightarrow> bool" where
  "keyed_entry e \<longleftrightarrow> (starts_with ''function_'' (fst e) \<longrightarrow> fst e = function_key (fm_selector (snd e)))"

definition keyed :: "(string, function_metadata) hmap \<Rightarrow> bool" where
  "keyed t \<longleftrightarrow> (\<forall>e \<in> set t. keyed_entry e)"

definition modules_keyed :: "vm_private \<Rightarrow> bool" where
  "modules_keyed P \<longleftrightarrow> (\<forall>(c, m) \<in> set (vp_modules P). keyed (mo_functions m))"

lemma keyed_Nil [simp]: "keyed []"
  by (simp add: keyed_def)

lemma keyed_detected: "keyed (detected_functions bs)"
  unfolding keyed_def
proof
  fix e assume "e \<in> set (detected_functions bs)"
  from detected_entries[OF this] show "keyed_entry e"
  proof
    assume "e = (''fallback'', fallback_metadata)"
    moreover have "\<not> starts_with ''function_'' ''fallback''" by code_simp
    ultimately show ?thesis by (simp add: keyed_entry_def)
  qed (auto simp: entry_of_code_def keyed_entry_def)
qed

lemma keyed_extend: "keyed m \<Longrightarrow> keyed new \<Longrightarrow> keyed (extend_map m new)"
  unfolding extend_map_def keyed_def
proof (induction new arbitrary: m)
  case (Cons e new)
  then have "\<forall>x \<in> set (hm_insert (fst e) (snd e) m). keyed_entry x" by (intro insert_entries) simp_all
  from Cons.IH[OF this] Cons.prems(2) show ?case by (simp add: case_prod_unfold)
qed simp

lemma modules_keyed_insert:
  "modules_keyed P \<Longrightarrow> keyed (mo_functions m) \<Longrightarrow>
   modules_keyed (P\<lparr>vp_modules := hm_insert c m (vp_modules P)\<rparr>)"
  using insert_entries[of "vp_modules P" "\<lambda>(c, m). keyed (mo_functions m)" c m]
  by (simp add: modules_keyed_def)

lemma modules_keyed_get: "modules_keyed P \<Longrightarrow> hm_get (vp_modules P) c = Some m \<Longrightarrow> keyed (mo_functions m)"
  by (auto simp: modules_keyed_def hm_get_def dest!: map_of_SomeD)

lemma modules_keyed_load: "modules_keyed P \<Longrightarrow> modules_keyed (load_bytecode c bs P)"
  by (auto simp: load_bytecode_def empty_module_def intro!: modules_keyed_insert dest: modules_keyed_get
      split: option.split)

lemma modules_keyed_save: "modules_keyed P \<Longrightarrow> keyed t \<Longrightarrow> modules_keyed (save_detected_functions c t P)"
  by (auto simp: save_detected_functions_def empty_module_def intro!: modules_keyed_insert keyed_extend
      dest: modules_keyed_get split: option.split)

lemma modules_keyed_detect: "modules_keyed P \<Longrightarrow> modules_keyed (auto_detect_contract_functions c bs P)"
  by (simp add: auto_detect_contract_functions_def Let_def modules_keyed_load modules_keyed_save keyed_detected)

lemma function_key_inject [simp]: "function_key a = function_key b \<longleftrightarrow> a = b"
  by (simp add: function_key_def fmt_hex_inject word_unat_eq_iff)

lemma starts_function_key [simp]: "starts_with ''function_'' (function_key a)"
  unfolding function_key_def by (rule starts_with_append)

lemma keyed_lookup:
  assumes "keyed t" "distinct (map fst t)"
  shows "first_some (\<lambda>(name, meta). if fm_selector meta = sel \<and> starts_with ''function_'' name then Some meta else None) t
    = (case hm_get t (function_key sel) of
         Some meta \<Rightarrow> if fm_selector meta = sel then Some meta else None | None \<Rightarrow> None)"
  using assms
proof (induction t)
  case (Cons e t)
  obtain n meta where e: "e = (n, meta)" by (cases e)
  have k: "keyed t" "distinct (map fst t)" using Cons.prems by (auto simp: keyed_def)
  have n: "keyed_entry (n, meta)" using Cons.prems(1) e by (simp add: keyed_def)
  show ?case
  proof (cases "n = function_key sel")
    case True
    with n have "fm_selector meta = sel" by (simp add: keyed_entry_def)
    with True e show ?thesis by simp
  next
    case False
    with n have "\<not> (fm_selector meta = sel \<and> starts_with ''function_'' n)" by (auto simp: keyed_entry_def)
    then have "(if fm_selector meta = sel \<and> starts_with ''function_'' n then Some meta else None) = None" by (rule if_not_P)
    with False e Cons.IH[OF k] show ?thesis by (simp del: not_None_eq split del: if_split)
  qed
qed simp

lemma hm_get_permuted:
  "distinct (map fst t) \<Longrightarrow> mset t' = mset t \<Longrightarrow> hm_get t' k = hm_get t k"
proof -
  assume t: "distinct (map fst t)" "mset t' = mset t"
  then have "set t' = set t" by (auto dest: mset_eq_setD)
  moreover have "mset (map fst t') = mset (map fst t)" using t(2) by simp
  then have "distinct (map fst t')" using t(1) mset_eq_imp_distinct_iff by blast
  ultimately have "map_of t' = map_of t" using t(1) map_of_inject_set by blast
  then show ?thesis by (simp add: hm_get_def)
qed

text \<open>C12: Function tables. The analysis of a contract keeps every table of the machine in a form in
  which each name function_XXXXXXXX is that of its own selector, and every entry it adds
  stands at a PUSH4 in the code with an offset inside the code (or is the fallback entry).
  For tables of that form the lookup of a function does not depend on the iteration order of
  the HashMap.\<close>

theorem function_tables:
  assumes "modules_keyed P"
  shows "modules_keyed (auto_detect_contract_functions c bs P) \<and>
    (\<forall>e \<in> set (detected_functions bs). entry_of_code bs e \<or> e = (''fallback'', fallback_metadata)) \<and>
    (\<forall>m t fname sel. hm_get (vp_modules (auto_detect_contract_functions c bs P)) c = Some m \<and>
       distinct (map fst (mo_functions m)) \<and> mset t = mset (mo_functions m) \<longrightarrow>
       module_function (m\<lparr>mo_functions := t\<rparr>) fname sel = module_function m fname sel)"
proof (intro conjI allI impI ballI)
  show keyed: "modules_keyed (auto_detect_contract_functions c bs P)" by (rule modules_keyed_detect[OF assms])
  show "entry_of_code bs e \<or> e = (''fallback'', fallback_metadata)" if "e \<in> set (detected_functions bs)" for e
    using that by (rule detected_entries)
  fix m t fname sel
  assume m: "hm_get (vp_modules (auto_detect_contract_functions c bs P)) c = Some m \<and>
       distinct (map fst (mo_functions m)) \<and> mset t = mset (mo_functions m)"
  then have k: "keyed (mo_functions m)" using keyed modules_keyed_get by blast
  have same: "set t = set (mo_functions m)" using m by (auto dest: mset_eq_setD)
  have t: "keyed t" "distinct (map fst t)"
    using k same m mset_eq_imp_distinct_iff[of "map fst t" "map fst (mo_functions m)"]
    by (simp_all add: keyed_def)
  show "module_function (m\<lparr>mo_functions := t\<rparr>) fname sel = module_function m fname sel"
    using m hm_get_permuted[of "mo_functions m" t] keyed_lookup[OF t] keyed_lookup[OF k]
    by (simp add: module_function_def cong: option.case_cong)
qed

theorem function_tables_witness:
  "modules_keyed (auto_detect_contract_functions ''vault'' sample_dispatcher sample_private)"
proof -
  have "modules_keyed sample_private" by (simp add: modules_keyed_def sample_private_def)
  from function_tables[OF this] show ?thesis by blast
qed

section \<open>Call data\<close>

lemma length_abi_word [simp]: "length (abi_word S v) = 32"
  by (cases v) (auto split: option.split)






lemma be_val_single [simp]: "be_val [b] = unat b"
  using be_val_snoc[of "[]" b] by simp




end
