(* ===== verification/Vm_Engine_Claims.thy ===== *)
theory Vm_Engine_Claims
  imports Sample_Vm Vm_Frame "HOL-Library.Multiset"
begin

text \<open>
  Properties of the parallel engine: read sets stay empty, so the validation of a batch never
  finds a conflict; transactions of earlier batches are committed again; a speculative run has
  written to the database before it is validated; what is committed is read by the next run.
\<close>

section \<open>Read sets\<close>

definition reads_empty :: "parallel_engine \<Rightarrow> bool" where
  "reads_empty en \<longleftrightarrow> (\<forall>i tx. hm_get (en_active en) i = Some tx \<longrightarrow> pt_read_set tx = [])"

lemma reads_empty_new [simp]: "reads_empty (new_engine own)"
  by (simp add: reads_empty_def new_engine_def)

lemma reads_empty_add_writes: "reads_empty en \<Longrightarrow> reads_empty (add_writes i kvs en)"
  by (auto simp: reads_empty_def add_writes_def split: option.split)

lemma reads_empty_clear: "reads_empty en \<Longrightarrow> reads_empty (clear_sets i en)"
  by (auto simp: reads_empty_def clear_sets_def split: option.split)

lemma register_active:
  "hm_get (en_active (register_batch txs en)) i =
   (case find (\<lambda>tx. pt_id tx = i) (rev txs) of Some tx \<Rightarrow> Some tx | None \<Rightarrow> hm_get (en_active en) i)"
proof (induction txs rule: rev_induct)
  case (snoc tx txs)
  then show ?case by (auto simp: register_batch_def)
qed (simp add: register_batch_def)

lemma new_transaction_fields [simp]:
  "pt_read_set (new_transaction i t) = []" "pt_write_set (new_transaction i t) = []"
  "pt_id (new_transaction i t) = word_of_nat i"
  by (simp_all add: new_transaction_def split: prod.split)

definition batch_of :: "vm_request list \<Rightarrow> parallel_transaction list" where
  "batch_of requests = map (\<lambda>(i, t). new_transaction i t) (enumerate 0 requests)"

lemma length_batch_of [simp]: "length (batch_of requests) = length requests"
  by (simp add: batch_of_def)

lemma batch_of_nth: "i < length requests \<Longrightarrow> batch_of requests ! i = new_transaction i (requests ! i)"
  by (simp add: batch_of_def nth_enumerate_eq)

lemma batch_of_mem: "tx \<in> set (batch_of requests) \<Longrightarrow> \<exists>i < length requests. tx = new_transaction i (requests ! i)"
  using batch_of_nth by (auto simp: in_set_conv_nth)

lemma find_SomeD: "find P xs = Some x \<Longrightarrow> P x \<and> x \<in> set xs"
  by (auto simp: find_Some_iff)

lemma reads_empty_register: "reads_empty en \<Longrightarrow> reads_empty (register_batch (batch_of requests) en)"
  by (auto simp: reads_empty_def register_active dest!: find_SomeD batch_of_mem split: option.splits)

section \<open>Steps of the engine\<close>

lemma speculative_engine:
  assumes "execute_speculative_transaction fuel S tx st = Returned (r, st')"
  shows "fst st' = fst st \<or> (\<exists>kvs. fst st' = add_writes (pt_id tx) kvs (fst st))"
proof -
  obtain en V where st: "st = (en, V)" by (cases st)
  from assms[unfolded st] show ?thesis
    by (elim speculative_cases) (auto simp: st split: sum.splits)
qed

text \<open>A property of the engine that every speculative run of a batch keeps.\<close>

lemma speculate_engine:
  assumes "speculate fuel S txs results st = Returned (results', st')" "P (fst st)"
    and "\<And>tx kvs en. tx \<in> set txs \<Longrightarrow> P en \<Longrightarrow> P (add_writes (pt_id tx) kvs en)"
  shows "P (fst st')"
  using assms
proof (induction txs arbitrary: results st)
  case (Cons tx txs)
  then obtain r st1 where 1: "execute_speculative_transaction fuel S tx st = Returned (r, st1)"
    and 2: "speculate fuel S txs (hm_insert (pt_id tx) r results) st1 = Returned (results', st')"
    by (force simp: and_then_Returned)
  have "P (fst st1)" using speculative_engine[OF 1] Cons.prems(2) Cons.prems(3)[of tx] by auto
  from Cons.IH[OF 2 this Cons.prems(3)] show ?case by simp
qed simp

lemma speculate_results:
  assumes "speculate fuel S txs results st = Returned (results', st')"
  shows "hm_get results' i \<noteq> None \<longleftrightarrow> hm_get results i \<noteq> None \<or> i \<in> pt_id ` set txs"
  using assms
proof (induction txs arbitrary: results st)
  case (Cons tx txs)
  then obtain r st1 where
    "speculate fuel S txs (hm_insert (pt_id tx) r results) st1 = Returned (results', st')"
    by (force simp: and_then_Returned)
  from Cons.IH[OF this] show ?case by auto
qed simp

lemma commit_active [simp]: "en_active (fst (snd (commit_transaction_changes S tx st))) = en_active (fst st)"
proof -
  have "en_active (fst (snd (commit_slots S c kvs st))) = en_active (fst st)" for c kvs st
  proof (induction kvs arbitrary: st)
    case (Cons kv kvs)
    have "en_active (fst st') = en_active (fst st)" if "commit_slot S c kv st = Inr st'" for st'
      using that by (auto simp: commit_slot_def split: prod.splits sum.splits)
    with Cons show ?case by (simp split: sum.split)
  qed simp
  from this[of "pt_contract_address tx" "pt_write_set tx"] show ?thesis
    by (auto simp: commit_transaction_changes_def Let_def split: prod.splits sum.splits) (metis fst_conv snd_conv)+
qed

lemma reads_empty_active: "en_active en' = en_active en \<Longrightarrow> reads_empty en' = reads_empty en"
  by (simp add: reads_empty_def)

lemma validate_reads_empty:
  "reads_empty en \<Longrightarrow> hm_get (en_active en) i = Some tx \<Longrightarrow> validate_transaction_conflicts en' tx"
  by (simp add: reads_empty_def validate_transaction_conflicts_def)

text \<open>With empty read sets the commit phase is a fold of the commits.\<close>

definition commit_id :: "('d, 'a) vm_env_scheme \<Rightarrow> u64 \<Rightarrow> parallel_engine \<times> 'd slura_vm \<Rightarrow> parallel_engine \<times> 'd slura_vm" where
  "commit_id S i st = (case hm_get (en_active (fst st)) i of
     Some tx \<Rightarrow> snd (commit_transaction_changes S tx st) | None \<Rightarrow> st)"

lemma commit_id_active [simp]: "en_active (fst (commit_id S i st)) = en_active (fst st)"
  by (simp add: commit_id_def split: option.split)

lemma validate_ids:
  assumes "reads_empty (fst st)"
  shows "snd (validate_and_commit_ids S is st) = fold (commit_id S) is st \<and>
    list_all id (fst (validate_and_commit_ids S is st))"
  using assms
proof (induction "is" arbitrary: st)
  case (Cons i "is")
  have "reads_empty (fst (commit_id S i st))" using Cons.prems reads_empty_active[OF commit_id_active] by blast
  note later = Cons.IH[OF this]
  show ?case
  proof (cases "hm_get (en_active (fst st)) i")
    case None
    with Cons.IH[OF Cons.prems] show ?thesis by (simp add: commit_id_def)
  next
    case (Some tx)
    then have "validate_transaction_conflicts (fst st) tx" by (rule validate_reads_empty[OF Cons.prems])
    with Some later show ?thesis by (simp add: commit_id_def case_prod_unfold)
  qed
qed simp

lemma fold_commit_active: "en_active (fst (fold (commit_id S) is st)) = en_active (fst st)"
  by (induction "is" arbitrary: st) simp_all

lemma no_conflict_collected:
  "list_all id vs \<Longrightarrow> collect_conflicted_transactions_non_recursive vs txs = []"
  by (induction vs txs rule: list_induct2') (simp_all add: collect_conflicted_transactions_non_recursive_def)

definition commit_all :: "('d, 'a) vm_env_scheme \<Rightarrow> parallel_engine \<times> 'd slura_vm \<Rightarrow> parallel_engine \<times> 'd slura_vm" where
  "commit_all S st = fold (commit_id S) (sort (map fst (en_active (fst st)))) st"

lemma batch_one_pass:
  assumes "batch_loop n fuel S order txs st = Returned (results, st')"
    and "reads_empty (fst st)" "set (order txs) \<subseteq> set txs"
  shows "\<exists>found st1. speculate fuel S (order txs) [] st = Returned (found, st1) \<and>
    results = final_results txs found \<and> st' = commit_all S st1 \<and> reads_empty (fst st')"
proof -
  from assms(1) obtain found st1 where sp: "speculate fuel S (order txs) [] st = Returned (found, st1)"
    and rest: "(case validate_and_commit_batch S st1 of (validation, st2) \<Rightarrow>
         (let failed = collect_conflicted_transactions_non_recursive validation txs;
              st3 = (fold clear_sets (map pt_id failed) (fst st2), snd st2) in
          if failed = [] then Returned (final_results txs found, st3)
          else (case n of
              0 \<Rightarrow> Returned (final_results txs found, st3)
            | Suc n \<Rightarrow> batch_loop n fuel S order failed st3))) = Returned (results, st')"
    by (subst (asm) batch_loop.simps) (force simp: and_then_Returned)
  have re: "reads_empty (fst st1)"
    using speculate_engine[OF sp, of reads_empty] assms(2) reads_empty_add_writes by blast
  obtain vs st2 where v: "validate_and_commit_batch S st1 = (vs, st2)"
    by (cases "validate_and_commit_batch S st1")
  with validate_ids[OF re, of S "sort (map fst (en_active (fst st1)))"]
  have st2: "st2 = commit_all S st1" "list_all id vs"
    by (simp_all add: validate_and_commit_batch_def commit_all_def)
  from rest v no_conflict_collected[OF st2(2), of txs] have "results = final_results txs found" "st' = st2"
    by (simp_all add: Let_def)
  moreover have "reads_empty (fst st2)"
    unfolding st2 commit_all_def using re reads_empty_active[OF fold_commit_active] by blast
  ultimately show ?thesis using sp st2 by blast
qed

section \<open>Validation accepts everything\<close>

lemma parallel_cases:
  assumes "nv_engine nv = Some en" "reads_empty en" "\<And>txs. mset (order txs) = mset txs"
    and "execute_parallel_transactions fuel S order requests nv = Returned (results, nv')"
  obtains found st1 where
    "speculate fuel S (order (batch_of requests)) [] (register_batch (batch_of requests) en, engine_view en (nv_vm nv))
       = Returned (found, st1)"
    "results = final_results (batch_of requests) found" "reads_empty (fst (commit_all S st1))"
    "nv' = leave_engine (vm_own (nv_vm nv)) (commit_all S st1)"
proof -
  obtain st' where loop: "batch_loop 3 fuel S order (batch_of requests)
        (register_batch (batch_of requests) en, engine_view en (nv_vm nv)) = Returned (results, st')"
    and nv': "nv' = leave_engine (vm_own (nv_vm nv)) st'"
    using assms(4) unfolding execute_parallel_transactions_def execute_parallel_batch_def assms(1) option.case Let_def
      batch_of_def[symmetric] and_then_Returned
    by (elim exE conjE) (simp split: prod.splits)
  have sub: "set (order (batch_of requests)) \<subseteq> set (batch_of requests)"
    using mset_eq_setD[OF assms(3)] by blast
  have "reads_empty (fst (register_batch (batch_of requests) en, engine_view en (nv_vm nv)))"
    using reads_empty_register[OF assms(2)] by simp
  from batch_one_pass[OF loop this sub] nv' that show thesis by blast
qed

text \<open>C8: No conflict is ever found. Nothing writes the read set of a transaction, so an engine whose
  read sets are empty (as in a new one) keeps them empty, and each batch is run once and then
  committed as a whole, in any order in which its transactions get the lock: there is no
  retry, and each transaction gets the result of its own run.\<close>

theorem no_conflict_is_found:
  assumes "nv_engine nv = Some en" "reads_empty en" "\<And>txs. mset (order txs) = mset txs"
    and "execute_parallel_transactions fuel S order requests nv = Returned (results, nv')"
  shows "\<exists>en' found st1. nv_engine nv' = Some en' \<and> reads_empty en' \<and>
    speculate fuel S (order (batch_of requests)) [] (register_batch (batch_of requests) en, engine_view en (nv_vm nv))
      = Returned (found, st1) \<and>
    nv' = leave_engine (vm_own (nv_vm nv)) (commit_all S st1) \<and>
    length results = length requests \<and>
    (\<forall>i < length requests. hm_get found (word_of_nat i) = Some (results ! i))"
proof -
  obtain found st1 where sp: "speculate fuel S (order (batch_of requests)) []
        (register_batch (batch_of requests) en, engine_view en (nv_vm nv)) = Returned (found, st1)"
    and res: "results = final_results (batch_of requests) found" and re: "reads_empty (fst (commit_all S st1))"
    and nv': "nv' = leave_engine (vm_own (nv_vm nv)) (commit_all S st1)"
    using parallel_cases[OF assms] .
  have "hm_get found (word_of_nat i) = Some (results ! i)" if i: "i < length requests" for i
  proof -
    have "batch_of requests ! i \<in> set (order (batch_of requests))"
      using i mset_eq_setD[OF assms(3), of "batch_of requests"] by simp
    then have "pt_id (batch_of requests ! i) \<in> pt_id ` set (order (batch_of requests))" by (rule imageI)
    then have "hm_get found (pt_id (batch_of requests ! i)) \<noteq> None"
      unfolding speculate_results[OF sp] by (rule disjI2)
    then obtain r where r: "hm_get found (word_of_nat i) = Some r" using i by (simp add: batch_of_nth) blast
    have "results ! i = r" unfolding res final_results_def using i r by (simp add: batch_of_nth)
    with r show ?thesis by simp
  qed
  moreover obtain en' where "nv_engine nv' = Some en'" "en_active en' = en_active (fst (commit_all S st1))"
    using nv' by (cases "commit_all S st1") (simp add: leave_engine_def)
  moreover from this have "reads_empty en'" using re reads_empty_active by blast
  moreover have "length results = length requests" using res by (simp add: final_results_def)
  ultimately show ?thesis using sp nv' by blast
qed

text \<open>A call of a contract that is not there, on a machine without a database.\<close>

lemma missing_contract:
  "hm_get (vm_accounts V) c = None \<Longrightarrow> \<not> vp_has_manager (vm_own V) \<Longrightarrow>
   vm_execute_program fuel S c f as s cd V = Returned (Inl (Not_Found c), V)"
  by (simp add: vm_execute_program_def reload_versioned_def real_bytecode_def)

definition sample_node_vm :: "bytes \<Rightarrow> (bytes \<times> bytes) list node_vm" where
  "sample_node_vm cd = with_parallel_engine
     \<lparr>nv_vm = upd_own (\<lambda>P. P\<lparr>vp_has_manager := False\<rparr>) (sample_vm cd), nv_engine = None\<rparr>"

theorem no_conflict_is_found_witness:
  "\<exists>nv'. execute_parallel_transactions 5 sample_vm_env rev
      [(''ghost'', ''f'', [], ''alice'', None), (''wraith'', ''f'', [], ''bob'', None)] (sample_node_vm [0])
      = Returned ([Inl (Not_Found ''ghost''), Inl (Not_Found ''wraith'')], nv') \<and>
    (\<exists>en'. nv_engine nv' = Some en' \<and> reads_empty en')"
proof -
  let ?rs = "[(''ghost'', ''f'', [], ''alice'', None), (''wraith'', ''f'', [], ''bob'', None)]"
  obtain nv' where run: "execute_parallel_transactions 5 sample_vm_env rev ?rs (sample_node_vm [0])
      = Returned ([Inl (Not_Found ''ghost''), Inl (Not_Found ''wraith'')], nv')"
    by (simp add: execute_parallel_transactions_def execute_parallel_batch_def batch_loop.simps
        sample_node_vm_def with_parallel_engine_def new_engine_def sample_vm_def sample_private_def upd_own_def
        engine_view_def execute_speculative_transaction_def reload_stable_def missing_contract
        new_transaction_def register_batch_def validate_and_commit_batch_def validate_transaction_conflicts_def
        commit_transaction_changes_def final_results_def collect_conflicted_transactions_non_recursive_def
        hm_insert_def Let_def)
  have "nv_engine (sample_node_vm [0]) = Some (new_engine (vm_own (nv_vm (sample_node_vm [0]))))"
    by (simp add: sample_node_vm_def with_parallel_engine_def)
  from no_conflict_is_found[OF this _ _ run] run show ?thesis by auto
qed

section \<open>What a batch does to the machine\<close>

lemma speculative_shell:
  assumes "execute_speculative_transaction fuel S tx st = Returned (r, st')"
  shows "same_shell (snd st) (snd st')"
proof -
  obtain en V where st: "st = (en, V)" by (cases st)
  from assms[unfolded st] obtain V1 V2 where
    "reload_stable S (pt_contract_address tx) V = Some V1"
    "vm_execute_program fuel S (pt_contract_address tx) (pt_function_name tx) (pt_args tx)
       (pt_sender tx) (pt_calldata tx) V1 = Returned (r, V2)" "snd st' = V2"
    by (elim speculative_cases) (auto split: sum.splits)
  then show ?thesis using st
    by (auto dest!: reload_stable_shell execute_program_shell intro: same_shell_trans)
qed

lemma speculate_shell:
  "speculate fuel S txs results st = Returned (results', st') \<Longrightarrow> same_shell (snd st) (snd st')"
proof (induction txs arbitrary: results st)
  case (Cons tx txs)
  then obtain r st1 where 1: "execute_speculative_transaction fuel S tx st = Returned (r, st1)"
    and 2: "speculate fuel S txs (hm_insert (pt_id tx) r results) st1 = Returned (results', st')"
    by (force simp: and_then_Returned)
  from speculative_shell[OF 1] Cons.IH[OF 2] show ?case by (rule same_shell_trans)
qed simp

section \<open>Commits\<close>

lemma commit_slot_total:
  assumes "writes_succeed S" "rocks_ok S"
  obtains en' V' where "commit_slot S c (slot, v) (en, V) = Inr (en', V')"
    "\<And>k. Store.db_read S (vm_db V') k = (if k = slot_key c slot then Inr v else Store.db_read S (vm_db V) k)"
proof -
  obtain d where d: "Store.db_write S (vm_db V) (slot_key c slot) v = Inr d" using write_total[OF assms(1)] by blast
  show thesis
  proof (rule that)
    show "commit_slot S c (slot, v) (en, V) =
        Inr (en\<lparr>en_storage_versions := hm_insert slot 1 (en_storage_versions en)\<rparr>,
          set_world_storage c (hm_insert slot v (contract_storage c V)) (V\<lparr>vm_db := d\<rparr>))"
      by (simp add: commit_slot_def d)
  qed (use read_after_write[OF assms(2) d] in simp)
qed

lemma commit_slots_reads:
  assumes "writes_succeed S" "rocks_ok S" "distinct (map fst kvs)"
  shows "\<exists>en' V'. commit_slots S c kvs (en, V) = (Inr (), en', V') \<and>
    (\<forall>k. Store.db_read S (vm_db V') k =
      (case map_of (map (\<lambda>(s, v). (slot_key c s, v)) kvs) k of Some v \<Rightarrow> Inr v | None \<Rightarrow> Store.db_read S (vm_db V) k))"
  using assms(3)
proof (induction kvs arbitrary: en V)
  case (Cons kv kvs)
  obtain slot v where kv: "kv = (slot, v)" by (cases kv)
  from commit_slot_total[OF assms(1,2), of c slot v en V] obtain en1 V1 where
    1: "commit_slot S c (slot, v) (en, V) = Inr (en1, V1)"
    and r1: "\<And>k. Store.db_read S (vm_db V1) k = (if k = slot_key c slot then Inr v else Store.db_read S (vm_db V) k)"
    by blast
  from Cons.IH[of en1 V1] Cons.prems obtain en' V' where
    2: "commit_slots S c kvs (en1, V1) = (Inr (), en', V')"
    and r2: "\<And>k. Store.db_read S (vm_db V') k =
      (case map_of (map (\<lambda>(s, v). (slot_key c s, v)) kvs) k of Some v \<Rightarrow> Inr v | None \<Rightarrow> Store.db_read S (vm_db V1) k)"
    by auto
  have "map_of (map (\<lambda>(s, v). (slot_key c s, v)) kvs) (slot_key c slot) = None"
    using Cons.prems kv by (force simp: map_of_eq_None_iff)
  with 1 2 r1 r2 kv show ?case by (auto split: option.split)
qed simp

lemma commit_writes_slot:
  assumes "writes_succeed S" "rocks_ok S" "distinct (map fst (pt_write_set tx))" "vp_has_manager (vm_own V)"
    and "(slot, v) \<in> set (pt_write_set tx)"
  shows "Store.db_read S (vm_db (snd (snd (commit_transaction_changes S tx (en, V)))))
      (slot_key (pt_contract_address tx) slot) = Inr v"
proof -
  let ?c = "pt_contract_address tx" and ?kvs = "pt_write_set tx"
  let ?V0 = "set_world_storage ?c (contract_storage ?c V) V"
  obtain en' V' where c: "commit_slots S ?c ?kvs (en, ?V0) = (Inr (), en', V')"
    and r: "\<And>k. Store.db_read S (vm_db V') k =
      (case map_of (map (\<lambda>(s, v). (slot_key ?c s, v)) ?kvs) k of Some v \<Rightarrow> Inr v | None \<Rightarrow> Store.db_read S (vm_db ?V0) k)"
    using commit_slots_reads[OF assms(1-3), of ?c en ?V0] by blast
  have "map fst (map (\<lambda>(s, v). (slot_key ?c s, v)) ?kvs) = map (slot_key ?c) (map fst ?kvs)"
    by (induction ?kvs) auto
  then have "distinct (map fst (map (\<lambda>(s, v). (slot_key ?c s, v)) ?kvs))"
    using assms(3) by (simp only: distinct_map) (auto simp: inj_on_def)
  then have "map_of (map (\<lambda>(s, v). (slot_key ?c s, v)) ?kvs) (slot_key ?c slot) = Some v"
    using assms(5) by (intro map_of_is_SomeI) force+
  with r have "Store.db_read S (vm_db V') (slot_key ?c slot) = Inr v" by simp
  moreover have "?kvs \<noteq> []" using assms(5) by auto
  ultimately show ?thesis using assms(1,2,4) c
    by (simp add: commit_transaction_changes_def Let_def read_try_write)
qed

section \<open>Old transactions\<close>

lemma commit_slots_own:
  "vm_own (snd (snd (commit_slots S c kvs st))) = vm_own (snd st)"
proof (induction kvs arbitrary: st)
  case (Cons kv kvs)
  have "vm_own (snd st') = vm_own (snd st)" if "commit_slot S c kv st = Inr st'" for st'
    using that by (auto simp: commit_slot_def set_world_storage_def split: prod.splits sum.splits)
  with Cons show ?case by (simp split: sum.split)
qed simp

lemma commit_own [simp]: "vm_own (snd (snd (commit_transaction_changes S tx st))) = vm_own (snd st)"
proof -
  obtain en V where st: "st = (en, V)" by (cases st)
  let ?r = "commit_slots S (pt_contract_address tx) (pt_write_set tx)
    (en, set_world_storage (pt_contract_address tx) (contract_storage (pt_contract_address tx) V) V)"
  have "vm_own (snd (snd ?r)) = vm_own V" by (simp add: commit_slots_own set_world_storage_def)
  then show ?thesis unfolding st
    by (cases ?r) (auto simp: commit_transaction_changes_def Let_def split: sum.splits)
qed

lemma fold_commit_own: "vm_own (snd (fold (commit_id S) is st)) = vm_own (snd st)"
proof (induction "is" arbitrary: st)
  case (Cons i "is")
  have "vm_own (snd (commit_id S i st)) = vm_own (snd st)" by (simp add: commit_id_def split: option.split)
  with Cons show ?case by simp
qed simp

lemma sort_last:
  assumes "i \<in> set xs" "\<forall>j \<in> set xs. j \<le> (i :: u64)"
  obtains ys where "sort xs = ys @ [i]"
proof -
  have "sort xs \<noteq> []" using assms(1) by (cases xs) (auto simp: insort_not_Nil)
  then obtain ys x where s: "sort xs = ys @ [x]" by (cases "sort xs" rule: rev_cases) auto
  have "sorted (ys @ [x])" by (simp flip: s)
  then have max: "\<forall>j \<in> set ys. j \<le> x" by (simp add: sorted_append)
  have set: "set xs = set (ys @ [x])" by (simp flip: s)
  with assms max have "x = i" by (auto intro: order_antisym)
  with s that show thesis by blast
qed

text \<open>The entry \<open>i\<close> of \<open>active_transactions\<close> is \<open>tx\<close>, and it is the last one.\<close>

definition last_active :: "u64 \<Rightarrow> parallel_transaction \<Rightarrow> parallel_engine \<Rightarrow> bool" where
  "last_active i tx en \<longleftrightarrow> hm_get (en_active en) i = Some tx \<and> (\<forall>j. hm_get (en_active en) j \<noteq> None \<longrightarrow> j \<le> i)"

lemma last_active_add_writes:
  "last_active i tx en \<Longrightarrow> k \<noteq> i \<Longrightarrow> last_active i tx (add_writes k kvs en)"
  by (auto simp: last_active_def add_writes_def split: option.split)

lemma batch_id_below:
  assumes "t \<in> set (batch_of requests)" "length requests \<le> unat (i :: u64)"
  shows "pt_id t < i"
proof -
  obtain k where k: "k < length requests" "t = new_transaction k (requests ! k)"
    using batch_of_mem[OF assms(1)] by blast
  then have "unat (word_of_nat k :: u64) \<le> k" by (simp add: unsigned_of_nat)
  also have "k < unat i" using k(1) assms(2) by simp
  finally show ?thesis using k(2) by (simp add: word_less_nat_alt)
qed

lemma last_active_register:
  assumes "last_active i tx en" "length requests \<le> unat i"
  shows "last_active i tx (register_batch (batch_of requests) en)"
proof -
  have below: "pt_id t < i" if "find (\<lambda>tx. pt_id tx = j) (rev (batch_of requests)) = Some t" for j t
    using find_SomeD[OF that] batch_id_below[OF _ assms(2), of t] by simp
  have "find (\<lambda>tx. pt_id tx = i) (rev (batch_of requests)) = None"
    using below[of i] by (cases "find (\<lambda>tx. pt_id tx = i) (rev (batch_of requests))") (auto dest: find_SomeD)
  moreover have "j \<le> i" if "find (\<lambda>tx. pt_id tx = j) (rev (batch_of requests)) = Some t" for j t
    using below[OF that] find_SomeD[OF that] by simp
  ultimately show ?thesis using assms(1)
    by (auto simp: last_active_def register_active split: option.splits)
qed

lemma commit_all_last:
  assumes "last_active i tx (fst st)"
  obtains st' where "commit_all S st = snd (commit_transaction_changes S tx st')" "vm_own (snd st') = vm_own (snd st)"
proof -
  have "i \<in> set (map fst (en_active (fst st)))" "\<forall>j \<in> set (map fst (en_active (fst st))). j \<le> i"
    using assms map_of_SomeD[of "en_active (fst st)" i tx]
    by (force simp: last_active_def hm_get_def map_of_eq_None_iff)+
  then obtain ys where ys: "sort (map fst (en_active (fst st))) = ys @ [i]" by (rule sort_last)
  let ?st = "fold (commit_id S) ys st"
  have "hm_get (en_active (fst ?st)) i = Some tx" using assms by (simp add: last_active_def fold_commit_active)
  then have "commit_all S st = snd (commit_transaction_changes S tx ?st)"
    by (simp add: commit_all_def ys commit_id_def)
  with that fold_commit_own show thesis by blast
qed

text \<open>C7: Old transactions are committed again. An entry of \<open>active_transactions\<close> is never removed and
  the numbers of each batch start at zero, so the transaction with the highest number of an
  earlier, longer batch is committed after every later batch, whatever that did: each slot
  of its contract in its write set has its old value in the database again.\<close>

theorem old_transaction_commits_again:
  assumes "nv_engine nv = Some en" "reads_empty en" "\<And>txs. mset (order txs) = mset txs"
    and "execute_parallel_transactions fuel S order requests nv = Returned (results, nv')"
    and "rocks_ok S" "writes_succeed S" "vp_has_manager (en_own en)"
    and "last_active i tx en" "length requests \<le> unat i"
    and "distinct (map fst (pt_write_set tx))" "(slot, v) \<in> set (pt_write_set tx)"
  shows "Store.db_read S (vm_db (nv_vm nv')) (slot_key (pt_contract_address tx) slot) = Inr v"
proof -
  obtain found st1 where sp: "speculate fuel S (order (batch_of requests)) []
        (register_batch (batch_of requests) en, engine_view en (nv_vm nv)) = Returned (found, st1)"
    and nv': "nv' = leave_engine (vm_own (nv_vm nv)) (commit_all S st1)"
    using parallel_cases[OF assms(1-4)] .
  have ids: "pt_id t \<noteq> i" if "t \<in> set (order (batch_of requests))" for t
    using that mset_eq_setD[OF assms(3), of "batch_of requests"] batch_id_below[OF _ assms(9), of t] by auto
  have "last_active i tx (fst st1)"
    using speculate_engine[OF sp, of "last_active i tx"] last_active_register[OF assms(8,9)]
      last_active_add_writes ids by simp
  then obtain st2 where c: "commit_all S st1 = snd (commit_transaction_changes S tx st2)"
    and own: "vm_own (snd st2) = vm_own (snd st1)" by (rule commit_all_last)
  obtain en2 V2 where st2: "st2 = (en2, V2)" by (cases st2)
  have "vp_has_manager (vm_own (snd st1))"
    using speculate_shell[OF sp] assms(7) by (simp add: same_shell_def engine_view_def)
  then have "vp_has_manager (vm_own V2)" using own st2 by simp
  from commit_writes_slot[OF assms(6,5,10) this assms(11), of en2]
  show ?thesis using nv' c st2 by (simp add: leave_engine_def case_prod_unfold)
qed

definition old_transaction :: parallel_transaction where
  "old_transaction = (new_transaction 3 (''vault'', ''f'', [], ''alice'', None))\<lparr>pt_write_set := [(''05'', [7])]\<rparr>"

theorem old_transaction_commits_again_witness:
  "\<exists>results nv'. execute_parallel_transactions 5 sample_vm_env (\<lambda>txs. txs) []
      \<lparr>nv_vm = sample_vm [0], nv_engine = Some ((new_engine sample_private)\<lparr>en_active := [(3, old_transaction)]\<rparr>)\<rparr>
      = Returned (results, nv') \<and>
    Store.db_read sample_vm_env (vm_db (nv_vm nv')) (slot_key ''vault'' ''05'') = Inr [7]"
proof -
  let ?en = "(new_engine sample_private)\<lparr>en_active := [(3, old_transaction)]\<rparr>"
  let ?nv = "\<lparr>nv_vm = sample_vm [0], nv_engine = Some ?en\<rparr>"
  obtain results nv' where run: "execute_parallel_transactions 5 sample_vm_env (\<lambda>txs. txs) [] ?nv = Returned (results, nv')"
    by (simp add: execute_parallel_transactions_def execute_parallel_batch_def batch_loop.simps Let_def
        collect_conflicted_transactions_non_recursive_def case_prod_unfold)
  have "reads_empty ?en" "last_active 3 old_transaction ?en"
    by (auto simp: reads_empty_def last_active_def old_transaction_def split: if_splits)
  moreover have "writes_succeed sample_vm_env" by (simp add: writes_succeed_def sample_vm_env_def)
  ultimately have "Store.db_read sample_vm_env (vm_db (nv_vm nv')) (slot_key (pt_contract_address old_transaction) ''05'') = Inr [7]"
    by (intro old_transaction_commits_again[OF _ _ _ run, where en = ?en and i = 3])
      (simp_all add: rocks_ok_sample sample_private_def new_engine_def old_transaction_def)
  with run show ?thesis by (auto simp: old_transaction_def new_transaction_def)
qed

end
