(* ===== verification/Vm_Storage_Claims.thy ===== *)
theory Vm_Storage_Claims
  imports Vm_Frame Sample_Vm
begin

text \<open>
  Properties of the storage of a contract across calls: what the database holds of it is what the
  next call starts with, and a speculative run has already written its slots there.
\<close>

section \<open>Reading\<close>





lemma storage_prefix_nonempty [simp]: "storage_prefix c \<noteq> []"
  by (simp add: storage_prefix_def)


lemma dynamic_storage_accounts:
  "vm_accounts V' = vm_accounts V \<Longrightarrow> dynamic_storage S c V' = dynamic_storage S c V"
  by (simp add: dynamic_storage_def build_dynamic_storage_from_contract_state_def)





section \<open>Writing\<close>

lemma read_write_slots:
  assumes "rocks_ok S" "writes_succeed S" "distinct (map fst obj)"
  shows "Store.db_read S (write_slots S c obj d) (slot_key c s) =
    (case map_of obj s of Some w \<Rightarrow> Inr (slot_bytes S w) | None \<Rightarrow> Store.db_read S d (slot_key c s))"
  using assms(3)
proof (induction obj arbitrary: d)
  case (Cons kv obj)
  then have "map_of obj (fst kv) = None" by (auto simp: map_of_eq_None_iff)
  moreover have "write_slots S c (kv # obj) d =
      write_slots S c obj (try_write S (slot_key c (fst kv)) (slot_bytes S (snd kv)) d)"
    by (simp add: write_slots_def case_prod_unfold)
  ultimately show ?case using Cons read_try_write[OF assms(1,2)]
    by (cases kv) (auto split: option.split)
qed (simp add: write_slots_def)

lemma process_reads:
  assumes "process_execution_result_generically S c result V = Some V'" "vp_has_manager (vm_own V)"
    and "rocks_ok S" "writes_succeed S" "distinct (map fst (result_storage result))"
    and "(slot, w) \<in> set (result_storage result)" "slot \<noteq> balances_slot"
  shows "Store.db_read S (vm_db V') (slot_key c slot) = Inr (slot_bytes S w)"
proof -
  have "map_of (result_storage result) slot = Some w" using assms(5,6) by (rule map_of_is_SomeI)
  with read_write_slots[OF assms(3,4,5), of c "vm_db V" slot]
  have "Store.db_read S (write_slots S c (result_storage result) (vm_db V)) (slot_key c slot) = Inr (slot_bytes S w)"
    by simp
  with assms(1,2,7) show ?thesis
    by (auto simp: process_execution_result_generically_def Let_def read_try_write[OF assms(3,4)]
        split: option.splits)
qed

text \<open>C9: A speculative run is not speculative. When the run of a transaction comes back with a result,
  before any validation, every slot of the result is in the database under the key of the
  slot (the balances slot apart, which is written once more from another field).\<close>

theorem speculative_run_has_written:
  assumes "execute_speculative_transaction fuel S tx (en, V) = Returned (Inr result, en', V')"
    and "rocks_ok S" "writes_succeed S" "vp_has_manager (vm_own V)"
    and "distinct (map fst (result_storage result))" "(slot, w) \<in> set (result_storage result)"
    and "slot \<noteq> balances_slot"
  shows "Store.db_read S (vm_db V') (slot_key (pt_contract_address tx) slot) = Inr (slot_bytes S w)"
proof -
  obtain V1 where V1: "reload_stable S (pt_contract_address tx) V = Some V1"
    "vm_execute_program fuel S (pt_contract_address tx) (pt_function_name tx) (pt_args tx)
       (pt_sender tx) (pt_calldata tx) V1 = Returned (Inr result, V')"
    using assms(1) by (elim speculative_cases) auto
  from V1(2) obtain V2 g co oc b prog sel where "reload_versioned S (pt_contract_address tx) V1 = Some V2"
    and d: "dispatch_call fuel S co oc b (pt_contract_address tx) prog (pt_function_name tx) (pt_args tx) (pt_sender tx)
      (pt_calldata tx) sel (upd_own g V2) = Returned (Inr result, V')"
    and "same_shell V2 (upd_own g V2)"
    by (cases rule: execute_program_cases) auto
  with V1(1) assms(4) have m: "vp_has_manager (vm_own (upd_own g V2))"
    by (auto dest!: reload_stable_shell reload_versioned_shell simp: same_shell_def)
  from d obtain meta off where "run_and_process fuel S prog (prepare_generic_execution_args S (upd_own g V2)
        (pt_contract_address tx) (pt_function_name tx) (pt_args tx) (pt_sender tx) (pt_calldata tx) meta off) b
      (dynamic_storage S (pt_contract_address tx) (upd_own g V2)) (upd_own g V2) = Returned (Inr result, V')"
    by (cases rule: dispatch_call_cases) auto
  then obtain V3 where i: "run_interpreter fuel S prog (prepare_generic_execution_args S (upd_own g V2)
        (pt_contract_address tx) (pt_function_name tx) (pt_args tx) (pt_sender tx) (pt_calldata tx) meta off) b
      (dynamic_storage S (pt_contract_address tx) (upd_own g V2)) (upd_own g V2) = Returned (Inr result, V3)"
    and p: "process_execution_result_generically S (pt_contract_address tx) result V3 = Some V'"
    by (cases rule: run_and_process_cases) (auto simp: prepare_generic_execution_args_def)
  have "vp_has_manager (vm_own V3)" using interpreter_shell[OF i] m by (simp add: same_shell_def)
  from process_reads[OF p this assms(2,3,5-7)] show ?thesis .
qed

text \<open>The program PUSH0, PUSH0, SSTORE, STOP, filled up to ten bytes.\<close>

definition store_code :: bytes where
  "store_code = [0x5f, 0x5f, 0x55, 0, 0, 0, 0, 0, 0, 0]"

lemma run_store_code:
  assumes "bytecode_pc m = 0" "evm_stack m = []" "gas_used (execution_context m) = 0" "temp_storage_writes m = []"
  shows "run (Suc (Suc (Suc (Suc fuel)))) E exec store_code A m = Done (storage_manager (execution_context m))
    (create2_events (execution_context m))
    (Inr (add_storage_written_to_result E create_stop_action [(fmt_064x 0, to_big_endian 0)]))"
  using assms
  by (simp add: iterate_def store_code_def op_push0_def charge_def consume_gas_amount_def u256_add_def
      end_of_body_def finish_def op_sstore_def upd_world_def upd_context_def op_stop_def Let_def hm_insert_def)

definition store_result :: "'d externals \<Rightarrow> json" where
  "store_result E = add_storage_written_to_result E create_stop_action [(fmt_064x 0, to_big_endian 0)]"

lemma execute_store_code:
  assumes "state_data A = []"
  shows "Evm_Interp.execute_program (Suc (Suc (Suc (Suc (Suc fuel))))) E (Some store_code) A sm (Some st) False =
    Done sm [] (Inr (store_result E))"
proof -
  obtain ws where ws: "ensure_contract_owner_initialized E (world_state (initial_context E A sm (Some st) False))
      (contract_address A) (caller A) = Some ws"
    by (simp add: ensure_contract_owner_initialized_def)
  have "permission_granted E A ws = Some True"
    using assms by (simp add: permission_granted_def extract_function_selector_def)
  with ws show ?thesis
    by (simp add: Let_def store_result_def run_store_code initial_machine_def initial_context_def del: run.simps)
qed

lemma store_result_storage:
  "json_get (store_result E) ''storage'' = Some (JObject [(fmt_064x 0, hex0x E (to_big_endian 0))])"
  "json_get (store_result E) ''balances'' = None"
  by (simp_all add: store_result_def add_storage_written_to_result_def create_stop_action_def json_get_def
      storage_written_def jmap_insert_def)

lemma slot_not_balances: "fmt_064x w \<noteq> balances_slot"
  using length_fmt_064x[of w] by (auto simp: balances_slot_def simp del: length_fmt_064x)

lemma result_storage_store: "result_storage (store_result E) = [(fmt_064x 0, hex0x E (to_big_endian 0))]"
  by (simp add: result_storage_def store_result_storage)

lemma result_balance_store: "result_balance (store_result E) = None"
proof -
  have "json_get (JObject [(fmt_064x 0, hex0x E (to_big_endian 0))]) balances_slot = None"
    using slot_not_balances[of 0] by (simp add: json_get_def)
  then show ?thesis by (simp add: result_balance_def store_result_storage)
qed

text \<open>A call of \<open>store_code\<close> without a function name, on a machine that has no proxy for it.\<close>

lemma dispatch_store_code:
  "\<exists>V'. dispatch_call (Suc (Suc (Suc (Suc (Suc fuel))))) S co store_code b c store_code [] as s (Some []) sel V
    = Returned (Inr (store_result (interp_env S)), V')"
proof -
  have off: "find_function_offset_in_bytecode store_code 0 = Some 0"
    by (simp add: find_function_offset_in_bytecode_def store_code_def)
  have proc: "\<exists>V'. process_execution_result_generically S c (store_result (interp_env S)) V1 = Some V'" for V1
    by (simp add: process_execution_result_generically_def result_balance_store Let_def)
  have interp: "\<exists>V1. run_interpreter (Suc (Suc (Suc (Suc (Suc fuel))))) S store_code A b st V =
      Returned (Inr (store_result (interp_env S)), V1)" if "state_data A = []" for A st
    unfolding run_interpreter_def execute_store_code[OF that] by simp
  have run: "\<exists>V'. run_and_process (Suc (Suc (Suc (Suc (Suc fuel))))) S store_code A b st V =
      Returned (Inr (store_result (interp_env S)), V')" if sd: "state_data A = []" and ca: "contract_address A = c" for A st
  proof -
    obtain V1 where V1: "run_interpreter (Suc (Suc (Suc (Suc (Suc fuel))))) S store_code A b st V =
      Returned (Inr (store_result (interp_env S)), V1)" using interp[OF sd] by blast
    obtain V2 where "process_execution_result_generically S c (store_result (interp_env S)) V1 = Some V2"
      using proc by blast
    with V1 ca show ?thesis by (simp add: run_and_process_def)
  qed
  show ?thesis
    unfolding dispatch_call_def find_or_create_function_metadata_def
    by (simp add: direct_call_metadata_def off run prepare_generic_execution_args_def)
qed

definition store_call :: parallel_transaction where
  "store_call = new_transaction 0 (''vault'', [], [], ''alice'', Some [])"

lemma scan_empty: "scan_slots sample_vm_env [] p = []"
  by (simp add: scan_slots_def scan_prefix_def sample_vm_env_def entries_from_def)

lemma reload_sample:
  "reload_stable sample_vm_env ''vault'' (sample_vm cd) = Some (set_world_storage ''vault'' [] (sample_vm cd))"
  "reload_versioned sample_vm_env ''vault'' (set_world_storage ''vault'' [] (sample_vm cd)) =
    Some (set_world_storage ''vault'' [] (sample_vm cd))"
  by (simp_all add: reload_stable_def reload_versioned_def sample_vm_def sample_private_def scan_empty
      collect_slots_def check_balances_def load_resources_def Let_def hm_insert_def set_world_storage_def)

lemma store_call_runs:
  "\<exists>en' V'. execute_speculative_transaction (Suc (Suc (Suc (Suc (Suc 0))))) sample_vm_env store_call
     (new_engine sample_private, sample_vm store_code) = Returned (Inr (store_result (interp_env sample_vm_env)), en', V')"
proof -
  let ?V = "set_world_storage ''vault'' [] (sample_vm store_code)"
  have "real_bytecode ?V ''vault'' = Inr store_code" "proxy_target ?V ''vault'' = None"
    by (simp_all add: real_bytecode_def proxy_target_def set_world_storage_def sample_vm_def sample_account_def
        store_code_def)
  then have "\<exists>V'. vm_execute_program (Suc (Suc (Suc (Suc (Suc 0))))) sample_vm_env ''vault'' [] [] ''alice'' (Some []) ?V =
      Returned (Inr (store_result (interp_env sample_vm_env)), V')"
    by (simp add: vm_execute_program_def reload_sample Let_def dispatch_store_code)
  then obtain V' where "vm_execute_program (Suc (Suc (Suc (Suc (Suc 0))))) sample_vm_env ''vault'' [] [] ''alice'' (Some []) ?V =
      Returned (Inr (store_result (interp_env sample_vm_env)), V')" by blast
  then show ?thesis
    by (simp add: execute_speculative_transaction_def store_call_def new_transaction_def reload_sample)
qed

theorem speculative_run_has_written_witness:
  "\<exists>en' V'. execute_speculative_transaction (Suc (Suc (Suc (Suc (Suc 0))))) sample_vm_env store_call
     (new_engine sample_private, sample_vm store_code) = Returned (Inr (store_result (interp_env sample_vm_env)), en', V') \<and>
    Store.db_read sample_vm_env (vm_db V') (slot_key ''vault'' (fmt_064x 0)) = Inr (to_big_endian 0)"
proof -
  let ?E = "interp_env sample_vm_env"
  obtain en' V' where run: "execute_speculative_transaction (Suc (Suc (Suc (Suc (Suc 0))))) sample_vm_env store_call
     (new_engine sample_private, sample_vm store_code) = Returned (Inr (store_result ?E), en', V')"
    using store_call_runs by blast
  have "Store.db_read sample_vm_env (vm_db V') (slot_key (pt_contract_address store_call) (fmt_064x 0)) =
      Inr (slot_bytes sample_vm_env (hex0x ?E (to_big_endian 0)))"
    by (rule speculative_run_has_written[OF run])
      (simp_all add: rocks_ok_sample writes_succeed_sample sample_vm_def sample_private_def
        result_storage_store slot_not_balances)
  moreover have "slot_bytes sample_vm_env (hex0x ?E bs) = bs" for bs
    by (simp add: hex0x_def interp_env_def sample_vm_env_def starts_with_def)
  ultimately show ?thesis using run by (auto simp: store_call_def new_transaction_def)
qed



end
