(* ===== verification/Text.thy ===== *)
theory Text
  imports Formats
begin

text \<open>
  Text functions of the standard library that the loaders, the executor and the JSON-RPC engine
  use: \<open>str::trim\<close> on the white space of Unicode and \<open>str::strip_prefix\<close>.
\<close>

section \<open>White space and prefixes\<close>

text \<open>The white space of Unicode, in UTF-8.\<close>

definition white_space :: "string list" where
  "white_space = map (map char_of)
     ([[9], [10], [11], [12], [13], [32], [0xC2, 0x85], [0xC2, 0xA0], [0xE1, 0x9A, 0x80]] @
      map (\<lambda>i. [0xE2, 0x80, 0x80 + i]) [0..<11] @
      [[0xE2, 0x80, 0xA8], [0xE2, 0x80, 0xA9], [0xE2, 0x80, 0xAF], [0xE2, 0x81, 0x9F], [0xE3, 0x80, 0x80 :: nat]])"

fun strip_any :: "nat \<Rightarrow> string list \<Rightarrow> string \<Rightarrow> string" where
  "strip_any 0 ws s = s"
| "strip_any (Suc k) ws s =
     (case find (\<lambda>w. starts_with w s) ws of Some w \<Rightarrow> strip_any k ws (drop (length w) s) | None \<Rightarrow> s)"

definition trim_start :: "string \<Rightarrow> string" where
  "trim_start s = strip_any (length s) white_space s"

definition trim :: "string \<Rightarrow> string" where
  "trim s = (let t = trim_start s in rev (strip_any (length t) (map rev white_space) (rev t)))"

definition strip_prefix :: "string \<Rightarrow> string \<Rightarrow> string option" where
  "strip_prefix p s = (if starts_with p s then Some (drop (length p) s) else None)"

text \<open>\<open>str::find\<close> and \<open>str::contains\<close>.\<close>

fun find_sub :: "string \<Rightarrow> string \<Rightarrow> nat option" where
  "find_sub p s =
     (if starts_with p s then Some 0
      else case s of [] \<Rightarrow> None | _ # r \<Rightarrow> map_option Suc (find_sub p r))"

definition text_contains :: "string \<Rightarrow> string \<Rightarrow> bool" where
  "text_contains t p \<longleftrightarrow> find_sub p t \<noteq> None"

section \<open>Trimming\<close>

definition graphic :: "char \<Rightarrow> bool" where
  "graphic c \<longleftrightarrow> (of_char c :: nat) \<in> {33..126}"

lemma white_space_ends:
  assumes "w \<in> set white_space"
  shows "w \<noteq> [] \<and> \<not> graphic (hd w) \<and> \<not> graphic (last w)"
proof -
  have "list_all (\<lambda>w. w \<noteq> [] \<and> \<not> graphic (hd w) \<and> \<not> graphic (last w)) white_space"
    by (simp add: white_space_def graphic_def upt_rec)
  then show ?thesis using assms by (simp add: list_all_iff)
qed

lemma strip_any_none: "\<forall>w \<in> set ws. \<not> starts_with w s \<Longrightarrow> strip_any k ws s = s"
  by (cases k) (auto simp: find_None_iff split: option.split dest!: find_Some_iff[THEN iffD1])

lemma starts_with_hd: "starts_with w s \<Longrightarrow> w \<noteq> [] \<Longrightarrow> s \<noteq> [] \<and> hd s = hd w"
  by (cases w; cases s) (auto simp: starts_with_def)

lemma trim_graphic:
  assumes "s \<noteq> []" "graphic (hd s)" "graphic (last s)"
  shows "trim s = s"
proof -
  have "trim_start s = s"
    unfolding trim_start_def using assms white_space_ends starts_with_hd[of _ s] by (intro strip_any_none) metis
  moreover have "strip_any (length s) (map rev white_space) (rev s) = rev s"
  proof (rule strip_any_none, intro ballI notI)
    fix w assume "w \<in> set (map rev white_space)" and st: "starts_with w (rev s)"
    then obtain v where v: "v \<in> set white_space" "w = rev v" by auto
    with st white_space_ends[of v] starts_with_hd[of w "rev s"] show False
      using assms by (simp add: hd_rev)
  qed
  ultimately show ?thesis by (simp add: trim_def)
qed

lemma trim_Nil [simp]: "trim [] = []"
  by (simp add: trim_def trim_start_def)

end
