(* ===== verification/Zip_Reader.thy ===== *)
theory Zip_Reader
  imports Text "HOL-Library.Monad_Syntax"
begin

text \<open>
  The reader of bundle archives (\<open>lunee-ker/src/bundle_loader/zip_reader.rs\<close>): the search of the
  end record, the walk over the central directory and the extraction of an entry.

  An index outside the data panics, so every read is an \<open>option\<close> and \<open>None\<close> is the panic.
  Positions are sums of a few 16-bit and 32-bit fields; on the 64-bit targets of the kernel
  they stay far below the bound of \<open>usize\<close>, so they are numbers.  \<open>inflate\<close> stands for the crate
  \<open>miniz_oxide\<close>: the bytes it produces within the given capacity, or \<open>None\<close>.
\<close>

datatype bundle_error =
    File_Not_Found
  | Invalid_Zip
  | Compressed_Not_Supported
  | Uefi_Error
  | Allocation_Failed
  | Empty_Binary
  | Not_Initialized
  | Execution_Failed "32 word"

definition SIG_LOCAL :: nat where "SIG_LOCAL = 0x04034b50"
definition SIG_CENTRAL :: nat where "SIG_CENTRAL = 0x02014b50"
definition SIG_EOCD :: nat where "SIG_EOCD = 0x06054b50"

definition CD_HEADER_SIZE :: nat where "CD_HEADER_SIZE = 46"
definition LFH_HEADER_MIN :: nat where "LFH_HEADER_MIN = 30"
definition EOCD_MIN_SIZE :: nat where "EOCD_MIN_SIZE = 22"

section \<open>Reading\<close>

definition byte_at :: "bytes \<Rightarrow> nat \<Rightarrow> u8 option" where
  "byte_at d i = (if i < length d then Some (d ! i) else None)"

definition byte_slice :: "bytes \<Rightarrow> nat \<Rightarrow> nat \<Rightarrow> bytes option" where
  "byte_slice d a b = (if a \<le> b \<and> b \<le> length d then Some (take (b - a) (drop a d)) else None)"

definition r_u16 :: "bytes \<Rightarrow> nat \<Rightarrow> nat option" where
  "r_u16 d i = do {
     a \<leftarrow> byte_at d i;
     b \<leftarrow> byte_at d (i + 1);
     Some (unat a + 2 ^ 8 * unat b)}"

definition r_u32 :: "bytes \<Rightarrow> nat \<Rightarrow> nat option" where
  "r_u32 d i = do {
     a \<leftarrow> byte_at d i;
     b \<leftarrow> byte_at d (i + 1);
     c \<leftarrow> byte_at d (i + 2);
     e \<leftarrow> byte_at d (i + 3);
     Some (unat a + 2 ^ 8 * unat b + 2 ^ 16 * unat c + 2 ^ 24 * unat e)}"

section \<open>Opening an archive\<close>

record zip_reader =
  zr_data :: bytes
  zr_cd_offset :: nat
  zr_cd_size :: nat

fun find_signature :: "bytes \<Rightarrow> nat list \<Rightarrow> nat option option" where
  "find_signature d [] = Some None"
| "find_signature d (i # is) = do {
     w \<leftarrow> r_u32 d i;
     if w = SIG_EOCD then Some (Some i) else find_signature d is}"

definition find_eocd :: "bytes \<Rightarrow> nat option option" where
  "find_eocd d =
     (if length d < EOCD_MIN_SIZE then Some None
      else find_signature d
        (rev [length d - (65535 + EOCD_MIN_SIZE)..<length d - EOCD_MIN_SIZE + 1]))"

definition zip_new :: "bytes \<Rightarrow> (bundle_error + zip_reader) option" where
  "zip_new d = do {
     found \<leftarrow> find_eocd d;
     case found of
       None \<Rightarrow> Some (Inl Invalid_Zip)
     | Some eocd \<Rightarrow> do {
         size \<leftarrow> r_u32 d (eocd + 12);
         off \<leftarrow> r_u32 d (eocd + 16);
         if off + size > length d then Some (Inl Invalid_Zip)
         else Some (Inr \<lparr>zr_data = d, zr_cd_offset = off, zr_cd_size = size\<rparr>)}}"

section \<open>The central directory\<close>

record central =
  ce_method :: nat
  ce_comp_size :: nat
  ce_uncomp_size :: nat
  ce_fname_len :: nat
  ce_extra_len :: nat
  ce_comment_len :: nat
  ce_local_off :: nat

definition read_central :: "bytes \<Rightarrow> nat \<Rightarrow> central option" where
  "read_central d pos = do {
     m \<leftarrow> r_u16 d (pos + 10);
     cs \<leftarrow> r_u32 d (pos + 20);
     us \<leftarrow> r_u32 d (pos + 24);
     fl \<leftarrow> r_u16 d (pos + 28);
     el \<leftarrow> r_u16 d (pos + 30);
     cl \<leftarrow> r_u16 d (pos + 32);
     lo \<leftarrow> r_u32 d (pos + 42);
     Some \<lparr>ce_method = m, ce_comp_size = cs, ce_uncomp_size = us, ce_fname_len = fl,
       ce_extra_len = el, ce_comment_len = cl, ce_local_off = lo\<rparr>}"

definition ce_width :: "central \<Rightarrow> nat" where
  "ce_width c = CD_HEADER_SIZE + ce_fname_len c + ce_extra_len c + ce_comment_len c"

text \<open>
  The four readers have the same loop, \<open>while pos + CD_HEADER_SIZE <= end\<close> with a break at a
  foreign signature.  \<open>body\<close> is the rest of one pass: it ends the loop with a result, or goes on.
\<close>

datatype ('a, 'r) pass = Leave 'r | Go_On 'a

function central_loop ::
    "(central \<Rightarrow> nat \<Rightarrow> 'a \<Rightarrow> ('a, 'r) pass option) \<Rightarrow> ('a \<Rightarrow> 'r) \<Rightarrow> bytes \<Rightarrow> nat \<Rightarrow> nat \<Rightarrow> 'a \<Rightarrow> 'r option" where
  "central_loop body fin d e pos acc =
     (if e < pos + CD_HEADER_SIZE then Some (fin acc)
      else do {
        w \<leftarrow> r_u32 d pos;
        if w \<noteq> SIG_CENTRAL then Some (fin acc)
        else do {
          c \<leftarrow> read_central d pos;
          p \<leftarrow> body c (pos + CD_HEADER_SIZE) acc;
          case p of
            Leave r \<Rightarrow> Some r
          | Go_On acc' \<Rightarrow> central_loop body fin d e (pos + ce_width c) acc'}})"
  by pat_completeness auto
termination
  by (relation "measure (\<lambda>(body, fin, d, e, pos, acc). e - pos)")
    (auto simp: ce_width_def CD_HEADER_SIZE_def)

declare central_loop.simps [simp del]

definition walk ::
    "(central \<Rightarrow> nat \<Rightarrow> 'a \<Rightarrow> ('a, 'r) pass option) \<Rightarrow> ('a \<Rightarrow> 'r) \<Rightarrow> zip_reader \<Rightarrow> 'a \<Rightarrow> 'r option" where
  "walk body fin Z acc =
     central_loop body fin (zr_data Z) (zr_cd_offset Z + zr_cd_size Z) (zr_cd_offset Z) acc"

section \<open>The data of an entry\<close>

definition raw_data_from_local :: "zip_reader \<Rightarrow> nat \<Rightarrow> nat \<Rightarrow> (bundle_error + bytes) option" where
  "raw_data_from_local Z local_off len =
     (if length (zr_data Z) < local_off + LFH_HEADER_MIN then Some (Inl Invalid_Zip)
      else do {
        w \<leftarrow> r_u32 (zr_data Z) local_off;
        if w \<noteq> SIG_LOCAL then Some (Inl Invalid_Zip)
        else do {
          fl \<leftarrow> r_u16 (zr_data Z) (local_off + 26);
          el \<leftarrow> r_u16 (zr_data Z) (local_off + 28);
          let start = local_off + LFH_HEADER_MIN + fl + el;
          if start + len > length (zr_data Z) then Some (Inl Invalid_Zip)
          else map_option Inr (byte_slice (zr_data Z) start (start + len))}})"

type_synonym inflater = "bytes \<Rightarrow> nat \<Rightarrow> bytes option"

definition inflate_raw :: "inflater \<Rightarrow> bytes \<Rightarrow> nat \<Rightarrow> bundle_error + bytes" where
  "inflate_raw inflate compressed expected_size =
     (case inflate compressed (max expected_size 1) of Some out \<Rightarrow> Inr out | None \<Rightarrow> Inl Invalid_Zip)"

definition unpack :: "inflater \<Rightarrow> central \<Rightarrow> bytes \<Rightarrow> bundle_error + bytes" where
  "unpack inflate c raw =
     (if ce_method c = 0 then Inr raw
      else if ce_method c = 8 then inflate_raw inflate raw (ce_uncomp_size c)
      else Inl Compressed_Not_Supported)"

definition slashes :: "string \<Rightarrow> string" where
  "slashes s = map (\<lambda>c. if c = CHR 0x5C then CHR ''/'' else c) s"

definition names_match :: "bytes \<Rightarrow> bytes \<Rightarrow> bool" where
  "names_match a b \<longleftrightarrow> length a = length b \<and>
     list_all2 (\<lambda>x y. (if x = 0x5C then 0x2F else x) = (if y = 0x5C then 0x2F else y)) a b"

definition extract_body ::
    "inflater \<Rightarrow> zip_reader \<Rightarrow> string \<Rightarrow> central \<Rightarrow> nat \<Rightarrow> unit \<Rightarrow> (unit, bundle_error + bytes) pass option" where
  "extract_body inflate Z name c ns acc =
     (if length (zr_data Z) < ns + ce_fname_len c then Some (Leave (Inl File_Not_Found))
      else do {
        entry \<leftarrow> byte_slice (zr_data Z) ns (ns + ce_fname_len c);
        if names_match entry (bytes_of_string name) then do {
          raw \<leftarrow> raw_data_from_local Z (ce_local_off c) (ce_comp_size c);
          Some (Leave (case raw of Inl e \<Rightarrow> Inl e | Inr b \<Rightarrow> unpack inflate c b))}
        else Some (Go_On ())})"

definition extract_file :: "inflater \<Rightarrow> zip_reader \<Rightarrow> string \<Rightarrow> (bundle_error + bytes) option" where
  "extract_file inflate Z name = walk (extract_body inflate Z name) (\<lambda>_. Inl File_Not_Found) Z ()"

section \<open>Listing\<close>

text \<open>\<open>str::ends_with\<close>; the stem behind the last slash.\<close>

definition ends_with :: "string \<Rightarrow> string \<Rightarrow> bool" where
  "ends_with p s \<longleftrightarrow> starts_with (rev p) (rev s)"

definition after_last_slash :: "string \<Rightarrow> string" where
  "after_last_slash s = rev (takeWhile (\<lambda>c. c \<noteq> CHR ''/'') (rev s))"

text \<open>The normalised name of an entry: \<open>None\<close> when it ends behind the data or is not UTF-8.\<close>

definition entry_name :: "zip_reader \<Rightarrow> central \<Rightarrow> nat \<Rightarrow> string option option" where
  "entry_name Z c ns =
     (if length (zr_data Z) < ns + ce_fname_len c then Some None
      else do {
        b \<leftarrow> byte_slice (zr_data Z) ns (ns + ce_fname_len c);
        Some (if utf8_valid b then Some (slashes (string_of_bytes b)) else None)})"

definition app_name_of :: "string \<Rightarrow> string option" where
  "app_name_of norm =
     (case find_sub ''.slasset/'' norm of
        None \<Rightarrow> None
      | Some i \<Rightarrow> (let name = after_last_slash (take i norm) in if name \<noteq> [] then Some name else None))"

definition find_app_name :: "zip_reader \<Rightarrow> string option option" where
  "find_app_name Z = walk (\<lambda>c ns acc. do {
       n \<leftarrow> entry_name Z c ns;
       Some (case Option.bind n app_name_of of Some app \<Rightarrow> Leave (Some app) | None \<Rightarrow> Go_On acc)})
     (\<lambda>_. None) Z ()"

definition is_asset :: "string \<Rightarrow> bool" where
  "is_asset norm \<longleftrightarrow> \<not> ends_with ''/'' norm \<and> \<not> (starts_with ''base/'' norm \<and> ends_with ''.ovc'' norm) \<and>
     norm \<noteq> ''Maraset.yaml'' \<and> norm \<noteq> ''RAbstractallowing.xml'' \<and> norm \<noteq> []"

definition list_all_assets :: "inflater \<Rightarrow> zip_reader \<Rightarrow> (string \<times> bytes) list option" where
  "list_all_assets inflate Z = walk (\<lambda>c ns acc. do {
       n \<leftarrow> entry_name Z c ns;
       case n of
         None \<Rightarrow> Some (Go_On acc)
       | Some norm \<Rightarrow>
           if is_asset norm then do {
             raw \<leftarrow> raw_data_from_local Z (ce_local_off c) (ce_comp_size c);
             Some (Go_On (case raw of
                 Inl e \<Rightarrow> acc
               | Inr b \<Rightarrow> (case unpack inflate c b of Inl e \<Rightarrow> acc | Inr out \<Rightarrow> acc @ [(norm, out)])))}
           else Some (Go_On acc)})
     (\<lambda>acc. acc) Z []"

text \<open>
  The slice from \<open>"base/".len()\<close> to \<open>norm.len() - ".ovc".len()\<close> panics for a name whose ends
  overlap; none of the two texts allows that.
\<close>

definition ovc_stem :: "string \<Rightarrow> string option" where
  "ovc_stem norm =
     (if starts_with ''base/'' norm \<and> ends_with ''.ovc'' norm
      then (let stem = take (length norm - 9) (drop 5 norm) in if stem \<noteq> [] then Some stem else None)
      else None)"

definition list_ovc_modules :: "zip_reader \<Rightarrow> string list option" where
  "list_ovc_modules Z = walk (\<lambda>c ns acc. do {
       n \<leftarrow> entry_name Z c ns;
       Some (Go_On (case Option.bind n ovc_stem of Some stem \<Rightarrow> acc @ [stem] | None \<Rightarrow> acc))})
     (\<lambda>acc. acc) Z []"

end
