(* ===== verification/Bundle_Loader.thy ===== *)
theory Bundle_Loader
  imports Zip_Reader
begin

text \<open>
  The loaders of applications and drivers (\<open>marep_loader.rs\<close>, \<open>slul_loader.rs\<close> in
  \<open>lunee-ker/src/bundle_loader\<close>): manifest, AuthARoot check, discovery of the modules, installation of
  the assets on the boot partition.

  The bytes of a bundle come from the firmware's file system, so a load starts with them.  What a
  load does besides its result is a list of events in their order; the output on the screen is
  left out, apart from the outcome of the check.  Opening volumes and writing to them is the
  firmware: the parameters \<open>open_volume\<close>, \<open>create_dir\<close> and \<open>write_file\<close>.
\<close>

section \<open>Text\<close>

definition trim_quotes :: "string \<Rightarrow> string" where
  "trim_quotes s = rev (dropWhile (\<lambda>c. c = CHR 0x22) (rev (dropWhile (\<lambda>c. c = CHR 0x22) s)))"

text \<open>\<open>str::lines\<close>: the pieces between line feeds, without a last empty one, each without a final CR.\<close>

fun split_lines :: "string \<Rightarrow> string \<Rightarrow> string list" where
  "split_lines cur [] = (if cur = [] then [] else [rev cur])"
| "split_lines cur (c # cs) = (if c = CHR 0x0A then rev cur # split_lines [] cs else split_lines (c # cur) cs)"

definition chomp :: "string \<Rightarrow> string" where
  "chomp l = (if l \<noteq> [] \<and> last l = CHR 0x0D then butlast l else l)"

text \<open>The last piece ends at the end of the text, so its CR stays.\<close>

definition lines :: "string \<Rightarrow> string list" where
  "lines s = (let ls = split_lines [] s in
     if s \<noteq> [] \<and> last s \<noteq> CHR 0x0A then map chomp (butlast ls) @ [last ls] else map chomp ls)"

section \<open>The manifest\<close>

fun yaml_scan :: "string \<Rightarrow> string list \<Rightarrow> string option" where
  "yaml_scan prefix [] = None"
| "yaml_scan prefix (l # ls) =
     (case strip_prefix prefix (trim l) of
        Some rest \<Rightarrow> (let v = trim_quotes (trim rest) in if v \<noteq> [] then Some v else yaml_scan prefix ls)
      | None \<Rightarrow> yaml_scan prefix ls)"

definition extract_yaml_scalar :: "bytes \<Rightarrow> string \<Rightarrow> string option" where
  "extract_yaml_scalar yaml key =
     (if utf8_valid yaml then yaml_scan (key @ '':'') (lines (string_of_bytes yaml)) else None)"

definition extract_srid :: "bytes \<Rightarrow> string" where
  "extract_srid yaml = (case extract_yaml_scalar yaml ''SRID'' of Some v \<Rightarrow> v | None \<Rightarrow> ''SRID_unknown'')"

definition verify_auth_root :: "bytes \<Rightarrow> string \<Rightarrow> bool" where
  "verify_auth_root xml srid \<longleftrightarrow> utf8_valid xml \<and> text_contains (string_of_bytes xml) srid"

fun srid_scan :: "string list \<Rightarrow> string" where
  "srid_scan [] = ''SRID_unknown''"
| "srid_scan (l # ls) = (case strip_prefix ''SRID:'' (trim l) of Some rest \<Rightarrow> trim rest | None \<Rightarrow> srid_scan ls)"

definition slul_srid :: "bytes \<Rightarrow> string" where
  "slul_srid yaml = (if utf8_valid yaml then srid_scan (lines (string_of_bytes yaml)) else ''SRID_unknown'')"

section \<open>Installing the assets\<close>

definition backslashes :: "string \<Rightarrow> string" where
  "backslashes s = map (\<lambda>c. if c = CHR ''/'' then CHR 0x5C else c) s"

definition app_dir :: "string \<Rightarrow> string" where
  "app_dir app = ''SDC'' @ [CHR 0x5C] @ ''slu64'' @ [CHR 0x5C] @ ''apps'' @ [CHR 0x5C] @ app @ [CHR 0x5C]"

definition asset_dest :: "string \<Rightarrow> string \<Rightarrow> string" where
  "asset_dest app rel = app_dir app @ backslashes rel"

fun ucs2_from :: "bool \<Rightarrow> string \<Rightarrow> nat list" where
  "ucs2_from last_sep [] = []"
| "ucs2_from last_sep (c # cs) =
     (if c = CHR 0x5C \<or> c = CHR ''/'' then (if last_sep then [] else [0x5C]) @ ucs2_from True cs
      else of_char c # ucs2_from False cs)"

definition esp_ucs2 :: "string \<Rightarrow> nat list" where
  "esp_ucs2 path = 0x5C # ucs2_from True path @ [0]"

fun split_sep :: "string \<Rightarrow> string \<Rightarrow> string list" where
  "split_sep cur [] = [rev cur]"
| "split_sep cur (c # cs) = (if c = CHR 0x5C then rev cur # split_sep [] cs else split_sep (c # cur) cs)"

definition path_parts :: "string \<Rightarrow> string list" where
  "path_parts path = filter (\<lambda>p. p \<noteq> []) (split_sep [] path)"

fun join_parts :: "string list \<Rightarrow> string" where
  "join_parts [] = []"
| "join_parts [p] = p"
| "join_parts (p # ps) = p @ [CHR 0x5C] @ join_parts ps"

definition parent_dirs :: "string \<Rightarrow> string list" where
  "parent_dirs path = map (\<lambda>i. join_parts (take (Suc i) (path_parts path))) [0..<length (path_parts path) - 1]"

text \<open>A path with an inner NUL is no \<open>CStr16\<close>.\<close>

definition is_cstr16 :: "nat list \<Rightarrow> bool" where
  "is_cstr16 p \<longleftrightarrow> p \<noteq> [] \<and> last p = 0 \<and> 0 \<notin> set (butlast p)"

record 'v firmware =
  open_volume :: "'v \<Rightarrow> 'v option"
  create_dir :: "nat list \<Rightarrow> 'v \<Rightarrow> 'v"
  write_file :: "nat list \<Rightarrow> bytes \<Rightarrow> 'v \<Rightarrow> bool \<times> 'v"

definition esp_ensure_parent_dirs :: "'v firmware \<Rightarrow> string \<Rightarrow> 'v \<Rightarrow> 'v" where
  "esp_ensure_parent_dirs F path v = fold (\<lambda>dir v.
     if is_cstr16 (esp_ucs2 dir) then create_dir F (esp_ucs2 dir) v else v) (parent_dirs path) v"

definition esp_write_file :: "'v firmware \<Rightarrow> string \<Rightarrow> bytes \<Rightarrow> 'v \<Rightarrow> bool \<times> 'v" where
  "esp_write_file F path data v =
     (if is_cstr16 (esp_ucs2 path) then write_file F (esp_ucs2 path) data v else (False, v))"

definition install_one :: "'v firmware \<Rightarrow> string \<Rightarrow> bytes \<Rightarrow> nat \<times> 'v \<Rightarrow> nat \<times> 'v" where
  "install_one F dest data = (\<lambda>(w, v).
     case esp_write_file F dest data (esp_ensure_parent_dirs F dest v) of
       (ok, v') \<Rightarrow> (if ok then w + 1 else w, v'))"

definition install_on_volume :: "'v firmware \<Rightarrow> string \<Rightarrow> bytes \<Rightarrow> (string \<times> bytes) list \<Rightarrow> 'v \<Rightarrow> nat \<times> 'v" where
  "install_on_volume F app maraset assets v =
     (case fold (\<lambda>(rel, data). install_one F (asset_dest app rel) data) assets (0, v) of
        (w, v1) \<Rightarrow>
          (if maraset = [] then (w, v1)
           else (w, snd (install_one F (app_dir app @ ''Maraset.yaml'') maraset (w, v1)))))"

text \<open>The volumes in turn, up to the first one on which an asset was written.\<close>

fun install_volumes :: "'v firmware \<Rightarrow> string \<Rightarrow> bytes \<Rightarrow> (string \<times> bytes) list \<Rightarrow> 'v list \<Rightarrow> 'v list" where
  "install_volumes F app maraset assets [] = []"
| "install_volumes F app maraset assets (v # vs) =
     (case open_volume F v of
        None \<Rightarrow> v # install_volumes F app maraset assets vs
      | Some v1 \<Rightarrow>
          (case install_on_volume F app maraset assets v1 of
             (w, v2) \<Rightarrow> v2 # (if 0 < w then vs else install_volumes F app maraset assets vs)))"

definition install_assets_to_esp ::
    "'v firmware \<Rightarrow> inflater \<Rightarrow> zip_reader \<Rightarrow> string \<Rightarrow> bytes \<Rightarrow> 'v list \<Rightarrow> 'v list option" where
  "install_assets_to_esp F inflate Z app maraset vs = do {
     assets \<leftarrow> list_all_assets inflate Z;
     Some (if assets = [] \<and> maraset = [] then vs else install_volumes F app maraset assets vs)}"

section \<open>Applications\<close>

definition MAGIC :: bytes where
  "MAGIC = bytes_of_string ''# Vyft OVC v1.0''"

definition or_empty :: "bundle_error + bytes \<Rightarrow> bytes" where
  "or_empty r = (case r of Inr b \<Rightarrow> b | Inl _ \<Rightarrow> [])"

text \<open>The entry point of a bundle: present, not empty, and with the magic text.\<close>

definition check_oentry :: "bundle_error + bytes \<Rightarrow> bundle_error + bytes" where
  "check_oentry r = (case r of
      Inl e \<Rightarrow> Inl e
    | Inr b \<Rightarrow> (if b = [] then Inl Empty_Binary
              else if length b < length MAGIC \<or> take (length MAGIC) b \<noteq> MAGIC then Inl Empty_Binary else Inr b))"

definition ovc_path :: "char \<Rightarrow> string \<Rightarrow> string" where
  "ovc_path sep name = ''base'' @ [sep] @ name @ ''.ovc''"

fun load_modules :: "inflater \<Rightarrow> zip_reader \<Rightarrow> string list \<Rightarrow> (string \<times> bytes) list option" where
  "load_modules inflate Z [] = Some []"
| "load_modules inflate Z (name # names) = do {
     b \<leftarrow> extract_file inflate Z (ovc_path (CHR ''/'') name);
     b2 \<leftarrow> (if or_empty b \<noteq> [] then Some b else extract_file inflate Z (ovc_path (CHR 0x5C) name));
     rest \<leftarrow> load_modules inflate Z names;
     Some (if or_empty b2 \<noteq> [] then (name, or_empty b2) # rest else rest)}"

record 'v marep_load =
  ml_app_name :: string
  ml_modules :: "(string \<times> bytes) list"
  ml_auth_ok :: bool
  ml_volumes :: "'v list"

definition load_marep_modules ::
    "'v firmware \<Rightarrow> inflater \<Rightarrow> bytes \<Rightarrow> 'v list \<Rightarrow> (bundle_error + 'v marep_load) option" where
  "load_marep_modules F inflate bundle vs = do {
     opened \<leftarrow> zip_new bundle;
     case opened of
       Inl e \<Rightarrow> Some (Inl e)
     | Inr Z \<Rightarrow> do {
         m \<leftarrow> extract_file inflate Z ''Maraset.yaml'';
         x \<leftarrow> extract_file inflate Z ''RAbstractallowing.xml'';
         let maraset = or_empty m;
         let auth_ok = verify_auth_root (or_empty x) (extract_srid maraset);
         o1 \<leftarrow> extract_file inflate Z (ovc_path (CHR 0x5C) ''OEntry'');
         case check_oentry o1 of
           Inl e \<Rightarrow> Some (Inl e)
         | Inr _ \<Rightarrow> do {
             names \<leftarrow> list_ovc_modules Z;
             modules \<leftarrow> load_modules inflate Z names;
             found \<leftarrow> find_app_name Z;
             let app = (case found of Some a \<Rightarrow> a | None \<Rightarrow> ''App'');
             vs' \<leftarrow> install_assets_to_esp F inflate Z app maraset vs;
             Some (Inr \<lparr>ml_app_name = app, ml_modules = modules, ml_auth_ok = auth_ok, ml_volumes = vs'\<rparr>)}}}"

section \<open>Drivers\<close>

datatype driver_event =
    Auth_Checked string bool
  | Powered_On bytes
  | Gpu_Registered bytes
  | Font_Registered bytes bytes bytes

definition is_slu_gpu :: "inflater \<Rightarrow> zip_reader \<Rightarrow> bool option" where
  "is_slu_gpu inflate Z = map_option (\<lambda>r. or_empty r \<noteq> []) (extract_file inflate Z (ovc_path (CHR ''/'') ''GpuImpl''))"

definition start_slul :: "inflater \<Rightarrow> bytes \<Rightarrow> (driver_event list \<times> (bundle_error + unit)) option" where
  "start_slul inflate bundle = do {
     opened \<leftarrow> zip_new bundle;
     case opened of
       Inl e \<Rightarrow> Some ([], Inl e)
     | Inr Z \<Rightarrow> do {
         m \<leftarrow> extract_file inflate Z ''Maraset.yaml'';
         x \<leftarrow> extract_file inflate Z ''RAbstractallowing.xml'';
         let srid = slul_srid (or_empty m);
         let auth = Auth_Checked srid (verify_auth_root (or_empty x) srid);
         o1 \<leftarrow> extract_file inflate Z (ovc_path (CHR ''/'') ''OEntry'');
         case check_oentry o1 of
           Inl e \<Rightarrow> Some ([auth], Inl e)
         | Inr _ \<Rightarrow> do {
             a \<leftarrow> extract_file inflate Z (ovc_path (CHR ''/'') ''APrevent'');
             gpu \<leftarrow> is_slu_gpu inflate Z;
             g \<leftarrow> extract_file inflate Z (ovc_path (CHR ''/'') ''GpuImpl'');
             ttf \<leftarrow> extract_file inflate Z (ovc_path (CHR ''/'') ''TtfParser'');
             rast \<leftarrow> extract_file inflate Z (ovc_path (CHR ''/'') ''GlyphRasterizer'');
             woff \<leftarrow> extract_file inflate Z (ovc_path (CHR ''/'') ''WoffReader'');
             Some ([auth] @ (if or_empty a \<noteq> [] then [Powered_On (or_empty a)] else []) @
                 (if gpu then [Gpu_Registered (or_empty g)] else []) @
                 (if or_empty ttf \<noteq> [] \<and> or_empty rast \<noteq> []
                  then [Font_Registered (or_empty ttf) (or_empty rast) (or_empty woff)] else []),
               Inr ())}}}"

text \<open>\<open>load_drivers\<close> on the bundles that were read: the number of drivers started.\<close>

fun load_drivers :: "inflater \<Rightarrow> (bundle_error + bytes) list \<Rightarrow> (driver_event list \<times> nat) option" where
  "load_drivers inflate [] = Some ([], 0)"
| "load_drivers inflate (Inl e # rs) = load_drivers inflate rs"
| "load_drivers inflate (Inr b # rs) = do {
     (evs, r) \<leftarrow> start_slul inflate b;
     (evs', n) \<leftarrow> load_drivers inflate rs;
     Some (evs @ evs', (case r of Inr _ \<Rightarrow> n + 1 | Inl _ \<Rightarrow> n))}"

end
