(* ===== verification/Zip_Claims.thy ===== *)
theory Zip_Claims
  imports Zip_Reader
begin

text \<open>
  Properties of the reader of bundle archives: no operation reads outside the data, whatever the
  bytes are, and every file of an archive in the layout of the ZIP format comes out as it went in.
\<close>

section \<open>No read is outside the data\<close>

lemma byte_at_inside [simp]: "i < length d \<Longrightarrow> byte_at d i = Some (d ! i)"
  by (simp add: byte_at_def)

lemma r_u16_inside: "i + 2 \<le> length d \<Longrightarrow> \<exists>w. r_u16 d i = Some w"
  by (simp add: r_u16_def)

lemma r_u32_inside: "i + 4 \<le> length d \<Longrightarrow> \<exists>w. r_u32 d i = Some w"
  by (simp add: r_u32_def)

lemma byte_slice_inside: "a \<le> b \<Longrightarrow> b \<le> length d \<Longrightarrow> byte_slice d a b = Some (take (b - a) (drop a d))"
  by (simp add: byte_slice_def)

lemma read_central_inside:
  assumes "pos + CD_HEADER_SIZE \<le> length d"
  shows "\<exists>c. read_central d pos = Some c"
proof -
  have "\<exists>w. r_u16 d (pos + k) = Some w" if "k \<in> {10, 28, 30, 32}" for k
    using that assms by (intro r_u16_inside) (auto simp: CD_HEADER_SIZE_def)
  moreover have "\<exists>w. r_u32 d (pos + k) = Some w" if "k \<in> {20, 24, 42}" for k
    using that assms by (intro r_u32_inside) (auto simp: CD_HEADER_SIZE_def)
  ultimately obtain a b c e f g h where
    "r_u16 d (pos + 10) = Some a" "r_u16 d (pos + 28) = Some b" "r_u16 d (pos + 30) = Some c"
    "r_u16 d (pos + 32) = Some e" "r_u32 d (pos + 20) = Some f" "r_u32 d (pos + 24) = Some g"
    "r_u32 d (pos + 42) = Some h"
    by (metis insertCI)
  then show ?thesis by (simp add: read_central_def)
qed

lemma central_loop_inside:
  assumes "e \<le> length d" "\<And>c p a. p \<le> length d \<Longrightarrow> body c p a \<noteq> None"
  shows "central_loop body fin d e pos acc \<noteq> None"
  using assms
proof (induction body fin d e pos acc rule: central_loop.induct)
  case (1 body fin d e pos acc)
  show ?case
  proof (cases "e < pos + CD_HEADER_SIZE")
    case False
    then have inside: "pos + CD_HEADER_SIZE \<le> length d" using "1.prems"(1) by simp
    obtain w where w: "r_u32 d pos = Some w"
      using inside r_u32_inside[of pos d] by (auto simp: CD_HEADER_SIZE_def)
    obtain c where c: "read_central d pos = Some c" using read_central_inside[OF inside] by blast
    obtain p where p: "body c (pos + CD_HEADER_SIZE) acc = Some p" using "1.prems"(2)[OF inside] by blast
    show ?thesis
      using "1.IH"[OF False w _ c p] "1.prems" False
      by (subst central_loop.simps) (simp add: w c p split: pass.split)
  qed (simp add: central_loop.simps)
qed

definition reader_ok :: "zip_reader \<Rightarrow> bool" where
  "reader_ok Z \<longleftrightarrow> zr_cd_offset Z + zr_cd_size Z \<le> length (zr_data Z)"

lemma walk_inside:
  assumes "reader_ok Z" "\<And>c p a. p \<le> length (zr_data Z) \<Longrightarrow> body c p a \<noteq> None"
  shows "walk body fin Z acc \<noteq> None"
  unfolding walk_def using assms by (intro central_loop_inside) (simp_all add: reader_ok_def)

lemma raw_data_inside: "\<exists>r. raw_data_from_local Z off n = Some r"
proof (cases "length (zr_data Z) < off + LFH_HEADER_MIN")
  case False
  then have *: "off + 30 \<le> length (zr_data Z)" by (simp add: LFH_HEADER_MIN_def)
  obtain w where "r_u32 (zr_data Z) off = Some w" using * r_u32_inside[of off] by fastforce
  moreover obtain f where "r_u16 (zr_data Z) (off + 26) = Some f" using * r_u16_inside[of "off + 26"] by fastforce
  moreover obtain x where "r_u16 (zr_data Z) (off + 28) = Some x" using * r_u16_inside[of "off + 28"] by fastforce
  ultimately show ?thesis
    using False by (simp add: raw_data_from_local_def byte_slice_inside Let_def)
qed (simp add: raw_data_from_local_def)

lemma raw_data_then: "\<exists>y. Option.bind (raw_data_from_local Z off n) (\<lambda>r. Some (f r)) = Some y"
  using raw_data_inside[of Z off n] by auto

lemma entry_name_inside: "\<exists>r. entry_name Z c ns = Some r"
  by (simp add: entry_name_def byte_slice_inside)

lemma extract_body_inside: "extract_body inflate Z name c ns a \<noteq> None"
  using raw_data_inside[of Z "ce_local_off c" "ce_comp_size c"]
  by (auto simp: extract_body_def byte_slice_inside)

lemma find_signature_bound:
  assumes "\<forall>i \<in> set is. i + 4 \<le> length d"
  shows "\<exists>r. find_signature d is = Some r \<and> (\<forall>i. r = Some i \<longrightarrow> i \<in> set is)"
  using assms
proof (induction "is")
  case (Cons i "is")
  obtain w where "r_u32 d i = Some w" using Cons.prems r_u32_inside[of i d] by auto
  with Cons show ?case by (auto simp: split: if_splits)
qed simp

lemma find_eocd_bound: "\<exists>r. find_eocd d = Some r \<and> (\<forall>i. r = Some i \<longrightarrow> i + EOCD_MIN_SIZE \<le> length d)"
proof (cases "length d < EOCD_MIN_SIZE")
  case False
  then show ?thesis
    using find_signature_bound[of "rev [length d - (65535 + EOCD_MIN_SIZE)..<length d - EOCD_MIN_SIZE + 1]" d]
    by (fastforce simp: find_eocd_def EOCD_MIN_SIZE_def)
qed (simp add: find_eocd_def)

text \<open>C15: The reader of bundles never panics: for all bytes, opening them as an archive gives a reader
  or the error InvalidZip, and no operation of that reader indexes outside the data, whatever
  lengths and offsets the archive declares.\<close>

theorem zip_reader_never_panics:
  "case zip_new d of
     None \<Rightarrow> False
   | Some (Inl e) \<Rightarrow> e = Invalid_Zip
   | Some (Inr Z) \<Rightarrow> zr_data Z = d \<and> reader_ok Z \<and> extract_file inflate Z name \<noteq> None \<and>
       find_app_name Z \<noteq> None \<and> list_all_assets inflate Z \<noteq> None \<and> list_ovc_modules Z \<noteq> None"
proof -
  obtain r where r: "find_eocd d = Some r" "\<forall>i. r = Some i \<longrightarrow> i + EOCD_MIN_SIZE \<le> length d"
    using find_eocd_bound by blast
  have readers: "extract_file inflate Z name \<noteq> None \<and> find_app_name Z \<noteq> None \<and>
      list_all_assets inflate Z \<noteq> None \<and> list_ovc_modules Z \<noteq> None" if ok: "reader_ok Z" for Z
  proof (intro conjI)
    show "extract_file inflate Z name \<noteq> None"
      unfolding extract_file_def by (rule walk_inside[OF ok extract_body_inside])
    show "find_app_name Z \<noteq> None" unfolding find_app_name_def
      using entry_name_inside[of Z] by (intro walk_inside[OF ok]) (auto simp: bind_eq_None_conv)
    show "list_all_assets inflate Z \<noteq> None" unfolding list_all_assets_def
      using entry_name_inside[of Z]
      by (intro walk_inside[OF ok]) (auto simp: bind_eq_None_conv raw_data_then split: option.splits)
    show "list_ovc_modules Z \<noteq> None" unfolding list_ovc_modules_def
      using entry_name_inside[of Z] by (intro walk_inside[OF ok]) (auto simp: bind_eq_None_conv)
  qed
  show ?thesis
  proof (cases r)
    case (Some i)
    then have i: "i + 22 \<le> length d" using r by (simp add: EOCD_MIN_SIZE_def)
    obtain n off where "r_u32 d (i + 12) = Some n" "r_u32 d (i + 16) = Some off"
      using i r_u32_inside[of "i + 12" d] r_u32_inside[of "i + 16" d] by auto
    then show ?thesis using Some r readers by (simp add: zip_new_def reader_ok_def)
  qed (simp add: zip_new_def r)
qed

section \<open>Archives\<close>

text \<open>
  The layout of the ZIP format for stored files, without extra fields and comments: the local
  records, the central directory and the end record.  \<open>crc\<close> is the checksum, which the reader
  does not look at; an entry is a name and the data.
\<close>

definition le_bytes :: "nat \<Rightarrow> nat \<Rightarrow> bytes" where
  "le_bytes n v = map (\<lambda>i. word_of_nat (v div 2 ^ (8 * i))) [0..<n]"

type_synonym zip_entry = "bytes \<times> bytes"

definition local_header :: "(bytes \<Rightarrow> nat) \<Rightarrow> zip_entry \<Rightarrow> bytes" where
  "local_header crc = (\<lambda>(n, b). le_bytes 4 SIG_LOCAL @ le_bytes 2 20 @ le_bytes 2 0 @ le_bytes 2 0 @ le_bytes 2 0 @
     le_bytes 2 0 @ le_bytes 4 (crc b) @ le_bytes 4 (length b) @ le_bytes 4 (length b) @
     le_bytes 2 (length n) @ le_bytes 2 0)"

definition local_record :: "(bytes \<Rightarrow> nat) \<Rightarrow> zip_entry \<Rightarrow> bytes" where
  "local_record crc = (\<lambda>(n, b). local_header crc (n, b) @ n @ b)"

definition central_header :: "(bytes \<Rightarrow> nat) \<Rightarrow> nat \<Rightarrow> zip_entry \<Rightarrow> bytes" where
  "central_header crc off = (\<lambda>(n, b). le_bytes 4 SIG_CENTRAL @ le_bytes 2 20 @ le_bytes 2 20 @ le_bytes 2 0 @
     le_bytes 2 0 @ le_bytes 2 0 @ le_bytes 2 0 @ le_bytes 4 (crc b) @ le_bytes 4 (length b) @
     le_bytes 4 (length b) @ le_bytes 2 (length n) @ le_bytes 2 0 @ le_bytes 2 0 @ le_bytes 2 0 @
     le_bytes 2 0 @ le_bytes 4 0 @ le_bytes 4 off)"

fun central_directory :: "(bytes \<Rightarrow> nat) \<Rightarrow> nat \<Rightarrow> zip_entry list \<Rightarrow> bytes" where
  "central_directory crc off [] = []"
| "central_directory crc off (e # es) =
     central_header crc off e @ fst e @ central_directory crc (off + length (local_record crc e)) es"

definition local_records :: "(bytes \<Rightarrow> nat) \<Rightarrow> zip_entry list \<Rightarrow> bytes" where
  "local_records crc es = concat (map (local_record crc) es)"

definition end_record :: "nat \<Rightarrow> nat \<Rightarrow> nat \<Rightarrow> bytes" where
  "end_record count len off = le_bytes 4 SIG_EOCD @ le_bytes 2 0 @ le_bytes 2 0 @ le_bytes 2 count @ le_bytes 2 count @
     le_bytes 4 len @ le_bytes 4 off @ le_bytes 2 0"

definition archive :: "(bytes \<Rightarrow> nat) \<Rightarrow> zip_entry list \<Rightarrow> bytes" where
  "archive crc es = local_records crc es @ central_directory crc 0 es @
     end_record (length es) (length (central_directory crc 0 es)) (length (local_records crc es))"

definition entries_fit :: "(bytes \<Rightarrow> nat) \<Rightarrow> zip_entry list \<Rightarrow> bool" where
  "entries_fit crc es \<longleftrightarrow> list_all (\<lambda>(n, b). length n < 2 ^ 16 \<and> length b < 2 ^ 32) es \<and>
     length (local_records crc es) < 2 ^ 32 \<and> length (central_directory crc 0 es) < 2 ^ 32"

section \<open>Reading an archive\<close>

lemma le_bytes_2: "le_bytes 2 v = [word_of_nat v, word_of_nat (v div 2 ^ 8)]"
  by (simp add: le_bytes_def upt_rec)

lemma le_bytes_4:
  "le_bytes 4 v = [word_of_nat v, word_of_nat (v div 2 ^ 8), word_of_nat (v div 2 ^ 16), word_of_nat (v div 2 ^ 24)]"
  by (simp add: le_bytes_def upt_rec)

lemma le_16: "v < 2 ^ 16 \<Longrightarrow> unat (word_of_nat v :: u8) + 2 ^ 8 * unat (word_of_nat (v div 2 ^ 8) :: u8) = v"
  by (simp add: unsigned_of_nat take_bit_eq_mod)

lemma le_32:
  assumes "v < 2 ^ 32"
  shows "unat (word_of_nat v :: u8) + 2 ^ 8 * unat (word_of_nat (v div 2 ^ 8) :: u8) +
    2 ^ 16 * unat (word_of_nat (v div 2 ^ 16) :: u8) + 2 ^ 24 * unat (word_of_nat (v div 2 ^ 24) :: u8) = v"
proof -
  have split: "v mod (2 ^ i * 2 ^ 8) = 2 ^ i * (v div 2 ^ i mod 2 ^ 8) + v mod 2 ^ i" for i
    by (rule mod_mult2_eq)
  have u: "unat (word_of_nat k :: u8) = k mod 2 ^ 8" for k :: nat
    by (simp add: unsigned_of_nat take_bit_eq_mod)
  have "v mod 2 ^ 8 + 2 ^ 8 * (v div 2 ^ 8 mod 2 ^ 8) = v mod 2 ^ 16"
    using split[of 8] by (simp only: power_add[symmetric] numeral_Bit0_div_2 add.commute) simp
  moreover have "v mod 2 ^ 16 + 2 ^ 16 * (v div 2 ^ 16 mod 2 ^ 8) = v mod 2 ^ 24"
    using split[of 16] by (simp only: power_add[symmetric] add.commute) simp
  moreover have "v mod 2 ^ 24 + 2 ^ 24 * (v div 2 ^ 24 mod 2 ^ 8) = v"
    using split[of 24] assms by (simp only: power_add[symmetric] add.commute) simp
  ultimately show ?thesis unfolding u by (simp only: add.assoc)
qed

lemma byte_at_append: "byte_at (xs @ ys) (length xs + i) = byte_at ys i"
  by (simp add: byte_at_def nth_append)

lemma r_u16_append: "r_u16 (xs @ ys) (length xs + i) = r_u16 ys i"
  by (simp only: r_u16_def add.assoc byte_at_append)

lemma r_u32_append: "r_u32 (xs @ ys) (length xs + i) = r_u32 ys i"
  by (simp only: r_u32_def add.assoc byte_at_append)

lemma r_u16_le: "v < 2 ^ 16 \<Longrightarrow> length xs = i \<Longrightarrow> r_u16 (xs @ le_bytes 2 v @ ys) i = Some v"
  using r_u16_append[of xs "le_bytes 2 v @ ys" 0] le_16[of v] by (simp add: r_u16_def le_bytes_2 byte_at_def)

lemma r_u32_le: "v < 2 ^ 32 \<Longrightarrow> length xs = i \<Longrightarrow> r_u32 (xs @ le_bytes 4 v @ ys) i = Some v"
  using r_u32_append[of xs "le_bytes 4 v @ ys" 0] le_32[of v] by (simp add: r_u32_def le_bytes_4 byte_at_def)

lemma length_le_bytes [simp]: "length (le_bytes n v) = n"
  by (simp add: le_bytes_def)

lemma length_central_header [simp]: "length (central_header crc off e) = 46"
  by (cases e) (simp add: central_header_def)

lemma length_local_header [simp]: "length (local_header crc e) = 30"
  by (cases e) (simp add: local_header_def)

lemmas le_explicit = le_bytes_2 le_bytes_4 byte_at_def

lemma central_header_fields:
  assumes "length n < 2 ^ 16" "length b < 2 ^ 32" "off < 2 ^ 32"
  shows "r_u32 (central_header crc off (n, b) @ ys) 0 = Some SIG_CENTRAL"
    and "read_central (central_header crc off (n, b) @ ys) 0 =
      Some \<lparr>ce_method = 0, ce_comp_size = length b, ce_uncomp_size = length b, ce_fname_len = length n,
        ce_extra_len = 0, ce_comment_len = 0, ce_local_off = off\<rparr>"
proof -
  show "r_u32 (central_header crc off (n, b) @ ys) 0 = Some SIG_CENTRAL"
    using r_u32_le[of SIG_CENTRAL "[]"] by (simp add: central_header_def SIG_CENTRAL_def)
  have "r_u16 (central_header crc off (n, b) @ ys) 10 = Some 0"
    "r_u16 (central_header crc off (n, b) @ ys) 30 = Some 0"
    "r_u16 (central_header crc off (n, b) @ ys) 32 = Some 0"
    by (simp_all add: central_header_def r_u16_def le_explicit)
  moreover have "r_u16 (central_header crc off (n, b) @ ys) 28 = Some (length n)"
    using le_16[OF assms(1)] by (simp add: central_header_def r_u16_def le_explicit)
  moreover have "r_u32 (central_header crc off (n, b) @ ys) 20 = Some (length b)"
    "r_u32 (central_header crc off (n, b) @ ys) 24 = Some (length b)"
    using le_32[OF assms(2)] by (simp_all add: central_header_def r_u32_def le_explicit)
  moreover have "r_u32 (central_header crc off (n, b) @ ys) 42 = Some off"
    using le_32[OF assms(3)] by (simp add: central_header_def r_u32_def le_explicit)
  ultimately show "read_central (central_header crc off (n, b) @ ys) 0 =
      Some \<lparr>ce_method = 0, ce_comp_size = length b, ce_uncomp_size = length b, ce_fname_len = length n,
        ce_extra_len = 0, ce_comment_len = 0, ce_local_off = off\<rparr>"
    by (simp add: read_central_def)
qed

lemma local_header_fields:
  assumes "length n < 2 ^ 16"
  shows "r_u32 (local_header crc (n, b) @ ys) 0 = Some SIG_LOCAL"
    and "r_u16 (local_header crc (n, b) @ ys) 26 = Some (length n)"
    and "r_u16 (local_header crc (n, b) @ ys) 28 = Some 0"
proof -
  show "r_u32 (local_header crc (n, b) @ ys) 0 = Some SIG_LOCAL"
    using r_u32_le[of SIG_LOCAL "[]"] by (simp add: local_header_def SIG_LOCAL_def)
  show "r_u16 (local_header crc (n, b) @ ys) 26 = Some (length n)"
    using le_16[OF assms] by (simp add: local_header_def r_u16_def le_explicit)
  show "r_u16 (local_header crc (n, b) @ ys) 28 = Some 0"
    by (simp add: local_header_def r_u16_def le_explicit)
qed

lemma read_central_append: "read_central (xs @ ys) (length xs) = read_central ys 0"
  using r_u16_append[of xs ys] r_u32_append[of xs ys] by (simp add: read_central_def)

lemma local_record_read:
  assumes "zr_data Z = xs @ local_record crc (n, b) @ ys" "length n < 2 ^ 16"
  shows "raw_data_from_local Z (length xs) (length b) = Some (Inr b)"
proof -
  have d: "zr_data Z = xs @ (local_header crc (n, b) @ n @ b @ ys)"
    using assms(1) by (simp add: local_record_def)
  note f = local_header_fields[OF assms(2), of crc b "n @ b @ ys"]
  have "r_u32 (zr_data Z) (length xs) = Some SIG_LOCAL"
    using r_u32_append[of xs "local_header crc (n, b) @ n @ b @ ys" 0] f(1) d by simp
  moreover have "r_u16 (zr_data Z) (length xs + 26) = Some (length n)"
    "r_u16 (zr_data Z) (length xs + 28) = Some 0"
    using f(2,3) d by (simp_all only: r_u16_append)
  ultimately show ?thesis
    by (simp add: raw_data_from_local_def d LFH_HEADER_MIN_def byte_slice_def Let_def)
qed

text \<open>The entry of the directory record \<open>c\<close>, whose name is at \<open>ns\<close>.\<close>

definition entry_at :: "zip_reader \<Rightarrow> central \<Rightarrow> nat \<Rightarrow> zip_entry \<Rightarrow> bool" where
  "entry_at Z c ns = (\<lambda>(n, b). ce_method c = 0 \<and> ce_fname_len c = length n \<and>
     byte_slice (zr_data Z) ns (ns + length n) = Some n \<and> ns + length n \<le> length (zr_data Z) \<and>
     raw_data_from_local Z (ce_local_off c) (ce_comp_size c) = Some (Inr b))"

fun visit :: "(zip_entry \<Rightarrow> 'a \<Rightarrow> ('a, 'r) pass) \<Rightarrow> ('a \<Rightarrow> 'r) \<Rightarrow> zip_entry list \<Rightarrow> 'a \<Rightarrow> 'r" where
  "visit step fin [] acc = fin acc"
| "visit step fin (e # es) acc = (case step e acc of Leave r \<Rightarrow> r | Go_On a \<Rightarrow> visit step fin es a)"

lemma central_loop_visit:
  assumes "zr_data Z = xs @ central_directory crc (length lx) es @ ys"
    and "zr_data Z = lx @ local_records crc es @ ly"
    and "list_all (\<lambda>(n, b). length n < 2 ^ 16 \<and> length b < 2 ^ 32) es"
    and "length lx + length (local_records crc es) < 2 ^ 32"
    and "\<And>c ns en acc. entry_at Z c ns en \<Longrightarrow> body c ns acc = Some (step en acc)"
  shows "central_loop body fin (zr_data Z) (length xs + length (central_directory crc (length lx) es)) (length xs) acc
    = Some (visit step fin es acc)"
  using assms(1-4)
proof (induction es arbitrary: xs lx acc)
  case Nil
  then show ?case by (simp add: central_loop.simps CD_HEADER_SIZE_def)
next
  case (Cons en es)
  obtain n b where en: "en = (n, b)" by (cases en)
  let ?off = "length lx" and ?next = "length lx + length (local_record crc en)"
  let ?rest = "central_directory crc ?next es @ ys"
  have fits: "length n < 2 ^ 16" "length b < 2 ^ 32" "?off < 2 ^ 32" using Cons.prems(3,4) en by simp_all
  have d: "zr_data Z = xs @ (central_header crc ?off (n, b) @ (n @ ?rest))"
    using Cons.prems(1) en by simp
  have sig: "r_u32 (zr_data Z) (length xs) = Some SIG_CENTRAL"
    using r_u32_append[of xs _ 0] central_header_fields(1)[OF fits] d by simp
  define c where "c = \<lparr>ce_method = 0, ce_comp_size = length b, ce_uncomp_size = length b,
    ce_fname_len = length n, ce_extra_len = 0, ce_comment_len = 0, ce_local_off = ?off\<rparr>"
  have c: "read_central (zr_data Z) (length xs) = Some c"
    unfolding d read_central_append c_def by (rule central_header_fields(2)[OF fits])
  have l: "zr_data Z = lx @ local_record crc (n, b) @ (local_records crc es @ ly)"
    using Cons.prems(2) en by (simp add: local_records_def)
  have "byte_slice (zr_data Z) (length xs + CD_HEADER_SIZE) (length xs + CD_HEADER_SIZE + length n) = Some n"
    using d by (simp add: byte_slice_def CD_HEADER_SIZE_def)
  then have "entry_at Z c (length xs + CD_HEADER_SIZE) en"
    using local_record_read[OF l fits(1)] d by (simp add: entry_at_def en c_def CD_HEADER_SIZE_def)
  note body = assms(5)[OF this]
  have w: "ce_width c = 46 + length n" by (simp add: ce_width_def c_def CD_HEADER_SIZE_def)
  have next_l: "zr_data Z = (lx @ local_record crc en) @ local_records crc es @ ly" using l en by simp
  have next_d: "zr_data Z = (xs @ central_header crc ?off en @ n) @ central_directory crc (length (lx @ local_record crc en)) es @ ys"
    using d en by simp
  have "central_loop body fin (zr_data Z)
      (length (xs @ central_header crc ?off en @ n) + length (central_directory crc (length (lx @ local_record crc en)) es))
      (length (xs @ central_header crc ?off en @ n)) a = Some (visit step fin es a)" for a
    using Cons.prems(3,4) en by (intro Cons.IH[OF next_d next_l]) (simp_all add: local_records_def)
  then have "central_loop body fin (zr_data Z) (length xs + length (central_directory crc ?off (en # es)))
      (length xs + ce_width c) a = Some (visit step fin es a)" for a
    using en w by (simp add: add.assoc)
  then show ?case
    using en by (subst central_loop.simps)
      (simp add: sig c body[unfolded CD_HEADER_SIZE_def en] CD_HEADER_SIZE_def split: pass.split)
qed

section \<open>What the operations give for an archive\<close>

lemma find_signature_here: "r_u32 d i = Some SIG_EOCD \<Longrightarrow> find_signature d (i # is) = Some (Some i)"
  by simp

lemma zip_new_archive:
  assumes "entries_fit crc es"
  shows "zip_new (archive crc es) = Some (Inr \<lparr>zr_data = archive crc es,
    zr_cd_offset = length (local_records crc es), zr_cd_size = length (central_directory crc 0 es)\<rparr>)"
proof -
  let ?d = "archive crc es" and ?l = "length (local_records crc es)" and ?c = "length (central_directory crc 0 es)"
  let ?xs = "local_records crc es @ central_directory crc 0 es"
  let ?e = "end_record (length es) ?c ?l"
  have d: "?d = ?xs @ ?e" by (simp add: archive_def)
  have len: "length ?d = length ?xs + 22" by (simp add: d end_record_def)
  have e: "r_u32 ?e 0 = Some SIG_EOCD"
    using r_u32_le[of SIG_EOCD "[]" 0] by (simp add: end_record_def SIG_EOCD_def)
  have s: "r_u32 ?e 12 = Some ?c" "r_u32 ?e 16 = Some ?l"
    using le_32[of ?c] le_32[of ?l] assms
    by (simp_all add: end_record_def r_u32_def le_explicit entries_fit_def)
  have "rev [length ?d - (65535 + EOCD_MIN_SIZE)..<length ?d - EOCD_MIN_SIZE + 1] =
      length ?xs # rev [length ?d - (65535 + EOCD_MIN_SIZE)..<length ?xs]"
    by (simp add: len EOCD_MIN_SIZE_def)
  moreover have "r_u32 ?d (length ?xs) = Some SIG_EOCD" using r_u32_append[of ?xs ?e 0] e d by simp
  ultimately have "find_eocd ?d = Some (Some (length ?xs))"
    using len by (simp add: find_eocd_def EOCD_MIN_SIZE_def)
  moreover have "r_u32 ?d (length ?xs + 12) = Some ?c" "r_u32 ?d (length ?xs + 16) = Some ?l"
    unfolding d r_u32_append by (fact s)+
  ultimately show ?thesis using len by (simp add: zip_new_def)
qed

text \<open>The operations on a list of entries.\<close>

definition stored_file :: "zip_entry list \<Rightarrow> string \<Rightarrow> bundle_error + bytes" where
  "stored_file es name = (case find (\<lambda>(n, b). names_match n (bytes_of_string name)) es of
     Some (n, b) \<Rightarrow> Inr b | None \<Rightarrow> Inl File_Not_Found)"

definition plain_name :: "bytes \<Rightarrow> string option" where
  "plain_name n = (if utf8_valid n then Some (slashes (string_of_bytes n)) else None)"

definition stored_assets :: "zip_entry list \<Rightarrow> (string \<times> bytes) list" where
  "stored_assets es = List.map_filter (\<lambda>(n, b).
     case plain_name n of Some s \<Rightarrow> if is_asset s then Some (s, b) else None | None \<Rightarrow> None) es"

definition stored_modules :: "zip_entry list \<Rightarrow> string list" where
  "stored_modules es = List.map_filter (\<lambda>(n, b). Option.bind (plain_name n) ovc_stem) es"

lemma visit_extract:
  "visit (\<lambda>(n, b) _. if names_match n (bytes_of_string name) then Leave (Inr b) else Go_On ())
     (\<lambda>_. Inl File_Not_Found) es () = stored_file es name"
  by (induction es) (auto simp: stored_file_def split: prod.splits)

lemma visit_collect:
  "visit (\<lambda>e acc. Go_On (case f e of Some x \<Rightarrow> acc @ [x] | None \<Rightarrow> acc)) (\<lambda>acc. acc) es acc =
     acc @ List.map_filter f es"
  by (induction es arbitrary: acc) (auto simp: map_filter_simps split: option.splits)

lemma entry_name_at: "entry_at Z c ns (n, b) \<Longrightarrow> entry_name Z c ns = Some (plain_name n)"
  by (auto simp: entry_at_def entry_name_def plain_name_def)

text \<open>The reader of an archive, and its operations.\<close>

definition opened :: "(bytes \<Rightarrow> nat) \<Rightarrow> zip_entry list \<Rightarrow> zip_reader" where
  "opened crc es = \<lparr>zr_data = archive crc es, zr_cd_offset = length (local_records crc es),
     zr_cd_size = length (central_directory crc 0 es)\<rparr>"

lemma walk_archive:
  assumes "entries_fit crc es" "\<And>c ns en acc. entry_at (opened crc es) c ns en \<Longrightarrow> body c ns acc = Some (step en acc)"
  shows "walk body fin (opened crc es) acc = Some (visit step fin es acc)"
  using central_loop_visit[of "opened crc es" "local_records crc es" crc "[]" es _ _ body step fin acc] assms
  by (simp add: walk_def opened_def archive_def entries_fit_def)

lemma extract_archive: "entries_fit crc es \<Longrightarrow> extract_file inflate (opened crc es) name = Some (stored_file es name)"
  unfolding extract_file_def visit_extract[symmetric]
  by (rule walk_archive) (auto simp: entry_at_def extract_body_def unpack_def)

lemma assets_archive: "entries_fit crc es \<Longrightarrow> list_all_assets inflate (opened crc es) = Some (stored_assets es)"
proof -
  assume fit: "entries_fit crc es"
  have "list_all_assets inflate (opened crc es) = Some (visit (\<lambda>e acc. Go_On (case (\<lambda>(n, b).
      case plain_name n of Some s \<Rightarrow> if is_asset s then Some (s, b) else None | None \<Rightarrow> None) e of
      Some x \<Rightarrow> acc @ [x] | None \<Rightarrow> acc)) (\<lambda>acc. acc) es [])"
    unfolding list_all_assets_def
    by (rule walk_archive[OF fit]) (auto simp: entry_name_at entry_at_def unpack_def split: option.splits prod.splits)
  then show ?thesis unfolding visit_collect stored_assets_def by simp
qed

lemma modules_archive: "entries_fit crc es \<Longrightarrow> list_ovc_modules (opened crc es) = Some (stored_modules es)"
proof -
  assume fit: "entries_fit crc es"
  have "list_ovc_modules (opened crc es) = Some (visit (\<lambda>e acc. Go_On (case (\<lambda>(n, b).
      Option.bind (plain_name n) ovc_stem) e of Some x \<Rightarrow> acc @ [x] | None \<Rightarrow> acc)) (\<lambda>acc. acc) es [])"
    unfolding list_ovc_modules_def
    by (rule walk_archive[OF fit]) (auto simp: entry_name_at split: option.splits prod.splits)
  then show ?thesis unfolding visit_collect stored_modules_def by simp
qed

definition stored_app_name :: "zip_entry list \<Rightarrow> string option" where
  "stored_app_name es = (case List.map_filter (\<lambda>(n, b). Option.bind (plain_name n) app_name_of) es of
     [] \<Rightarrow> None | app # _ \<Rightarrow> Some app)"

lemma app_name_archive: "entries_fit crc es \<Longrightarrow> find_app_name (opened crc es) = Some (stored_app_name es)"
proof -
  assume fit: "entries_fit crc es"
  have "find_app_name (opened crc es) = Some (visit (\<lambda>(n, b) acc. case Option.bind (plain_name n) app_name_of of
      Some app \<Rightarrow> Leave (Some app) | None \<Rightarrow> Go_On acc) (\<lambda>_. None) es ())"
    unfolding find_app_name_def
    by (rule walk_archive[OF fit]) (auto simp: entry_name_at split: option.splits prod.splits)
  moreover have "visit (\<lambda>(n, b) acc. case Option.bind (plain_name n) app_name_of of
      Some app \<Rightarrow> Leave (Some app) | None \<Rightarrow> Go_On acc) (\<lambda>_. None) es () = stored_app_name es"
    by (induction es) (auto simp: stored_app_name_def map_filter_simps split: option.splits)
  ultimately show ?thesis by simp
qed

lemmas archive_reads = zip_new_archive[folded opened_def] extract_archive assets_archive modules_archive
  app_name_archive

text \<open>C14: An archive comes out as it went in.  For every list of files that fits the ZIP format, the reader
  opens the archive with these files, and its operations are those on the list: extract_file
  gives the data of the first file whose name matches, list_all_assets the assets with their
  data, and list_ovc_modules the names of the modules.\<close>

theorem archive_roundtrip:
  assumes "entries_fit crc es"
  shows "\<exists>Z. zip_new (archive crc es) = Some (Inr Z) \<and> extract_file inflate Z name = Some (stored_file es name) \<and>
    list_all_assets inflate Z = Some (stored_assets es) \<and> list_ovc_modules Z = Some (stored_modules es)"
  using archive_reads[OF assms] by blast

text \<open>A small bundle: one module and one asset.\<close>

definition sample_entries :: "zip_entry list" where
  "sample_entries = [(bytes_of_string ''base/M.ovc'', [35, 32]), (bytes_of_string ''p/a'', [1, 2])]"

theorem archive_roundtrip_witness:
  "\<exists>Z. zip_new (archive (\<lambda>_. 7) sample_entries) = Some (Inr Z) \<and>
    extract_file (\<lambda>_ _. None) Z (''base'' @ CHR 0x5C # ''M.ovc'') = Some (Inr [35, 32]) \<and>
    list_all_assets (\<lambda>_ _. None) Z = Some [(''p/a'', [1, 2])] \<and>
    list_ovc_modules Z = Some [''M'']"
proof -
  have "entries_fit (\<lambda>_. 7) sample_entries"
    by (simp add: entries_fit_def sample_entries_def local_records_def local_record_def)
  moreover have "stored_file sample_entries (''base'' @ CHR 0x5C # ''M.ovc'') = Inr [35, 32]"
    "stored_assets sample_entries = [(''p/a'', [1, 2])]"
    "stored_modules sample_entries = [''M'']" by code_simp+
  ultimately show ?thesis
    using archive_roundtrip[of "\<lambda>_. 7" sample_entries "\<lambda>_ _. None" "''base'' @ CHR 0x5C # ''M.ovc''"] by simp
qed

end
