(* ===== verification/Bundle_Claims.thy ===== *)
theory Bundle_Claims
  imports Bundle_Loader Zip_Claims
begin

text \<open>
  Properties of the bundle loaders: a load never panics, and what a driver or an application is
  given depends on the files of its archive, not on the AuthARoot check.
\<close>

section \<open>Drivers\<close>

definition file_of :: "zip_entry list \<Rightarrow> string \<Rightarrow> bytes" where
  "file_of es name = or_empty (stored_file es (ovc_path (CHR ''/'') name))"

text \<open>What a driver does once its entry point is accepted.\<close>

definition driver_actions :: "zip_entry list \<Rightarrow> driver_event list" where
  "driver_actions es =
     (if file_of es ''APrevent'' \<noteq> [] then [Powered_On (file_of es ''APrevent'')] else []) @
     (if file_of es ''GpuImpl'' \<noteq> [] then [Gpu_Registered (file_of es ''GpuImpl'')] else []) @
     (if file_of es ''TtfParser'' \<noteq> [] \<and> file_of es ''GlyphRasterizer'' \<noteq> []
      then [Font_Registered (file_of es ''TtfParser'') (file_of es ''GlyphRasterizer'') (file_of es ''WoffReader'')]
      else [])"

lemma start_slul_archive:
  assumes "entries_fit crc es" "check_oentry (stored_file es (ovc_path (CHR ''/'') ''OEntry'')) = Inr b"
  shows "start_slul inflate (archive crc es) = Some (Auth_Checked (slul_srid (or_empty (stored_file es ''Maraset.yaml'')))
      (verify_auth_root (or_empty (stored_file es ''RAbstractallowing.xml''))
        (slul_srid (or_empty (stored_file es ''Maraset.yaml'')))) # driver_actions es, Inr ())"
  using assms(2) archive_reads[OF assms(1)]
  by (simp add: start_slul_def is_slu_gpu_def Let_def driver_actions_def file_of_def)

text \<open>The files of an archive that the check reads.\<close>

definition check_files :: "bytes list" where
  "check_files = [bytes_of_string ''Maraset.yaml'', bytes_of_string ''RAbstractallowing.xml'']"

definition without_check_files :: "zip_entry list \<Rightarrow> zip_entry list" where
  "without_check_files es = filter (\<lambda>(n, b). n \<notin> set check_files) es"

lemma find_filter_other: "(\<And>x. x \<in> set xs \<Longrightarrow> P x \<Longrightarrow> Q x) \<Longrightarrow> find P (filter Q xs) = find P xs"
  by (induction xs) auto

lemma file_without_check_files:
  assumes "\<And>n. n \<in> set check_files \<Longrightarrow> \<not> names_match n (bytes_of_string name)"
  shows "stored_file (without_check_files es) name = stored_file es name"
  using assms unfolding stored_file_def without_check_files_def
  by (subst find_filter_other) auto

lemma names_match_Cons: "names_match (x # xs) (y # ys) \<Longrightarrow> (if x = 0x5C then 0x2F else x) = (if y = 0x5C then 0x2F else y)"
  by (simp add: names_match_def)

lemma module_is_no_check_file:
  assumes "n \<in> set check_files"
  shows "\<not> names_match n (bytes_of_string (ovc_path (CHR ''/'') name))"
proof
  assume m: "names_match n (bytes_of_string (ovc_path (CHR ''/'') name))"
  have "bytes_of_string (ovc_path (CHR ''/'') name) = 98 # bytes_of_string (''ase'' @ CHR ''/'' # name @ ''.ovc'')"
    by (simp add: ovc_path_def bytes_of_string_def)
  moreover have "hd n = 77 \<or> hd n = 82" "n \<noteq> []"
    using assms by (auto simp: check_files_def bytes_of_string_def)
  then obtain ns where "n = 77 # ns \<or> n = 82 # ns" by (cases n) auto
  ultimately show False using m by (auto dest!: names_match_Cons)
qed

lemma local_records_without: "length (local_records crc (without_check_files es)) \<le> length (local_records crc es)"
  by (induction es) (auto simp: local_records_def without_check_files_def)

lemma central_without: "length (central_directory crc o1 (without_check_files es)) \<le> length (central_directory crc o2 es)"
proof (induction es arbitrary: o1 o2)
  case (Cons e es)
  show ?case
  proof (cases "fst e \<in> set check_files")
    case True
    then show ?thesis using Cons[of o1 "o2 + length (local_record crc e)"]
      by (simp add: without_check_files_def case_prod_unfold)
  next
    case False
    then show ?thesis
      using Cons[of "o1 + length (local_record crc e)" "o2 + length (local_record crc e)"]
      by (simp add: without_check_files_def case_prod_unfold)
  qed
qed (simp add: without_check_files_def)

lemma entries_fit_without: "entries_fit crc es \<Longrightarrow> entries_fit crc (without_check_files es)"
  using local_records_without[of crc es] central_without[of crc 0 es 0]
  by (auto simp: entries_fit_def without_check_files_def list_all_iff)

text \<open>C19: A driver runs whatever the AuthARoot check says.  A bundle with an accepted entry point is
  started, its power-on handler is run and its modules are registered; the same bundle without
  its manifest and its authorisation file does exactly the same.  The check itself passes for an
  empty authorisation file when the manifest has an empty SRID line.\<close>

theorem driver_runs_unverified:
  assumes "entries_fit crc es" "check_oentry (stored_file es (ovc_path (CHR ''/'') ''OEntry'')) = Inr b"
  shows "(\<exists>auth. start_slul inflate (archive crc es) = Some (auth # driver_actions es, Inr ())) \<and>
    (\<exists>auth. start_slul inflate (archive crc (without_check_files es)) = Some (auth # driver_actions es, Inr ())) \<and>
    verify_auth_root [] (slul_srid (bytes_of_string ''SRID:''))"
proof (intro conjI)
  note same = file_without_check_files[OF module_is_no_check_file]
  have "driver_actions (without_check_files es) = driver_actions es" by (simp add: driver_actions_def file_of_def same)
  then show "\<exists>auth. start_slul inflate (archive crc (without_check_files es)) = Some (auth # driver_actions es, Inr ())"
    using start_slul_archive[OF entries_fit_without[OF assms(1)]] assms(2) by (simp add: same)
  show "\<exists>auth. start_slul inflate (archive crc es) = Some (auth # driver_actions es, Inr ())"
    using start_slul_archive[OF assms] by simp
  have "trim ''SRID:'' = ''SRID:''" by (rule trim_graphic) (simp_all add: graphic_def)
  then have "srid_scan (lines ''SRID:'') = []" by (simp add: lines_def strip_prefix_def starts_with_def)
  moreover have "utf8_valid (bytes_of_string ''SRID:'')" by (simp add: bytes_of_string_def)
  ultimately have "slul_srid (bytes_of_string ''SRID:'') = []" by (simp add: slul_srid_def)
  then show "verify_auth_root [] (slul_srid (bytes_of_string ''SRID:''))"
    by (simp add: verify_auth_root_def string_of_bytes_def text_contains_def starts_with_def)
qed

definition sample_driver :: "zip_entry list" where
  "sample_driver = [(bytes_of_string ''base/OEntry.ovc'', MAGIC), (bytes_of_string ''base/APrevent.ovc'', [1])]"

lemma sample_reads:
  "stored_file sample_driver (ovc_path (CHR ''/'') ''OEntry'') = Inr MAGIC"
  "stored_file sample_driver (ovc_path (CHR ''/'') ''APrevent'') = Inr [1]"
  "stored_file sample_driver (ovc_path (CHR ''/'') ''GpuImpl'') = Inl File_Not_Found"
  "stored_file sample_driver (ovc_path (CHR ''/'') ''TtfParser'') = Inl File_Not_Found"
  by (simp_all add: sample_driver_def stored_file_def names_match_def ovc_path_def bytes_of_string_def)

theorem driver_runs_unverified_witness:
  "\<exists>auth. start_slul (\<lambda>_ _. None) (archive (\<lambda>_. 0) sample_driver) = Some ([auth, Powered_On [1]], Inr ())"
proof -
  have "entries_fit (\<lambda>_. 0) sample_driver"
    by (simp add: entries_fit_def sample_driver_def local_records_def local_record_def MAGIC_def)
  moreover have "check_oentry (stored_file sample_driver (ovc_path (CHR ''/'') ''OEntry'')) = Inr MAGIC"
    by (simp add: sample_reads check_oentry_def MAGIC_def bytes_of_string_def)
  moreover have "driver_actions sample_driver = [Powered_On [1]]"
    by (simp add: driver_actions_def file_of_def sample_reads or_empty_def)
  ultimately show ?thesis using driver_runs_unverified[of "\<lambda>_. 0" sample_driver MAGIC "\<lambda>_ _. None"] by simp
qed

section \<open>Applications\<close>

definition sep_byte :: "u8 \<Rightarrow> u8" where
  "sep_byte x = (if x = 0x5C then 0x2F else x)"

lemma names_match_iff: "names_match a b \<longleftrightarrow> map sep_byte a = map sep_byte b"
proof -
  have "names_match a b \<longleftrightarrow> list_all2 (\<lambda>x y. sep_byte x = sep_byte y) a b"
    by (auto simp: names_match_def sep_byte_def dest: list_all2_lengthD)
  also have "\<dots> \<longleftrightarrow> map sep_byte a = map sep_byte b"
    by (simp add: list.rel_eq[symmetric] list.rel_map)
  finally show ?thesis .
qed

lemma stored_file_backslash: "stored_file es (ovc_path (CHR 0x5C) name) = stored_file es (ovc_path (CHR ''/'') name)"
  by (simp add: stored_file_def names_match_iff ovc_path_def bytes_of_string_def sep_byte_def)

definition application_modules :: "zip_entry list \<Rightarrow> (string \<times> bytes) list" where
  "application_modules es =
     map (\<lambda>name. (name, file_of es name)) (filter (\<lambda>name. file_of es name \<noteq> []) (stored_modules es))"

lemma load_modules_archive:
  assumes "entries_fit crc es"
  shows "load_modules inflate (opened crc es) names =
    Some (map (\<lambda>name. (name, file_of es name)) (filter (\<lambda>name. file_of es name \<noteq> []) names))"
  by (induction names) (auto simp: extract_archive[OF assms] file_of_def stored_file_backslash)

lemma install_assets_archive:
  "entries_fit crc es \<Longrightarrow> \<exists>vs'. install_assets_to_esp F inflate (opened crc es) app maraset vs = Some vs'"
  by (simp add: install_assets_to_esp_def assets_archive)

text \<open>An application gets every module of its archive that is not empty, under its name, whatever the
  AuthARoot check says: its outcome is only recorded.\<close>

theorem application_loads:
  assumes "entries_fit crc es" "check_oentry (stored_file es (ovc_path (CHR ''/'') ''OEntry'')) = Inr b"
  shows "\<exists>L. load_marep_modules F inflate (archive crc es) vs = Some (Inr L) \<and> ml_modules L = application_modules es \<and>
    ml_app_name L = (case stored_app_name es of Some a \<Rightarrow> a | None \<Rightarrow> ''App'')"
proof -
  obtain vs' where "install_assets_to_esp F inflate (opened crc es) (case stored_app_name es of Some a \<Rightarrow> a | None \<Rightarrow> ''App'')
      (or_empty (stored_file es ''Maraset.yaml'')) vs = Some vs'"
    using install_assets_archive[OF assms(1)] by blast
  then show ?thesis
    using assms(2) archive_reads[OF assms(1)]
    by (simp add: load_marep_modules_def Let_def load_modules_archive[OF assms(1)] application_modules_def
        stored_file_backslash)
qed

section \<open>Where the assets go\<close>

lemma split_sep_append: "split_sep cur (xs @ CHR 0x5C # ys) = split_sep cur xs @ split_sep [] ys"
  by (induction xs arbitrary: cur) auto

lemma path_parts_append: "path_parts (xs @ CHR 0x5C # ys) = path_parts xs @ path_parts ys"
  by (simp add: path_parts_def split_sep_append)

lemma path_parts_plain: "CHR 0x5C \<notin> set p \<Longrightarrow> p \<noteq> [] \<Longrightarrow> path_parts p = [p]"
proof -
  assume p: "CHR 0x5C \<notin> set p" "p \<noteq> []"
  have "CHR 0x5C \<notin> set p \<Longrightarrow> split_sep cur p = [rev cur @ p]" for cur
    by (induction p arbitrary: cur) auto
  with p show ?thesis by (simp add: path_parts_def)
qed

text \<open>What a file system makes of a path: a component \<open>..\<close> leaves the directory before it.\<close>

fun resolve :: "string list \<Rightarrow> string list \<Rightarrow> string list" where
  "resolve acc [] = rev acc"
| "resolve acc (p # ps) = (if p = ''..'' then resolve (tl acc) ps else resolve (p # acc) ps)"

text \<open>
  An asset whose name starts with \<open>../\<close> is written outside of the directory of its application: nothing
  in the listing or in the path construction rejects the component.
\<close>

lemma asset_leaves_app_dir:
  assumes "app \<noteq> []" "CHR 0x5C \<notin> set app" "app \<noteq> ''..''"
  shows "resolve [] (path_parts (asset_dest app (''../'' @ rel))) =
    resolve [''apps'', ''slu64'', ''SDC''] (path_parts (backslashes rel))"
proof -
  have "asset_dest app (''../'' @ rel) = ''SDC'' @ CHR 0x5C # ''slu64'' @ CHR 0x5C # ''apps'' @ CHR 0x5C # app @
      CHR 0x5C # ''..'' @ CHR 0x5C # backslashes rel"
    by (simp add: asset_dest_def app_dir_def backslashes_def)
  then have "path_parts (asset_dest app (''../'' @ rel)) = [''SDC'', ''slu64'', ''apps'', app, ''..''] @ path_parts (backslashes rel)"
    using assms by (simp only: path_parts_append) (simp add: path_parts_plain)
  then show ?thesis using assms(3) by simp
qed

end
