(* ===== verification/Ipc_Ring.thy ===== *)
theory Ipc_Ring
  imports Prelude "HOL-Library.Monad_Syntax"
begin

text \<open>
  The ring buffer between the two kernels (\<open>lunee-ker/src/whesere_ipc.rs\<close>).  \<open>head\<close> and \<open>tail\<close> are
  running counters of \<open>usize\<close> that wrap around; a position in the buffer is a counter modulo
  \<open>BUFFER_SIZE\<close>.  The consumer, which advances \<open>tail\<close>, is on the other side and not in the
  repository.  \<open>None\<close> is the panic of plain arithmetic with overflow checks (\<open>oc\<close>).
\<close>

definition IPC_MAGIC :: u64 where "IPC_MAGIC = 0x574853525F495043"

abbreviation (input) BUFFER_SIZE :: nat where "BUFFER_SIZE \<equiv> 65536"

datatype ipc_message_type = System_Cmd | Network_Tx | Network_Rx | Graphics_Update

record shared_ring_buffer =
  rb_head :: u64
  rb_tail :: u64
  rb_buffer :: bytes

definition ring_new :: shared_ring_buffer where
  "ring_new = \<lparr>rb_head = 0, rb_tail = 0, rb_buffer = replicate BUFFER_SIZE 0\<rparr>"

definition u64_sub_checked :: "bool \<Rightarrow> u64 \<Rightarrow> u64 \<Rightarrow> u64 option" where
  "u64_sub_checked oc a b = (if oc \<and> a < b then None else Some (a - b))"

text \<open>One of the loops of \<open>push\<close>: the bytes go to \<open>(start + i) % BUFFER_SIZE\<close> and the places after it.\<close>

fun write_from :: "bool \<Rightarrow> u64 \<Rightarrow> nat \<Rightarrow> bytes \<Rightarrow> bytes \<Rightarrow> bytes option" where
  "write_from oc start i [] buf = Some buf"
| "write_from oc start i (b # bs) buf = do {
     p \<leftarrow> u64_add oc start (word_of_nat i);
     write_from oc start (Suc i) bs (buf[unat p mod BUFFER_SIZE := b])}"

definition len_bytes :: "nat \<Rightarrow> bytes" where
  "len_bytes n = [word_of_nat n, word_of_nat (n div 2 ^ 8)]"

definition push :: "bool \<Rightarrow> bytes \<Rightarrow> shared_ring_buffer \<Rightarrow> (bool \<times> shared_ring_buffer) option" where
  "push oc data r = do {
     available \<leftarrow> u64_sub_checked oc (of_nat BUFFER_SIZE) (rb_head r - rb_tail r);
     if unat available < length data + 2 then Some (False, r)
     else do {
       buf1 \<leftarrow> write_from oc (rb_head r) 0 (len_bytes (length data)) (rb_buffer r);
       buf2 \<leftarrow> (if data = [] then Some buf1
               else do {
                 start \<leftarrow> u64_add oc (rb_head r) 2;
                 write_from oc start 0 data buf1});
       Some (True, r\<lparr>rb_head := rb_head r + word_of_nat (2 + length data), rb_buffer := buf2\<rparr>)}}"

section \<open>The bytes in flight\<close>

definition used :: "shared_ring_buffer \<Rightarrow> nat" where
  "used r = unat (rb_head r - rb_tail r)"

definition ring_ok :: "shared_ring_buffer \<Rightarrow> bool" where
  "ring_ok r \<longleftrightarrow> length (rb_buffer r) = BUFFER_SIZE \<and> used r \<le> BUFFER_SIZE"

text \<open>What the consumer finds from \<open>tail\<close> on.\<close>

definition contents :: "shared_ring_buffer \<Rightarrow> bytes" where
  "contents r = map (\<lambda>k. rb_buffer r ! ((unat (rb_tail r) + k) mod BUFFER_SIZE)) [0..<used r]"

text \<open>The frame of a packet: its length in two bytes, and the packet.\<close>

definition frame :: "bytes \<Rightarrow> bytes" where
  "frame data = len_bytes (length data) @ data"

lemma ring_new_ok: "ring_ok ring_new \<and> contents ring_new = []"
  by (simp add: ring_ok_def used_def contents_def ring_new_def)

section \<open>Counters modulo the size\<close>

lemma unat_add_mod: "unat (a + word_of_nat i :: u64) mod BUFFER_SIZE = (unat a + i) mod BUFFER_SIZE"
proof -
  have "unat (a + word_of_nat i :: u64) = (unat a + i) mod 2 ^ 64"
    by (simp add: unat_word_ariths unsigned_of_nat take_bit_eq_mod mod_simps)
  then show ?thesis by (simp add: mod_mod_cancel)
qed

lemma head_from_tail: "rb_head r = rb_tail r + word_of_nat (used r)"
  by (simp add: used_def)

lemma head_mod: "(unat (rb_head r) + k) mod BUFFER_SIZE = (unat (rb_tail r) + used r + k) mod BUFFER_SIZE"
proof -
  have "unat (rb_head r) mod BUFFER_SIZE = (unat (rb_tail r) + used r) mod BUFFER_SIZE"
    using unat_add_mod[of "rb_tail r" "used r"] by (simp add: used_def)
  then show ?thesis by (metis mod_add_left_eq)
qed

lemma positions_differ:
  assumes "(t + i) mod BUFFER_SIZE = (t + j) mod BUFFER_SIZE" "i < j" "j < i + BUFFER_SIZE"
  shows False
proof -
  have "BUFFER_SIZE dvd (t + j) - (t + i)"
    using assms(1,2) mod_eq_dvd_iff_nat[of "t + i" "t + j" BUFFER_SIZE] by simp
  then have "BUFFER_SIZE dvd j - i" by simp
  then show False using assms(2,3) dvd_imp_le[of BUFFER_SIZE "j - i"] by linarith
qed

text \<open>The whole frame is written without overflow, or wraps in a build without the checks.\<close>

lemma write_from_places:
  assumes "\<not> oc \<or> unat start + i + length bs \<le> 2 ^ 64" "length buf = BUFFER_SIZE" "length bs \<le> BUFFER_SIZE"
  shows "\<exists>buf'. write_from oc start i bs buf = Some buf' \<and> length buf' = BUFFER_SIZE \<and>
    (\<forall>k < length bs. buf' ! ((unat start + i + k) mod BUFFER_SIZE) = bs ! k) \<and>
    (\<forall>j < BUFFER_SIZE. (\<forall>k < length bs. j \<noteq> (unat start + i + k) mod BUFFER_SIZE) \<longrightarrow> buf' ! j = buf ! j)"
  using assms
proof (induction bs arbitrary: i buf)
  case (Cons b bs)
  let ?p = "(unat start + i) mod BUFFER_SIZE"
  have add: "\<exists>p. u64_add oc start (word_of_nat i) = Some p \<and> unat p mod BUFFER_SIZE = ?p"
  proof (cases oc)
    case True
    then have "unat start + i < 2 ^ 64" using Cons.prems(1) by simp
    then have "unat start + unat (word_of_nat i :: u64) < 2 ^ 64"
      by (simp add: unsigned_of_nat take_bit_nat_eq_self)
    then show ?thesis using unat_add_mod[of start i] by simp
  qed (simp add: u64_add_def unat_add_mod)
  obtain buf' where rec: "write_from oc start (Suc i) bs (buf[?p := b]) = Some buf'" "length buf' = BUFFER_SIZE"
    and new: "\<And>k. k < length bs \<Longrightarrow> buf' ! ((unat start + Suc i + k) mod BUFFER_SIZE) = bs ! k"
    and old: "\<And>j. j < BUFFER_SIZE \<Longrightarrow> (\<forall>k < length bs. j \<noteq> (unat start + Suc i + k) mod BUFFER_SIZE) \<Longrightarrow>
      buf' ! j = buf[?p := b] ! j"
    using Cons.IH[of "Suc i" "buf[?p := b]"] Cons.prems by (auto simp del: mod_Suc_eq)
  have "?p \<noteq> (unat start + Suc i + k) mod BUFFER_SIZE" if "k < length bs" for k
    using positions_differ[of "unat start" i "Suc i + k"] that Cons.prems(3) by (auto simp: add.assoc)
  then have first: "buf' ! ?p = b" using old[of ?p] Cons.prems(2) by simp
  have "buf' ! ((unat start + i + k) mod BUFFER_SIZE) = (b # bs) ! k" if "k < length (b # bs)" for k
    using that first new by (cases k) simp_all
  moreover have "buf' ! j = buf ! j"
    if "j < BUFFER_SIZE" "\<forall>k < length (b # bs). j \<noteq> (unat start + i + k) mod BUFFER_SIZE" for j
  proof -
    have "j \<noteq> ?p" using that(2) by fastforce
    moreover have "\<forall>k < length bs. j \<noteq> (unat start + Suc i + k) mod BUFFER_SIZE" using that(2) by fastforce
    ultimately show ?thesis using old[OF that(1)] by simp
  qed
  ultimately show ?case using add rec by auto
qed simp

section \<open>Pushing a packet\<close>

lemma length_len_bytes [simp]: "length (len_bytes n) = 2"
  by (simp add: len_bytes_def)

lemma frame_nth: "m < 2 + length data \<Longrightarrow> frame data ! m = (if m < 2 then len_bytes (length data) ! m else data ! (m - 2))"
  by (simp add: frame_def nth_append)

text \<open>Both loops together write the frame from \<open>head\<close> on.\<close>

lemma write_frame:
  assumes "\<not> oc \<or> unat h + 2 + length data \<le> 2 ^ 64" "length buf = BUFFER_SIZE" "length data + 2 \<le> BUFFER_SIZE"
  obtains buf1 buf2 where "write_from oc h 0 (len_bytes (length data)) buf = Some buf1"
    "(if data = [] then Some buf1 else Option.bind (u64_add oc h 2) (\<lambda>start. write_from oc start 0 data buf1)) = Some buf2"
    "length buf2 = BUFFER_SIZE"
    "\<And>m. m < 2 + length data \<Longrightarrow> buf2 ! ((unat h + m) mod BUFFER_SIZE) = frame data ! m"
    "\<And>j. j < BUFFER_SIZE \<Longrightarrow> \<forall>m < 2 + length data. j \<noteq> (unat h + m) mod BUFFER_SIZE \<Longrightarrow> buf2 ! j = buf ! j"
proof -
  have fits: "\<not> oc \<or> unat h + 0 + length (len_bytes (length data)) \<le> 2 ^ 64" using assms(1) by auto
  obtain buf1 where b1: "write_from oc h 0 (len_bytes (length data)) buf = Some buf1" "length buf1 = BUFFER_SIZE"
    and n1: "\<And>k. k < 2 \<Longrightarrow> buf1 ! ((unat h + k) mod BUFFER_SIZE) = len_bytes (length data) ! k"
    and o1: "\<And>j. j < BUFFER_SIZE \<Longrightarrow> \<forall>k < 2. j \<noteq> (unat h + k) mod BUFFER_SIZE \<Longrightarrow> buf1 ! j = buf ! j"
    using write_from_places[OF fits assms(2)] by (simp only: length_len_bytes add_0_right) auto
  show thesis
  proof (cases "data = []")
    case True
    with b1 show thesis using that[of buf1 buf1] n1 o1 by (simp add: frame_nth)
  next
    case False
    define start where "start = h + 2"
    have add: "u64_add oc h 2 = Some start"
    proof (cases oc)
      case True
      then have "unat h + unat (2 :: u64) < 2 ^ 64" using assms(1) False by (cases data) simp_all
      then show ?thesis by (simp add: start_def)
    qed (simp add: u64_add_def start_def)
    have "\<not> oc \<or> unat start + 0 + length data \<le> 2 ^ 64"
    proof (cases oc)
      case True
      then have "unat h + unat (2 :: u64) < 2 ^ 64" using assms(1) False by (cases data) simp_all
      then have "unat start = unat h + 2" using unat_u64_add[of h 2] by (simp add: start_def)
      then show ?thesis using True assms(1) by simp
    qed simp
    from write_from_places[OF this b1(2)] assms(3) obtain buf2 where
      b2: "write_from oc start 0 data buf1 = Some buf2" "length buf2 = BUFFER_SIZE"
      and n2: "\<And>k. k < length data \<Longrightarrow> buf2 ! ((unat start + k) mod BUFFER_SIZE) = data ! k"
      and o2: "\<And>j. j < BUFFER_SIZE \<Longrightarrow> \<forall>k < length data. j \<noteq> (unat start + k) mod BUFFER_SIZE \<Longrightarrow> buf2 ! j = buf1 ! j"
      by auto
    have pos: "(unat start + k) mod BUFFER_SIZE = (unat h + (2 + k)) mod BUFFER_SIZE" for k
    proof -
      have "unat start mod BUFFER_SIZE = (unat h + 2) mod BUFFER_SIZE"
        using unat_add_mod[of h 2] by (simp add: start_def)
      then have "(unat start + k) mod BUFFER_SIZE = (unat h + 2 + k) mod BUFFER_SIZE" by (rule mod_add_cong) simp
      then show ?thesis by (simp only: add.assoc)
    qed
    have "buf2 ! ((unat h + m) mod BUFFER_SIZE) = frame data ! m" if m: "m < 2 + length data" for m
    proof (cases "m < 2")
      case True
      have "(unat h + m) mod BUFFER_SIZE \<noteq> (unat start + k) mod BUFFER_SIZE" if "k < length data" for k
        using positions_differ[of "unat h" m "2 + k"] that True assms(3) pos[of k] by auto
      then show ?thesis using o2[of "(unat h + m) mod BUFFER_SIZE"] n1[OF True] True m by (simp add: frame_nth)
    next
      case False
      then have "2 + (m - 2) = m" by simp
      then show ?thesis using n2[of "m - 2"] pos[of "m - 2"] m False by (simp add: frame_nth)
    qed
    moreover have "buf2 ! j = buf ! j"
      if "j < BUFFER_SIZE" "\<forall>m < 2 + length data. j \<noteq> (unat h + m) mod BUFFER_SIZE" for j
    proof -
      have "j \<noteq> (unat start + k) mod BUFFER_SIZE" if "k < length data" for k
        unfolding pos using that \<open>\<forall>m < 2 + length data. _\<close>[rule_format, of "2 + k"] by simp
      then show ?thesis using o1[of j] o2[of j] that by simp
    qed
    ultimately show thesis using that[of buf1 buf2] b1(1) b2 add False by simp
  qed
qed

lemma available: "ring_ok r \<Longrightarrow> \<exists>a. u64_sub_checked oc (of_nat BUFFER_SIZE) (rb_head r - rb_tail r) = Some a \<and>
    unat a = BUFFER_SIZE - used r"
  using unat_u64_sub[of "rb_head r - rb_tail r" "of_nat BUFFER_SIZE"]
  by (auto simp: u64_sub_checked_def ring_ok_def used_def word_less_nat_alt word_le_nat_alt)

text \<open>C18: The ring buffer is a queue of frames.  While at most BUFFER_SIZE bytes are in flight, pushing a
  packet that fits appends its frame (length, then data) to what the consumer will read and
  keeps everything before it, across the wrap of the position and of the counters; a packet
  that does not fit changes nothing.\<close>

theorem push_appends:
  assumes "ring_ok r" "\<not> oc \<or> unat (rb_head r) + 2 + length data \<le> 2 ^ 64"
  shows "\<exists>r'. push oc data r = Some (used r + length data + 2 \<le> BUFFER_SIZE, r') \<and> ring_ok r' \<and>
    rb_tail r' = rb_tail r \<and>
    contents r' = contents r @ (if used r + length data + 2 \<le> BUFFER_SIZE then frame data else [])"
proof (cases "used r + length data + 2 \<le> BUFFER_SIZE")
  case True
  obtain a where a: "u64_sub_checked oc (of_nat BUFFER_SIZE) (rb_head r - rb_tail r) = Some a"
    "unat a = BUFFER_SIZE - used r" using available[OF assms(1)] by blast
  have buf: "length (rb_buffer r) = BUFFER_SIZE" using assms(1) by (simp add: ring_ok_def)
  have small: "length data + 2 \<le> BUFFER_SIZE" using True by simp
  obtain buf1 buf2 where b: "write_from oc (rb_head r) 0 (len_bytes (length data)) (rb_buffer r) = Some buf1"
    "(if data = [] then Some buf1 else Option.bind (u64_add oc (rb_head r) 2) (\<lambda>start. write_from oc start 0 data buf1)) = Some buf2"
    "length buf2 = BUFFER_SIZE"
    and new: "\<And>m. m < 2 + length data \<Longrightarrow> buf2 ! ((unat (rb_head r) + m) mod BUFFER_SIZE) = frame data ! m"
    and old: "\<And>j. j < BUFFER_SIZE \<Longrightarrow> \<forall>m < 2 + length data. j \<noteq> (unat (rb_head r) + m) mod BUFFER_SIZE \<Longrightarrow>
      buf2 ! j = rb_buffer r ! j"
    using write_frame[OF assms(2) buf small] by blast
  define r' where "r' = r\<lparr>rb_head := rb_head r + word_of_nat (2 + length data), rb_buffer := buf2\<rparr>"
  have push: "push oc data r = Some (True, r')"
    using a b True by (simp add: push_def r'_def)
  have fields: "rb_buffer r' = buf2" "rb_tail r' = rb_tail r" by (simp_all add: r'_def)
  have used': "used r' = used r + (2 + length data)"
  proof -
    have "rb_head r' - rb_tail r' = word_of_nat (used r + (2 + length data))"
      by (simp add: r'_def used_def)
    moreover have "used r + (2 + length data) < 2 ^ 64" using True by simp
    then have "unat (word_of_nat (used r + (2 + length data)) :: u64) = used r + (2 + length data)"
      by (subst unsigned_of_nat) (simp add: take_bit_nat_eq_self)
    ultimately show ?thesis unfolding used_def[of r'] by (simp only:)
  qed
  have "contents r' = contents r @ frame data"
  proof (rule nth_equalityI)
    show "length (contents r') = length (contents r @ frame data)"
      by (simp add: contents_def used' frame_def len_bytes_def)
    fix i assume "i < length (contents r')"
    then have i: "i < used r + (2 + length data)" by (simp add: contents_def used')
    then have l: "contents r' ! i = buf2 ! ((unat (rb_tail r) + i) mod BUFFER_SIZE)"
      by (simp add: contents_def used' fields del: upt_Suc)
    show "contents r' ! i = (contents r @ frame data) ! i"
    proof (cases "i < used r")
      case True
      have "(unat (rb_tail r) + i) mod BUFFER_SIZE \<noteq> (unat (rb_head r) + m) mod BUFFER_SIZE" if "m < 2 + length data" for m
        using positions_differ[of "unat (rb_tail r)" i "used r + m"] that True head_mod[of r m]
          \<open>used r + length data + 2 \<le> BUFFER_SIZE\<close> by (auto simp: add.assoc)
      then show ?thesis using old[of "(unat (rb_tail r) + i) mod BUFFER_SIZE"] l True
        by (simp add: nth_append contents_def)
    next
      case False
      then show ?thesis using new[of "i - used r"] head_mod[of r "i - used r"] l i
        by (simp add: nth_append contents_def)
    qed
  qed
  then show ?thesis using push True b(3) used' by (simp add: ring_ok_def) (simp add: r'_def)
next
  case False
  obtain a where "u64_sub_checked oc (of_nat BUFFER_SIZE) (rb_head r - rb_tail r) = Some a"
    "unat a = BUFFER_SIZE - used r" using available[OF assms(1)] by blast
  moreover have "used r \<le> BUFFER_SIZE" using assms(1) by (simp add: ring_ok_def)
  then have "BUFFER_SIZE - used r < length data + 2" using False by linarith
  ultimately show ?thesis using False assms(1) by (simp add: push_def)
qed

theorem push_appends_witness:
  "\<exists>r'. push True [7] \<lparr>rb_head = 65535, rb_tail = 65533, rb_buffer = replicate BUFFER_SIZE 0\<rparr> = Some (True, r') \<and>
    contents r' = [0, 0, 1, 0, 7]"
proof -
  define r where "r = \<lparr>rb_head = 65535, rb_tail = 65533, rb_buffer = replicate BUFFER_SIZE 0\<rparr>"
  have u: "used r = 2" by (simp add: used_def r_def)
  then have "ring_ok r" "contents r = [0, 0]"
    by (simp_all add: ring_ok_def contents_def r_def upt_rec)
  then show ?thesis
    using push_appends[of r True "[7]"] u by (simp add: r_def frame_def len_bytes_def) blast
qed

end
