(* ===== verification/Ovc_Text.thy ===== *)
theory Ovc_Text
  imports Bundle_Loader
begin

text \<open>
  The text of a module of a bundle (\<open>lunee-ker/src/ovc_exec.rs\<close>): LLVM assembly as the kernel's executor
  reads it.  A text is the list of the bytes of its UTF-8 form; a slice that does not fall on a
  character is a panic, the value \<open>None\<close>.

  The caches of parsed constants and blocks hold what parsing the same text gives again, and are left
  out.  The constant strings are leaked boxes: the parameter \<open>place\<close> gives the address of the box made for a
  line of a text.
\<close>

section \<open>The string functions of Rust\<close>

definition find_char :: "char \<Rightarrow> string \<Rightarrow> nat option" where
  "find_char c s = find_sub [c] s"

definition rfind_sub :: "string \<Rightarrow> string \<Rightarrow> nat option" where
  "rfind_sub p s = map_option (\<lambda>i. length s - length p - i) (find_sub (rev p) (rev s))"

definition drop_chars :: "char \<Rightarrow> string \<Rightarrow> string" where
  "drop_chars c s = dropWhile (\<lambda>x. x = c) s"

definition drop_end :: "char \<Rightarrow> string \<Rightarrow> string" where
  "drop_end c s = rev (dropWhile (\<lambda>x. x = c) (rev s))"

text \<open>\<open>split_whitespace\<close>; a white space character of several bytes is skipped as a whole.\<close>

definition space_at :: "string \<Rightarrow> nat" where
  "space_at s = (case find (\<lambda>w. starts_with w s) white_space of Some w \<Rightarrow> length w | None \<Rightarrow> 0)"

fun split_space :: "nat \<Rightarrow> string \<Rightarrow> string \<Rightarrow> string list" where
  "split_space skip cur [] = (if cur = [] then [] else [rev cur])"
| "split_space (Suc k) cur (c # cs) = split_space k cur cs"
| "split_space 0 cur (c # cs) =
     (let n = space_at (c # cs)
      in if n = 0 then split_space 0 (c # cur) cs
         else (if cur = [] then [] else [rev cur]) @ split_space (n - 1) [] cs)"

definition words :: "string \<Rightarrow> string list" where
  "words s = split_space 0 [] s"

definition last_word :: "string \<Rightarrow> string \<Rightarrow> string" where
  "last_word d s = (if words s = [] then d else last (words s))"

fun splitn :: "nat \<Rightarrow> char \<Rightarrow> string \<Rightarrow> string list" where
  "splitn 0 c s = []"
| "splitn (Suc 0) c s = [s]"
| "splitn (Suc (Suc n)) c s = (case split_once c s of None \<Rightarrow> [s] | Some (a, b) \<Rightarrow> a # splitn (Suc n) c b)"

fun split_on :: "char \<Rightarrow> string \<Rightarrow> string \<Rightarrow> string list" where
  "split_on d cur [] = [rev cur]"
| "split_on d cur (c # cs) = (if c = d then rev cur # split_on d [] cs else split_on d (c # cur) cs)"

text \<open>\<open>trim_start_matches\<close> with a text.\<close>

fun strip_all :: "nat \<Rightarrow> string \<Rightarrow> string \<Rightarrow> string" where
  "strip_all 0 p s = s"
| "strip_all (Suc k) p s = (if p \<noteq> [] \<and> starts_with p s then strip_all k p (drop (length p) s) else s)"

definition part :: "string list \<Rightarrow> nat \<Rightarrow> string \<Rightarrow> string" where
  "part xs i d = (if i < length xs then xs ! i else d)"

definition char_boundary :: "string \<Rightarrow> nat \<Rightarrow> bool" where
  "char_boundary s i \<longleftrightarrow> i = 0 \<or> i = length s \<or> (i < length s \<and> \<not> utf8_cont (of_char (s ! i)))"

definition str_slice :: "string \<Rightarrow> nat \<Rightarrow> nat \<Rightarrow> string option" where
  "str_slice s a b =
     (if a \<le> b \<and> b \<le> length s \<and> char_boundary s a \<and> char_boundary s b then Some (take (b - a) (drop a s)) else None)"

text \<open>\<open>parse::<i64>\<close>.\<close>

definition parse_i64 :: "string \<Rightarrow> i64 option" where
  "parse_i64 s = (let neg = (s \<noteq> [] \<and> hd s = CHR ''-'');
       ds = (if s \<noteq> [] \<and> (hd s = CHR ''-'' \<or> hd s = CHR ''+'') then tl s else s);
       v = (if neg then - int (dec_val ds) else int (dec_val ds))
     in if ds = [] \<or> \<not> list_all is_ascii_digit ds \<or> v < - (2 ^ 63) \<or> 2 ^ 63 \<le> v then None
        else Some (word_of_int v))"

definition or_zero :: "i64 option \<Rightarrow> i64" where
  "or_zero r = (case r of Some v \<Rightarrow> v | None \<Rightarrow> 0)"

definition ascii_low :: "char \<Rightarrow> char" where
  "ascii_low c = (let n = (of_char c :: nat) in if n \<in> {65..90} then char_of (n + 32) else c)"

definition eq_ignore_case :: "string \<Rightarrow> string \<Rightarrow> bool" where
  "eq_ignore_case a b \<longleftrightarrow> map ascii_low a = map ascii_low b"

section \<open>Registers\<close>

text \<open>A register is found by the FNV-1a hash of its name.\<close>

type_synonym regs = "(u64 \<times> i64) list"

definition fnv64 :: "string \<Rightarrow> u64" where
  "fnv64 s = foldl (\<lambda>h c. (h XOR of_char c) * 1099511628211) 14695981039346656037 s"

definition regs_get :: "regs \<Rightarrow> string \<Rightarrow> i64" where
  "regs_get r name = (case find (\<lambda>(h, _). h = fnv64 name) (rev r) of Some (_, v) \<Rightarrow> v | None \<Rightarrow> 0)"

fun set_first :: "u64 \<Rightarrow> i64 \<Rightarrow> regs \<Rightarrow> regs option" where
  "set_first k v [] = None"
| "set_first k v ((h, w) # es) = (if h = k then Some ((h, v) # es) else map_option ((#) (h, w)) (set_first k v es))"

definition regs_set :: "regs \<Rightarrow> string \<Rightarrow> i64 \<Rightarrow> regs" where
  "regs_set r name v =
     (case set_first (fnv64 name) v (rev r) of Some r' \<Rightarrow> rev r' | None \<Rightarrow> r @ [(fnv64 name, v)])"

section \<open>Operands\<close>

type_synonym const_map = "(string, i64) hmap"

definition reg_name :: "string \<Rightarrow> string" where
  "reg_name tok = drop_chars (CHR ''%'') tok"

definition const_value :: "const_map \<Rightarrow> string \<Rightarrow> i64" where
  "const_value cmap tok = or_zero (hm_get cmap (drop_end (CHR '','') (drop_chars (CHR ''@'') tok)))"

definition resolve :: "regs \<Rightarrow> const_map \<Rightarrow> string \<Rightarrow> i64" where
  "resolve regs cmap token =
     (let tok = drop_end (CHR '','') (trim token)
      in if starts_with ''%'' tok then regs_get regs (reg_name tok)
      else if starts_with ''@'' tok then const_value cmap tok
      else case find_sub ''inttoptr ('' tok of
        Some p \<Rightarrow>
          (let rest = drop (p + 10) tok;
               after_type = (case find_char (CHR '' '') rest of Some i \<Rightarrow> drop (i + 1) rest | None \<Rightarrow> rest)
           in or_zero (parse_i64 (takeWhile (\<lambda>c. is_ascii_digit c \<or> c = CHR ''-'') after_type)))
      | None \<Rightarrow>
          if tok = ''null'' \<or> tok = ''nullptr'' \<or> ends_with '' null'' tok then 0
          else (let w = last_word tok tok
            in if starts_with ''%'' w then regs_get regs (reg_name w)
               else if starts_with ''@'' w then const_value cmap w
               else or_zero (parse_i64 (drop_end (CHR '')'') w))))"

fun split_args :: "int \<Rightarrow> string \<Rightarrow> string \<Rightarrow> string list" where
  "split_args d cur [] = (let p = trim (rev cur) in if p = [] then [] else [p])"
| "split_args d cur (c # cs) =
     (if c = CHR ''('' then split_args (d + 1) (c # cur) cs
      else if c = CHR '')'' then split_args (d - 1) (c # cur) cs
      else if c = CHR '','' \<and> d = 0 then trim (rev cur) # split_args d [] cs
      else split_args d (c # cur) cs)"

definition parse_call_args :: "string \<Rightarrow> string list option" where
  "parse_call_args s =
     (case (find_char (CHR ''('') s, rfind_sub '')'' s) of
        (Some i, Some j) \<Rightarrow> map_option (split_args 0 []) (str_slice s (i + 1) j)
      | _ \<Rightarrow> Some [])"

section \<open>Constants\<close>

definition hex_digit_of :: "char \<Rightarrow> nat option" where
  "hex_digit_of c = (if is_ascii_hexdigit c then Some (digit_val c) else None)"

fun unescape :: "string \<Rightarrow> bytes" where
  "unescape [] = []"
| "unescape (c # cs) =
     (case (c, cs) of
        (c, h # l # r) \<Rightarrow>
          (case (c = CHR 0x5C, hex_digit_of h, hex_digit_of l) of
             (True, Some hi, Some lo) \<Rightarrow> word_of_nat (hi * 16 + lo) # unescape r
           | _ \<Rightarrow> of_char c # unescape cs)
      | _ \<Rightarrow> of_char c # unescape cs)"

definition string_const :: "string \<Rightarrow> (string \<times> bytes) option" where
  "string_const l =
     (let line = trim l
      in if \<not> starts_with ''@'' line then None
         else do {
           eq \<leftarrow> find_char (CHR ''='') line;
           cp \<leftarrow> find_sub ('' c'' @ [CHR 0x22]) line;
           let after = drop (cp + 3) line;
           ep \<leftarrow> find_sub ([CHR 0x5C] @ ''00'' @ [CHR 0x22]) after;
           Some (trim (take (eq - 1) (drop 1 line)), unescape (take ep after) @ [0])})"

definition parse_string_consts :: "(string \<Rightarrow> nat \<Rightarrow> bytes \<Rightarrow> i64) \<Rightarrow> string \<Rightarrow> const_map" where
  "parse_string_consts place ovc =
     fold (\<lambda>(n, l) m. case string_const l of Some (name, b) \<Rightarrow> hm_insert name (place ovc n b) m | None \<Rightarrow> m)
       (List.enumerate 0 (lines ovc)) []"

section \<open>Functions\<close>

fun find_define :: "string \<Rightarrow> string \<Rightarrow> string option" where
  "find_define marker [] = None"
| "find_define marker (c # cs) =
     (if starts_with ''define '' (c # cs) \<and> text_contains (takeWhile (\<lambda>x. x \<noteq> CHR 0x0A) (c # cs)) marker
      then Some (c # cs) else find_define marker cs)"

text \<open>The text up to the brace that closes the first one.\<close>

fun close_brace :: "int \<Rightarrow> string \<Rightarrow> string option" where
  "close_brace d [] = None"
| "close_brace d (c # cs) =
     (let d' = (if c = CHR ''{'' then d + 1 else if c = CHR ''}'' then d - 1 else d)
      in if c = CHR ''}'' \<and> d' = 0 then Some [c] else map_option ((#) c) (close_brace d' cs))"

definition find_function :: "string \<Rightarrow> string \<Rightarrow> string option" where
  "find_function ovc name =
     (case find_define (CHR ''@'' # name @ ''('') ovc of
        Some (c # cs) \<Rightarrow> map_option ((#) c) (close_brace 0 cs)
      | _ \<Rightarrow> None)"

definition arg_of :: "string \<Rightarrow> string option" where
  "arg_of s = map_option (\<lambda>w. drop_end (CHR '','') (drop_chars (CHR ''%'') w)) (find (starts_with ''%'') (words s))"

definition parse_def_args :: "string \<Rightarrow> string list option" where
  "parse_def_args func =
     map_option (List.map_filter arg_of) (parse_call_args (case lines func of l # _ \<Rightarrow> l | [] \<Rightarrow> []))"

section \<open>Basic blocks\<close>

type_synonym blocks = "(string, string list) hmap"

record block_parser =
  bp_blocks :: blocks
  bp_cur :: string
  bp_switch :: "string option"

definition push_line :: "string \<Rightarrow> block_parser \<Rightarrow> block_parser" where
  "push_line t p = (case hm_get (bp_blocks p) (bp_cur p) of
      Some v \<Rightarrow> p\<lparr>bp_blocks := hm_insert (bp_cur p) (v @ [t]) (bp_blocks p)\<rparr> | None \<Rightarrow> p)"

definition label_of :: "string \<Rightarrow> string option" where
  "label_of t =
     (let u = (case find_char (CHR '';'') t of Some i \<Rightarrow> trim (take i t) | None \<Rightarrow> t)
      in if \<not> starts_with ''%'' u \<and> \<not> starts_with ''store'' u \<and> \<not> starts_with ''br'' u \<and> \<not> starts_with ''ret'' u
          \<and> ends_with '':'' u
         then Some (trim (drop_end (CHR '':'') u)) else None)"

definition block_line :: "string \<Rightarrow> block_parser \<Rightarrow> block_parser" where
  "block_line l p =
     (let t = trim l
      in if t = [] \<or> t = ''{'' \<or> t = ''}'' \<or> starts_with '';'' t then p
         else case bp_switch p of
           Some buf \<Rightarrow>
             (let b = buf @ '' '' @ t
              in if ends_with '']'' t then push_line b (p\<lparr>bp_switch := None\<rparr>) else p\<lparr>bp_switch := Some b\<rparr>)
         | None \<Rightarrow>
             if starts_with ''switch '' t
             then (if ends_with '']'' t then push_line t p else p\<lparr>bp_switch := Some t\<rparr>)
             else case label_of t of
                 Some lbl \<Rightarrow>
                   p\<lparr>bp_cur := lbl, bp_blocks :=
                      (case hm_get (bp_blocks p) lbl of Some _ \<Rightarrow> bp_blocks p | None \<Rightarrow> hm_insert lbl [] (bp_blocks p))\<rparr>
               | None \<Rightarrow> push_line t p)"

definition parse_blocks :: "string \<Rightarrow> blocks" where
  "parse_blocks func = bp_blocks (fold block_line (drop 1 (lines func))
     \<lparr>bp_blocks = [(''entry'', [])], bp_cur = ''entry'', bp_switch = None\<rparr>)"

end
