(* ===== verification/Ovc_Exec.thy ===== *)
theory Ovc_Exec
  imports Ovc_Text U256_Arith
begin

text \<open>
  The executor of bundle modules (\<open>run_instr\<close>, \<open>run_blocks\<close>, \<open>run_blocks_cross\<close>, \<open>exec_fn\<close>, \<open>exec_module\<close>,
  \<open>exec_marep\<close> of \<open>lunee-ker/src/ovc_exec.rs\<close>): it interprets the text of LLVM assembly line by line.

  A state is registers, globals and the rest of the kernel, the world, which only the services of the
  kernel touch.  They are the parameter \<open>ov_dispatch\<close>, the function \<open>dispatch\<close> of the same file; \<open>None\<close> is a
  service that does not return; the constants and globals it is also given are unused there.  The font that the fast paths read is raw memory: the parameters
  \<open>ov_ttf_null\<close>, \<open>ov_ttf_size\<close>, \<open>ov_ttf_byte\<close>.  Logging is left out.
\<close>

record 'w ovc_env =
  ov_checks :: bool
  ov_place :: "string \<Rightarrow> nat \<Rightarrow> bytes \<Rightarrow> i64"
  ov_dispatch :: "string \<Rightarrow> i64 list \<Rightarrow> 'w \<Rightarrow> (i64 \<times> 'w) option"
  ov_ttf_null :: "'w \<Rightarrow> bool"
  ov_ttf_size :: "'w \<Rightarrow> i64"
  ov_ttf_byte :: "'w \<Rightarrow> i64 \<Rightarrow> u8"

record 'w ovc_state =
  os_regs :: regs
  os_globals :: regs
  os_world :: 'w

datatype run_result = Run_Ok | Branch string | Return i64

section \<open>Control flow\<close>

text \<open>The cases of a switch, from the token behind the default label.\<close>

function switch_scan :: "i64 \<Rightarrow> string list \<Rightarrow> string option" where
  "switch_scan v toks =
     (if length toks < 3 \<or> toks ! 0 = '']'' then None
      else if toks ! 0 = ''['' then switch_scan v (tl toks)
      else if starts_with ''i'' (toks ! 0)
      then (let case_val = (case parse_i64 (drop_end (CHR '','') (toks ! 1)) of Some n \<Rightarrow> n | None \<Rightarrow> 0x7fffffffffffffff);
                case_lbl = drop_end (CHR '']'') (drop_chars (CHR ''%'') (part toks 3 []))
            in if v = case_val then Some case_lbl else switch_scan v (drop 4 toks))
      else switch_scan v (tl toks))"
  by pat_completeness auto
termination
  by (relation "measure (\<lambda>(v, toks). length toks)") auto

declare switch_scan.simps [simp del]

definition run_switch :: "regs \<Rightarrow> const_map \<Rightarrow> string \<Rightarrow> string" where
  "run_switch regs cmap instr =
     (let toks = words instr;
          default_lbl = drop_chars (CHR ''%'') (part toks 4 []);
          v = resolve regs cmap (part toks 2 ''0'')
      in case switch_scan v (drop 5 toks) of Some l \<Rightarrow> l | None \<Rightarrow> default_lbl)"

definition strip_or_empty :: "string \<Rightarrow> string \<Rightarrow> string" where
  "strip_or_empty p s = (case strip_prefix p s of Some r \<Rightarrow> r | None \<Rightarrow> [])"

definition run_br :: "regs \<Rightarrow> const_map \<Rightarrow> string \<Rightarrow> string option" where
  "run_br regs cmap rest =
     (if starts_with ''label '' rest then Some (drop_chars (CHR ''%'') (trim (drop 6 rest)))
      else if starts_with ''i1 '' rest
      then (let parts = splitn 4 (CHR '','') rest;
                cond_tok = trim (strip_or_empty ''i1 '' (trim (part parts 0 [])));
                true_lbl = strip_or_empty ''label %'' (trim (part parts 1 []));
                false_lbl = strip_or_empty ''label %'' (trim (part parts 2 []))
            in Some (if resolve regs cmap cond_tok \<noteq> 0 then true_lbl else false_lbl))
      else None)"

section \<open>Values\<close>

lemma find_char_drop: "find_char c (drop i s) = Some j \<Longrightarrow> i < length s"
  by (cases "i < length s") (simp_all add: find_char_def starts_with_def)

text \<open>The incoming pairs of a phi, in brackets.\<close>

function parse_phi_opt :: "string \<Rightarrow> string \<Rightarrow> regs \<Rightarrow> const_map \<Rightarrow> i64 option" where
  "parse_phi_opt rhs prev regs cmap =
     (case find_char (CHR ''['') rhs of
        None \<Rightarrow> None
      | Some i \<Rightarrow>
          (case find_char (CHR '']'') (drop i rhs) of
             None \<Rightarrow> None
           | Some j \<Rightarrow>
               (let inner = take (j - 1) (drop (i + 1) rhs);
                    parts = split_on (CHR '','') [] inner;
                    val_tok = trim (part parts 0 ''0'');
                    lbl_tok = drop_chars (CHR ''%'') (trim (part parts 1 []))
                in if lbl_tok = prev then Some (resolve regs cmap val_tok)
                   else parse_phi_opt (drop (i + j + 1) rhs) prev regs cmap)))"
  by pat_completeness auto
termination
  by (relation "measure (\<lambda>(rhs, _). length rhs)") (auto dest: find_char_drop)

declare parse_phi_opt.simps [simp del]

fun binop_scan :: "string list \<Rightarrow> string option" where
  "binop_scan [] = None"
| "binop_scan (t # ts) = (if ends_with '','' t then Some (drop_end (CHR '','') t) else binop_scan ts)"

definition extract_binop_args :: "string list \<Rightarrow> string \<times> string" where
  "extract_binop_args toks =
     (if length toks < 2 then (''0'', ''0'')
      else (let b_tok = drop_end (CHR '','') (last toks)
        in case binop_scan (rev (take (length toks - 2) (drop 1 toks))) of
             Some a \<Rightarrow> (a, b_tok)
           | None \<Rightarrow> (drop_end (CHR '','') (toks ! (length toks - 2)), b_tok)))"

definition of_flag :: "bool \<Rightarrow> i64" where
  "of_flag b = (if b then 1 else 0)"

definition icmp :: "string \<Rightarrow> i64 \<Rightarrow> i64 \<Rightarrow> i64" where
  "icmp op a b =
     (if op = ''sgt'' then of_flag (sint b < sint a) else if op = ''sge'' then of_flag (sint b \<le> sint a)
      else if op = ''eq'' then of_flag (a = b) else if op = ''ne'' then of_flag (a \<noteq> b)
      else if op = ''slt'' then of_flag (sint a < sint b) else if op = ''sle'' then of_flag (sint a \<le> sint b)
      else if op = ''ugt'' \<or> op = ''samesign'' then of_flag (b < a) else if op = ''uge'' then of_flag (b \<le> a)
      else if op = ''ult'' then of_flag (a < b) else if op = ''ule'' then of_flag (a \<le> b)
      else 0)"

definition is_cast :: "string \<Rightarrow> bool" where
  "is_cast op \<longleftrightarrow> op \<in> {''zext'', ''sext'', ''trunc'', ''inttoptr'', ''ptrtoint'', ''bitcast''}"

definition arith :: "string \<Rightarrow> i64 \<Rightarrow> i64 \<Rightarrow> i64 option" where
  "arith op a b =
     (if op = ''add'' then Some (a + b) else if op = ''sub'' then Some (a - b) else if op = ''mul'' then Some (a * b)
      else if op = ''sdiv'' then (if b \<noteq> 0 then i64_div a b else Some 0)
      else if op = ''udiv'' then Some (if b \<noteq> 0 then a div b else 0)
      else if op = ''srem'' then (if b \<noteq> 0 then i64_rem a b else Some 0)
      else if op = ''urem'' then Some (if b \<noteq> 0 then a mod b else 0)
      else if op = ''shl'' then Some (push_bit (unat (b AND 63)) a)
      else if op = ''ashr'' then Some (signed_drop_bit (unat (b AND 63)) a)
      else if op = ''lshr'' then Some (drop_bit (unat (b AND 63)) a)
      else if op = ''and'' then Some (a AND b) else if op = ''or'' then Some (a OR b)
      else if op = ''xor'' then Some (a XOR b)
      else Some 0)"

definition run_arith :: "regs \<Rightarrow> const_map \<Rightarrow> string \<Rightarrow> i64 option" where
  "run_arith regs cmap rhs =
     (let toks = words rhs
      in if length toks < 2 then Some 0
         else (case extract_binop_args toks of (a_tok, b_tok) \<Rightarrow>
           (let a = resolve regs cmap a_tok; b = resolve regs cmap b_tok; op = toks ! 0
            in if is_cast op
               then Some (if ''to'' \<in> set toks
                 then (let i = length (takeWhile (\<lambda>t. t \<noteq> ''to'') toks)
                   in if 0 < i then resolve regs cmap (toks ! (i - 1)) else 0)
                 else a)
               else arith op a b)))"

definition run_icmp :: "regs \<Rightarrow> const_map \<Rightarrow> string \<Rightarrow> i64" where
  "run_icmp regs cmap rhs =
     (let op = part (splitn 4 (CHR '' '') rhs) 1 ''eq'';
          toks = words rhs;
          a_tok = (if 4 \<le> length toks then toks ! (length toks - 2) else ''0'');
          b_tok = (if 3 \<le> length toks then toks ! (length toks - 1) else ''0'')
      in icmp op (resolve regs cmap a_tok) (resolve regs cmap b_tok))"

definition run_select :: "regs \<Rightarrow> const_map \<Rightarrow> string \<Rightarrow> i64" where
  "run_select regs cmap rhs =
     (let parts = splitn 4 (CHR '','') rhs;
          cond_tok = last_word ''0'' (trim (part parts 0 []));
          a_part = (if 1 < length parts then trim (parts ! 1) else ''0'');
          b_part = (if 2 < length parts then trim (parts ! 2) else ''0'')
      in if resolve regs cmap cond_tok \<noteq> 0 then resolve regs cmap a_part else resolve regs cmap b_part)"

definition run_load :: "regs \<Rightarrow> regs \<Rightarrow> string \<Rightarrow> i64" where
  "run_load regs globals rhs =
     (let key = drop_end (CHR '','') (last_word [] (trim (part (splitn 3 (CHR '','') rhs) 1 [])))
      in if starts_with ''@'' key then regs_get globals (drop_chars (CHR ''@'') key)
         else if starts_with ''%'' key then regs_get regs (reg_name key) else 0)"

definition run_store :: "regs \<Rightarrow> const_map \<Rightarrow> regs \<Rightarrow> string \<Rightarrow> regs" where
  "run_store regs cmap globals instr =
     (let parts = splitn 3 (CHR '','') instr;
          src_tok = last_word ''0'' (trim (part parts 0 []));
          dest_tok = drop_end (CHR '','') (last_word [] (trim (part parts 1 [])));
          v = (if src_tok = ''true'' then 1 else if src_tok = ''false'' then 0 else resolve regs cmap src_tok)
      in regs_set globals (drop_chars (CHR ''@'') dest_tok) v)"

definition call_target :: "string \<Rightarrow> string option" where
  "call_target rhs = (case find_char (CHR ''@'') rhs of
      Some p \<Rightarrow> Some (takeWhile (\<lambda>c. c \<noteq> CHR ''('') (drop (p + 1) rhs)) | None \<Rightarrow> None)"

definition without_tail :: "string \<Rightarrow> string" where
  "without_tail rhs = (let r = strip_all (length rhs) ''tail '' rhs in strip_all (length r) ''musttail '' r)"

definition is_call :: "string \<Rightarrow> bool" where
  "is_call rhs \<longleftrightarrow> starts_with ''call '' rhs \<or> starts_with ''call i'' rhs \<or> starts_with ''call ('' rhs"

section \<open>One instruction\<close>

definition run_call :: "'w ovc_env \<Rightarrow> const_map \<Rightarrow> string \<Rightarrow> 'w ovc_state \<Rightarrow> (i64 \<times> 'w) option" where
  "run_call E cmap rhs s =
     (case call_target rhs of
        None \<Rightarrow> Some (0, os_world s)
      | Some fname \<Rightarrow> do {
          raw_args \<leftarrow> parse_call_args rhs;
          ov_dispatch E fname (map (resolve (os_regs s) cmap) raw_args) (os_world s)})"

definition rhs_value :: "'w ovc_env \<Rightarrow> const_map \<Rightarrow> string \<Rightarrow> string \<Rightarrow> string \<Rightarrow> 'w ovc_state \<Rightarrow> (i64 \<times> 'w) option" where
  "rhs_value E cmap prev dst rhs s =
     (let pure = (\<lambda>v. Some (v, os_world s))
      in if is_call rhs then run_call E cmap rhs s
         else if starts_with ''phi '' rhs
         then pure (case parse_phi_opt rhs prev (os_regs s) cmap of Some v \<Rightarrow> v | None \<Rightarrow> regs_get (os_regs s) dst)
         else if starts_with ''load '' rhs then pure (run_load (os_regs s) (os_globals s) rhs)
         else if starts_with ''select '' rhs then pure (run_select (os_regs s) cmap rhs)
         else if starts_with ''icmp '' rhs then pure (run_icmp (os_regs s) cmap rhs)
         else Option.bind (run_arith (os_regs s) cmap rhs) pure)"

definition run_assign :: "'w ovc_env \<Rightarrow> const_map \<Rightarrow> string \<Rightarrow> string \<Rightarrow> 'w ovc_state \<Rightarrow> (run_result \<times> 'w ovc_state) option" where
  "run_assign E cmap prev instr s =
     (case find_sub '' = '' instr of
        None \<Rightarrow> Some (Run_Ok, s)
      | Some eq \<Rightarrow> do {
          name \<leftarrow> str_slice instr 1 eq;
          let dst = trim name;
          (v, w) \<leftarrow> rhs_value E cmap prev dst (without_tail (trim (drop (eq + 3) instr))) s;
          Some (Run_Ok, s\<lparr>os_regs := regs_set (os_regs s) dst v, os_world := w\<rparr>)})"

definition run_instr :: "'w ovc_env \<Rightarrow> const_map \<Rightarrow> string \<Rightarrow> string \<Rightarrow> 'w ovc_state \<Rightarrow> (run_result \<times> 'w ovc_state) option" where
  "run_instr E cmap prev line s =
     (let instr = trim line
      in if instr = [] \<or> starts_with '';'' instr then Some (Run_Ok, s)
         else if starts_with ''switch '' instr then Some (Branch (run_switch (os_regs s) cmap instr), s)
         else case (if starts_with ''br '' instr then run_br (os_regs s) cmap (drop 3 instr) else None) of
           Some l \<Rightarrow> Some (Branch l, s)
         | None \<Rightarrow>
             if starts_with ''ret '' instr
             then Some (Return (resolve (os_regs s) cmap (last_word ''0'' (trim (drop 4 instr)))), s)
             else if starts_with ''store '' instr
             then Some (Run_Ok, s\<lparr>os_globals := run_store (os_regs s) cmap (os_globals s) instr\<rparr>)
             else run_assign E cmap prev instr s)"

section \<open>Blocks\<close>

text \<open>
  The loop over the instructions of a block and the loop over the blocks, with the step of one
  instruction and the form of the instructions as arguments; the second stops after 200000 blocks.
\<close>

type_synonym ('i, 's) step = "string \<Rightarrow> 'i \<Rightarrow> 's \<Rightarrow> (run_result \<times> 's) option"

fun run_instrs :: "('i, 's) step \<Rightarrow> string \<Rightarrow> 'i list \<Rightarrow> 's \<Rightarrow> (run_result \<times> 's) option" where
  "run_instrs step prev [] s = Some (Run_Ok, s)"
| "run_instrs step prev (i # is) s =
     (case step prev i s of
        Some (Run_Ok, s') \<Rightarrow> run_instrs step prev is s'
      | r \<Rightarrow> r)"

fun block_loop ::
    "('i, 's) step \<Rightarrow> (string, 'i list) hmap \<Rightarrow> nat \<Rightarrow> string \<Rightarrow> string \<Rightarrow> 's \<Rightarrow> (i64 \<times> 's) option" where
  "block_loop step blocks 0 prev cur s = Some (0, s)"
| "block_loop step blocks (Suc k) prev cur s =
     (case hm_get blocks cur of
        None \<Rightarrow> Some (0, s)
      | Some instrs \<Rightarrow>
          (case run_instrs step prev instrs s of
             None \<Rightarrow> None
           | Some (Run_Ok, s') \<Rightarrow> Some (0, s')
           | Some (Branch l, s') \<Rightarrow> block_loop step blocks k cur l s'
           | Some (Return v, s') \<Rightarrow> Some (v, s')))"

definition MAX_BLOCKS :: nat where "MAX_BLOCKS = 200000"

definition run_blocks :: "'w ovc_env \<Rightarrow> blocks \<Rightarrow> const_map \<Rightarrow> string \<Rightarrow> 'w ovc_state \<Rightarrow> (i64 \<times> 'w ovc_state) option" where
  "run_blocks E blocks cmap start s = block_loop (run_instr E cmap) blocks MAX_BLOCKS [] start s"

section \<open>Functions of one module\<close>

definition bind_args :: "string list \<Rightarrow> i64 list \<Rightarrow> regs" where
  "bind_args names args = fold (\<lambda>(i, a) r. regs_set r a (if i < length args then args ! i else 0)) (List.enumerate 0 names) []"

definition OVC_MAGIC :: string where
  "OVC_MAGIC = ''# Vyft OVC v1.0''"

definition module_text :: "bytes \<Rightarrow> string" where
  "module_text ovc = (if utf8_valid ovc then string_of_bytes ovc else [])"

definition exec_fn :: "'w ovc_env \<Rightarrow> bytes \<Rightarrow> string \<Rightarrow> i64 list \<Rightarrow> 'w \<Rightarrow> (i64 \<times> 'w) option" where
  "exec_fn E ovc fn_name args w =
     (let t = module_text ovc
      in if \<not> starts_with OVC_MAGIC t then Some (- 1, w)
         else case find_function t fn_name of
           None \<Rightarrow> Some (- 1, w)
         | Some func \<Rightarrow> do {
             names \<leftarrow> parse_def_args func;
             (v, s) \<leftarrow> run_blocks E (parse_blocks func) (parse_string_consts (ov_place E) t) ''entry''
               \<lparr>os_regs = bind_args names args, os_globals = [], os_world = w\<rparr>;
             Some (v, os_world s)})"

text \<open>\<open>exec_module\<close>: the calls in turn, with the same globals.\<close>

fun module_calls :: "'w ovc_env \<Rightarrow> string \<Rightarrow> const_map \<Rightarrow> (string \<times> i64 list) list \<Rightarrow> i64 \<Rightarrow> regs \<Rightarrow> 'w \<Rightarrow> (i64 \<times> 'w) option" where
  "module_calls E t cmap [] last_value globals w = Some (last_value, w)"
| "module_calls E t cmap ((fn_name, args) # fns) last_value globals w =
     (case find_function t fn_name of
        None \<Rightarrow> module_calls E t cmap fns last_value globals w
      | Some func \<Rightarrow> do {
          names \<leftarrow> parse_def_args func;
          (v, s) \<leftarrow> run_blocks E (parse_blocks func) cmap ''entry''
            \<lparr>os_regs = bind_args names args, os_globals = globals, os_world = w\<rparr>;
          module_calls E t cmap fns v (os_globals s) (os_world s)})"

definition exec_module :: "'w ovc_env \<Rightarrow> bytes \<Rightarrow> (string \<times> i64 list) list \<Rightarrow> 'w \<Rightarrow> (i64 \<times> 'w) option" where
  "exec_module E ovc fns w =
     (let t = module_text ovc
      in if \<not> starts_with OVC_MAGIC t then Some (- 1, w)
         else module_calls E t (parse_string_consts (ov_place E) t) fns 0 [] w)"

section \<open>Calls between modules\<close>

definition maratine_lifecycle_fn :: "string \<Rightarrow> string" where
  "maratine_lifecycle_fn event =
     (if event = ''onCreate'' then ''Create'' else if event = ''onDestroy'' then ''Destroy''
      else if event = ''onPause'' then ''Pause'' else if event = ''onResume'' then ''Resume'' else event)"

definition resolve_cross_module_call :: "string \<Rightarrow> (string \<times> string) option" where
  "resolve_cross_module_call fname =
     (let stripped = (case strip_prefix ''std___core___self___'' fname of Some r \<Rightarrow> r | None \<Rightarrow> fname)
      in case rfind_sub ''___'' stripped of
           None \<Rightarrow> None
         | Some pos \<Rightarrow>
             (let m = take pos stripped; f = maratine_lifecycle_fn (drop (pos + 3) stripped)
              in if m \<noteq> [] \<and> f \<noteq> [] then Some (m, f) else None))"

type_synonym modules = "(string \<times> string) list"

text \<open>The fast paths for reading the font.\<close>

definition i64_offset :: "bool \<Rightarrow> i64 \<Rightarrow> i64 \<Rightarrow> i64 option" where
  "i64_offset oc a b = (if oc \<and> 2 ^ 63 \<le> sint a + sint b then None else Some (a + b))"

definition fast_read :: "'w ovc_env \<Rightarrow> string \<Rightarrow> i64 list \<Rightarrow> 'w \<Rightarrow> i64 option option" where
  "fast_read E fname args w =
     (let off = (if args = [] then 0 else hd args);
          byte = (\<lambda>i. ucast (ov_ttf_byte E w (off + i)) :: i64);
          read = (\<lambda>n v. if ov_ttf_null E w \<or> sint off < 0 then Some (Some 0)
            else do {
              final \<leftarrow> i64_offset (ov_checks E) off n;
              Some (Some (if sint (ov_ttf_size E w) \<le> sint final then 0 else v))})
      in if fname = ''_r8'' then read 0 (byte 0)
         else if fname = ''_r16'' then read 1 (push_bit 8 (byte 0) OR byte 1)
         else if fname = ''_r32'' \<or> fname = ''_rtag''
         then read 3 (push_bit 24 (byte 0) OR push_bit 16 (byte 1) OR push_bit 8 (byte 2) OR byte 3)
         else Some None)"

definition find_module :: "modules \<Rightarrow> string \<Rightarrow> (string \<times> string) option" where
  "find_module mods name = find (\<lambda>(n, _). eq_ignore_case n name) mods"

text \<open>
  A call from a module: \<open>call\<close> runs a function of a module (name, text, function, arguments) one level
  deeper, on globals and world.
\<close>

type_synonym 'w module_call = "string \<Rightarrow> string \<Rightarrow> string \<Rightarrow> i64 list \<Rightarrow> regs \<Rightarrow> 'w \<Rightarrow> (i64 \<times> regs \<times> 'w) option"

definition cross_call ::
    "'w ovc_env \<Rightarrow> modules \<Rightarrow> string \<Rightarrow> 'w module_call \<Rightarrow> string \<Rightarrow> i64 list \<Rightarrow> regs \<Rightarrow> 'w \<Rightarrow> (i64 \<times> regs \<times> 'w) option" where
  "cross_call E mods mod_name call fname args globals w =
     (let service = map_option (\<lambda>(v, w'). (v, globals, w')) (ov_dispatch E fname args w)
      in case resolve_cross_module_call fname of
           Some (target_mod, target_fn) \<Rightarrow>
             (case (if eq_ignore_case target_mod ''self''
                    then find (\<lambda>(n, t). \<not> eq_ignore_case n mod_name \<and> find_function t target_fn \<noteq> None) mods
                    else find_module mods target_mod) of
                Some (found_mod, found_text) \<Rightarrow> call found_mod found_text target_fn args globals w
              | None \<Rightarrow> service)
         | None \<Rightarrow>
             (case fast_read E fname args w of
                None \<Rightarrow> None
              | Some (Some v) \<Rightarrow> Some (v, globals, w)
              | Some None \<Rightarrow>
                  (case find_module mods mod_name of
                     Some (_, t) \<Rightarrow>
                       (if find_function t fname \<noteq> None then call mod_name t fname args globals w else service)
                   | None \<Rightarrow> service)))"

definition run_instr_cross ::
    "'w ovc_env \<Rightarrow> modules \<Rightarrow> string \<Rightarrow> 'w module_call \<Rightarrow> const_map \<Rightarrow> (string, 'w ovc_state) step" where
  "run_instr_cross E mods mod_name call cmap prev instr s =
     (case find_sub '' = '' instr of
        Some eq \<Rightarrow>
          if text_contains instr ''call '' then do {
            name \<leftarrow> str_slice instr 1 eq;
            let rhs = without_tail (trim (drop (eq + 3) instr));
            if is_call rhs \<and> call_target rhs \<noteq> None then do {
              raw_args \<leftarrow> parse_call_args rhs;
              (v, g, w) \<leftarrow> cross_call E mods mod_name call (the (call_target rhs))
                (map (resolve (os_regs s) cmap) raw_args) (os_globals s) (os_world s);
              Some (Run_Ok, \<lparr>os_regs = regs_set (os_regs s) (trim name) v, os_globals = g, os_world = w\<rparr>)}
            else run_instr E cmap prev instr s}
          else run_instr E cmap prev instr s
      | None \<Rightarrow> run_instr E cmap prev instr s)"

definition run_module_fn :: "'w ovc_env \<Rightarrow> modules \<Rightarrow> 'w module_call \<Rightarrow> 'w module_call" where
  "run_module_fn E mods call mod_name ovc_text fn_name args globals w =
     (case find_function ovc_text fn_name of
        None \<Rightarrow> Some (0, globals, w)
      | Some func \<Rightarrow> do {
          names \<leftarrow> parse_def_args func;
          (v, s) \<leftarrow> block_loop
            (run_instr_cross E mods mod_name call (parse_string_consts (ov_place E) ovc_text))
            (parse_blocks func) MAX_BLOCKS [] ''entry''
            \<lparr>os_regs = bind_args names args, os_globals = globals, os_world = w\<rparr>;
          Some (v, os_globals s, os_world s)})"

function exec_marep_fn :: "'w ovc_env \<Rightarrow> modules \<Rightarrow> nat \<Rightarrow> 'w module_call" where
  "exec_marep_fn E mods depth =
     (if 32 < depth then (\<lambda>mod_name ovc_text fn_name args globals w. Some (0, globals, w))
      else run_module_fn E mods (exec_marep_fn E mods (depth + 1)))"
  by pat_completeness auto
termination
  by (relation "measure (\<lambda>(E, mods, depth). 33 - depth)") auto

declare exec_marep_fn.simps [simp del]

section \<open>A bundle\<close>

definition module_texts :: "(string \<times> bytes) list \<Rightarrow> modules" where
  "module_texts ms = filter (\<lambda>(n, t). starts_with OVC_MAGIC t) (map (\<lambda>(n, b). (n, module_text b)) ms)"

fun run_constructors :: "'w ovc_env \<Rightarrow> modules \<Rightarrow> modules \<Rightarrow> regs \<Rightarrow> 'w \<Rightarrow> (regs \<times> 'w) option" where
  "run_constructors E mods [] globals w = Some (globals, w)"
| "run_constructors E mods ((n, t) # ms) globals w =
     (if \<not> eq_ignore_case n ''OEntry'' \<and> find_function t n \<noteq> None then do {
        (v, g, w') \<leftarrow> exec_marep_fn E mods 0 n t n [] globals w;
        run_constructors E mods ms g w'}
      else run_constructors E mods ms globals w)"

definition exec_marep :: "'w ovc_env \<Rightarrow> (string \<times> bytes) list \<Rightarrow> 'w \<Rightarrow> (i64 \<times> 'w) option" where
  "exec_marep E ms w = do {
     let mods = module_texts ms;
     (globals, w1) \<leftarrow> run_constructors E mods mods [] w;
     case find_module mods ''OEntry'' of
       None \<Rightarrow> Some (- 1, w1)
     | Some (_, t) \<Rightarrow>
         if t = [] then Some (- 1, w1)
         else do {
           (v, g, w2) \<leftarrow> exec_marep_fn E mods 0 ''OEntry'' t ''OEntry'' [] globals w1;
           Some (v, w2)}}"

end
