(* ===== verification/Ovc_Ir.thy ===== *)
theory Ovc_Ir
  imports Ovc_Exec
begin

text \<open>
  A reference semantics for the instructions the executor knows: abstract syntax, its text in LLVM
  assembly, and a step function on maps from names to 64-bit values.  Every integer type is 64 bits
  wide here, as it is for the executor.
\<close>

section \<open>Syntax\<close>

datatype ir_operand = IReg string | IInt i64 | IStr string

datatype ir_op = O_Add | O_Sub | O_Mul | O_Sdiv | O_Udiv | O_Srem | O_Urem | O_Shl | O_Ashr | O_Lshr | O_And | O_Or | O_Xor

datatype ir_cond = C_Sgt | C_Sge | C_Eq | C_Ne | C_Slt | C_Sle | C_Ugt | C_Uge | C_Ult | C_Ule

datatype ir_cast = K_Zext | K_Sext | K_Trunc | K_Inttoptr | K_Ptrtoint | K_Bitcast

text \<open>Types are names, kept as they are.\<close>

datatype ir_rhs =
    R_Bin ir_op string ir_operand ir_operand
  | R_Cmp ir_cond string ir_operand ir_operand
  | R_Cast ir_cast string ir_operand string
  | R_Select string ir_operand ir_operand ir_operand
  | R_Phi string "(ir_operand \<times> string) list"
  | R_Load string string
  | R_Call string string "(string \<times> ir_operand) list"

datatype ir_instr =
    I_Assign string ir_rhs
  | I_Store string ir_operand string
  | I_Br string
  | I_Cond ir_operand string string
  | I_Switch string ir_operand string "(i64 \<times> string) list"
  | I_Ret string ir_operand

type_synonym ir_block = "string \<times> ir_instr list"

record ir_function =
  if_type :: string
  if_name :: string
  if_params :: "(string \<times> string) list"
  if_blocks :: "ir_block list"

text \<open>A module: the lines in front of its functions (constants, declarations), then the functions.\<close>

record ir_module =
  im_head :: "string list"
  im_functions :: "ir_function list"

section \<open>Text\<close>

definition int_text :: "i64 \<Rightarrow> string" where
  "int_text v = (if sint v < 0 then CHR ''-'' # fmt_dec (nat (- sint v)) else fmt_dec (nat (sint v)))"

fun operand_str :: "ir_operand \<Rightarrow> string" where
  "operand_str (IReg r) = CHR ''%'' # r"
| "operand_str (IInt v) = int_text v"
| "operand_str (IStr k) = CHR ''@'' # k"

fun op_str :: "ir_op \<Rightarrow> string" where
  "op_str O_Add = ''add''" | "op_str O_Sub = ''sub''" | "op_str O_Mul = ''mul''" | "op_str O_Sdiv = ''sdiv''"
| "op_str O_Udiv = ''udiv''" | "op_str O_Srem = ''srem''" | "op_str O_Urem = ''urem''" | "op_str O_Shl = ''shl''"
| "op_str O_Ashr = ''ashr''" | "op_str O_Lshr = ''lshr''" | "op_str O_And = ''and''" | "op_str O_Or = ''or''"
| "op_str O_Xor = ''xor''"

fun cond_str :: "ir_cond \<Rightarrow> string" where
  "cond_str C_Sgt = ''sgt''" | "cond_str C_Sge = ''sge''" | "cond_str C_Eq = ''eq''" | "cond_str C_Ne = ''ne''"
| "cond_str C_Slt = ''slt''" | "cond_str C_Sle = ''sle''" | "cond_str C_Ugt = ''ugt''" | "cond_str C_Uge = ''uge''"
| "cond_str C_Ult = ''ult''" | "cond_str C_Ule = ''ule''"

fun cast_str :: "ir_cast \<Rightarrow> string" where
  "cast_str K_Zext = ''zext''" | "cast_str K_Sext = ''sext''" | "cast_str K_Trunc = ''trunc''"
| "cast_str K_Inttoptr = ''inttoptr''" | "cast_str K_Ptrtoint = ''ptrtoint''" | "cast_str K_Bitcast = ''bitcast''"

fun joined :: "string list \<Rightarrow> string" where
  "joined [] = []"
| "joined [s] = s"
| "joined (s # ss) = s @ '', '' @ joined ss"

definition typed :: "string \<times> ir_operand \<Rightarrow> string" where
  "typed = (\<lambda>(ty, a). ty @ '' '' @ operand_str a)"

definition incoming :: "ir_operand \<times> string \<Rightarrow> string" where
  "incoming = (\<lambda>(a, l). ''[ '' @ operand_str a @ '', %'' @ l @ '' ]'')"

definition switch_case :: "string \<Rightarrow> i64 \<times> string \<Rightarrow> string" where
  "switch_case ty = (\<lambda>(n, l). ty @ '' '' @ int_text n @ '', label %'' @ l @ '' '')"

fun rhs_str :: "ir_rhs \<Rightarrow> string" where
  "rhs_str (R_Bin op ty a b) = op_str op @ '' '' @ ty @ '' '' @ operand_str a @ '', '' @ operand_str b"
| "rhs_str (R_Cmp c ty a b) = ''icmp '' @ cond_str c @ '' '' @ ty @ '' '' @ operand_str a @ '', '' @ operand_str b"
| "rhs_str (R_Cast k ty a ty') = cast_str k @ '' '' @ ty @ '' '' @ operand_str a @ '' to '' @ ty'"
| "rhs_str (R_Select ty c a b) = ''select i1 '' @ operand_str c @ '', '' @ typed (ty, a) @ '', '' @ typed (ty, b)"
| "rhs_str (R_Phi ty ps) = ''phi '' @ ty @ '' '' @ joined (map incoming ps)"
| "rhs_str (R_Load ty g) = ''load '' @ ty @ '', ptr @'' @ g"
| "rhs_str (R_Call ty f as) = ''call '' @ ty @ '' @'' @ f @ ''('' @ joined (map typed as) @ '')''"

fun instr_str :: "ir_instr \<Rightarrow> string" where
  "instr_str (I_Assign d r) = ''%'' @ d @ '' = '' @ rhs_str r"
| "instr_str (I_Store ty a g) = ''store '' @ ty @ '' '' @ operand_str a @ '', ptr @'' @ g"
| "instr_str (I_Br l) = ''br label %'' @ l"
| "instr_str (I_Cond c l m) = ''br i1 '' @ operand_str c @ '', label %'' @ l @ '', label %'' @ m"
| "instr_str (I_Switch ty v d cs) =
     ''switch '' @ ty @ '' '' @ operand_str v @ '', label %'' @ d @ '' [ '' @ concat (map (switch_case ty) cs) @ '']''"
| "instr_str (I_Ret ty a) = ''ret '' @ ty @ '' '' @ operand_str a"

definition block_lines :: "ir_block \<Rightarrow> string list" where
  "block_lines = (\<lambda>(l, is). (l @ '':'') # map instr_str is)"

definition define_line :: "ir_function \<Rightarrow> string" where
  "define_line F = ''define '' @ if_type F @ '' @'' @ if_name F @ ''('' @ joined (map (\<lambda>(ty, p). ty @ '' %'' @ p) (if_params F)) @ '') {''"

definition function_lines :: "ir_function \<Rightarrow> string list" where
  "function_lines F = define_line F # concat (map block_lines (if_blocks F)) @ [''}'']"

definition module_lines :: "ir_module \<Rightarrow> string list" where
  "module_lines M = OVC_MAGIC # im_head M @ concat (map function_lines (im_functions M))"

definition unlines :: "string list \<Rightarrow> string" where
  "unlines ls = concat (map (\<lambda>l. l @ [CHR 0x0A]) ls)"

definition module_str :: "ir_module \<Rightarrow> string" where
  "module_str M = unlines (module_lines M)"

section \<open>Meaning\<close>

record 'w ir_state =
  ir_rho :: "string \<Rightarrow> i64"
  ir_gamma :: "string \<Rightarrow> i64"
  ir_world :: 'w

fun ir_value :: "const_map \<Rightarrow> (string \<Rightarrow> i64) \<Rightarrow> ir_operand \<Rightarrow> i64" where
  "ir_value cm \<rho> (IReg r) = \<rho> r"
| "ir_value cm \<rho> (IInt v) = v"
| "ir_value cm \<rho> (IStr k) = (case hm_get cm k of Some p \<Rightarrow> p | None \<Rightarrow> 0)"

text \<open>Division by zero gives zero; the overflowing division has no value.\<close>

fun ir_bin :: "ir_op \<Rightarrow> i64 \<Rightarrow> i64 \<Rightarrow> i64 option" where
  "ir_bin O_Add a b = Some (a + b)"
| "ir_bin O_Sub a b = Some (a - b)"
| "ir_bin O_Mul a b = Some (a * b)"
| "ir_bin O_Sdiv a b =
     (if b = 0 then Some 0 else if a = 0x8000000000000000 \<and> b = - 1 then None else Some (word_of_int (sint a sdiv sint b)))"
| "ir_bin O_Udiv a b = Some (a div b)"
| "ir_bin O_Srem a b =
     (if b = 0 then Some 0 else if a = 0x8000000000000000 \<and> b = - 1 then None else Some (word_of_int (sint a smod sint b)))"
| "ir_bin O_Urem a b = Some (if b = 0 then 0 else a mod b)"
| "ir_bin O_Shl a b = Some (push_bit (unat b mod 64) a)"
| "ir_bin O_Ashr a b = Some (signed_drop_bit (unat b mod 64) a)"
| "ir_bin O_Lshr a b = Some (drop_bit (unat b mod 64) a)"
| "ir_bin O_And a b = Some (a AND b)"
| "ir_bin O_Or a b = Some (a OR b)"
| "ir_bin O_Xor a b = Some (a XOR b)"

fun ir_cmp :: "ir_cond \<Rightarrow> i64 \<Rightarrow> i64 \<Rightarrow> bool" where
  "ir_cmp C_Sgt a b \<longleftrightarrow> sint a > sint b"
| "ir_cmp C_Sge a b \<longleftrightarrow> sint a \<ge> sint b"
| "ir_cmp C_Eq a b \<longleftrightarrow> a = b"
| "ir_cmp C_Ne a b \<longleftrightarrow> a \<noteq> b"
| "ir_cmp C_Slt a b \<longleftrightarrow> sint a < sint b"
| "ir_cmp C_Sle a b \<longleftrightarrow> sint a \<le> sint b"
| "ir_cmp C_Ugt a b \<longleftrightarrow> a > b"
| "ir_cmp C_Uge a b \<longleftrightarrow> a \<ge> b"
| "ir_cmp C_Ult a b \<longleftrightarrow> a < b"
| "ir_cmp C_Ule a b \<longleftrightarrow> a \<le> b"

text \<open>A phi without a pair for the predecessor keeps the old value of its register.\<close>

fun ir_eval ::
    "(string \<Rightarrow> i64 list \<Rightarrow> 'w \<Rightarrow> (i64 \<times> 'w) option) \<Rightarrow> const_map \<Rightarrow> string \<Rightarrow> string \<Rightarrow> ir_rhs \<Rightarrow> 'w ir_state \<Rightarrow>
     (i64 \<times> 'w) option" where
  "ir_eval service cm prev d (R_Call ty f as) \<sigma> = service f (map (ir_value cm (ir_rho \<sigma>) \<circ> snd) as) (ir_world \<sigma>)"
| "ir_eval service cm prev d (R_Bin op ty a b) \<sigma> =
     map_option (\<lambda>v. (v, ir_world \<sigma>)) (ir_bin op (ir_value cm (ir_rho \<sigma>) a) (ir_value cm (ir_rho \<sigma>) b))"
| "ir_eval service cm prev d (R_Cmp c ty a b) \<sigma> =
     Some (if ir_cmp c (ir_value cm (ir_rho \<sigma>) a) (ir_value cm (ir_rho \<sigma>) b) then 1 else 0, ir_world \<sigma>)"
| "ir_eval service cm prev d (R_Cast k ty a ty') \<sigma> = Some (ir_value cm (ir_rho \<sigma>) a, ir_world \<sigma>)"
| "ir_eval service cm prev d (R_Select ty c a b) \<sigma> =
     Some (ir_value cm (ir_rho \<sigma>) (if ir_value cm (ir_rho \<sigma>) c \<noteq> 0 then a else b), ir_world \<sigma>)"
| "ir_eval service cm prev d (R_Phi ty ps) \<sigma> =
     Some (case find (\<lambda>(a, l). l = prev) ps of Some (a, _) \<Rightarrow> ir_value cm (ir_rho \<sigma>) a | None \<Rightarrow> ir_rho \<sigma> d, ir_world \<sigma>)"
| "ir_eval service cm prev d (R_Load ty g) \<sigma> = Some (ir_gamma \<sigma> g, ir_world \<sigma>)"

fun ir_step ::
    "(string \<Rightarrow> i64 list \<Rightarrow> 'w \<Rightarrow> (i64 \<times> 'w) option) \<Rightarrow> const_map \<Rightarrow> (ir_instr, 'w ir_state) step" where
  "ir_step service cm prev (I_Assign d r) \<sigma> =
     map_option (\<lambda>(v, w). (Run_Ok, \<sigma>\<lparr>ir_rho := (ir_rho \<sigma>)(d := v), ir_world := w\<rparr>)) (ir_eval service cm prev d r \<sigma>)"
| "ir_step service cm prev (I_Store ty a g) \<sigma> =
     Some (Run_Ok, \<sigma>\<lparr>ir_gamma := (ir_gamma \<sigma>)(g := ir_value cm (ir_rho \<sigma>) a)\<rparr>)"
| "ir_step service cm prev (I_Br l) \<sigma> = Some (Branch l, \<sigma>)"
| "ir_step service cm prev (I_Cond c l m) \<sigma> = Some (Branch (if ir_value cm (ir_rho \<sigma>) c \<noteq> 0 then l else m), \<sigma>)"
| "ir_step service cm prev (I_Switch ty v d cs) \<sigma> =
     Some (Branch (case map_of cs (ir_value cm (ir_rho \<sigma>) v) of Some l \<Rightarrow> l | None \<Rightarrow> d), \<sigma>)"
| "ir_step service cm prev (I_Ret ty a) \<sigma> = Some (Return (ir_value cm (ir_rho \<sigma>) a), \<sigma>)"

definition ir_bind :: "string list \<Rightarrow> i64 list \<Rightarrow> string \<Rightarrow> i64" where
  "ir_bind ps args x = (case map_of (zip (rev ps) (rev (map (\<lambda>i. if i < length args then args ! i else 0) [0..<length ps]))) x of
     Some v \<Rightarrow> v | None \<Rightarrow> 0)"

definition ir_run_function ::
    "(string \<Rightarrow> i64 list \<Rightarrow> 'w \<Rightarrow> (i64 \<times> 'w) option) \<Rightarrow> const_map \<Rightarrow> ir_function \<Rightarrow> i64 list \<Rightarrow> 'w \<Rightarrow> (i64 \<times> 'w) option" where
  "ir_run_function service cm F args w =
     map_option (\<lambda>(v, \<sigma>). (v, ir_world \<sigma>))
       (block_loop (ir_step service cm) (if_blocks F) MAX_BLOCKS [] ''entry''
         \<lparr>ir_rho = ir_bind (map snd (if_params F)) args, ir_gamma = (\<lambda>_. 0), ir_world = w\<rparr>)"

section \<open>Well-formed modules\<close>

text \<open>
  Names are made of letters, digits, underscores and points.  \<open>N\<close> lists the names of registers and
  globals, whose hashes have to differ.  A label does not start like a terminator, since the executor
  takes \<open>return:\<close> for an instruction.
\<close>

definition name_char :: "char \<Rightarrow> bool" where
  "name_char c \<longleftrightarrow> (let n = (of_char c :: nat) in n \<in> {48..57} \<or> n \<in> {65..90} \<or> n \<in> {97..122} \<or> n = 95 \<or> n = 46)"

definition plain :: "string \<Rightarrow> bool" where
  "plain s \<longleftrightarrow> s \<noteq> [] \<and> list_all name_char s"

fun operand_wf :: "string list \<Rightarrow> ir_operand \<Rightarrow> bool" where
  "operand_wf N (IReg r) \<longleftrightarrow> plain r \<and> r \<in> set N"
| "operand_wf N (IInt v) \<longleftrightarrow> True"
| "operand_wf N (IStr k) \<longleftrightarrow> plain k"

fun rhs_wf :: "string list \<Rightarrow> ir_rhs \<Rightarrow> bool" where
  "rhs_wf N (R_Bin op ty a b) \<longleftrightarrow> plain ty \<and> operand_wf N a \<and> operand_wf N b"
| "rhs_wf N (R_Cmp c ty a b) \<longleftrightarrow> plain ty \<and> operand_wf N a \<and> operand_wf N b"
| "rhs_wf N (R_Cast k ty a ty') \<longleftrightarrow> plain ty \<and> ty \<noteq> ''to'' \<and> plain ty' \<and> operand_wf N a"
| "rhs_wf N (R_Select ty c a b) \<longleftrightarrow> plain ty \<and> operand_wf N c \<and> operand_wf N a \<and> operand_wf N b"
| "rhs_wf N (R_Phi ty ps) \<longleftrightarrow> plain ty \<and> ps \<noteq> [] \<and> list_all (\<lambda>(a, l). operand_wf N a \<and> plain l) ps"
| "rhs_wf N (R_Load ty g) \<longleftrightarrow> plain ty \<and> plain g \<and> g \<in> set N"
| "rhs_wf N (R_Call ty f as) \<longleftrightarrow> plain ty \<and> plain f \<and> list_all (\<lambda>(t, a). plain t \<and> operand_wf N a) as"

fun instr_wf :: "string list \<Rightarrow> ir_instr \<Rightarrow> bool" where
  "instr_wf N (I_Assign d r) \<longleftrightarrow> plain d \<and> d \<in> set N \<and> rhs_wf N r"
| "instr_wf N (I_Store ty a g) \<longleftrightarrow> plain ty \<and> operand_wf N a \<and> plain g \<and> g \<in> set N"
| "instr_wf N (I_Br l) \<longleftrightarrow> plain l"
| "instr_wf N (I_Cond c l m) \<longleftrightarrow> operand_wf N c \<and> plain l \<and> plain m"
| "instr_wf N (I_Switch ty v d cs) \<longleftrightarrow>
     plain ty \<and> hd ty = CHR ''i'' \<and> operand_wf N v \<and> plain d \<and> list_all (\<lambda>(n, l). plain l) cs"
| "instr_wf N (I_Ret ty a) \<longleftrightarrow> plain ty \<and> operand_wf N a"

definition label_wf :: "string \<Rightarrow> bool" where
  "label_wf l \<longleftrightarrow> plain l \<and> \<not> starts_with ''store'' l \<and> \<not> starts_with ''br'' l \<and> \<not> starts_with ''ret'' l"

definition function_wf :: "string list \<Rightarrow> ir_function \<Rightarrow> bool" where
  "function_wf N F \<longleftrightarrow> plain (if_type F) \<and> plain (if_name F) \<and>
     list_all (\<lambda>(ty, p). plain ty \<and> plain p \<and> p \<in> set N) (if_params F) \<and>
     distinct (map fst (if_blocks F)) \<and> if_blocks F \<noteq> [] \<and> fst (hd (if_blocks F)) = ''entry'' \<and>
     list_all (\<lambda>(l, is). label_wf l \<and> list_all (instr_wf N) is) (if_blocks F)"

text \<open>No line in front of a function or inside one looks like the start of a definition; the text is ASCII.\<close>

definition head_wf :: "string \<Rightarrow> bool" where
  "head_wf l \<longleftrightarrow> CHR 0x0A \<notin> set l \<and> \<not> text_contains l ''define '' \<and> list_all (\<lambda>c. (of_char c :: nat) < 128) l"

definition module_wf :: "string list \<Rightarrow> ir_module \<Rightarrow> bool" where
  "module_wf N M \<longleftrightarrow> distinct (map fnv64 N) \<and> list_all head_wf (im_head M) \<and>
     list_all (function_wf N) (im_functions M) \<and>
     list_all (\<lambda>F. list_all head_wf (concat (map block_lines (if_blocks F)))) (im_functions M)"

end
