(* ===== verification/Ovc_Lines.thy ===== *)
theory Ovc_Lines
  imports Ovc_Ir
begin

text \<open>
  How the string functions of the executor read printed instructions.
\<close>

section \<open>Finding\<close>

declare find_sub.simps [simp del]

lemma find_sub_here [simp]: "find_sub p (p @ s) = Some 0"
  by (subst find_sub.simps) simp

lemma find_sub_Cons: "\<not> starts_with p (c # s) \<Longrightarrow> find_sub p (c # s) = map_option Suc (find_sub p s)"
  by (subst find_sub.simps) simp

lemma find_sub_Nil: "p \<noteq> [] \<Longrightarrow> find_sub p [] = None"
  by (subst find_sub.simps) (simp add: starts_with_def)

lemma starts_with_Cons: "starts_with (p # ps) (c # s) \<longleftrightarrow> p = c \<and> starts_with ps s"
  by (auto simp: starts_with_def)

lemma starts_with_Nil [simp]: "starts_with [] s"
  by (simp add: starts_with_def)

lemma starts_with_empty [simp]: "starts_with p [] \<longleftrightarrow> p = []"
  by (auto simp: starts_with_def)

lemma find_sub_skip:
  "hd p \<notin> set d \<Longrightarrow> p \<noteq> [] \<Longrightarrow> find_sub p (d @ s) = map_option ((+) (length d)) (find_sub p s)"
proof (induction d)
  case Nil
  then show ?case by (simp add: option.map_ident)
next
  case (Cons c d)
  obtain q qs where p: "p = q # qs" using Cons.prems(2) by (cases p) auto
  then have "\<not> starts_with p (c # d @ s)" using Cons.prems(1) by (auto simp: starts_with_Cons)
  then show ?case using Cons p by (simp add: find_sub_Cons option.map_comp comp_def)
qed

lemma find_sub_at: "hd p \<notin> set d \<Longrightarrow> p \<noteq> [] \<Longrightarrow> find_sub p (d @ p @ r) = Some (length d)"
  by (simp add: find_sub_skip)

lemma find_sub_absent: "c \<in> set p \<Longrightarrow> c \<notin> set s \<Longrightarrow> find_sub p s = None"
proof (induction s)
  case Nil
  then show ?case by (intro find_sub_Nil) auto
next
  case (Cons x s)
  have "\<not> starts_with p (x # s)"
  proof
    assume "starts_with p (x # s)"
    then have "set p \<subseteq> set (x # s)" by (metis starts_with_def set_take_subset)
    then show False using Cons.prems by auto
  qed
  then show ?case using Cons by (simp add: find_sub_Cons)
qed

lemma find_char_at: "c \<notin> set d \<Longrightarrow> find_char c (d @ c # r) = Some (length d)"
  using find_sub_at[of "[c]" d r] by (simp add: find_char_def)

lemma find_char_absent: "c \<notin> set s \<Longrightarrow> find_char c s = None"
  by (simp add: find_char_def find_sub_absent)

lemma rfind_char_at: "c \<notin> set r \<Longrightarrow> rfind_sub [c] (d @ c # r) = Some (length d)"
  using find_sub_at[of "[c]" "rev r" "rev d"] by (simp add: rfind_sub_def)

lemma split_once_at: "c \<notin> set a \<Longrightarrow> split_once c (a @ c # b) = Some (a, b)"
  by (induction a) (auto simp: split_once_def)

lemma split_once_absent: "c \<notin> set a \<Longrightarrow> split_once c a = None"
  by (simp add: split_once_def)

lemma split_on_absent: "d \<notin> set s \<Longrightarrow> split_on d cur s = [rev cur @ s]"
  by (induction s arbitrary: cur) auto

lemma split_on_at: "d \<notin> set a \<Longrightarrow> split_on d cur (a @ d # b) = (rev cur @ a) # split_on d [] b"
  by (induction a arbitrary: cur) auto

lemma drop_end_other: "s \<noteq> [] \<Longrightarrow> last s \<noteq> c \<Longrightarrow> drop_end c s = s"
  by (cases s rule: rev_cases) (simp_all add: drop_end_def)

lemma drop_end_snoc: "s \<noteq> [] \<Longrightarrow> last s \<noteq> c \<Longrightarrow> drop_end c (s @ [c]) = s"
  by (cases s rule: rev_cases) (simp_all add: drop_end_def)

lemma drop_end_Nil [simp]: "drop_end c [] = []"
  by (simp add: drop_end_def)

lemma drop_chars_other: "s \<noteq> [] \<Longrightarrow> hd s \<noteq> c \<Longrightarrow> drop_chars c s = s"
  by (cases s) (simp_all add: drop_chars_def)

lemma drop_chars_Cons [simp]: "drop_chars c (c # s) = drop_chars c s"
  by (simp add: drop_chars_def)

section \<open>Words\<close>

definition solid :: "string \<Rightarrow> bool" where
  "solid t \<longleftrightarrow> t \<noteq> [] \<and> list_all graphic t"

lemma space_at_graphic: "graphic c \<Longrightarrow> space_at (c # s) = 0"
proof -
  assume "graphic c"
  then have "find (\<lambda>w. starts_with w (c # s)) white_space = None"
    using white_space_ends starts_with_hd[of _ "c # s"] by (fastforce simp: find_None_iff)
  then show ?thesis by (simp add: space_at_def)
qed

lemma white_space_space:
  "[CHR '' ''] \<in> set white_space \<and> (\<forall>w \<in> set white_space. (hd w = CHR '' '' \<or> last w = CHR '' '') \<longrightarrow> w = [CHR '' ''])"
  by code_simp

lemma find_space:
  assumes "[CHR '' ''] \<in> set ws" "\<forall>w \<in> set ws. w \<noteq> [] \<and> (hd w = CHR '' '' \<longrightarrow> w = [CHR '' ''])"
  shows "find (\<lambda>w. starts_with w (CHR '' '' # s)) ws = Some [CHR '' '']"
proof (cases "find (\<lambda>w. starts_with w (CHR '' '' # s)) ws")
  case None
  then show ?thesis using assms(1) by (auto simp: find_None_iff starts_with_Cons)
next
  case (Some w)
  then have "w \<in> set ws" "starts_with w (CHR '' '' # s)" by (auto simp: find_Some_iff)
  then show ?thesis using assms(2) starts_with_hd[of w "CHR '' '' # s"] Some by fastforce
qed

lemma strip_any_space:
  assumes "[CHR '' ''] \<in> set ws" "\<forall>w \<in> set ws. w \<noteq> [] \<and> \<not> graphic (hd w) \<and> (hd w = CHR '' '' \<longrightarrow> w = [CHR '' ''])" "s \<noteq> []" "graphic (hd s)"
  shows "strip_any (Suc k) ws (CHR '' '' # s) = s"
proof -
  have "find (\<lambda>w. starts_with w (CHR '' '' # s)) ws = Some [CHR '' '']"
    by (rule find_space[OF assms(1)]) (use assms(2) in blast)
  moreover have "strip_any k ws s = s"
    using assms(2-4) starts_with_hd[of _ s] by (intro strip_any_none) metis
  ultimately show ?thesis by simp
qed

lemma space_at_space: "space_at (CHR '' '' # s) = 1"
proof -
  have "find (\<lambda>w. starts_with w (CHR '' '' # s)) white_space = Some [CHR '' '']"
    by (rule find_space) (use white_space_space white_space_ends in blast)+
  then show ?thesis by (simp add: space_at_def)
qed

lemma split_space_graphic: "list_all graphic t \<Longrightarrow> split_space 0 cur (t @ s) = split_space 0 (rev t @ cur) s"
  by (induction t arbitrary: cur) (simp_all add: space_at_graphic)

lemma words_Cons: "solid t \<Longrightarrow> words (t @ CHR '' '' # s) = t # words s"
  by (simp add: words_def solid_def split_space_graphic space_at_space)

lemma words_single: "solid t \<Longrightarrow> words t = [t]"
  using split_space_graphic[of t "[]" "[]"] by (simp add: words_def solid_def)

lemma words_space: "words (CHR '' '' # s) = words s"
  by (simp add: words_def space_at_space)

lemma words_Nil: "words [] = []"
  by (simp add: words_def)

lemma trim_solid_ends: "s \<noteq> [] \<Longrightarrow> graphic (hd s) \<Longrightarrow> graphic (last s) \<Longrightarrow> trim s = s"
  by (rule trim_graphic)

lemma starts_with_set: "starts_with p s \<Longrightarrow> set p \<subseteq> set s"
  by (metis starts_with_def set_take_subset)

lemma trim_leading:
  assumes "s \<noteq> []" "graphic (hd s)" "graphic (last s)"
  shows "trim (CHR '' '' # s) = s"
proof -
  have "trim_start (CHR '' '' # s) = s"
    unfolding trim_start_def length_Cons
    by (rule strip_any_space) (use assms white_space_ends white_space_space in \<open>blast | simp\<close>)+
  moreover have "trim_start s = s"
    unfolding trim_start_def using assms white_space_ends starts_with_hd[of _ s] by (intro strip_any_none) metis
  ultimately have "trim (CHR '' '' # s) = trim s" by (simp add: trim_def)
  then show ?thesis using trim_graphic[OF assms] by simp
qed

lemma rev_white_space:
  "[CHR '' ''] \<in> set (map rev white_space)"
  "\<forall>w \<in> set (map rev white_space). w \<noteq> [] \<and> \<not> graphic (hd w) \<and> (hd w = CHR '' '' \<longrightarrow> w = [CHR '' ''])"
proof -
  have "rev [CHR '' ''] \<in> set (map rev white_space)"
    using white_space_space unfolding set_map by (blast intro: imageI)
  then show "[CHR '' ''] \<in> set (map rev white_space)" by simp
  show "\<forall>w \<in> set (map rev white_space). w \<noteq> [] \<and> \<not> graphic (hd w) \<and> (hd w = CHR '' '' \<longrightarrow> w = [CHR '' ''])"
  proof
    fix w assume "w \<in> set (map rev white_space)"
    then obtain v where v: "v \<in> set white_space" "w = rev v" by auto
    moreover have "last v = CHR '' '' \<longrightarrow> v = [CHR '' '']" using v(1) white_space_space by blast
    ultimately show "w \<noteq> [] \<and> \<not> graphic (hd w) \<and> (hd w = CHR '' '' \<longrightarrow> w = [CHR '' ''])"
      using white_space_ends[of v] by (auto simp: hd_rev)
  qed
qed

lemma trim_both:
  assumes "s \<noteq> []" "graphic (hd s)" "graphic (last s)"
  shows "trim (CHR '' '' # s @ '' '') = s"
proof -
  have "trim_start (CHR '' '' # s @ '' '') = s @ '' ''"
    unfolding trim_start_def length_Cons
    by (rule strip_any_space) (use assms white_space_ends white_space_space in \<open>blast | simp\<close>)+
  moreover have "strip_any (Suc (length s)) (map rev white_space) (CHR '' '' # rev s) = rev s"
    by (rule strip_any_space[OF rev_white_space]) (use assms in \<open>simp_all add: hd_rev\<close>)
  ultimately show ?thesis by (simp add: trim_def)
qed

section \<open>Names and operands\<close>

lemma name_char_graphic: "name_char c \<Longrightarrow> graphic c"
  by (auto simp: name_char_def graphic_def Let_def)

lemma name_char_not:
  "name_char c \<Longrightarrow> c \<notin> {CHR '' '', CHR '','', CHR ''%'', CHR ''@'', CHR ''('', CHR '')'', CHR ''['', CHR '']'', CHR ''='',
     CHR '':'', CHR '';'', CHR ''{'', CHR ''}'', CHR ''-'', CHR 0x0A, CHR 0x0D, CHR 0x22}"
  by (auto simp: name_char_def)

lemma plain_solid: "plain s \<Longrightarrow> solid s"
  by (auto simp: plain_def solid_def list_all_iff name_char_graphic)

lemma plain_not: "plain s \<Longrightarrow> \<not> name_char c \<Longrightarrow> c \<notin> set s"
  by (auto simp: plain_def list_all_iff)

lemma name_char_digits: "is_ascii_digit c \<Longrightarrow> name_char c"
  by (auto simp: is_ascii_digit_def name_char_def)

end
