(* ===== verification/Ovc_Operands.thy ===== *)
theory Ovc_Operands
  imports Ovc_Lines
begin

text \<open>Printed operands, and what \<open>resolve\<close> makes of them.\<close>

section \<open>Integers\<close>

lemma digit_not_sign: "is_ascii_digit c \<Longrightarrow> c \<noteq> CHR ''-'' \<and> c \<noteq> CHR ''+''"
  by (auto simp: is_ascii_digit_def)

lemma sint_i64_bounds: "- (2 ^ 63) \<le> sint (v :: i64) \<and> sint v < 2 ^ 63"
  using sint_greater_eq[of v] sint_less[of v] by simp

lemma int_text_shape:
  "\<exists>ds. ds \<noteq> [] \<and> list_all is_ascii_digit ds \<and>
     (int_text v = ds \<and> 0 \<le> sint v \<and> dec_val ds = nat (sint v) \<or> int_text v = CHR ''-'' # ds \<and> sint v < 0 \<and> dec_val ds = nat (- sint v))"
  using fmt_dec_digits[of "nat (sint v)"] fmt_dec_digits[of "nat (- sint v)"] by (auto simp: int_text_def)

lemma parse_int_text [simp]: "parse_i64 (int_text v) = Some v"
proof -
  obtain ds where ds: "ds \<noteq> []" "list_all is_ascii_digit ds"
    and cases: "int_text v = ds \<and> 0 \<le> sint v \<and> dec_val ds = nat (sint v) \<or>
      int_text v = CHR ''-'' # ds \<and> sint v < 0 \<and> dec_val ds = nat (- sint v)"
    using int_text_shape[of v] by blast
  have "hd ds \<noteq> CHR ''-'' \<and> hd ds \<noteq> CHR ''+''" using ds by (cases ds) (simp_all add: digit_not_sign)
  then show ?thesis
    using cases ds sint_i64_bounds[of v] by (elim disjE) (simp_all add: parse_i64_def)
qed

section \<open>Characters of operands\<close>

definition operand_char :: "char \<Rightarrow> bool" where
  "operand_char c \<longleftrightarrow> name_char c \<or> c \<in> {CHR ''%'', CHR ''@'', CHR ''-''}"

lemma operand_char_graphic: "operand_char c \<Longrightarrow> graphic c"
  using name_char_graphic[of c] by (auto simp: operand_char_def graphic_def)

lemma digits_operand: "list_all is_ascii_digit ds \<Longrightarrow> list_all operand_char ds \<and> list_all name_char ds"
  by (auto simp: list_all_iff operand_char_def name_char_digits)

lemma int_text_chars: "int_text v \<noteq> [] \<and> list_all operand_char (int_text v) \<and> name_char (last (int_text v)) \<and>
    hd (int_text v) \<notin> {CHR ''%'', CHR ''@''}"
proof -
  obtain ds where ds: "ds \<noteq> []" "list_all is_ascii_digit ds" "int_text v = ds \<or> int_text v = CHR ''-'' # ds"
    using int_text_shape[of v] by blast
  have "list_all operand_char ds" "list_all name_char ds" using digits_operand[OF ds(2)] by simp_all
  moreover have "name_char (last ds)" "hd ds \<notin> {CHR ''%'', CHR ''@''}"
    using ds(1) \<open>list_all name_char ds\<close> name_char_not[of "hd ds"] by (auto simp: list_all_iff)
  ultimately show ?thesis using ds(1,3) by (auto simp: operand_char_def)
qed

lemma operand_chars:
  assumes "operand_wf N a"
  shows "operand_str a \<noteq> []" "list_all operand_char (operand_str a)" "name_char (last (operand_str a))"
  using assms int_text_chars by (cases a; auto simp: plain_def operand_char_def list_all_iff)+

lemma operand_solid: "operand_wf N a \<Longrightarrow> solid (operand_str a)"
  using operand_chars[of N a] by (auto simp: solid_def list_all_iff operand_char_graphic)

lemma operand_not: "operand_wf N a \<Longrightarrow> \<not> operand_char c \<Longrightarrow> c \<notin> set (operand_str a)"
  using operand_chars(2)[of N a] by (auto simp: list_all_iff)

lemmas char_facts = operand_char_def name_char_def

lemma operand_ends:
  assumes "operand_wf N a"
  shows "graphic (hd (operand_str a))" "graphic (last (operand_str a))" "last (operand_str a) \<noteq> CHR '',''"
    "last (operand_str a) \<noteq> CHR '')''"
  using operand_solid[OF assms] operand_chars(3)[OF assms] name_char_not
  by (auto simp: solid_def list_all_iff)

lemma solid_comma: "solid t \<Longrightarrow> solid (t @ '','')"
  by (simp add: solid_def graphic_def)

lemma trim_solid: "solid s \<Longrightarrow> trim s = s"
  by (rule trim_graphic) (auto simp: solid_def list_all_iff)

section \<open>Resolving\<close>

lemma reg_name_plain: "plain r \<Longrightarrow> reg_name (CHR ''%'' # r) = r"
  using name_char_not[of "hd r"] by (cases r) (auto simp: reg_name_def plain_def drop_chars_def)

lemma const_plain: "plain k \<Longrightarrow> const_value cm (CHR ''@'' # k) = (case hm_get cm k of Some p \<Rightarrow> p | None \<Rightarrow> 0)"
proof -
  assume k: "plain k"
  then have "drop_chars (CHR ''@'') (CHR ''@'' # k) = k" "drop_end (CHR '','') k = k"
    using name_char_not[of "hd k"] name_char_not[of "last k"]
    by (auto simp: plain_def list_all_iff drop_chars_other intro!: drop_end_other)
  then show ?thesis by (simp add: const_value_def or_zero_def)
qed

lemma int_text_last: "int_text v \<noteq> []" "last (int_text v) \<noteq> CHR '')''"
  using int_text_chars[of v] name_char_not by auto

lemma resolve_word:
  assumes "operand_wf N a"
  shows "(if starts_with ''%'' (operand_str a) then regs_get r (reg_name (operand_str a))
     else if starts_with ''@'' (operand_str a) then const_value cm (operand_str a)
     else or_zero (parse_i64 (drop_end (CHR '')'') (operand_str a)))) = ir_value cm (regs_get r) a"
proof (cases a)
  case (IInt v)
  obtain c s where "int_text v = c # s" using int_text_last(1)[of v] by (cases "int_text v") auto
  moreover have "hd (int_text v) \<notin> {CHR ''%'', CHR ''@''}" using int_text_chars by blast
  ultimately have "\<not> starts_with ''%'' (int_text v)" "\<not> starts_with ''@'' (int_text v)"
    by (auto simp: starts_with_Cons)
  with IInt show ?thesis using int_text_last[of v] by (simp add: drop_end_other or_zero_def)
qed (use assms in \<open>simp_all add: starts_with_Cons reg_name_plain const_plain\<close>)

lemma not_null:
  assumes "operand_wf N a"
  shows "operand_str a \<noteq> ''null''" "operand_str a \<noteq> ''nullptr''"
proof -
  have "hd (operand_str a) \<in> {CHR ''%'', CHR ''@'', CHR ''-''} \<or> is_ascii_digit (hd (operand_str a))"
  proof (cases a)
    case (IInt v)
    obtain ds where ds: "ds \<noteq> []" "list_all is_ascii_digit ds" "int_text v = ds \<or> int_text v = CHR ''-'' # ds"
      using int_text_shape[of v] by blast
    then show ?thesis using IInt by (cases ds) auto
  qed simp_all
  then show "operand_str a \<noteq> ''null''" "operand_str a \<noteq> ''nullptr''"
    by (cases "operand_str a"; auto simp: is_ascii_digit_def)+
qed

lemma ends_with_word:
  assumes "solid t" "solid w"
  shows "ends_with (CHR '' '' # w) (p @ CHR '' '' # t) \<longleftrightarrow> w = t"
proof -
  have len: "CHR '' '' \<notin> set t" "CHR '' '' \<notin> set w"
    using assms by (auto simp: solid_def list_all_iff graphic_def)
  show ?thesis
  proof
    assume "ends_with (CHR '' '' # w) (p @ CHR '' '' # t)"
    then have pre: "take (length w + 1) (rev t @ CHR '' '' # rev p) = rev w @ [CHR '' '']"
      by (simp add: ends_with_def starts_with_def)
    define q where "q = drop (length w + 1) (rev t @ CHR '' '' # rev p)"
    have "rev t @ CHR '' '' # rev p = rev w @ CHR '' '' # q"
      using append_take_drop_id[of "length w + 1" "rev t @ CHR '' '' # rev p"] unfolding pre q_def by simp
    then have "takeWhile (\<lambda>c. c \<noteq> CHR '' '') (rev t @ CHR '' '' # rev p) = takeWhile (\<lambda>c. c \<noteq> CHR '' '') (rev w @ CHR '' '' # q)"
      by simp
    moreover have "takeWhile (\<lambda>c. c \<noteq> CHR '' '') (rev x @ CHR '' '' # y) = rev x" if "CHR '' '' \<notin> set x" for x y
      using that by (subst takeWhile_append2) auto
    ultimately show "w = t" using len by simp
  next
    assume "w = t"
    then show "ends_with (CHR '' '' # w) (p @ CHR '' '' # t)" by (simp add: ends_with_def starts_with_def)
  qed
qed

text \<open>An operand alone, possibly with a comma behind it, and an operand with its type.\<close>

lemma resolve_operand:
  assumes "operand_wf N a"
  shows "resolve r cm (operand_str a) = ir_value cm (regs_get r) a"
    and "resolve r cm (operand_str a @ '','') = ir_value cm (regs_get r) a"
proof -
  note solid = operand_solid[OF assms] and ends = operand_ends[OF assms] and chars = operand_chars[OF assms]
  have paren: "find_sub ''inttoptr ('' (operand_str a) = None"
    by (rule find_sub_absent[of "CHR ''(''"]) (use operand_not[OF assms] in \<open>simp_all add: char_facts\<close>)
  have null: "\<not> ends_with '' null'' (operand_str a)"
  proof
    assume "ends_with '' null'' (operand_str a)"
    then have "set (rev '' null'') \<subseteq> set (rev (operand_str a))" unfolding ends_with_def by (rule starts_with_set)
    then have "CHR '' '' \<in> set (operand_str a)" by simp
    then show False using operand_not[OF assms, of "CHR '' ''"] by (simp add: char_facts)
  qed
  have last: "last_word (operand_str a) (operand_str a) = operand_str a"
    using words_single[OF solid] by (simp add: last_word_def)
  note facts = resolve_word[OF assms, of r cm] not_null[OF assms] null paren last
  show "resolve r cm (operand_str a) = ir_value cm (regs_get r) a"
    unfolding resolve_def trim_solid[OF solid] drop_end_other[OF chars(1) ends(3)] Let_def
    using facts by (auto split: if_splits)
  show "resolve r cm (operand_str a @ '','') = ir_value cm (regs_get r) a"
    unfolding resolve_def trim_solid[OF solid_comma[OF solid]] drop_end_snoc[OF chars(1) ends(3)] Let_def
    using facts by (auto split: if_splits)
qed

lemma typed_facts:
  assumes "plain ty" "operand_wf N a"
  shows "hd (typed (ty, a)) = hd ty" "last (typed (ty, a)) = last (operand_str a)" "typed (ty, a) \<noteq> []"
    "trim (typed (ty, a)) = typed (ty, a)" "words (typed (ty, a)) = [ty, operand_str a]"
    "\<And>c. c \<notin> {CHR '' '', CHR ''%'', CHR ''@'', CHR ''-''} \<Longrightarrow> \<not> name_char c \<Longrightarrow> c \<notin> set (typed (ty, a))"
proof -
  note o = operand_solid[OF assms(2)] operand_chars(1)[OF assms(2)] operand_ends(1,2)[OF assms(2)]
  have ty: "ty \<noteq> []" "solid ty" "graphic (hd ty)"
    using assms(1) plain_solid[OF assms(1)] by (auto simp: plain_def solid_def list_all_iff)
  show "hd (typed (ty, a)) = hd ty" "typed (ty, a) \<noteq> []" using ty by (simp_all add: typed_def)
  show "last (typed (ty, a)) = last (operand_str a)" using o by (simp add: typed_def)
  then show "trim (typed (ty, a)) = typed (ty, a)"
    using ty o by (intro trim_graphic) (simp_all add: typed_def)
  show "words (typed (ty, a)) = [ty, operand_str a]"
    using words_Cons[OF ty(2)] words_single[OF o(1)] by (simp add: typed_def)
  show "c \<notin> set (typed (ty, a))" if "c \<notin> {CHR '' '', CHR ''%'', CHR ''@'', CHR ''-''}" "\<not> name_char c" for c
    using that operand_not[OF assms(2), of c] plain_not[OF assms(1), of c] by (auto simp: typed_def operand_char_def)
qed

lemma resolve_typed:
  assumes "plain ty" "operand_wf N a"
  shows "resolve r cm (typed (ty, a)) = ir_value cm (regs_get r) a"
proof -
  note t = typed_facts[OF assms]
  have "hd ty \<noteq> CHR ''%''" "hd ty \<noteq> CHR ''@''"
    using assms(1) name_char_not[of "hd ty"] by (auto simp: plain_def list_all_iff)
  moreover obtain c s where "typed (ty, a) = c # s" using t(3) by (cases "typed (ty, a)") auto
  ultimately have start: "\<not> starts_with ''%'' (typed (ty, a))" "\<not> starts_with ''@'' (typed (ty, a))"
    using t(1) by (auto simp: starts_with_Cons)
  have paren: "find_sub ''inttoptr ('' (typed (ty, a)) = None"
    by (rule find_sub_absent[of "CHR ''(''"]) (use t(6)[of "CHR ''(''"] in \<open>simp_all add: name_char_def\<close>)
  have "CHR '' '' \<in> set (typed (ty, a))" by (simp add: typed_def)
  then have null: "typed (ty, a) \<noteq> ''null''" "typed (ty, a) \<noteq> ''nullptr''" by auto
  have "solid ''null''" by (simp add: solid_def graphic_def)
  then have "\<not> ends_with '' null'' (typed (ty, a))"
    using ends_with_word[OF operand_solid[OF assms(2)], of "''null''" ty] not_null(1)[OF assms(2)] by (auto simp: typed_def)
  moreover have "last_word (typed (ty, a)) (typed (ty, a)) = operand_str a"
    by (simp add: last_word_def t(5))
  moreover have "drop_end (CHR '','') (typed (ty, a)) = typed (ty, a)"
    using t(2,3) operand_ends(3)[OF assms(2)] by (simp add: drop_end_other)
  ultimately show ?thesis
    unfolding resolve_def t(4) Let_def using start paren null resolve_word[OF assms(2), of r cm] by (auto split: if_splits)
qed

end
