(* ===== verification/Ovc_Steps.thy ===== *)
theory Ovc_Steps
  imports Ovc_Operands
begin

text \<open>One printed instruction: the executor does on registers what the reference step does on a map.\<close>

section \<open>Registers\<close>

text \<open>A store whose cells are found by a hash of their name.\<close>

locale hashed_cells =
  fixes hash :: "'n \<Rightarrow> 'h" and get :: "'r \<Rightarrow> 'n \<Rightarrow> 'v" and put :: "'r \<Rightarrow> 'n \<Rightarrow> 'v \<Rightarrow> 'r"
  assumes get_put: "get (put r x v) y = (if hash y = hash x then v else get r y)"
begin

lemma agree_put:
  assumes "distinct (map hash N)" "d \<in> set N" "\<forall>x \<in> set N. get r x = \<rho> x"
  shows "\<forall>x \<in> set N. get (put r d v) x = (\<rho>(d := v)) x"
  using assms by (auto simp: get_put distinct_map inj_on_def)

end

lemma set_first_None: "set_first k v r = None \<longleftrightarrow> find (\<lambda>(h, _). h = k) r = None"
  by (induction r) auto

lemma find_set_first:
  "set_first k v r = Some r' \<Longrightarrow> find (\<lambda>(h, _). h = j) r' = (if j = k then Some (k, v) else find (\<lambda>(h, _). h = j) r)"
  by (induction r arbitrary: r') (auto split: if_splits)

lemma regs_get_set: "regs_get (regs_set r x v) y = (if fnv64 y = fnv64 x then v else regs_get r y)"
proof (cases "set_first (fnv64 x) v (rev r)")
  case None
  moreover from this have "find (\<lambda>(h, _). h = fnv64 x) (rev r) = None" by (simp add: set_first_None)
  ultimately show ?thesis by (simp add: regs_get_def regs_set_def)
next
  case (Some r')
  then show ?thesis by (simp add: regs_get_def regs_set_def find_set_first)
qed

interpretation rf: hashed_cells fnv64 regs_get regs_set
  by unfold_locales (rule regs_get_set)

definition agrees :: "string list \<Rightarrow> regs \<Rightarrow> (string \<Rightarrow> i64) \<Rightarrow> bool" where
  "agrees N r \<rho> \<longleftrightarrow> (\<forall>x \<in> set N. regs_get r x = \<rho> x)"

lemma agrees_set: "distinct (map fnv64 N) \<Longrightarrow> d \<in> set N \<Longrightarrow> agrees N r \<rho> \<Longrightarrow> agrees N (regs_set r d v) (\<rho>(d := v))"
  unfolding agrees_def by (rule rf.agree_put)

lemma agrees_value: "agrees N r \<rho> \<Longrightarrow> operand_wf N a \<Longrightarrow> ir_value cm (regs_get r) a = ir_value cm \<rho> a"
  by (cases a) (auto simp: agrees_def)

section \<open>Characters of a line\<close>

definition line_char :: "char \<Rightarrow> bool" where
  "line_char c \<longleftrightarrow> operand_char c \<or> c \<in> {CHR '' '', CHR '','', CHR ''='', CHR ''('', CHR '')'', CHR ''['', CHR '']''}"

lemma plain_line: "plain s \<Longrightarrow> list_all line_char s"
  by (auto simp: plain_def list_all_iff line_char_def operand_char_def)

lemma operand_line: "operand_wf N a \<Longrightarrow> list_all line_char (operand_str a)"
  using operand_chars(2)[of N a] by (auto simp: list_all_iff line_char_def)

lemma joined_all: "list_all (list_all P) ss \<Longrightarrow> P (CHR '','') \<Longrightarrow> P (CHR '' '') \<Longrightarrow> list_all P (joined ss)"
  by (induction ss rule: joined.induct) auto

lemma line_marks [simp]:
  "line_char (CHR '' '')" "line_char (CHR '','')" "line_char (CHR ''='')" "line_char (CHR ''('')" "line_char (CHR '')'')"
  "line_char (CHR ''['')" "line_char (CHR '']'')" "line_char (CHR ''%'')" "line_char (CHR ''@'')"
  by (simp_all add: line_char_def operand_char_def)

lemma name_line: "name_char c \<Longrightarrow> line_char c"
  by (simp add: line_char_def operand_char_def)

lemma op_plain: "plain (op_str op)" "plain (cond_str c)" "plain (cast_str k)"
proof -
  show "plain (op_str op)" by (cases op; simp add: plain_def name_char_def)
  show "plain (cond_str c)" by (cases c; simp add: plain_def name_char_def)
  show "plain (cast_str k)" by (cases k; simp add: plain_def name_char_def)
qed

lemma int_text_line: "list_all line_char (int_text v)"
  using int_text_chars[of v] by (auto simp: list_all_iff line_char_def)

lemma letters_line: "list_all name_char s \<Longrightarrow> list_all line_char s"
  by (auto simp: list_all_iff name_line)

lemma pieces_line:
  "operand_wf N a \<Longrightarrow> plain l \<Longrightarrow> list_all line_char (incoming (a, l))"
  "operand_wf N a \<Longrightarrow> plain ty \<Longrightarrow> list_all line_char (typed (ty, a))"
  by (simp_all add: incoming_def typed_def operand_line plain_line)

lemma rhs_line: "rhs_wf N r \<Longrightarrow> list_all line_char (rhs_str r)"
proof (cases r)
  case (R_Phi ty ps)
  assume wf: "rhs_wf N r"
  have "list_all line_char (joined (map incoming ps))"
    by (rule joined_all) (use wf R_Phi pieces_line(1) in \<open>auto simp: list_all_iff[of _ ps] list_all_iff[of _ "map incoming ps"]\<close>)
  then show ?thesis using wf R_Phi by (simp add: plain_line name_line name_char_def)
next
  case (R_Call ty f as)
  assume wf: "rhs_wf N r"
  have "list_all line_char (joined (map typed as))"
    by (rule joined_all) (use wf R_Call pieces_line(2) in \<open>auto simp: list_all_iff[of _ as] list_all_iff[of _ "map typed as"]\<close>)
  then show ?thesis using wf R_Call by (simp add: plain_line name_line name_char_def)
qed (use op_plain in \<open>simp_all add: plain_line operand_line[of N] pieces_line[of N] name_line name_char_def\<close>)

lemma switch_line: "list_all (\<lambda>(n, l). plain l) cs \<Longrightarrow> plain ty \<Longrightarrow> list_all line_char (concat (map (switch_case ty) cs))"
  by (induction cs) (auto simp: switch_case_def plain_line int_text_line name_line name_char_def)

lemma instr_line: "instr_wf N i \<Longrightarrow> list_all line_char (instr_str i)"
  by (cases i) (simp_all add: plain_line operand_line[of N] rhs_line[of N] switch_line name_line name_char_def)

section \<open>Values\<close>

lemma words_comma: "solid t \<Longrightarrow> words (t @ CHR '','' # CHR '' '' # s) = (t @ '','') # words s"
  using words_Cons[OF solid_comma, of t s] by simp

lemmas text_words = words_Cons words_comma words_single words_space words_Nil

lemma comma_scan: "t \<noteq> [] \<Longrightarrow> last t \<noteq> CHR '','' \<Longrightarrow> ends_with '','' (t @ '','') \<and> drop_end (CHR '','') (t @ '','') = t"
  by (simp add: ends_with_def starts_with_Cons drop_end_snoc)

lemma unat_low6: "unat ((b :: i64) AND 63) = unat b mod 64"
proof -
  have "(63 :: i64) = mask 6" by (simp add: mask_eq_exp_minus_1)
  then have "b AND 63 = take_bit 6 b" by (simp add: take_bit_eq_mask)
  then show ?thesis by (simp add: unat_mod_distrib take_bit_eq_mod)
qed

lemma arith_op: "arith (op_str op) a b = ir_bin op a b"
  by (cases op) (simp_all add: arith_def i64_div_def i64_rem_def unat_low6)

lemma not_cast: "\<not> is_cast (op_str op)" "is_cast (cast_str k)"
  by (cases op; simp add: is_cast_def) (cases k; simp add: is_cast_def)

lemma solid_words [simp]: "solid (op_str op)" "solid (cond_str c)" "solid (cast_str k)" "solid ''icmp''" "solid ''to''"
    "solid ''select''" "solid ''i1''" "solid ''ptr''" "solid ''load''" "solid ''store''" "solid ''ret''" "solid ''switch''"
    "solid ''label''" "solid ''[''" "solid '']''"
  using op_plain plain_solid by (simp_all add: solid_def graphic_def)

lemma bin_text:
  assumes "rhs_wf N (R_Bin op ty a b)"
  shows "run_arith r cm (rhs_str (R_Bin op ty a b)) = ir_bin op (ir_value cm (regs_get r) a) (ir_value cm (regs_get r) b)"
proof -
  have wf: "operand_wf N a" "operand_wf N b" "solid ty" using assms by (simp_all add: plain_solid)
  note A = operand_solid[OF wf(1)] operand_chars(1)[OF wf(1)] operand_ends(3)[OF wf(1)]
  note B = operand_solid[OF wf(2)] operand_chars(1)[OF wf(2)] operand_ends(3)[OF wf(2)]
  have w: "words (rhs_str (R_Bin op ty a b)) = [op_str op, ty, operand_str a @ '','', operand_str b]"
    using wf(3) A(1) B(1) by (simp add: text_words)
  then have "extract_binop_args (words (rhs_str (R_Bin op ty a b))) = (operand_str a, operand_str b)"
    using comma_scan[OF A(2,3)] B(2,3) by (simp add: extract_binop_args_def drop_end_other numeral_eq_Suc)
  then show ?thesis
    by (simp add: run_arith_def w not_cast arith_op resolve_operand[OF wf(1)] resolve_operand[OF wf(2)] Let_def del: rhs_str.simps)
qed

lemma cmp_text:
  assumes "rhs_wf N (R_Cmp c ty a b)"
  shows "run_icmp r cm (rhs_str (R_Cmp c ty a b)) =
    (if ir_cmp c (ir_value cm (regs_get r) a) (ir_value cm (regs_get r) b) then 1 else 0)"
proof -
  have wf: "operand_wf N a" "operand_wf N b" "solid ty" using assms by (simp_all add: plain_solid)
  have w: "words (''icmp'' @ CHR '' '' # cond_str c @ CHR '' '' # ty @ CHR '' '' # operand_str a @ CHR '','' # CHR '' '' # operand_str b) =
      [''icmp'', cond_str c, ty, operand_str a @ '','', operand_str b]"
    using wf(3) operand_solid[OF wf(1)] operand_solid[OF wf(2)] words_Cons[of "''icmp''"] by (simp only: text_words solid_words)
  have "part (splitn 4 (CHR '' '') (rhs_str (R_Cmp c ty a b))) 1 ''eq'' = cond_str c"
    by (cases c) (simp_all add: numeral_eq_Suc split_once_def part_def split: option.splits)
  then show ?thesis
    using w by (cases c) (simp_all add: run_icmp_def icmp_def of_flag_def resolve_operand[OF wf(1)] resolve_operand[OF wf(2)])
qed

lemma cast_text:
  assumes "rhs_wf N (R_Cast k ty a ty')"
  shows "run_arith r cm (rhs_str (R_Cast k ty a ty')) = Some (ir_value cm (regs_get r) a)"
proof -
  have wf: "operand_wf N a" "solid ty" "solid ty'" "ty \<noteq> ''to''" using assms by (simp_all add: plain_solid)
  have w: "words (rhs_str (R_Cast k ty a ty')) = [cast_str k, ty, operand_str a, ''to'', ty']"
    using wf(2,3) operand_solid[OF wf(1)] words_Cons[of "''to''" ty'] by (simp add: text_words)
  have "cast_str k \<noteq> ''to''" by (cases k) simp_all
  moreover have "operand_str a \<noteq> ''to''"
  proof (cases a)
    case (IInt v)
    then show ?thesis using int_text_shape[of v] by (auto simp: is_ascii_digit_def)
  qed simp_all
  ultimately show ?thesis
    using wf(4) by (simp add: run_arith_def w not_cast resolve_operand[OF wf(1)] Let_def split: prod.splits del: rhs_str.simps)
qed

end
