(* ===== verification/Ovc_Control.thy ===== *)
theory Ovc_Control
  imports Ovc_Steps
begin

text \<open>The printed instructions that are cut at commas and brackets: select, load, store, phi, calls and jumps.\<close>

section \<open>Pieces between commas\<close>

lemma splitn_two: "x = a @ c # b \<Longrightarrow> c \<notin> set a \<Longrightarrow> c \<notin> set b \<Longrightarrow> splitn 3 c x = [a, b]"
  by (simp add: numeral_eq_Suc split_once_at split_once_absent)

lemma splitn_three:
  "x = a @ c # b @ c # d \<Longrightarrow> c \<notin> set a \<Longrightarrow> c \<notin> set b \<Longrightarrow> c \<notin> set d \<Longrightarrow> splitn 4 c x = [a, b, d]"
  by (simp add: numeral_eq_Suc split_once_at split_once_absent)

lemma plain_no: "plain s \<Longrightarrow> c \<in> {CHR '' '', CHR '','', CHR ''%'', CHR ''@'', CHR ''('', CHR '')'', CHR ''['', CHR '']''} \<Longrightarrow> c \<notin> set s"
  by (rule plain_not) (auto simp: name_char_def)

lemma operand_no: "operand_wf N a \<Longrightarrow> c \<in> {CHR '' '', CHR '','', CHR ''('', CHR '')'', CHR ''['', CHR '']''} \<Longrightarrow> c \<notin> set (operand_str a)"
  by (rule operand_not) (auto simp: operand_char_def name_char_def)

lemma typed_no:
  assumes "plain ty" "operand_wf N a" "c \<in> {CHR '','', CHR ''('', CHR '')'', CHR ''['', CHR '']''}"
  shows "c \<notin> set (typed (ty, a))"
  by (rule typed_facts(6)[OF assms(1,2)]) (use assms(3) in \<open>auto simp: name_char_def\<close>)

lemma plain_ends: "plain s \<Longrightarrow> s \<noteq> [] \<and> graphic (hd s) \<and> graphic (last s)"
  by (auto simp: plain_def list_all_iff name_char_graphic)

lemma typed_ends: "plain ty \<Longrightarrow> operand_wf N a \<Longrightarrow> typed (ty, a) \<noteq> [] \<and> graphic (hd (typed (ty, a))) \<and> graphic (last (typed (ty, a)))"
  using typed_facts(1-3)[of ty N a] plain_ends[of ty] operand_ends[of N a] by simp

lemma letters_graphic: "graphic (CHR ''l'')" "graphic (CHR ''p'')" "graphic (CHR ''s'')" "graphic (CHR ''%'')" "graphic (CHR ''i'')"
    "graphic (CHR ''['')" "graphic (CHR '']'')" "graphic (CHR ''b'')" "graphic (CHR ''r'')" "graphic (CHR ''c'')" "graphic (CHR ''@'')"
  by (simp_all add: graphic_def)

section \<open>Select, load, store\<close>

lemma select_text:
  assumes "rhs_wf N (R_Select ty c a b)"
  shows "run_select r cm (rhs_str (R_Select ty c a b)) =
    ir_value cm (regs_get r) (if ir_value cm (regs_get r) c \<noteq> 0 then a else b)"
proof -
  have wf: "plain ty" "operand_wf N c" "operand_wf N a" "operand_wf N b" using assms by simp_all
  let ?h = "''select i1 '' @ operand_str c" and ?a = "CHR '' '' # typed (ty, a)" and ?b = "CHR '' '' # typed (ty, b)"
  have parts: "splitn 4 (CHR '','') (rhs_str (R_Select ty c a b)) = [?h, ?a, ?b]"
    by (rule splitn_three) (use operand_no[OF wf(2)] typed_no[OF wf(1,3)] typed_no[OF wf(1,4)] in simp_all)
  have "trim ?h = ?h"
    using operand_ends[OF wf(2)] operand_chars(1)[OF wf(2)] by (intro trim_graphic) (simp_all add: letters_graphic)
  moreover have "words ?h = [''select'', ''i1'', operand_str c]"
    using words_Cons[of "''select''" "''i1 '' @ operand_str c"] words_Cons[of "''i1''" "operand_str c"] operand_solid[OF wf(2)]
    by (simp add: words_single)
  moreover have "trim ?a = typed (ty, a)" "trim ?b = typed (ty, b)"
    using typed_ends[OF wf(1,3)] typed_ends[OF wf(1,4)] by (simp_all add: trim_leading)
  ultimately show ?thesis
    by (simp add: run_select_def parts part_def last_word_def Let_def resolve_operand[OF wf(2)] resolve_typed[OF wf(1,3)]
        resolve_typed[OF wf(1,4)] del: rhs_str.simps)
qed

text \<open>The piece \<open> ptr @g\<close> of loads and stores.\<close>

lemma ptr_piece:
  assumes "plain g"
  shows "drop_end (CHR '','') (last_word [] (trim ('' ptr @'' @ g))) = CHR ''@'' # g" "drop_chars (CHR ''@'') (CHR ''@'' # g) = g"
    "CHR '','' \<notin> set ('' ptr @'' @ g)"
proof -
  note ends = plain_ends[OF assms]
  have "trim (CHR '' '' # (''ptr @'' @ g)) = ''ptr @'' @ g" using ends by (intro trim_leading) (simp_all add: letters_graphic)
  moreover have "solid (CHR ''@'' # g)" using plain_solid[OF assms] by (simp add: solid_def graphic_def)
  then have "words (''ptr @'' @ g) = [''ptr'', CHR ''@'' # g]" using words_Cons[of "''ptr''"] by (simp add: words_single)
  moreover have "last g \<in> set g" "hd g \<in> set g" using ends by simp_all
  then have "last g \<noteq> CHR '',''" "hd g \<noteq> CHR ''@''"
    using plain_no[OF assms, of "CHR '',''"] plain_no[OF assms, of "CHR ''@''"] by auto
  ultimately show "drop_end (CHR '','') (last_word [] (trim ('' ptr @'' @ g))) = CHR ''@'' # g"
    "drop_chars (CHR ''@'') (CHR ''@'' # g) = g"
    using ends by (simp_all add: last_word_def drop_end_other drop_chars_other)
  show "CHR '','' \<notin> set ('' ptr @'' @ g)" using plain_no[OF assms] by simp
qed

lemma load_text:
  assumes "rhs_wf N (R_Load ty g)"
  shows "run_load r globals (rhs_str (R_Load ty g)) = regs_get globals g"
proof -
  have wf: "plain ty" "plain g" using assms by simp_all
  have "splitn 3 (CHR '','') (rhs_str (R_Load ty g)) = [''load '' @ ty, '' ptr @'' @ g]"
    by (rule splitn_two) (use plain_no[OF wf(1)] ptr_piece(3)[OF wf(2)] in simp_all)
  then show ?thesis using ptr_piece(1,2)[OF wf(2)] by (simp add: run_load_def part_def starts_with_Cons del: rhs_str.simps)
qed

lemma not_bool: "operand_str a \<noteq> ''true''" "operand_str a \<noteq> ''false''"
proof -
  have "hd (operand_str a) \<noteq> CHR ''t'' \<and> hd (operand_str a) \<noteq> CHR ''f''"
  proof (cases a)
    case (IInt v)
    obtain ds where ds: "ds \<noteq> []" "list_all is_ascii_digit ds" "int_text v = ds \<or> int_text v = CHR ''-'' # ds"
      using int_text_shape[of v] by blast
    then have "is_ascii_digit (hd ds)" by (cases ds) simp_all
    then show ?thesis using IInt ds(3) by (auto simp: is_ascii_digit_def)
  qed simp_all
  then show "operand_str a \<noteq> ''true''" "operand_str a \<noteq> ''false''" by auto
qed

lemma store_text:
  assumes "instr_wf N (I_Store ty a g)"
  shows "run_store r cm globals (instr_str (I_Store ty a g)) = regs_set globals g (ir_value cm (regs_get r) a)"
proof -
  have wf: "plain ty" "operand_wf N a" "plain g" using assms by simp_all
  let ?h = "''store '' @ typed (ty, a)"
  have parts: "splitn 3 (CHR '','') (instr_str (I_Store ty a g)) = [?h, '' ptr @'' @ g]"
    by (rule splitn_two) (use typed_no[OF wf(1,2)] ptr_piece(3)[OF wf(3)] in \<open>simp_all add: typed_def\<close>)
  have "trim ?h = ?h" using typed_ends[OF wf(1,2)] by (intro trim_graphic) (simp_all add: letters_graphic)
  moreover have "words ?h = [''store'', ty, operand_str a]"
    using words_Cons[of "''store''" "typed (ty, a)"] typed_facts(5)[OF wf(1,2)] by simp
  ultimately have "last_word ''0'' (trim ?h) = operand_str a" by (simp add: last_word_def)
  then show ?thesis
    using ptr_piece(1,2)[OF wf(3)] resolve_operand[OF wf(2)] not_bool
    by (simp add: run_store_def parts part_def Let_def del: instr_str.simps)
qed

section \<open>Phi\<close>

lemma joined_Cons: "joined (s # ss) = s @ (if ss = [] then [] else '', '') @ joined ss"
  by (cases ss) simp_all

lemma pair_text:
  assumes "operand_wf N a" "plain l"
  shows "split_on (CHR '','') [] ('' '' @ operand_str a @ '', %'' @ l @ '' '') = ['' '' @ operand_str a, '' %'' @ l @ '' '']"
    "trim ('' '' @ operand_str a) = operand_str a" "trim ('' %'' @ l @ '' '') = CHR ''%'' # l"
    "drop_chars (CHR ''%'') (CHR ''%'' # l) = l"
    "CHR '']'' \<notin> set ('' '' @ operand_str a @ '', %'' @ l @ '' '')"
proof -
  note l = plain_ends[OF assms(2)] plain_no[OF assms(2)] and a = operand_ends(1,2)[OF assms(1)] operand_chars(1)[OF assms(1)]
  have "CHR '','' \<notin> set ('' '' @ operand_str a)" "CHR '','' \<notin> set ('' %'' @ l @ '' '')"
    using l operand_no[OF assms(1)] by simp_all
  then show "split_on (CHR '','') [] ('' '' @ operand_str a @ '', %'' @ l @ '' '') = ['' '' @ operand_str a, '' %'' @ l @ '' '']"
    using split_on_at[of "CHR '',''" "'' '' @ operand_str a" "[]" "'' %'' @ l @ '' ''"] split_on_absent[of "CHR '',''" "'' %'' @ l @ '' ''" "[]"]
    by simp
  show "trim ('' '' @ operand_str a) = operand_str a" using a by (simp add: trim_leading)
  show "trim ('' %'' @ l @ '' '') = CHR ''%'' # l"
    using trim_both[of "CHR ''%'' # l"] l by (simp add: letters_graphic)
  have "hd l \<noteq> CHR ''%''" using l hd_in_set[of l] by (metis insertCI)
  then show "drop_chars (CHR ''%'') (CHR ''%'' # l) = l" using l by (simp add: drop_chars_other)
  show "CHR '']'' \<notin> set ('' '' @ operand_str a @ '', %'' @ l @ '' '')" using l operand_no[OF assms(1)] by simp
qed

lemma phi_cut:
  assumes "CHR ''['' \<notin> set p" "CHR '']'' \<notin> set m"
  shows "parse_phi_opt (p @ CHR ''['' # m @ CHR '']'' # q) prev r cm =
    (let parts = split_on (CHR '','') [] m
     in if drop_chars (CHR ''%'') (trim (part parts 1 [])) = prev then Some (resolve r cm (trim (part parts 0 ''0'')))
        else parse_phi_opt q prev r cm)"
proof -
  have i: "find_char (CHR ''['') (p @ CHR ''['' # m @ CHR '']'' # q) = Some (length p)"
    by (rule find_char_at[OF assms(1)])
  have "CHR '']'' \<notin> set (CHR ''['' # m)" using assms(2) by simp
  from find_char_at[OF this, of q]
  have j: "find_char (CHR '']'') (CHR ''['' # m @ CHR '']'' # q) = Some (Suc (length m))" by simp
  show ?thesis by (subst parse_phi_opt.simps) (simp add: i j Let_def)
qed

lemma part_pair: "part [x, y] 0 d = x" "part [x, y] 1 d = y"
  by (simp_all add: part_def)

lemma phi_pair:
  assumes "operand_wf N a" "plain l" "CHR ''['' \<notin> set p"
  shows "parse_phi_opt (p @ incoming (a, l) @ q) prev r cm =
    (if l = prev then Some (ir_value cm (regs_get r) a) else parse_phi_opt q prev r cm)"
proof -
  note t = pair_text[OF assms(1,2)]
  let ?m = "'' '' @ operand_str a @ '', %'' @ l @ '' ''"
  have "p @ incoming (a, l) @ q = p @ CHR ''['' # ?m @ CHR '']'' # q" by (simp add: incoming_def)
  then show ?thesis
    by (simp only: phi_cut[OF assms(3) t(5)]) (simp only: Let_def part_pair t(1-4) resolve_operand(1)[OF assms(1)])
qed

lemma phi_pairs:
  assumes "list_all (\<lambda>(a, l). operand_wf N a \<and> plain l) ps" "CHR ''['' \<notin> set p"
  shows "parse_phi_opt (p @ joined (map incoming ps)) prev r cm =
    map_option (ir_value cm (regs_get r) \<circ> fst) (find (\<lambda>(a, l). l = prev) ps)"
  using assms
proof (induction ps arbitrary: p)
  case Nil
  then show ?case by (subst parse_phi_opt.simps) (simp add: find_char_absent)
next
  case (Cons x ps)
  obtain a l where x: "x = (a, l)" by fastforce
  have "parse_phi_opt ((if ps = [] then [] else '', '') @ joined (map incoming ps)) prev r cm =
      map_option (ir_value cm (regs_get r) \<circ> fst) (find (\<lambda>(a, l). l = prev) ps)"
    by (rule Cons.IH) (use Cons.prems in auto)
  then show ?case
    using Cons.prems phi_pair[of N a l p "(if ps = [] then [] else '', '') @ joined (map incoming ps)" prev r cm]
    by (simp add: x joined_Cons comp_def)
qed

lemma phi_text:
  assumes "rhs_wf N (R_Phi ty ps)"
  shows "parse_phi_opt (rhs_str (R_Phi ty ps)) prev r cm =
    map_option (ir_value cm (regs_get r) \<circ> fst) (find (\<lambda>(a, l). l = prev) ps)"
proof -
  have "CHR ''['' \<notin> set (''phi '' @ ty @ '' '')" using assms plain_no[of ty] by simp
  then show ?thesis using phi_pairs[of N ps "''phi '' @ ty @ '' ''"] assms by simp
qed

section \<open>Calls\<close>

lemma line_char_ascii: "line_char c \<Longrightarrow> (of_char c :: nat) < 128"
  by (auto simp: line_char_def operand_char_def name_char_def Let_def)

lemma ascii_not_cont: "(of_char c :: nat) < 128 \<Longrightarrow> \<not> utf8_cont (of_char c)"
proof -
  assume c: "(of_char c :: nat) < 128"
  have "unat (of_nat (of_char c) :: u8) = of_char c" using c by (simp add: unsigned_of_nat take_bit_nat_eq_self)
  then show ?thesis using c by (simp add: utf8_cont_def word_le_nat_alt of_nat_of_char)
qed

abbreviation ascii :: "string \<Rightarrow> bool" where
  "ascii s \<equiv> list_all (\<lambda>c. (of_char c :: nat) < 128) s"

lemma line_ascii: "list_all line_char s \<Longrightarrow> ascii s"
  by (auto simp: list_all_iff line_char_ascii)

lemma str_slice_ascii:
  assumes "ascii (p @ m @ q)"
  shows "str_slice (p @ m @ q) (length p) (length p + length m) = Some m"
proof -
  have "\<not> utf8_cont (of_char ((p @ m @ q) ! i))" if "i < length (p @ m @ q)" for i
    using that assms by (intro ascii_not_cont) (simp only: list_all_length)
  then have "char_boundary (p @ m @ q) i" if "i \<le> length (p @ m @ q)" for i
    using that unfolding char_boundary_def by (cases "i = length (p @ m @ q)") (simp_all add: le_less)
  then show ?thesis by (simp add: str_slice_def)
qed

lemmas str_slice_line = str_slice_ascii[OF line_ascii]

definition argument :: "string \<Rightarrow> bool" where
  "argument s \<longleftrightarrow> s \<noteq> [] \<and> graphic (hd s) \<and> graphic (last s) \<and> CHR '','' \<notin> set s \<and> CHR ''('' \<notin> set s \<and> CHR '')'' \<notin> set s"

lemma split_args_skip:
  "CHR '','' \<notin> set s \<Longrightarrow> CHR ''('' \<notin> set s \<Longrightarrow> CHR '')'' \<notin> set s \<Longrightarrow> split_args d cur (s @ t) = split_args d (rev s @ cur) t"
  by (induction s arbitrary: cur) auto

lemma split_args_joined:
  "list_all argument ss \<Longrightarrow> cur = [] \<or> cur = '' '' \<and> ss \<noteq> [] \<Longrightarrow> split_args 0 cur (joined ss) = ss"
proof (induction ss arbitrary: cur)
  case Nil
  then show ?case by simp
next
  case (Cons s ss)
  have s: "argument s" "list_all argument ss" using Cons.prems by simp_all
  then have "trim (rev cur @ s) = s" using Cons.prems by (auto simp: argument_def trim_leading trim_graphic)
  moreover have "split_args 0 '' '' (joined ss) = ss" if "ss \<noteq> []" using Cons.IH s(2) that by simp
  ultimately show ?case
    using s(1) by (simp add: joined_Cons split_args_skip argument_def)
qed

lemma typed_argument: "plain ty \<Longrightarrow> operand_wf N a \<Longrightarrow> argument (typed (ty, a))"
  using typed_ends[of ty N a] typed_no[of ty N a] by (simp add: argument_def)

text \<open>The text between the first opening and the last closing parenthesis.\<close>

lemma paren_args:
  assumes "CHR ''('' \<notin> set p" "CHR '')'' \<notin> set q" "ascii (p @ CHR ''('' # m @ CHR '')'' # q)"
  shows "parse_call_args (p @ CHR ''('' # m @ CHR '')'' # q) = Some (split_args 0 [] m)"
proof -
  have i: "find_char (CHR ''('') (p @ CHR ''('' # m @ CHR '')'' # q) = Some (length p)"
    by (rule find_char_at[OF assms(1)])
  have j: "rfind_sub '')'' (p @ CHR ''('' # m @ CHR '')'' # q) = Some (length p + 1 + length m)"
    using rfind_char_at[OF assms(2), of "p @ CHR ''('' # m"] by simp
  have "str_slice (p @ CHR ''('' # m @ CHR '')'' # q) (length p + 1) (length p + 1 + length m) = Some m"
    using str_slice_ascii[of "p @ ''(''" m "CHR '')'' # q"] assms(3) by simp
  then show ?thesis unfolding parse_call_args_def i j option.case prod.case by simp
qed

lemma call_args_text:
  assumes "rhs_wf N (R_Call ty f as)"
  shows "parse_call_args (rhs_str (R_Call ty f as)) = Some (map typed as)"
proof -
  have wf: "plain ty" "plain f" "list_all (\<lambda>(t, a). plain t \<and> operand_wf N a) as" using assms by simp_all
  have "CHR ''('' \<notin> set (''call '' @ ty @ '' @'' @ f)" using plain_no[OF wf(1)] plain_no[OF wf(2)] by simp
  from paren_args[OF this, of "[]" "joined (map typed as)"]
  have "parse_call_args (rhs_str (R_Call ty f as)) = Some (split_args 0 [] (joined (map typed as)))"
    using line_ascii[OF rhs_line[OF assms]] by simp
  moreover have "list_all argument (map typed as)"
    using wf(3) typed_argument[of _ N] by (auto simp: list_all_iff)
  ultimately show ?thesis using split_args_joined[of "map typed as" "[]"] by simp
qed

lemma call_target_text:
  assumes "plain ty" "plain f"
  shows "call_target (rhs_str (R_Call ty f as)) = Some f"
proof -
  let ?p = "''call '' @ ty @ '' ''" and ?q = "f @ CHR ''('' # joined (map typed as) @ '')''"
  have shape: "rhs_str (R_Call ty f as) = ?p @ CHR ''@'' # ?q" by simp
  have "CHR ''@'' \<notin> set ?p" using plain_no[OF assms(1)] by simp
  from find_char_at[OF this, of ?q] have "find_char (CHR ''@'') (rhs_str (R_Call ty f as)) = Some (length ?p)"
    by (simp only: shape)
  moreover have "drop (length ?p + 1) (rhs_str (R_Call ty f as)) = ?q" by simp
  moreover have "takeWhile (\<lambda>c. c \<noteq> CHR ''('') (f @ CHR ''('' # q) = f" for q
    using plain_no[OF assms(2), of "CHR ''(''"] by (subst takeWhile_append2) auto
  ultimately show ?thesis by (simp only: call_target_def option.case)
qed

section \<open>Jumps\<close>

lemma label_name:
  assumes "plain l"
  shows "drop_chars (CHR ''%'') (CHR ''%'' # l) = l" "drop_end (CHR '']'') l = l" "drop_chars (CHR ''%'') (trim (CHR ''%'' # l)) = l"
proof -
  note l = plain_ends[OF assms] plain_no[OF assms]
  have "hd l \<in> set l" "last l \<in> set l" using l by simp_all
  then have "hd l \<noteq> CHR ''%''" "last l \<noteq> CHR '']''" using l(2)[of "CHR ''%''"] l(2)[of "CHR '']''"] by auto
  then show *: "drop_chars (CHR ''%'') (CHR ''%'' # l) = l" "drop_end (CHR '']'') l = l"
    using l by (simp_all add: drop_chars_other drop_end_other)
  show "drop_chars (CHR ''%'') (trim (CHR ''%'' # l)) = l"
    using l * by (subst trim_graphic) (simp_all add: letters_graphic)
qed

lemma br_text: "plain l \<Longrightarrow> run_br r cm (drop 3 (instr_str (I_Br l))) = Some l"
  using label_name(3)[of l] by (simp add: run_br_def starts_with_Cons)

lemma strip_prefix_append: "strip_or_empty p (p @ s) = s"
  by (simp add: strip_or_empty_def strip_prefix_def)

lemma cond_text:
  assumes "instr_wf N (I_Cond c l m)"
  shows "run_br r cm (drop 3 (instr_str (I_Cond c l m))) = Some (if ir_value cm (regs_get r) c \<noteq> 0 then l else m)"
proof -
  have wf: "operand_wf N c" "plain l" "plain m" using assms by simp_all
  note c = operand_ends(1,2)[OF wf(1)] operand_chars(1)[OF wf(1)] and l = plain_ends[OF wf(2)] and m = plain_ends[OF wf(3)]
  let ?h = "''i1 '' @ operand_str c" and ?l = "'' label %'' @ l" and ?m = "'' label %'' @ m"
  have parts: "splitn 4 (CHR '','') (drop 3 (instr_str (I_Cond c l m))) = [?h, ?l, ?m]"
    by (rule splitn_three) (use operand_no[OF wf(1)] plain_no[OF wf(2)] plain_no[OF wf(3)] in simp_all)
  have "trim ?h = ?h" using c by (intro trim_graphic) (simp_all add: letters_graphic)
  moreover have "trim ?l = ''label %'' @ l" using l trim_leading[of "''label %'' @ l"] by (simp add: letters_graphic)
  moreover have "trim ?m = ''label %'' @ m" using m trim_leading[of "''label %'' @ m"] by (simp add: letters_graphic)
  moreover have "trim (operand_str c) = operand_str c" by (rule trim_solid[OF operand_solid[OF wf(1)]])
  ultimately have pieces: "trim (strip_or_empty ''i1 '' (trim ?h)) = operand_str c"
      "strip_or_empty ''label %'' (trim ?l) = l" "strip_or_empty ''label %'' (trim ?m) = m"
    by (simp_all only: strip_prefix_append)
  have "\<not> starts_with ''label '' (drop 3 (instr_str (I_Cond c l m)))" "starts_with ''i1 '' (drop 3 (instr_str (I_Cond c l m)))"
    by (simp_all add: starts_with_Cons)
  then show ?thesis
    unfolding run_br_def parts Let_def
    using pieces by (simp add: part_def resolve_operand(1)[OF wf(1)] del: instr_str.simps)
qed

definition case_words :: "string \<Rightarrow> i64 \<times> string \<Rightarrow> string list" where
  "case_words ty = (\<lambda>(n, l). [ty, int_text n @ '','', ''label'', CHR ''%'' # l])"

lemma int_text_solid: "solid (int_text n)"
  using operand_solid[of "[]" "IInt n"] by simp

lemma label_solid: "plain l \<Longrightarrow> solid (CHR ''%'' # l)"
  using plain_solid[of l] by (simp add: solid_def letters_graphic)

lemma label_words: "plain l \<Longrightarrow> words (''label %'' @ l @ CHR '' '' # s) = ''label'' # (CHR ''%'' # l) # words s"
  using words_Cons[of "''label''" "(CHR ''%'' # l) @ CHR '' '' # s"] words_Cons[OF label_solid, of l s] by simp

lemma switch_words:
  assumes "plain ty" "list_all (\<lambda>(n, l). plain l) cs"
  shows "words (concat (map (switch_case ty) cs) @ '']'') = concat (map (case_words ty) cs) @ ['']'']"
  using assms(2)
proof (induction cs)
  case Nil
  then show ?case by (simp add: words_single)
next
  case (Cons x cs)
  obtain n l where x: "x = (n, l)" by fastforce
  have l: "plain l" using Cons.prems x by simp
  have "words (ty @ CHR '' '' # (int_text n @ CHR '','' # CHR '' '' # (''label %'' @ l @ CHR '' '' # s))) =
      ty # (int_text n @ '','') # ''label'' # (CHR ''%'' # l) # words s" for s
    by (simp only: words_Cons[OF plain_solid[OF assms(1)]] words_comma[OF int_text_solid] label_words[OF l])
  then show ?case using Cons by (simp add: x switch_case_def case_words_def)
qed

lemma switch_cases:
  assumes "plain ty" "hd ty = CHR ''i''" "list_all (\<lambda>(n, l). plain l) cs"
  shows "switch_scan v (concat (map (case_words ty) cs) @ ['']'']) = map_of cs v"
  using assms(3)
proof (induction cs)
  case Nil
  then show ?case by (simp add: switch_scan.simps)
next
  case (Cons x cs)
  obtain n l where x: "x = (n, l)" by fastforce
  obtain s where ty: "ty = CHR ''i'' # s" using assms(1,2) by (cases ty) (simp_all add: plain_def)
  have n: "drop_end (CHR '','') (int_text n @ '','') = int_text n"
    using operand_chars(1)[of "[]" "IInt n"] operand_ends(3)[of "[]" "IInt n"] by (intro drop_end_snoc) simp_all
  have l: "drop_end (CHR '']'') (drop_chars (CHR ''%'') (CHR ''%'' # l)) = l"
    using label_name[of l] Cons.prems x by simp
  have "switch_scan v (ty # (int_text n @ '','') # ''label'' # (CHR ''%'' # l) # ts) =
      (if v = n then Some l else switch_scan v ts)" for ts
    using l by (subst switch_scan.simps) (simp add: n part_def ty starts_with_Cons numeral_eq_Suc)
  then show ?case using Cons by (auto simp: x case_words_def)
qed

lemma switch_line_words:
  assumes "instr_wf N (I_Switch ty v d cs)"
  shows "words (instr_str (I_Switch ty v d cs)) =
    [''switch'', ty, operand_str v @ '','', ''label'', CHR ''%'' # d, ''[''] @ concat (map (case_words ty) cs) @ ['']'']"
proof -
  have wf: "solid ty" "operand_wf N v" "plain d" "plain ty" "list_all (\<lambda>(n, l). plain l) cs" using assms by (simp_all add: plain_solid)
  have "words (''switch'' @ CHR '' '' # (ty @ CHR '' '' # (operand_str v @ CHR '','' # CHR '' '' #
      (''label %'' @ d @ CHR '' '' # (''['' @ CHR '' '' # t))))) =
      ''switch'' # ty # (operand_str v @ '','') # ''label'' # (CHR ''%'' # d) # ''['' # words t" for t
    by (simp only: words_Cons[OF wf(1)] words_comma[OF operand_solid[OF wf(2)]] label_words[OF wf(3)]
        words_Cons[OF solid_words(12)] words_Cons[OF solid_words(14)])
  from this[of "concat (map (switch_case ty) cs) @ '']''"] show ?thesis using switch_words[OF wf(4,5)] by simp
qed

lemma switch_bracket:
  assumes "plain ty" "hd ty = CHR ''i''" "list_all (\<lambda>(n, l). plain l) cs"
  shows "switch_scan x (''['' # concat (map (case_words ty) cs) @ ['']'']) = map_of cs x"
proof (cases cs)
  case Nil
  then show ?thesis by (simp add: switch_scan.simps)
next
  case (Cons c cs')
  then have "switch_scan x (''['' # concat (map (case_words ty) cs) @ ['']'']) = switch_scan x (concat (map (case_words ty) cs) @ ['']''])"
    by (subst switch_scan.simps) (simp add: case_words_def split: prod.splits)
  then show ?thesis using switch_cases[OF assms] by simp
qed

lemma switch_text:
  assumes "instr_wf N (I_Switch ty v d cs)"
  shows "run_switch r cm (instr_str (I_Switch ty v d cs)) =
    (case map_of cs (ir_value cm (regs_get r) v) of Some l \<Rightarrow> l | None \<Rightarrow> d)"
proof -
  have wf: "plain ty" "hd ty = CHR ''i''" "operand_wf N v" "plain d" "list_all (\<lambda>(n, l). plain l) cs" using assms by simp_all
  have *: "part (''switch'' # ty # t # ''label'' # u # ''['' # ws) 2 ''0'' = t"
      "part (''switch'' # ty # t # ''label'' # u # ''['' # ws) 4 [] = u"
      "drop 5 (''switch'' # ty # t # ''label'' # u # ''['' # ws) = ''['' # ws" for t u ws
    by (simp_all add: part_def)
  show ?thesis
    unfolding run_switch_def switch_line_words[OF assms] Let_def append_Cons append_Nil *
    by (simp only: resolve_operand(2)[OF wf(3)] label_name(1)[OF wf(4)] switch_bracket[OF wf(1,2,5)])
qed

end
