(* ===== verification/Ovc_Simulation.thy ===== *)
theory Ovc_Simulation
  imports Ovc_Control
begin

text \<open>A printed instruction, a list of them and the loop over blocks do what the reference steps do.\<close>

section \<open>States\<close>

definition sim :: "string list \<Rightarrow> 'w ovc_state \<Rightarrow> 'w ir_state \<Rightarrow> bool" where
  "sim N s \<sigma> \<longleftrightarrow> agrees N (os_regs s) (ir_rho \<sigma>) \<and> agrees N (os_globals s) (ir_gamma \<sigma>) \<and> os_world s = ir_world \<sigma>"

definition results :: "string list \<Rightarrow> ('r \<times> 'w ovc_state) option \<Rightarrow> ('r \<times> 'w ir_state) option \<Rightarrow> bool" where
  "results N = rel_option (rel_prod (=) (sim N))"

lemma results_simps [simp]:
  "results N (Some (r, s)) (Some (q, \<sigma>)) \<longleftrightarrow> r = q \<and> sim N s \<sigma>"
  "results N None None" "\<not> results N (Some x) None" "\<not> results N None (Some y)"
  by (simp_all add: results_def)

lemma sim_facts:
  assumes "sim N s \<sigma>"
  shows "operand_wf N a \<Longrightarrow> ir_value cm (regs_get (os_regs s)) a = ir_value cm (ir_rho \<sigma>) a"
    "d \<in> set N \<Longrightarrow> regs_get (os_regs s) d = ir_rho \<sigma> d"
    "g \<in> set N \<Longrightarrow> regs_get (os_globals s) g = ir_gamma \<sigma> g"
    "os_world s = ir_world \<sigma>"
  using assms agrees_value[of N "os_regs s" "ir_rho \<sigma>" a cm] by (auto simp: sim_def agrees_def)

lemma sim_set:
  assumes "distinct (map fnv64 N)" "sim N s \<sigma>" "d \<in> set N"
  shows "sim N (s\<lparr>os_regs := regs_set (os_regs s) d v, os_world := w\<rparr>) (\<sigma>\<lparr>ir_rho := (ir_rho \<sigma>)(d := v), ir_world := w\<rparr>)"
    "sim N (s\<lparr>os_globals := regs_set (os_globals s) d v\<rparr>) (\<sigma>\<lparr>ir_gamma := (ir_gamma \<sigma>)(d := v)\<rparr>)"
  using assms agrees_set[OF assms(1,3)] by (simp_all add: sim_def)

section \<open>The right-hand side\<close>

lemma map_values:
  "sim N s \<sigma> \<Longrightarrow> list_all (\<lambda>(t, a). plain t \<and> operand_wf N a) as \<Longrightarrow>
     map (\<lambda>x. resolve (os_regs s) cm (typed x)) as = map (ir_value cm (ir_rho \<sigma>) \<circ> snd) as"
  by (induction as) (auto simp: resolve_typed sim_facts(1))

lemma call_step:
  assumes "sim N s \<sigma>" "rhs_wf N (R_Call ty f as)"
  shows "run_call E cm (rhs_str (R_Call ty f as)) s = ir_eval (ov_dispatch E) cm prev d (R_Call ty f as) \<sigma>"
  using assms call_target_text[of ty f as] call_args_text[OF assms(2)] map_values[OF assms(1), of as cm] sim_facts(4)[OF assms(1)]
  by (simp add: run_call_def comp_def del: rhs_str.simps map_eq_conv)

lemma is_call_text: "is_call (rhs_str r) \<longleftrightarrow> (\<exists>ty f as. r = R_Call ty f as)"
proof (cases r)
  case (R_Bin op ty a b)
  then show ?thesis by (cases op) (simp_all add: is_call_def starts_with_Cons)
next
  case (R_Cast k ty a ty')
  then show ?thesis by (cases k) (simp_all add: is_call_def starts_with_Cons)
qed (simp_all add: is_call_def starts_with_Cons)

text \<open>The keyword in front decides which evaluation is used.\<close>

definition heads :: "string \<Rightarrow> bool list" where
  "heads s = [starts_with ''phi '' s, starts_with ''load '' s, starts_with ''select '' s, starts_with ''icmp '' s]"

lemma heads_text:
  "heads (rhs_str (R_Bin op ty a b)) = [False, False, False, False]"
  "heads (rhs_str (R_Cast k ty a ty')) = [False, False, False, False]"
  "heads (rhs_str (R_Cmp c ty a b)) = [False, False, False, True]"
  "heads (rhs_str (R_Select ty p a b)) = [False, False, True, False]"
  "heads (rhs_str (R_Phi ty ps)) = [True, False, False, False]"
  "heads (rhs_str (R_Load ty g)) = [False, True, False, False]"
proof -
  show "heads (rhs_str (R_Bin op ty a b)) = [False, False, False, False]"
    by (cases op) (simp_all add: heads_def starts_with_Cons)
  show "heads (rhs_str (R_Cast k ty a ty')) = [False, False, False, False]"
    by (cases k) (simp_all add: heads_def starts_with_Cons)
qed (simp_all add: heads_def starts_with_Cons)

lemma rhs_text:
  assumes "sim N s \<sigma>" "rhs_wf N r" "d \<in> set N"
  shows "rhs_value E cm prev d (rhs_str r) s = ir_eval (ov_dispatch E) cm prev d r \<sigma>"
proof (cases r)
  case (R_Bin op ty a b)
  then show ?thesis
    using assms heads_text(1)[of op ty a b] bin_text[of N op ty a b "os_regs s" cm] is_call_text[of r] sim_facts[OF assms(1)]
    by (cases "ir_bin op (ir_value cm (ir_rho \<sigma>) a) (ir_value cm (ir_rho \<sigma>) b)") (simp_all add: rhs_value_def heads_def Let_def del: rhs_str.simps)
next
  case (R_Cast k ty a ty')
  then show ?thesis
    using assms heads_text(2)[of k ty a ty'] cast_text[of N k ty a ty' "os_regs s" cm] is_call_text[of r] sim_facts[OF assms(1)]
    by (simp add: rhs_value_def heads_def Let_def del: rhs_str.simps)
next
  case (R_Cmp c ty a b)
  then show ?thesis
    using assms heads_text(3)[of c ty a b] cmp_text[of N c ty a b "os_regs s" cm] is_call_text[of r] sim_facts[OF assms(1)]
    by (simp add: rhs_value_def heads_def Let_def del: rhs_str.simps)
next
  case (R_Select ty c a b)
  then show ?thesis
    using assms heads_text(4)[of ty c a b] select_text[of N ty c a b "os_regs s" cm] is_call_text[of r] sim_facts[OF assms(1)]
    by (simp add: rhs_value_def heads_def Let_def del: rhs_str.simps)
next
  case (R_Phi ty ps)
  have "ir_value cm (regs_get (os_regs s)) a = ir_value cm (ir_rho \<sigma>) a" if "find (\<lambda>(a, l). l = prev) ps = Some (a, l)" for a l
    using that assms(1,2) R_Phi sim_facts(1)[OF assms(1), of a cm] by (auto simp: find_Some_iff list_all_length)
  then show ?thesis
    using R_Phi assms heads_text(5)[of ty ps] phi_text[of N ty ps prev "os_regs s" cm] is_call_text[of r] sim_facts[OF assms(1)]
    by (cases "find (\<lambda>(a, l). l = prev) ps") (auto simp: rhs_value_def heads_def Let_def simp del: rhs_str.simps)
next
  case (R_Load ty g)
  then show ?thesis
    using assms heads_text(6)[of ty g] load_text[of N ty g "os_regs s" "os_globals s"] is_call_text[of r] sim_facts[OF assms(1)]
    by (simp add: rhs_value_def heads_def Let_def del: rhs_str.simps)
next
  case (R_Call ty f as)
  then show ?thesis
    using call_step[OF assms(1), of ty f as E cm prev d] is_call_text[of r] assms(2) by (simp add: rhs_value_def del: rhs_str.simps)
qed

section \<open>One instruction\<close>

lemma find_equals: "plain d \<Longrightarrow> find_sub '' = '' (CHR ''%'' # d @ '' = '' @ t) = Some (length d + 1)"
  using plain_no[of d "CHR '' ''"] find_sub_at[of "'' = ''" "CHR ''%'' # d" t] by simp

lemma dst_text:
  assumes "instr_wf N (I_Assign d r)"
  shows "str_slice (instr_str (I_Assign d r)) 1 (length d + 1) = Some d" "trim d = d"
    "drop (length d + 1 + 3) (instr_str (I_Assign d r)) = rhs_str r"
proof -
  have "list_all line_char (''%'' @ d @ '' = '' @ rhs_str r)" using instr_line[OF assms] by simp
  from str_slice_line[OF this] show "str_slice (instr_str (I_Assign d r)) 1 (length d + 1) = Some d" by simp
  show "trim d = d" using assms plain_solid[of d] by (simp add: trim_solid)
  have "drop (length d + 1 + 3) ((''%'' @ d @ '' = '') @ rhs_str r) = rhs_str r" by (subst drop_append) simp
  then show "drop (length d + 1 + 3) (instr_str (I_Assign d r)) = rhs_str r" by simp
qed

definition ends :: "string \<Rightarrow> bool" where
  "ends s \<longleftrightarrow> s \<noteq> [] \<and> graphic (hd s) \<and> graphic (last s)"

lemma trim_ends: "ends s \<Longrightarrow> trim s = s"
  by (simp add: ends_def trim_graphic)

lemma ends_append: "s \<noteq> [] \<Longrightarrow> graphic (hd s) \<Longrightarrow> t \<noteq> [] \<Longrightarrow> graphic (last t) \<Longrightarrow> ends (s @ m @ t)"
  by (simp add: ends_def)

lemma joined_last: "ss \<noteq> [] \<Longrightarrow> list_all (\<lambda>s. s \<noteq> [] \<and> graphic (last s)) ss \<Longrightarrow> joined ss \<noteq> [] \<and> graphic (last (joined ss))"
  by (induction ss rule: joined.induct) auto

lemma incoming_last: "incoming x \<noteq> [] \<and> graphic (last (incoming x))"
  by (cases x) (simp add: incoming_def letters_graphic)

lemma key_ends: "ends (op_str op)" "ends (cast_str k)"
  using solid_words(1)[of op] solid_words(3)[of k] by (auto simp: solid_def ends_def list_all_iff)

lemma operand_ends': "operand_wf N a \<Longrightarrow> operand_str a \<noteq> [] \<and> graphic (last (operand_str a))"
  using operand_ends(2) operand_chars(1) by blast

lemma graphic_marks: "graphic (CHR '')'')" "graphic (CHR '','')"
  by (simp_all add: graphic_def)

lemma rhs_ends:
  assumes "rhs_wf N r"
  shows "ends (rhs_str r)"
proof (cases r)
  case (R_Phi ty ps)
  then have "joined (map incoming ps) \<noteq> [] \<and> graphic (last (joined (map incoming ps)))"
    using assms incoming_last by (intro joined_last) (auto simp: list_all_iff)
  then show ?thesis using R_Phi by (simp add: ends_def letters_graphic)
qed (use assms key_ends in \<open>simp_all add: ends_def letters_graphic graphic_marks operand_ends'[of N] typed_ends[of _ N] plain_ends\<close>)

lemma instr_ends:
  assumes "instr_wf N i"
  shows "ends (instr_str i)"
proof (cases i)
  case (I_Assign d r)
  then show ?thesis using assms rhs_ends[of N r] by (simp add: ends_def letters_graphic)
qed (use assms in \<open>simp_all add: ends_def letters_graphic operand_ends'[of N] plain_ends\<close>)

lemma strip_all_none: "\<not> starts_with p s \<Longrightarrow> strip_all k p s = s"
  by (cases k) simp_all

lemma no_tail: "without_tail (rhs_str r) = rhs_str r"
proof -
  have "\<not> starts_with ''tail '' (rhs_str r) \<and> \<not> starts_with ''musttail '' (rhs_str r)"
  proof (cases r)
    case (R_Bin op ty a b)
    then show ?thesis by (cases op) (simp_all add: starts_with_Cons)
  next
    case (R_Cast k ty a ty')
    then show ?thesis by (cases k) (simp_all add: starts_with_Cons)
  qed (simp_all add: starts_with_Cons)
  then show ?thesis by (simp add: without_tail_def strip_all_none)
qed

lemma assign_text:
  assumes "sim N s \<sigma>" "instr_wf N (I_Assign d r)" "distinct (map fnv64 N)"
  shows "results N (run_assign E cm prev (instr_str (I_Assign d r)) s) (ir_step (ov_dispatch E) cm prev (I_Assign d r) \<sigma>)"
proof -
  have wf: "plain d" "d \<in> set N" "rhs_wf N r" using assms(2) by simp_all
  have eq: "find_sub '' = '' (instr_str (I_Assign d r)) = Some (length d + 1)" using find_equals[OF wf(1)] by simp
  have "run_assign E cm prev (instr_str (I_Assign d r)) s =
      map_option (\<lambda>(v, w). (Run_Ok, s\<lparr>os_regs := regs_set (os_regs s) d v, os_world := w\<rparr>))
        (ir_eval (ov_dispatch E) cm prev d r \<sigma>)"
    unfolding run_assign_def eq option.case dst_text[OF assms(2)] Let_def trim_ends[OF rhs_ends[OF wf(3)]] no_tail
      rhs_text[OF assms(1) wf(3,2)]
    by (cases "ir_eval (ov_dispatch E) cm prev d r \<sigma>") (simp_all add: dst_text(2)[OF assms(2)] rhs_text[OF assms(1) wf(3,2)] split: prod.splits)
  then show ?thesis
    using sim_set(1)[OF assms(3,1) wf(2)]
    by (cases "ir_eval (ov_dispatch E) cm prev d r \<sigma>") (simp_all add: split: prod.splits del: instr_str.simps)
qed

lemma ret_text:
  assumes "instr_wf N (I_Ret ty a)"
  shows "resolve r cm (last_word ''0'' (trim (drop 4 (instr_str (I_Ret ty a))))) = ir_value cm (regs_get r) a"
proof -
  have wf: "plain ty" "operand_wf N a" using assms by simp_all
  have "drop 4 (instr_str (I_Ret ty a)) = typed (ty, a)" by (simp add: typed_def)
  then show ?thesis using typed_facts(4,5)[OF wf] resolve_operand(1)[OF wf(2)] by (simp add: last_word_def)
qed

definition instr_heads :: "string \<Rightarrow> bool list" where
  "instr_heads s = [starts_with '';'' s, starts_with ''switch '' s, starts_with ''br '' s, starts_with ''ret '' s, starts_with ''store '' s]"

lemma instr_heads_text:
  "instr_heads (instr_str (I_Assign d r)) = [False, False, False, False, False]"
  "instr_heads (instr_str (I_Store ty a g)) = [False, False, False, False, True]"
  "instr_heads (instr_str (I_Br l)) = [False, False, True, False, False]"
  "instr_heads (instr_str (I_Cond c l m)) = [False, False, True, False, False]"
  "instr_heads (instr_str (I_Switch ty v l cs)) = [False, True, False, False, False]"
  "instr_heads (instr_str (I_Ret ty a)) = [False, False, False, True, False]"
  by (simp_all add: instr_heads_def starts_with_Cons)

lemma instr_text:
  assumes "sim N s \<sigma>" "instr_wf N i" "distinct (map fnv64 N)"
  shows "results N (run_instr E cm prev (instr_str i) s) (ir_step (ov_dispatch E) cm prev i \<sigma>)"
proof -
  have t: "trim (instr_str i) = instr_str i" "instr_str i \<noteq> []"
    using instr_ends[OF assms(2)] by (simp_all add: trim_ends ends_def)
  show ?thesis
  proof (cases i)
    case (I_Assign d r)
    then have "run_instr E cm prev (instr_str i) s = run_assign E cm prev (instr_str i) s"
      using t instr_heads_text(1)[of d r] by (simp add: run_instr_def Let_def instr_heads_def del: instr_str.simps)
    then show ?thesis using assign_text assms I_Assign by metis
  next
    case (I_Store ty a g)
    then show ?thesis
      using assms t instr_heads_text(2)[of ty a g] store_text[of N ty a g "os_regs s" cm "os_globals s"] sim_facts(1)[OF assms(1), of a cm]
        sim_set(2)[OF assms(3,1), of g]
      by (simp add: run_instr_def Let_def instr_heads_def del: instr_str.simps)
  next
    case (I_Br l)
    then show ?thesis
      using assms t instr_heads_text(3)[of l] br_text[of l "os_regs s" cm]
      by (simp add: run_instr_def Let_def instr_heads_def del: instr_str.simps)
  next
    case (I_Cond c l m)
    then show ?thesis
      using assms t instr_heads_text(4)[of c l m] cond_text[of N c l m "os_regs s" cm] sim_facts(1)[OF assms(1), of c cm]
      by (simp add: run_instr_def Let_def instr_heads_def del: instr_str.simps)
  next
    case (I_Switch ty v l cs)
    then show ?thesis
      using assms t instr_heads_text(5)[of ty v l cs] switch_text[of N ty v l cs "os_regs s" cm] sim_facts(1)[OF assms(1), of v cm]
      by (simp add: run_instr_def Let_def instr_heads_def del: instr_str.simps)
  next
    case (I_Ret ty a)
    then show ?thesis
      using assms t instr_heads_text(6)[of ty a] ret_text[of N ty a "os_regs s" cm] sim_facts(1)[OF assms(1), of a cm]
      by (simp add: run_instr_def Let_def instr_heads_def del: instr_str.simps)
  qed
qed

section \<open>Blocks\<close>

text \<open>For any two steps that agree on printed instructions.\<close>

definition simulates :: "string list \<Rightarrow> (string, 'w ovc_state) step \<Rightarrow> (ir_instr, 'w ir_state) step \<Rightarrow> bool" where
  "simulates N step astep \<longleftrightarrow> (\<forall>prev i s \<sigma>. sim N s \<sigma> \<longrightarrow> instr_wf N i \<longrightarrow> results N (step prev (instr_str i) s) (astep prev i \<sigma>))"

lemma run_instr_simulates: "distinct (map fnv64 N) \<Longrightarrow> simulates N (run_instr E cm) (ir_step (ov_dispatch E) cm)"
  by (simp add: simulates_def instr_text)

lemma instrs_text:
  assumes "simulates N step astep" "sim N s \<sigma>" "list_all (instr_wf N) is"
  shows "results N (run_instrs step prev (map instr_str is) s) (run_instrs astep prev is \<sigma>)"
  using assms(2,3)
proof (induction "is" arbitrary: s \<sigma>)
  case Nil
  then show ?case by simp
next
  case (Cons i "is")
  have "results N (step prev (instr_str i) s) (astep prev i \<sigma>)"
    using assms(1) Cons.prems by (simp add: simulates_def)
  then consider "step prev (instr_str i) s = None" "astep prev i \<sigma> = None"
    | q t \<tau> where "step prev (instr_str i) s = Some (q, t)" "astep prev i \<sigma> = Some (q, \<tau>)" "sim N t \<tau>"
    unfolding results_def by (auto elim!: option.rel_cases)
  then show ?case
  proof cases
    case 1
    then show ?thesis by simp
  next
    case 2
    then show ?thesis using Cons.IH[of t \<tau>] Cons.prems by (cases q) simp_all
  qed
qed

lemma hm_get_map: "hm_get (map (\<lambda>(l, v). (l, f v)) m) k = map_option f (hm_get m k)"
  by (induction m) (auto simp: hm_get_def)

lemma blocks_text:
  assumes "simulates N step astep" "sim N s \<sigma>" "list_all (\<lambda>(l, is). list_all (instr_wf N) is) bs"
  shows "results N (block_loop step (map (\<lambda>(l, is). (l, map instr_str is)) bs) k prev cur s)
    (block_loop astep bs k prev cur \<sigma>)"
  using assms(2)
proof (induction k arbitrary: prev cur s \<sigma>)
  case 0
  then show ?case by simp
next
  case (Suc k)
  show ?case
  proof (cases "hm_get bs cur")
    case None
    then show ?thesis using Suc.prems by (simp add: hm_get_map)
  next
    case (Some "is")
    then have "list_all (instr_wf N) is" using assms(3) by (auto simp: hm_get_def list_all_iff dest!: map_of_SomeD)
    from instrs_text[OF assms(1) Suc.prems this]
    have "results N (run_instrs step prev (map instr_str is) s) (run_instrs astep prev is \<sigma>)" .
    then consider "run_instrs step prev (map instr_str is) s = None" "run_instrs astep prev is \<sigma> = None"
      | q t \<tau> where "run_instrs step prev (map instr_str is) s = Some (q, t)"
          "run_instrs astep prev is \<sigma> = Some (q, \<tau>)" "sim N t \<tau>"
      unfolding results_def by (auto elim!: option.rel_cases)
    then show ?thesis
    proof cases
      case 1
      then show ?thesis using Some by (simp add: hm_get_map)
    next
      case 2
      then show ?thesis using Suc.IH[of t \<tau>] Some by (cases q) (simp_all add: hm_get_map)
    qed
  qed
qed

end
