(* ===== verification/Ovc_Module.thy ===== *)
theory Ovc_Module
  imports Ovc_Simulation
begin

text \<open>The text of a module: finding a function in it, its lines, parameters and blocks.\<close>

section \<open>Lines\<close>

lemma starts_with_barrier: "c \<notin> set p \<Longrightarrow> starts_with p (x @ c # t) \<longleftrightarrow> starts_with p x"
proof (induction x arbitrary: p)
  case Nil
  then show ?case by (cases p) (auto simp: starts_with_Cons)
next
  case (Cons y x)
  then show ?case by (cases p) (auto simp: starts_with_Cons)
qed

lemma contains_Cons: "p \<noteq> [] \<Longrightarrow> text_contains (c # s) p \<longleftrightarrow> starts_with p (c # s) \<or> text_contains s p"
  by (simp add: text_contains_def find_sub.simps[of p "c # s"])

lemma contains_none: "c \<in> set p \<Longrightarrow> c \<notin> set s \<Longrightarrow> \<not> text_contains s p"
  by (simp add: text_contains_def find_sub_absent)

lemma contains_skip: "hd p \<notin> set d \<Longrightarrow> p \<noteq> [] \<Longrightarrow> text_contains (d @ s) p \<longleftrightarrow> text_contains s p"
  by (simp add: text_contains_def find_sub_skip)

lemma split_lines_skip: "CHR 0x0A \<notin> set l \<Longrightarrow> split_lines cur (l @ CHR 0x0A # t) = (rev cur @ l) # split_lines [] t"
  by (induction l arbitrary: cur) auto

lemma split_lines_last: "CHR 0x0A \<notin> set l \<Longrightarrow> cur \<noteq> [] \<or> l \<noteq> [] \<Longrightarrow> split_lines cur l = [rev cur @ l]"
  by (induction l arbitrary: cur) auto

lemma unlines_Cons [simp]: "unlines (l # ls) = l @ CHR 0x0A # unlines ls" "unlines [] = []"
  by (simp_all add: unlines_def)

lemma unlines_append [simp]: "unlines (ls @ ms) = unlines ls @ unlines ms"
  by (simp add: unlines_def)

lemma split_unlines:
  "list_all (\<lambda>l. CHR 0x0A \<notin> set l) ls \<Longrightarrow> split_lines [] (unlines ls @ t) = ls @ split_lines [] t"
  by (induction ls) (simp_all add: split_lines_skip)

definition line :: "string \<Rightarrow> bool" where
  "line l \<longleftrightarrow> CHR 0x0A \<notin> set l \<and> CHR 0x0D \<notin> set l"

lemma lines_text:
  assumes "list_all line ls" "l \<noteq> []" "line l"
  shows "lines (unlines ls @ l) = ls @ [l]"
proof -
  have "split_lines [] (unlines ls @ l) = ls @ [l]"
    using assms split_unlines[of ls l] split_lines_last[of l "[]"] by (simp add: line_def list_all_iff)
  moreover have "last l \<in> set l" using assms(2) by simp
  then have "last l \<noteq> CHR 0x0A" using assms(3) by (auto simp: line_def)
  moreover have "chomp x = x" if "line x" for x
  proof (cases "x = []")
    case False
    then have "last x \<in> set x" by simp
    then show ?thesis using that by (auto simp: chomp_def line_def)
  qed (simp add: chomp_def)
  then have "map chomp ls = ls" using assms(1) by (intro map_idI) (auto simp: list_all_iff)
  ultimately show ?thesis using assms(2) by (simp add: lines_def Let_def)
qed

lemma line_char_line: "list_all line_char l \<Longrightarrow> line l"
  by (auto simp: line_def list_all_iff line_char_def operand_char_def name_char_def)

section \<open>Finding a function\<close>

lemma find_define_skip:
  "CHR 0x0A \<notin> set l \<Longrightarrow> \<not> text_contains l ''define '' \<or> \<not> text_contains l m \<Longrightarrow> m \<noteq> [] \<Longrightarrow>
     find_define m (l @ CHR 0x0A # t) = find_define m t"
proof (induction l)
  case Nil
  then show ?case by (simp add: starts_with_Cons)
next
  case (Cons c l)
  have "takeWhile (\<lambda>x. x \<noteq> CHR 0x0A) ((c # l) @ CHR 0x0A # t) = c # l"
    using Cons.prems(1) by (subst takeWhile_append2) auto
  moreover have "starts_with ''define '' ((c # l) @ CHR 0x0A # t) \<longleftrightarrow> starts_with ''define '' (c # l)"
    by (rule starts_with_barrier) simp
  moreover have "\<not> starts_with ''define '' (c # l) \<or> \<not> text_contains (c # l) m"
    using Cons.prems(2) by (auto simp: contains_Cons)
  moreover have "\<not> text_contains l ''define '' \<or> \<not> text_contains l m"
    using Cons.prems(2,3) by (auto simp: contains_Cons)
  ultimately show ?case using Cons.IH Cons.prems by auto
qed

definition skipped :: "string \<Rightarrow> string \<Rightarrow> bool" where
  "skipped m l \<longleftrightarrow> CHR 0x0A \<notin> set l \<and> (\<not> text_contains l ''define '' \<or> \<not> text_contains l m)"

lemma find_define_lines:
  "list_all (skipped m) ls \<Longrightarrow> m \<noteq> [] \<Longrightarrow>
     find_define m (unlines ls @ t) = find_define m t"
  by (induction ls) (simp_all add: find_define_skip skipped_def)

definition marker :: "string \<Rightarrow> string" where
  "marker name = CHR ''@'' # name @ ''(''"

definition params_text :: "ir_function \<Rightarrow> string" where
  "params_text F = joined (map (\<lambda>(ty, p). typed (ty, IReg p)) (if_params F))"

lemma define_line_shape:
  "define_line F = (''define '' @ if_type F @ '' '') @ CHR ''@'' # if_name F @ CHR ''('' # params_text F @ '') {''"
  by (simp add: define_line_def params_text_def typed_def)

definition head_ok :: "string list \<Rightarrow> ir_function \<Rightarrow> bool" where
  "head_ok N F \<longleftrightarrow> plain (if_type F) \<and> plain (if_name F) \<and> list_all (\<lambda>(ty, p). plain ty \<and> plain p \<and> p \<in> set N) (if_params F)"

lemma params_chars:
  assumes "head_ok N F"
  shows "list_all (\<lambda>c. line_char c \<and> c \<noteq> CHR ''@'') (params_text F)"
  unfolding params_text_def
proof (rule joined_all)
  have "list_all (\<lambda>c. line_char c \<and> c \<noteq> CHR ''@'') (typed (ty, IReg p))" if "(ty, p) \<in> set (if_params F)" for ty p
  proof -
    have "plain ty" "plain p" using that assms by (auto simp: head_ok_def list_all_iff)
    then show ?thesis
      using plain_line[of ty] plain_line[of p] plain_no[of ty "CHR ''@''"] plain_no[of p "CHR ''@''"]
      by (auto simp: typed_def list_all_iff)
  qed
  then show "list_all (list_all (\<lambda>c. line_char c \<and> c \<noteq> CHR ''@'')) (map (\<lambda>(ty, p). typed (ty, IReg p)) (if_params F))"
    by (auto simp: list_all_iff[of _ "map _ _"])
qed simp_all

lemma marker_in_define:
  assumes "head_ok N F" "plain name"
  shows "text_contains (define_line F) (marker name) \<longleftrightarrow> name = if_name F"
proof -
  have wf: "plain (if_type F)" "plain (if_name F)" using assms(1) by (simp_all add: head_ok_def)
  let ?p = "''define '' @ if_type F @ '' ''" and ?r = "params_text F @ '') {''"
  have "CHR ''@'' \<notin> set ?p" using plain_no[OF wf(1)] by simp
  then have "text_contains (define_line F) (marker name) \<longleftrightarrow> text_contains (CHR ''@'' # if_name F @ CHR ''('' # ?r) (marker name)"
    unfolding define_line_shape by (intro contains_skip) (simp_all add: marker_def)
  also have "\<dots> \<longleftrightarrow> starts_with (marker name) (CHR ''@'' # if_name F @ CHR ''('' # ?r)"
  proof -
    have "CHR ''@'' \<notin> set (if_name F @ CHR ''('' # ?r)"
      using plain_no[OF wf(2)] params_chars[OF assms(1)] by (auto simp: list_all_iff)
    then have "\<not> text_contains (if_name F @ CHR ''('' # ?r) (marker name)"
      by (intro contains_none[of "CHR ''@''"]) (simp_all add: marker_def)
    then show ?thesis by (simp add: contains_Cons marker_def)
  qed
  also have "\<dots> \<longleftrightarrow> name = if_name F"
  proof
    assume "starts_with (marker name) (CHR ''@'' # if_name F @ CHR ''('' # ?r)"
    then have "starts_with (name @ ''('') (if_name F @ CHR ''('' # ?r)" by (simp add: marker_def starts_with_Cons)
    then obtain t where "if_name F @ CHR ''('' # ?r = (name @ ''('') @ t"
      unfolding starts_with_def by (metis append_take_drop_id)
    then have "takeWhile (\<lambda>c. c \<noteq> CHR ''('') (if_name F @ CHR ''('' # ?r) = takeWhile (\<lambda>c. c \<noteq> CHR ''('') (name @ CHR ''('' # t)"
      by simp
    moreover have "takeWhile (\<lambda>c. c \<noteq> CHR ''('') (n @ CHR ''('' # u) = n" if "plain n" for n u
      using plain_no[OF that, of "CHR ''(''"] by (subst takeWhile_append2) auto
    ultimately show "name = if_name F" using wf(2) assms(2) by simp
  next
    assume "name = if_name F"
    then show "starts_with (marker name) (CHR ''@'' # if_name F @ CHR ''('' # ?r)"
      using starts_with_append[of "marker name" ?r] by (simp add: marker_def)
  qed
  finally show ?thesis .
qed

lemma close_brace_skip:
  "CHR ''{'' \<notin> set s \<Longrightarrow> CHR ''}'' \<notin> set s \<Longrightarrow> close_brace d (s @ t) = map_option ((@) s) (close_brace d t)"
proof (induction s)
  case Nil
  then show ?case by (cases "close_brace d t") simp_all
next
  case (Cons c s)
  then show ?case by (auto simp: option.map_comp comp_def)
qed

definition body_lines :: "ir_function \<Rightarrow> string list" where
  "body_lines F = concat (map block_lines (if_blocks F))"

definition body_line :: "string \<Rightarrow> bool" where
  "body_line l \<longleftrightarrow> list_all (\<lambda>c. line_char c \<or> c = CHR '':'') l"

definition function_text :: "ir_function \<Rightarrow> string" where
  "function_text F = unlines (define_line F # body_lines F) @ ''}''"

lemma marks_safe: "list_all (\<lambda>c. c \<notin> set [CHR ''{'', CHR ''}'', CHR 0x0A, CHR 0x0D] \<and> (of_char c :: nat) < 128) ''%@- ,=()[]:''"
  by code_simp

lemma body_char:
  assumes "line_char c \<or> c = CHR '':''"
  shows "c \<notin> set [CHR ''{'', CHR ''}'', CHR 0x0A, CHR 0x0D] \<and> (of_char c :: nat) < 128"
proof (cases "name_char c")
  case True
  then show ?thesis using name_char_not[OF True] line_char_ascii[OF name_line[OF True]] by simp
next
  case False
  then have "c \<in> set ''%@- ,=()[]:''" using assms by (simp add: line_char_def operand_char_def)
  from bspec[OF marks_safe[unfolded list_all_iff] this] show ?thesis .
qed

lemma body_line_no:
  assumes "body_line l"
  shows "CHR ''{'' \<notin> set l \<and> CHR ''}'' \<notin> set l \<and> line l \<and> ascii l"
proof -
  have c: "c \<notin> set [CHR ''{'', CHR ''}'', CHR 0x0A, CHR 0x0D] \<and> (of_char c :: nat) < 128" if "c \<in> set l" for c
    by (rule body_char) (use that assms in \<open>simp add: body_line_def list_all_iff\<close>)
  show ?thesis unfolding line_def list_all_iff using c by (metis list.set_intros)
qed

lemma body_braces: "list_all body_line ls \<Longrightarrow> CHR ''{'' \<notin> set (unlines ls) \<and> CHR ''}'' \<notin> set (unlines ls)"
  by (induction ls) (auto dest: body_line_no)

definition define_rest :: "ir_function \<Rightarrow> string" where
  "define_rest F = ''efine '' @ if_type F @ '' @'' @ if_name F @ ''('' @ params_text F @ '') ''"

lemma define_line_rest: "define_line F = CHR ''d'' # define_rest F @ ''{''"
  by (simp add: define_line_shape define_rest_def)

lemma define_rest_line:
  assumes "head_ok N F"
  shows "list_all line_char (define_rest F)"
  using assms params_chars[OF assms] plain_line[of "if_type F"] plain_line[of "if_name F"]
  by (simp add: define_rest_def head_ok_def name_line name_char_def) (simp add: list_all_iff)

lemma define_line_facts:
  assumes "head_ok N F"
  shows "line (define_line F)" "ascii (define_line F)"
proof -
  have r: "line (define_rest F)" "ascii (define_rest F)"
    using define_rest_line[OF assms] line_char_line line_ascii by blast+
  show "line (define_line F)" "ascii (define_line F)" using r by (simp_all add: define_line_rest line_def)
qed

lemma find_function_here:
  assumes "head_ok N F" "list_all body_line (body_lines F)"
  shows "find_define (marker (if_name F)) (function_text F @ t) = Some (function_text F @ t)"
    "close_brace 0 (tl (function_text F @ t)) = Some (tl (function_text F))"
proof -
  let ?b = "unlines (body_lines F)"
  have shape: "function_text F @ t = CHR ''d'' # define_rest F @ CHR ''{'' # CHR 0x0A # ?b @ CHR ''}'' # t"
    by (simp add: function_text_def define_line_rest)
  have "CHR 0x0A \<notin> set (define_line F)" using define_line_facts[OF assms(1)] by (simp add: line_def)
  then have "takeWhile (\<lambda>x. x \<noteq> CHR 0x0A) (function_text F @ t) = define_line F"
    unfolding function_text_def unlines_Cons append_assoc append_Cons by (subst takeWhile_append2) auto
  moreover have "starts_with ''define '' (function_text F @ t)" by (simp add: shape define_rest_def starts_with_Cons)
  moreover have "text_contains (define_line F) (marker (if_name F))"
    using marker_in_define[OF assms(1)] assms(1) by (simp add: head_ok_def)
  ultimately show "find_define (marker (if_name F)) (function_text F @ t) = Some (function_text F @ t)"
    unfolding shape by simp
  have "CHR ''{'' \<notin> set (define_rest F)" "CHR ''}'' \<notin> set (define_rest F)"
    using body_line_no[of "define_rest F"] define_rest_line[OF assms(1)] by (auto simp: body_line_def list_all_iff)
  moreover have "CHR ''{'' \<notin> set ?b" "CHR ''}'' \<notin> set ?b" using body_braces[OF assms(2)] by simp_all
  ultimately show "close_brace 0 (tl (function_text F @ t)) = Some (tl (function_text F))"
    unfolding shape by (simp add: close_brace_skip function_text_def define_line_rest)
qed

lemma find_function_text:
  assumes "head_ok N F" "list_all body_line (body_lines F)"
    "list_all (skipped (marker (if_name F))) ls"
  shows "find_function (unlines ls @ function_text F @ t) (if_name F) = Some (function_text F)"
proof -
  have "find_define (marker (if_name F)) (unlines ls @ function_text F @ t) = Some (function_text F @ t)"
    using find_define_lines[OF assms(3)] find_function_here(1)[OF assms(1,2)] by (simp add: marker_def)
  moreover have "function_text F = CHR ''d'' # tl (function_text F)"
    by (simp add: function_text_def define_line_rest)
  then obtain cs where cs: "function_text F = CHR ''d'' # cs" by blast
  moreover have "close_brace 0 (cs @ t) = Some cs" using find_function_here(2)[OF assms(1,2), of t] cs by simp
  ultimately show ?thesis by (simp add: find_function_def marker_def)
qed

section \<open>Parameters\<close>

lemma lines_function:
  assumes "head_ok N F" "list_all body_line (body_lines F)"
  shows "lines (function_text F) = define_line F # body_lines F @ [''}'']"
proof -
  have "list_all line (define_line F # body_lines F)"
    using assms define_line_facts[OF assms(1)] body_line_no by (auto simp: list_all_iff)
  from lines_text[OF this, of "''}''"] show ?thesis by (simp add: function_text_def line_def)
qed

lemma arg_of_typed:
  assumes "plain ty" "plain p"
  shows "arg_of (typed (ty, IReg p)) = Some p"
proof -
  have "operand_wf [p] (IReg p)" using assms(2) by simp
  from typed_facts(5)[OF assms(1) this] have w: "words (typed (ty, IReg p)) = [ty, CHR ''%'' # p]" by simp
  have "\<not> starts_with ''%'' ty"
    using starts_with_set[of "''%''" ty] plain_no[OF assms(1), of "CHR ''%''"] by auto
  moreover have "p \<noteq> [] \<and> last p \<in> set p" using plain_ends[OF assms(2)] by simp
  then have "drop_end (CHR '','') p = p" using plain_no[OF assms(2), of "CHR '',''"] by (intro drop_end_other) auto
  ultimately show ?thesis using label_name(1)[OF assms(2)] by (simp add: arg_of_def w starts_with_Cons del: drop_chars_Cons)
qed

lemma parse_def_args_text:
  assumes "head_ok N F" "list_all body_line (body_lines F)"
  shows "parse_def_args (function_text F) = Some (map snd (if_params F))"
proof -
  have wf: "plain (if_type F)" "plain (if_name F)" "list_all (\<lambda>(ty, p). plain ty \<and> plain p \<and> p \<in> set N) (if_params F)"
    using assms(1) by (simp_all add: head_ok_def)
  have "CHR ''('' \<notin> set (''define '' @ if_type F @ '' @'' @ if_name F)" using plain_no[OF wf(1)] plain_no[OF wf(2)] by simp
  from paren_args[OF this, of "'' {''" "params_text F"]
  have "parse_call_args (define_line F) = Some (split_args 0 [] (params_text F))"
    using define_line_facts(2)[OF assms(1)] by (simp add: define_line_shape)
  also have "split_args 0 [] (params_text F) = map (\<lambda>(ty, p). typed (ty, IReg p)) (if_params F)"
    unfolding params_text_def
    by (rule split_args_joined) (use wf(3) typed_argument[of _ N "IReg _"] in \<open>auto simp: list_all_iff\<close>)
  finally have args: "parse_call_args (define_line F) = Some (map (\<lambda>(ty, p). typed (ty, IReg p)) (if_params F))" .
  have "List.map_filter arg_of (map (\<lambda>(ty, p). typed (ty, IReg p)) ps) = map snd ps"
    if "list_all (\<lambda>(ty, p). plain ty \<and> plain p \<and> p \<in> set N) ps" for ps
    using that by (induction ps) (auto simp: map_filter_simps arg_of_typed)
  then show ?thesis using wf(3) args lines_function[OF assms] by (simp add: parse_def_args_def)
qed

lemma bind_args_snoc:
  "bind_args (ps @ [p]) args = regs_set (bind_args ps args) p (if length ps < length args then args ! length ps else 0)"
  by (simp add: bind_args_def enumerate_append_eq)

lemma ir_bind_snoc:
  "ir_bind (ps @ [p]) args = (ir_bind ps args)(p := (if length ps < length args then args ! length ps else 0))"
  by (rule ext) (simp add: ir_bind_def)

lemma bind_text:
  assumes "distinct (map fnv64 N)" "set ps \<subseteq> set N"
  shows "agrees N (bind_args ps args) (ir_bind ps args)"
  using assms(2)
proof (induction ps rule: rev_induct)
  case Nil
  then show ?case by (simp add: agrees_def bind_args_def ir_bind_def regs_get_def)
next
  case (snoc p ps)
  show ?case unfolding bind_args_snoc ir_bind_snoc by (rule agrees_set[OF assms(1)]) (use snoc in simp_all)
qed

section \<open>Blocks\<close>

lemma marks_not_names: "list_all (\<lambda>c. \<not> name_char c) ''; {}%:''"
  by code_simp

lemma label_no: "plain l \<Longrightarrow> c \<in> set ''; {}%:'' \<Longrightarrow> c \<notin> set l"
  by (rule plain_not, assumption, rule bspec[OF marks_not_names[unfolded list_all_iff]])

lemma label_block_line:
  assumes "label_wf l" "bp_switch p = None"
  shows "block_line (l @ '':'') p = p\<lparr>bp_cur := l, bp_blocks :=
    (case hm_get (bp_blocks p) l of Some _ \<Rightarrow> bp_blocks p | None \<Rightarrow> hm_insert l [] (bp_blocks p))\<rparr>"
proof -
  have l: "plain l" using assms(1) by (simp add: label_wf_def)
  note e = plain_ends[OF l] plain_no[OF l]
  have "graphic (CHR '':'')" by (simp add: graphic_def)
  then have t: "trim (l @ '':'') = l @ '':''" using e by (intro trim_graphic) simp_all
  have m: "CHR '';'' \<notin> set (l @ '':'')" "CHR ''{'' \<notin> set (l @ '':'')" "CHR ''}'' \<notin> set (l @ '':'')" "CHR ''%'' \<notin> set (l @ '':'')"
      "CHR '' '' \<notin> set (l @ '':'')"
    using label_no[OF l] by simp_all
  have s: "\<not> starts_with p (l @ '':'')" if "\<exists>c \<in> set p. c \<notin> set (l @ '':'')" for p
    using that starts_with_set[of p "l @ '':''"] by blast
  have "starts_with p (l @ '':'') \<longleftrightarrow> starts_with p l" if "CHR '':'' \<notin> set p" for p
    using starts_with_barrier[of "CHR '':''" p l "[]"] that by simp
  then have b: "\<not> starts_with ''store'' (l @ '':'')" "\<not> starts_with ''br'' (l @ '':'')" "\<not> starts_with ''ret'' (l @ '':'')"
    using assms(1) by (simp_all add: label_wf_def)
  have "last l \<in> set l" using e by simp
  then have "last l \<noteq> CHR '':''" using label_no[OF l, of "CHR '':''"] by auto
  then have d: "drop_end (CHR '':'') (l @ '':'') = l" using e by (intro drop_end_snoc) simp_all
  have "label_of (l @ '':'') = Some l"
    using b d s[of "''%''"] m find_char_absent[OF m(1)] trim_solid[OF plain_solid[OF l]]
    by (simp add: label_of_def ends_with_def starts_with_Cons)
  moreover have "l @ '':'' \<noteq> ''{''" "l @ '':'' \<noteq> ''}''" using m by auto
  ultimately show ?thesis
    using assms(2) s[of "'';''"] s[of "''switch ''"] m by (simp add: block_line_def t)
qed

lemma instr_block_line:
  assumes "instr_wf N i" "bp_switch p = None"
  shows "block_line (instr_str i) p = push_line (instr_str i) p"
proof -
  have e: "ends (instr_str i)" and l: "list_all line_char (instr_str i)" using instr_ends[OF assms(1)] instr_line[OF assms(1)] by simp_all
  have t: "trim (instr_str i) = instr_str i" by (rule trim_ends[OF e])
  have m: "c \<notin> set (instr_str i)" if "\<not> line_char c" for c using l that by (auto simp: list_all_iff)
  have s: "instr_str i \<noteq> []" "instr_str i \<noteq> ''{''" "instr_str i \<noteq> ''}''" "\<not> starts_with '';'' (instr_str i)" "CHR '';'' \<notin> set (instr_str i)"
    using e m[of "CHR ''{''"] m[of "CHR ''}''"] m[of "CHR '';''"] starts_with_set[of "'';''" "instr_str i"]
    by (auto simp: ends_def line_char_def operand_char_def name_char_def)
  show ?thesis
  proof (cases "starts_with ''switch '' (instr_str i)")
    case True
    then obtain ty v d cs where "i = I_Switch ty v d cs" by (cases i) (simp_all add: starts_with_Cons)
    then have "ends_with '']'' (instr_str i)" by (simp add: ends_with_def starts_with_Cons)
    then show ?thesis using True s assms(2) by (simp add: block_line_def t Let_def)
  next
    case False
    then have "starts_with ''%'' (instr_str i) \<or> starts_with ''store'' (instr_str i) \<or> starts_with ''br'' (instr_str i) \<or> starts_with ''ret'' (instr_str i)"
      by (cases i) (simp_all add: starts_with_Cons)
    then have "label_of (instr_str i) = None" by (auto simp: label_of_def find_char_absent[OF s(5)])
    then show ?thesis using False s assms(2) by (simp add: block_line_def t Let_def)
  qed
qed

lemma update_last: "k \<notin> fst ` set m \<Longrightarrow> hm_insert k w (m @ [(k, v)]) = m @ [(k, w)] \<and> hm_get (m @ [(k, v)]) k = Some v"
  by (induction m) (auto simp: hm_insert_def hm_get_def)

lemma update_new: "k \<notin> fst ` set m \<Longrightarrow> hm_insert k w m = m @ [(k, w)] \<and> hm_get m k = None"
  by (induction m) (auto simp: hm_insert_def hm_get_def)

lemma instrs_block_lines:
  assumes "list_all (instr_wf N) is" "l \<notin> fst ` set m"
  shows "fold block_line (map instr_str is) \<lparr>bp_blocks = m @ [(l, v)], bp_cur = l, bp_switch = None\<rparr> =
    \<lparr>bp_blocks = m @ [(l, v @ map instr_str is)], bp_cur = l, bp_switch = None\<rparr>"
  using assms(1)
proof (induction "is" arbitrary: v)
  case Nil
  then show ?case by simp
next
  case (Cons i "is")
  then show ?case
    using instr_block_line[of N i] update_last[OF assms(2)] by (simp add: push_line_def)
qed

lemma blocks_parsed:
  assumes "list_all (\<lambda>(l, is). label_wf l \<and> list_all (instr_wf N) is) bs" "distinct (map fst m @ map fst bs)"
  shows "\<exists>c. fold block_line (concat (map block_lines bs)) \<lparr>bp_blocks = m, bp_cur = cur, bp_switch = None\<rparr> =
    \<lparr>bp_blocks = m @ map (\<lambda>(l, is). (l, map instr_str is)) bs, bp_cur = c, bp_switch = None\<rparr>"
  using assms
proof (induction bs arbitrary: m cur)
  case Nil
  then show ?case by simp
next
  case (Cons b bs)
  obtain l "is" where b: "b = (l, is)" by fastforce
  have l: "label_wf l" "list_all (instr_wf N) is" "l \<notin> fst ` set m" using Cons.prems by (auto simp: b)
  have "fold block_line (block_lines b) \<lparr>bp_blocks = m, bp_cur = cur, bp_switch = None\<rparr> =
      \<lparr>bp_blocks = m @ [(l, map instr_str is)], bp_cur = l, bp_switch = None\<rparr>"
    using update_new[OF l(3)] instrs_block_lines[OF l(2,3), of "[]"] label_block_line[OF l(1)]
    by (simp add: b block_lines_def)
  moreover have "\<exists>c. fold block_line (concat (map block_lines bs)) \<lparr>bp_blocks = m @ [(l, map instr_str is)], bp_cur = l, bp_switch = None\<rparr> =
      \<lparr>bp_blocks = (m @ [(l, map instr_str is)]) @ map (\<lambda>(l, is). (l, map instr_str is)) bs, bp_cur = c, bp_switch = None\<rparr>"
    by (rule Cons.IH) (use Cons.prems in \<open>auto simp: b\<close>)
  ultimately show ?case by (simp add: b)
qed

section \<open>A function of a module\<close>

lemma block_lines_body:
  assumes "label_wf l" "list_all (instr_wf N) is"
  shows "list_all body_line (block_lines (l, is))"
proof -
  have "body_line (l @ '':'')" using assms(1) plain_line[of l] by (auto simp: label_wf_def body_line_def list_all_iff)
  moreover have "body_line (instr_str i)" if "i \<in> set is" for i
    using instr_line[of N i] assms(2) that by (auto simp: body_line_def list_all_iff)
  ultimately show ?thesis by (auto simp: block_lines_def list_all_iff)
qed

lemma function_wf_facts:
  assumes "function_wf N F"
  shows "head_ok N F" "list_all body_line (body_lines F)"
    "list_all (\<lambda>(l, is). label_wf l \<and> list_all (instr_wf N) is) (if_blocks F)"
proof -
  show "head_ok N F" "list_all (\<lambda>(l, is). label_wf l \<and> list_all (instr_wf N) is) (if_blocks F)"
    using assms by (simp_all add: function_wf_def head_ok_def)
  then show "list_all body_line (body_lines F)"
    using block_lines_body[of _ N] unfolding body_lines_def by (fastforce simp: list_all_iff)
qed

lemma parse_blocks_text:
  assumes "function_wf N F"
  shows "parse_blocks (function_text F) = map (\<lambda>(l, is). (l, map instr_str is)) (if_blocks F)"
proof -
  note f = function_wf_facts[OF assms]
  obtain l "is" bs where bs: "if_blocks F = (l, is) # bs" "l = ''entry''" "distinct (map fst (if_blocks F))"
    using assms by (cases "if_blocks F") (auto simp: function_wf_def)
  then have wf: "label_wf l" "list_all (instr_wf N) is" "list_all (\<lambda>(l, is). label_wf l \<and> list_all (instr_wf N) is) bs"
    using f(3) by simp_all
  have first: "fold block_line (block_lines (l, is)) \<lparr>bp_blocks = [(''entry'', [])], bp_cur = ''entry'', bp_switch = None\<rparr> =
      \<lparr>bp_blocks = [(l, map instr_str is)], bp_cur = l, bp_switch = None\<rparr>"
    using instrs_block_lines[OF wf(2), of l "[]" "[]"] label_block_line[OF wf(1)] bs(2) by (simp add: block_lines_def hm_get_def)
  have "distinct (map fst [(l, map instr_str is)] @ map fst bs)" using bs by simp
  from blocks_parsed[OF wf(3) this, of l] first obtain c where
    "fold block_line (body_lines F) \<lparr>bp_blocks = [(''entry'', [])], bp_cur = ''entry'', bp_switch = None\<rparr> =
      \<lparr>bp_blocks = map (\<lambda>(l, is). (l, map instr_str is)) (if_blocks F), bp_cur = c, bp_switch = None\<rparr>"
    by (auto simp: body_lines_def bs(1))
  moreover have "trim ''}'' = ''}''" by (rule trim_graphic) (simp_all add: graphic_def)
  then have "block_line ''}'' p = p" for p by (simp add: block_line_def)
  ultimately show ?thesis by (simp add: parse_blocks_def lines_function[OF f(1,2)])
qed

lemma run_function_text:
  assumes "distinct (map fnv64 N)" "function_wf N F"
  shows "map_option (\<lambda>(v, s). (v, os_world s)) (run_blocks E (parse_blocks (function_text F)) cm ''entry''
      \<lparr>os_regs = bind_args (map snd (if_params F)) args, os_globals = [], os_world = w\<rparr>) =
    ir_run_function (ov_dispatch E) cm F args w"
proof -
  note f = function_wf_facts[OF assms(2)]
  have "set (map snd (if_params F)) \<subseteq> set N" using f(1) by (auto simp: head_ok_def list_all_iff)
  from bind_text[OF assms(1) this]
  have "sim N \<lparr>os_regs = bind_args (map snd (if_params F)) args, os_globals = [], os_world = w\<rparr>
      \<lparr>ir_rho = ir_bind (map snd (if_params F)) args, ir_gamma = (\<lambda>_. 0), ir_world = w\<rparr>"
    by (simp add: sim_def agrees_def regs_get_def)
  from blocks_text[OF run_instr_simulates[OF assms(1)] this, of "if_blocks F" E cm MAX_BLOCKS "[]" "''entry''"] f(3)
  have "results N
      (run_blocks E (parse_blocks (function_text F)) cm ''entry''
        \<lparr>os_regs = bind_args (map snd (if_params F)) args, os_globals = [], os_world = w\<rparr>)
      (block_loop (ir_step (ov_dispatch E) cm) (if_blocks F) MAX_BLOCKS [] ''entry''
        \<lparr>ir_rho = ir_bind (map snd (if_params F)) args, ir_gamma = (\<lambda>_. 0), ir_world = w\<rparr>)"
    by (simp add: run_blocks_def parse_blocks_text[OF assms(2)] list_all_iff case_prod_beta)
  then show ?thesis
    unfolding ir_run_function_def results_def by (auto elim!: option.rel_cases simp: sim_def)
qed

section \<open>A module\<close>

lemma find_first: "find P xs = Some x \<Longrightarrow> \<exists>as bs. xs = as @ x # bs \<and> (\<forall>y \<in> set as. \<not> P y) \<and> P x"
proof (induction xs)
  case (Cons y ys)
  show ?case
  proof (cases "P y")
    case True
    with Cons.prems show ?thesis by (intro exI[of _ "[]"] exI[of _ ys]) simp
  next
    case False
    then obtain as bs where "ys = as @ x # bs" "\<forall>y \<in> set as. \<not> P y" "P x" using Cons by auto
    then show ?thesis using False by (metis append_Cons set_ConsD)
  qed
qed simp

lemma magic_line: "CHR 0x0A \<notin> set OVC_MAGIC" "\<not> text_contains OVC_MAGIC ''define ''" "ascii OVC_MAGIC"
  by (simp add: OVC_MAGIC_def) (rule contains_none[of "CHR ''d''"], simp_all add: OVC_MAGIC_def)

lemma function_lines_eq: "function_lines F = define_line F # body_lines F @ [''}'']"
  by (simp add: function_lines_def body_lines_def)

lemma function_skipped:
  assumes "function_wf N G" "list_all head_wf (body_lines G)" "plain name" "name \<noteq> if_name G"
  shows "list_all (skipped (marker name)) (function_lines G)"
proof -
  note g = function_wf_facts[OF assms(1)]
  have "skipped (marker name) (define_line G)"
    using marker_in_define[OF g(1) assms(3)] assms(4) define_line_facts(1)[OF g(1)] by (simp add: skipped_def line_def)
  moreover have "\<not> text_contains ''}'' ''define ''" by (rule contains_none[of "CHR ''d''"]) simp_all
  then have "skipped (marker name) ''}''" by (simp add: skipped_def)
  ultimately show ?thesis using assms(2) by (auto simp: function_lines_eq skipped_def head_wf_def list_all_iff)
qed

lemma module_function:
  assumes "module_wf N M" "find (\<lambda>F. if_name F = name) (im_functions M) = Some F"
  shows "find_function (module_str M) name = Some (function_text F)"
proof -
  from find_first[OF assms(2)] obtain as bs where
    fs: "im_functions M = as @ F # bs" "\<forall>G \<in> set as. if_name G \<noteq> name" "if_name F = name" by blast
  have wf: "function_wf N G \<and> list_all head_wf (body_lines G)" if "G \<in> set (as @ F # bs)" for G
    using assms(1) that unfolding module_wf_def fs(1) body_lines_def list_all_iff by blast
  note f = function_wf_facts[OF conjunct1[OF wf[of F]]]
  have name: "plain name" using f(1) fs(3) by (simp add: head_ok_def)
  let ?ls = "OVC_MAGIC # im_head M @ concat (map function_lines as)"
  have "list_all (skipped (marker name)) (im_head M)"
    using assms(1) by (auto simp: module_wf_def skipped_def head_wf_def list_all_iff)
  moreover have "list_all (skipped (marker name)) (concat (map function_lines as))"
    using function_skipped[of N _ name] wf fs(2) name by (fastforce simp: list_all_iff)
  moreover have "skipped (marker name) OVC_MAGIC" using magic_line by (simp add: skipped_def)
  ultimately have ls: "list_all (skipped (marker (if_name F))) ?ls" by (simp add: fs(3))
  have "module_str M = unlines ?ls @ function_text F @ (CHR 0x0A # unlines (concat (map function_lines bs)))"
    by (simp add: module_str_def module_lines_def fs(1) function_lines_eq function_text_def)
  then show ?thesis using find_function_text[OF f(1,2) ls] fs(3) by (simp only:) simp
qed

lemma ascii_utf8: "ascii s \<Longrightarrow> utf8_valid (bytes_of_string s)"
proof (induction s)
  case (Cons c s)
  then have "unat (of_nat (of_char c) :: u8) = of_char c" by (simp add: unsigned_of_nat take_bit_nat_eq_self)
  then have "(of_nat (of_char c) :: u8) < 0x80" using Cons.prems by (simp add: word_less_nat_alt)
  then show ?case using Cons by (simp add: bytes_of_string_def)
qed (simp add: bytes_of_string_def)

lemma unlines_ascii: "list_all ascii ls \<Longrightarrow> ascii (unlines ls)"
  by (induction ls) simp_all

lemma module_ascii:
  assumes "module_wf N M"
  shows "ascii (module_str M)"
proof -
  have wf: "function_wf N G \<and> list_all head_wf (body_lines G)" if "G \<in> set (im_functions M)" for G
    using assms that unfolding module_wf_def body_lines_def list_all_iff by blast
  have "list_all ascii (function_lines G)" if "G \<in> set (im_functions M)" for G
  proof -
    have "ascii (define_line G)" using wf[OF that] function_wf_facts(1) define_line_facts(2) by blast
    moreover have "list_all ascii (body_lines G)" using wf[OF that] by (auto simp: list_all_iff head_wf_def)
    ultimately show ?thesis by (simp add: function_lines_eq)
  qed
  then have "list_all ascii (concat (map function_lines Gs))" if "set Gs \<subseteq> set (im_functions M)" for Gs
    using that by (induction Gs) auto
  moreover have "list_all ascii (im_head M)" using assms by (auto simp: module_wf_def list_all_iff head_wf_def)
  ultimately have "list_all ascii (module_lines M)" using magic_line(3) by (auto simp: module_lines_def)
  then show ?thesis unfolding module_str_def by (rule unlines_ascii)
qed

lemma module_text_str:
  assumes "module_wf N M"
  shows "module_text (bytes_of_string (module_str M)) = module_str M"
  using ascii_utf8[OF module_ascii[OF assms]] by (simp add: module_text_def)

lemma exec_fn_text:
  assumes "module_wf N M" "find (\<lambda>F. if_name F = name) (im_functions M) = Some F"
  shows "exec_fn E (bytes_of_string (module_str M)) name args w =
    ir_run_function (ov_dispatch E) (parse_string_consts (ov_place E) (module_str M)) F args w"
proof -
  have F: "F \<in> set (im_functions M)" using find_first[OF assms(2)] by auto
  then have wf: "function_wf N F" "distinct (map fnv64 N)" using assms(1) by (auto simp: module_wf_def list_all_iff)
  have "starts_with OVC_MAGIC (module_str M)"
    using starts_with_append[of OVC_MAGIC] by (simp add: module_str_def module_lines_def)
  then have "exec_fn E (bytes_of_string (module_str M)) name args w =
      map_option (\<lambda>(v, s). (v, os_world s)) (run_blocks E (parse_blocks (function_text F)) (parse_string_consts (ov_place E) (module_str M)) ''entry''
        \<lparr>os_regs = bind_args (map snd (if_params F)) args, os_globals = [], os_world = w\<rparr>)"
    using module_function[OF assms] parse_def_args_text[OF function_wf_facts(1,2)[OF wf(1)]]
    by (simp add: exec_fn_def module_text_str[OF assms(1)] Let_def map_option_case split: option.split)
  then show ?thesis by (simp only: run_function_text[OF wf(2,1)])
qed

end
