(* ===== verification/Ovc_Bundle.thy ===== *)
theory Ovc_Bundle
  imports Ovc_Module
begin

text \<open>
  A bundle of modules: a reference semantics in which the functions of one module call those of the
  others, and the proof that the executor does on the texts what it does on the abstract modules.
\<close>

section \<open>Meaning\<close>

type_synonym ir_modules = "(string \<times> ir_module) list"

type_synonym 'w ir_call =
  "string \<Rightarrow> ir_module \<Rightarrow> string \<Rightarrow> i64 list \<Rightarrow> (string \<Rightarrow> i64) \<Rightarrow> 'w \<Rightarrow> (i64 \<times> (string \<Rightarrow> i64) \<times> 'w) option"

definition function_named :: "ir_module \<Rightarrow> string \<Rightarrow> ir_function option" where
  "function_named M f = find (\<lambda>F. if_name F = f) (im_functions M)"

definition ir_find_module :: "ir_modules \<Rightarrow> string \<Rightarrow> (string \<times> ir_module) option" where
  "ir_find_module mods name = find (\<lambda>(n, M). eq_ignore_case n name) mods"

text \<open>
  A call of \<open>A___f\<close> goes to the function \<open>f\<close> of the module \<open>A\<close>, of \<open>self___f\<close> to the first other module that
  has an \<open>f\<close>, of any other name to the calling module; what none of them has is a service of the kernel.
\<close>

definition ir_target :: "ir_modules \<Rightarrow> string \<Rightarrow> string \<Rightarrow> (string \<times> ir_module \<times> string) option" where
  "ir_target mods here fname =
     (case resolve_cross_module_call fname of
        Some (m, f) \<Rightarrow>
          map_option (\<lambda>(n, M). (n, M, f))
            (if eq_ignore_case m ''self''
             then find (\<lambda>(n, M). \<not> eq_ignore_case n here \<and> function_named M f \<noteq> None) mods
             else ir_find_module mods m)
      | None \<Rightarrow>
          (case ir_find_module mods here of
             Some (n, M) \<Rightarrow> if function_named M fname \<noteq> None then Some (here, M, fname) else None
           | None \<Rightarrow> None))"

definition ir_cross_call ::
    "'w ovc_env \<Rightarrow> ir_modules \<Rightarrow> string \<Rightarrow> 'w ir_call \<Rightarrow> string \<Rightarrow> i64 list \<Rightarrow> (string \<Rightarrow> i64) \<Rightarrow> 'w \<Rightarrow>
     (i64 \<times> (string \<Rightarrow> i64) \<times> 'w) option" where
  "ir_cross_call E mods here call fname args \<gamma> w =
     (case (if resolve_cross_module_call fname = None then fast_read E fname args w else Some None) of
        None \<Rightarrow> None
      | Some (Some v) \<Rightarrow> Some (v, \<gamma>, w)
      | Some None \<Rightarrow>
          (case ir_target mods here fname of
             Some (n, M, f) \<Rightarrow> call n M f args \<gamma> w
           | None \<Rightarrow> map_option (\<lambda>(v, w'). (v, \<gamma>, w')) (ov_dispatch E fname args w)))"

fun ir_step_cross ::
    "'w ovc_env \<Rightarrow> ir_modules \<Rightarrow> string \<Rightarrow> 'w ir_call \<Rightarrow> const_map \<Rightarrow> (ir_instr, 'w ir_state) step" where
  "ir_step_cross E mods here call cm prev (I_Assign d (R_Call ty f as)) \<sigma> =
     map_option (\<lambda>(v, \<gamma>, w). (Run_Ok, \<lparr>ir_rho = (ir_rho \<sigma>)(d := v), ir_gamma = \<gamma>, ir_world = w\<rparr>))
       (ir_cross_call E mods here call f (map (ir_value cm (ir_rho \<sigma>) \<circ> snd) as) (ir_gamma \<sigma>) (ir_world \<sigma>))"
| "ir_step_cross E mods here call cm prev i \<sigma> = ir_step (ov_dispatch E) cm prev i \<sigma>"

definition ir_module_fn :: "'w ovc_env \<Rightarrow> ir_modules \<Rightarrow> 'w ir_call \<Rightarrow> 'w ir_call" where
  "ir_module_fn E mods call here M f args \<gamma> w =
     (case function_named M f of
        None \<Rightarrow> Some (0, \<gamma>, w)
      | Some F \<Rightarrow>
          map_option (\<lambda>(v, \<sigma>). (v, ir_gamma \<sigma>, ir_world \<sigma>))
            (block_loop (ir_step_cross E mods here call (parse_string_consts (ov_place E) (module_str M))) (if_blocks F) MAX_BLOCKS [] ''entry''
              \<lparr>ir_rho = ir_bind (map snd (if_params F)) args, ir_gamma = \<gamma>, ir_world = w\<rparr>))"

text \<open>With at most so many levels of calls left; none left is the value zero.\<close>

fun ir_call_depth :: "'w ovc_env \<Rightarrow> ir_modules \<Rightarrow> nat \<Rightarrow> 'w ir_call" where
  "ir_call_depth E mods 0 = (\<lambda>here M f args \<gamma> w. Some (0, \<gamma>, w))"
| "ir_call_depth E mods (Suc k) = ir_module_fn E mods (ir_call_depth E mods k)"

text \<open>The constructors of the modules in turn, then the entry point.\<close>

fun ir_constructors :: "'w ir_call \<Rightarrow> ir_modules \<Rightarrow> (string \<Rightarrow> i64) \<Rightarrow> 'w \<Rightarrow> ((string \<Rightarrow> i64) \<times> 'w) option" where
  "ir_constructors call [] \<gamma> w = Some (\<gamma>, w)"
| "ir_constructors call ((n, M) # ms) \<gamma> w =
     (if eq_ignore_case n ''OEntry'' \<or> function_named M n = None then ir_constructors call ms \<gamma> w
      else Option.bind (call n M n [] \<gamma> w) (\<lambda>(v, \<gamma>', w'). ir_constructors call ms \<gamma>' w'))"

definition ir_bundle :: "'w ovc_env \<Rightarrow> ir_modules \<Rightarrow> 'w \<Rightarrow> (i64 \<times> 'w) option" where
  "ir_bundle E mods w =
     Option.bind (ir_constructors (ir_call_depth E mods 33) mods (\<lambda>_. 0) w) (\<lambda>(\<gamma>, w').
       case ir_find_module mods ''OEntry'' of
         None \<Rightarrow> Some (- 1, w')
       | Some (n, M) \<Rightarrow> map_option (\<lambda>(v, \<gamma>', w''). (v, w'')) (ir_call_depth E mods 33 ''OEntry'' M ''OEntry'' [] \<gamma> w'))"

definition bundle_wf :: "string list \<Rightarrow> ir_modules \<Rightarrow> bool" where
  "bundle_wf N mods \<longleftrightarrow> distinct (map fnv64 N) \<and> list_all (\<lambda>(n, M). plain n \<and> module_wf N M) mods"

definition bundle_texts :: "ir_modules \<Rightarrow> modules" where
  "bundle_texts mods = map (\<lambda>(n, M). (n, module_str M)) mods"

section \<open>Finding functions and modules\<close>

lemma function_absent:
  assumes "module_wf N M" "function_named M f = None" "plain f"
  shows "find_function (module_str M) f = None"
proof -
  have wf: "function_wf N G \<and> list_all head_wf (body_lines G)" if "G \<in> set (im_functions M)" for G
    using assms(1) that unfolding module_wf_def body_lines_def list_all_iff by blast
  have other: "if_name G \<noteq> f" if "G \<in> set (im_functions M)" for G
    using assms(2) that by (auto simp: function_named_def find_None_iff)
  have "list_all (skipped (marker f)) (function_lines G)" if "G \<in> set (im_functions M)" for G
    by (rule function_skipped[of N]) (use wf[OF that] other[OF that] assms(3) in auto)
  then have "list_all (skipped (marker f)) (concat (map function_lines (im_functions M)))" by (auto simp: list_all_iff)
  moreover have "list_all (skipped (marker f)) (im_head M)"
    using assms(1) by (auto simp: module_wf_def skipped_def head_wf_def list_all_iff)
  moreover have "skipped (marker f) OVC_MAGIC" using magic_line by (simp add: skipped_def)
  ultimately have "list_all (skipped (marker f)) (module_lines M)" by (simp add: module_lines_def)
  from find_define_lines[OF this, of "[]"] show ?thesis
    by (simp add: find_function_def module_str_def marker_def)
qed

lemma function_found:
  assumes "module_wf N M" "plain f"
  shows "find_function (module_str M) f = map_option function_text (function_named M f)"
  using assms module_function[OF assms(1), of f] function_absent[OF assms(1) _ assms(2)]
  by (cases "function_named M f") (simp_all add: function_named_def)

lemma find_texts:
  "find P (bundle_texts mods) = map_option (\<lambda>(n, M). (n, module_str M)) (find (\<lambda>(n, M). P (n, module_str M)) mods)"
  by (induction mods) (auto simp: bundle_texts_def)

lemma find_module_texts: "find_module (bundle_texts mods) name = map_option (\<lambda>(n, M). (n, module_str M)) (ir_find_module mods name)"
  by (simp add: find_module_def ir_find_module_def find_texts)

lemma plain_lifecycle: "plain f \<Longrightarrow> plain (maratine_lifecycle_fn f)"
  by (simp add: maratine_lifecycle_fn_def plain_def name_char_def)

lemma plain_resolve:
  assumes "plain fname" "resolve_cross_module_call fname = Some (m, f)"
  shows "plain f"
proof -
  let ?s = "case strip_prefix ''std___core___self___'' fname of Some r \<Rightarrow> r | None \<Rightarrow> fname"
  have "set ?s \<subseteq> set fname" by (auto simp: strip_prefix_def split: option.split dest: in_set_dropD)
  then have all: "list_all name_char (drop k ?s)" for k
    using assms(1) by (auto simp: plain_def list_all_iff dest: in_set_dropD)
  obtain k where "f = maratine_lifecycle_fn (drop k ?s)" "f \<noteq> []"
    using assms(2) by (auto simp: resolve_cross_module_call_def Let_def split: option.splits if_splits)
  then show ?thesis
    using all[of k] plain_lifecycle[of "drop k ?s"] by (cases "drop k ?s = []") (auto simp: plain_def maratine_lifecycle_fn_def)
qed

lemma find_cong_wf:
  "list_all (\<lambda>(n, M). W n M) mods \<Longrightarrow> (\<And>n M. W n M \<Longrightarrow> P n M \<longleftrightarrow> Q n M) \<Longrightarrow>
     find (\<lambda>(n, M). P n M) mods = find (\<lambda>(n, M). Q n M) mods"
  by (induction mods) auto

section \<open>Calls\<close>

definition outcome ::
    "string list \<Rightarrow> (i64 \<times> regs \<times> 'w) option \<Rightarrow> (i64 \<times> (string \<Rightarrow> i64) \<times> 'w) option \<Rightarrow> bool" where
  "outcome N = rel_option (\<lambda>(v, g, w) (v', \<gamma>, w'). v = v' \<and> agrees N g \<gamma> \<and> w = w')"

lemma outcome_simps [simp]:
  "outcome N (Some (v, g, w)) (Some (v', \<gamma>, w')) \<longleftrightarrow> v = v' \<and> agrees N g \<gamma> \<and> w = w'"
  "outcome N None None" "\<not> outcome N (Some x) None" "\<not> outcome N None (Some y)"
  by (simp_all add: outcome_def)

text \<open>Calls of the functions of well-formed modules that agree.\<close>

definition calls_agree :: "string list \<Rightarrow> 'w module_call \<Rightarrow> 'w ir_call \<Rightarrow> bool" where
  "calls_agree N call icall \<longleftrightarrow> (\<forall>n M f args g \<gamma> w. plain f \<longrightarrow> module_wf N M \<longrightarrow> agrees N g \<gamma> \<longrightarrow>
     outcome N (call n (module_str M) f args g w) (icall n M f args \<gamma> w))"

lemma calls_agreeD:
  "calls_agree N call icall \<Longrightarrow> plain f \<Longrightarrow> module_wf N M \<Longrightarrow> agrees N g \<gamma> \<Longrightarrow>
     outcome N (call n (module_str M) f args g w) (icall n M f args \<gamma> w)"
  by (simp add: calls_agree_def)

lemma service_agrees:
  "agrees N g \<gamma> \<Longrightarrow> outcome N (map_option (\<lambda>(v, w'). (v, g, w')) r) (map_option (\<lambda>(v, w'). (v, \<gamma>, w')) r)"
  by (cases r) auto

lemma found_wf: "bundle_wf N mods \<Longrightarrow> find P mods = Some (n, M) \<Longrightarrow> module_wf N M"
  by (auto simp: bundle_wf_def list_all_iff find_Some_iff) (metis nth_mem case_prodD)

lemma cross_call_text:
  assumes mods: "bundle_wf N mods" and "plain fname" and call: "calls_agree N call icall" and g: "agrees N g \<gamma>"
  shows "outcome N (cross_call E (bundle_texts mods) here call fname args g w) (ir_cross_call E mods here icall fname args \<gamma> w)"
proof (cases "resolve_cross_module_call fname")
  case (Some mf)
  obtain m f where mf: "mf = (m, f)" by fastforce
  have f: "plain f" by (rule plain_resolve[OF assms(2)]) (simp add: Some mf)
  have fn: "find_function (module_str M) f \<noteq> None \<longleftrightarrow> function_named M f \<noteq> None" if "module_wf N M" for M
    using function_found[OF that f] by simp
  have P: "find (\<lambda>(n, t). \<not> eq_ignore_case n here \<and> find_function t f \<noteq> None) (bundle_texts mods) =
      map_option (\<lambda>(n, M). (n, module_str M)) (find (\<lambda>(n, M). \<not> eq_ignore_case n here \<and> function_named M f \<noteq> None) mods)"
  proof -
    have "(\<not> eq_ignore_case n here \<and> find_function (module_str M) f \<noteq> None) = (\<not> eq_ignore_case n here \<and> function_named M f \<noteq> None)"
      if "plain n \<and> module_wf N M" for n M using fn[of M] that by blast
    from find_cong_wf[of "\<lambda>n M. plain n \<and> module_wf N M", OF _ this] mods show ?thesis
      by (simp only: find_texts prod.case bundle_wf_def)
  qed
  show ?thesis
  proof (cases "ir_target mods here fname")
    case None
    then show ?thesis
      using Some mf P service_agrees[OF g, of "ov_dispatch E fname args w"]
      by (simp add: cross_call_def ir_cross_call_def ir_target_def find_module_texts Let_def split: if_splits)
  next
    case tgt: (Some t)
    then obtain n M where t: "t = (n, M, f)" and
      found: "(if eq_ignore_case m ''self'' then find (\<lambda>(n, M). \<not> eq_ignore_case n here \<and> function_named M f \<noteq> None) mods
         else ir_find_module mods m) = Some (n, M)"
      using Some mf by (auto simp: ir_target_def)
    have "module_wf N M" using found found_wf[OF mods] by (auto simp: ir_find_module_def split: if_splits)
    from calls_agreeD[OF call f this g, of n args w] show ?thesis
      using Some mf P tgt t found
      by (simp add: cross_call_def ir_cross_call_def find_module_texts Let_def split: if_splits)
  qed
next
  case None
  show ?thesis
  proof (cases "ir_find_module mods here")
    case None
    then show ?thesis
      using \<open>resolve_cross_module_call fname = None\<close> service_agrees[OF g, of "ov_dispatch E fname args w"] g
      by (simp add: cross_call_def ir_cross_call_def ir_target_def find_module_texts Let_def split: option.split)
  next
    case (Some nM)
    obtain n M where nM: "nM = (n, M)" by fastforce
    have M: "module_wf N M" using Some nM found_wf[OF mods] by (simp add: ir_find_module_def)
    show ?thesis
      using None Some nM g service_agrees[OF g, of "ov_dispatch E fname args w"] calls_agreeD[OF call assms(2) M g, of here args w]
        function_found[OF M assms(2)]
      by (simp add: cross_call_def ir_cross_call_def ir_target_def find_module_texts Let_def split: option.split)
  qed
qed

section \<open>Instructions\<close>

lemma no_equals:
  assumes "instr_wf N i" "\<And>d r. i \<noteq> I_Assign d r"
  shows "CHR ''='' \<notin> set (instr_str i)"
proof -
  have n: "\<not> name_char (CHR ''='')" "\<not> operand_char (CHR ''='')" by (simp_all add: name_char_def operand_char_def)
  note p = plain_not[OF _ n(1)] operand_not[OF _ n(2), of N]
  have "CHR ''='' \<notin> set (int_text v)" for v using operand_not[OF _ n(2), of N "IInt v"] by simp
  then have "CHR ''='' \<notin> set (switch_case ty x)" if "plain ty" "plain (snd x)" for ty x
    using that p by (cases x) (simp add: switch_case_def)
  note sc = this
  show ?thesis
  proof (cases i)
    case (I_Assign d r)
    then show ?thesis using assms(2) by blast
  qed (use assms(1) p sc in \<open>auto simp: list_all_iff\<close>)
qed

lemma call_in_text:
  "text_contains (instr_str (I_Assign d (R_Call ty f as))) ''call ''"
proof -
  have "text_contains (q @ s) q" for q s by (simp add: text_contains_def)
  then have "text_contains (p @ q @ s) q" if "q \<noteq> []" for p q s
    using that by (induction p) (simp_all add: contains_Cons)
  from this[of "''call ''" "''%'' @ d @ '' = ''" "ty @ '' @'' @ f @ ''('' @ joined (map typed as) @ '')''"]
  show ?thesis by simp
qed

lemma other_instr:
  assumes "instr_wf N i" "\<And>d ty f as. i \<noteq> I_Assign d (R_Call ty f as)"
  shows "run_instr_cross E mods here call cm prev (instr_str i) s = run_instr E cm prev (instr_str i) s"
proof (cases i)
  case (I_Assign d r)
  then have eq: "find_sub '' = '' (instr_str i) = Some (length d + 1)" using assms(1) find_equals[of d] by simp
  have "\<not> is_call (rhs_str r)" using assms(2) I_Assign by (auto simp: is_call_text)
  then show ?thesis
    using eq I_Assign assms(1) dst_text[of N d r] trim_ends[OF rhs_ends[of N r]]
    by (simp add: run_instr_cross_def no_tail del: instr_str.simps)
next
  case (I_Store ty a g)
  then show ?thesis using no_equals[OF assms(1)] by (simp add: run_instr_cross_def find_sub_absent[of "CHR ''=''"] del: instr_str.simps)
next
  case (I_Br l)
  then show ?thesis using no_equals[OF assms(1)] by (simp add: run_instr_cross_def find_sub_absent[of "CHR ''=''"] del: instr_str.simps)
next
  case (I_Cond c l m)
  then show ?thesis using no_equals[OF assms(1)] by (simp add: run_instr_cross_def find_sub_absent[of "CHR ''=''"] del: instr_str.simps)
next
  case (I_Switch ty v d cs)
  then show ?thesis using no_equals[OF assms(1)] by (simp add: run_instr_cross_def find_sub_absent[of "CHR ''=''"] del: instr_str.simps)
next
  case (I_Ret ty a)
  then show ?thesis using no_equals[OF assms(1)] by (simp add: run_instr_cross_def find_sub_absent[of "CHR ''=''"] del: instr_str.simps)
qed

lemma ir_step_other: "(\<And>d ty f as. i \<noteq> I_Assign d (R_Call ty f as)) \<Longrightarrow> ir_step_cross E mods here call cm prev i \<sigma> = ir_step (ov_dispatch E) cm prev i \<sigma>"
  by (cases "(E, mods, here, call, cm, prev, i, \<sigma>)" rule: ir_step_cross.cases) auto

lemma cross_step_text:
  assumes "bundle_wf N mods" "calls_agree N call icall" "sim N s \<sigma>" "instr_wf N i"
  shows "results N (run_instr_cross E (bundle_texts mods) here call cm prev (instr_str i) s) (ir_step_cross E mods here icall cm prev i \<sigma>)"
proof (cases "\<exists>d ty f as. i = I_Assign d (R_Call ty f as)")
  case False
  then have no: "i \<noteq> I_Assign d (R_Call ty f as)" for d ty f as by blast
  have "ir_step_cross E mods here icall cm prev i \<sigma> = ir_step (ov_dispatch E) cm prev i \<sigma>" by (rule ir_step_other[OF no])
  moreover have "run_instr_cross E (bundle_texts mods) here call cm prev (instr_str i) s = run_instr E cm prev (instr_str i) s"
    by (rule other_instr[OF assms(4) no])
  ultimately show ?thesis using instr_text[OF assms(3,4)] assms(1) by (simp add: bundle_wf_def)
next
  case True
  then obtain d ty f as where i: "i = I_Assign d (R_Call ty f as)" by blast
  have wf: "plain d" "d \<in> set N" "rhs_wf N (R_Call ty f as)" "plain ty" "plain f"
      "list_all (\<lambda>(t, a). plain t \<and> operand_wf N a) as" using assms(4) i by simp_all
  note a = assms(4)[unfolded i]
  have eq: "find_sub '' = '' (instr_str (I_Assign d (R_Call ty f as))) = Some (length d + 1)" using find_equals[OF wf(1)] by simp
  let ?vs = "map (ir_value cm (ir_rho \<sigma>) \<circ> snd) as"
  have vs: "map (resolve (os_regs s) cm) (map typed as) = ?vs"
    using map_values[OF assms(3) wf(6), of cm] by (simp add: comp_def)
  have g: "agrees N (os_globals s) (ir_gamma \<sigma>)" "agrees N (os_regs s) (ir_rho \<sigma>)" using assms(3) by (simp_all add: sim_def)
  have "run_instr_cross E (bundle_texts mods) here call cm prev (instr_str (I_Assign d (R_Call ty f as))) s =
      map_option (\<lambda>(v, g, w). (Run_Ok, \<lparr>os_regs = regs_set (os_regs s) d v, os_globals = g, os_world = w\<rparr>))
        (cross_call E (bundle_texts mods) here call f ?vs (os_globals s) (ir_world \<sigma>))"
    using call_in_text[of d ty f as] is_call_text[of "R_Call ty f as"] call_target_text[OF wf(4,5)] call_args_text[OF wf(3)] vs sim_facts(4)[OF assms(3)]
    unfolding run_instr_cross_def eq option.case dst_text[OF a] trim_ends[OF rhs_ends[OF wf(3)]] no_tail Let_def
    by (simp add: dst_text(2)[OF a] map_option_case
        del: instr_str.simps rhs_str.simps list.map_comp map_map split: option.split)
  then show ?thesis
    using cross_call_text[OF assms(1) wf(5) assms(2) g(1), of E here ?vs "ir_world \<sigma>"] agrees_set[OF _ wf(2) g(2)] assms(1)
    unfolding i outcome_def results_def
    by (auto elim!: option.rel_cases simp: sim_def bundle_wf_def simp del: instr_str.simps)
qed

lemma cross_simulates:
  "bundle_wf N mods \<Longrightarrow> calls_agree N call icall \<Longrightarrow>
     simulates N (run_instr_cross E (bundle_texts mods) here call cm) (ir_step_cross E mods here icall cm)"
  by (simp add: simulates_def cross_step_text)

section \<open>Functions\<close>

lemma module_fn_text:
  assumes "bundle_wf N mods" "calls_agree N call icall"
  shows "calls_agree N (run_module_fn E (bundle_texts mods) call) (ir_module_fn E mods icall)"
  unfolding calls_agree_def
proof (intro allI impI)
  fix here M f args g \<gamma> w
  assume f: "plain f" and M: "module_wf N M" and g: "agrees N g \<gamma>"
  show "outcome N (run_module_fn E (bundle_texts mods) call here (module_str M) f args g w) (ir_module_fn E mods icall here M f args \<gamma> w)"
  proof (cases "function_named M f")
    case None
    then show ?thesis using g by (simp add: run_module_fn_def ir_module_fn_def function_found[OF M f])
  next
    case (Some F)
    have "F \<in> set (im_functions M)" using Some by (auto simp: function_named_def dest: find_first)
    then have wf: "function_wf N F" "distinct (map fnv64 N)" using M by (auto simp: module_wf_def list_all_iff)
    note F = function_wf_facts[OF wf(1)]
    let ?cm = "parse_string_consts (ov_place E) (module_str M)"
    have "set (map snd (if_params F)) \<subseteq> set N" using F(1) by (auto simp: head_ok_def list_all_iff)
    from bind_text[OF wf(2) this] g
    have "sim N \<lparr>os_regs = bind_args (map snd (if_params F)) args, os_globals = g, os_world = w\<rparr>
        \<lparr>ir_rho = ir_bind (map snd (if_params F)) args, ir_gamma = \<gamma>, ir_world = w\<rparr>"
      by (simp add: sim_def)
    from blocks_text[OF cross_simulates[OF assms] this, of "if_blocks F" E here ?cm MAX_BLOCKS "[]" "''entry''"] F(3)
    have "results N
        (block_loop (run_instr_cross E (bundle_texts mods) here call ?cm) (parse_blocks (function_text F)) MAX_BLOCKS [] ''entry''
          \<lparr>os_regs = bind_args (map snd (if_params F)) args, os_globals = g, os_world = w\<rparr>)
        (block_loop (ir_step_cross E mods here icall ?cm) (if_blocks F) MAX_BLOCKS [] ''entry''
          \<lparr>ir_rho = ir_bind (map snd (if_params F)) args, ir_gamma = \<gamma>, ir_world = w\<rparr>)"
      by (simp add: parse_blocks_text[OF wf(1)] list_all_iff case_prod_beta)
    then show ?thesis
      unfolding run_module_fn_def ir_module_fn_def results_def outcome_def function_found[OF M f] Some option.map option.case
        parse_def_args_text[OF F(1,2)]
      by (auto elim!: option.rel_cases simp: sim_def)
  qed
qed

lemma call_depth_text:
  assumes "bundle_wf N mods"
  shows "calls_agree N (exec_marep_fn E (bundle_texts mods) depth) (ir_call_depth E mods (33 - depth))"
proof (induction "33 - depth" arbitrary: depth)
  case 0
  then have "exec_marep_fn E (bundle_texts mods) depth = (\<lambda>here t f args g w. Some (0, g, w))"
    by (subst exec_marep_fn.simps) simp
  then show ?case using 0 by (simp add: calls_agree_def)
next
  case (Suc k)
  then have "k = 33 - (depth + 1)" "\<not> 32 < depth" by simp_all
  moreover from this have "exec_marep_fn E (bundle_texts mods) depth = run_module_fn E (bundle_texts mods) (exec_marep_fn E (bundle_texts mods) (depth + 1))"
    by (subst exec_marep_fn.simps) simp
  ultimately show ?case
    using Suc.hyps(1)[of "depth + 1"] module_fn_text[OF assms] by (simp flip: Suc.hyps(2))
qed

section \<open>A bundle\<close>

lemma magic_module: "starts_with OVC_MAGIC (module_str M)" "module_str M \<noteq> []"
  using starts_with_append[of OVC_MAGIC] by (simp_all add: module_str_def module_lines_def)

definition bundle_bytes :: "ir_modules \<Rightarrow> (string \<times> bytes) list" where
  "bundle_bytes mods = map (\<lambda>(n, M). (n, bytes_of_string (module_str M))) mods"

lemma module_texts_bytes: "bundle_wf N mods \<Longrightarrow> module_texts (bundle_bytes mods) = bundle_texts mods"
  by (induction mods)
    (auto simp: bundle_wf_def module_texts_def bundle_bytes_def bundle_texts_def module_text_str magic_module)

lemma constructors_text:
  assumes "bundle_wf N mods" "list_all (\<lambda>(n, M). plain n \<and> module_wf N M) ms" "agrees N g \<gamma>"
  shows "rel_option (\<lambda>(g, w) (\<gamma>, w'). agrees N g \<gamma> \<and> w = w')
    (run_constructors E (bundle_texts mods) (bundle_texts ms) g w) (ir_constructors (ir_call_depth E mods 33) ms \<gamma> w)"
  using assms(2,3)
proof (induction ms arbitrary: g \<gamma> w)
  case Nil
  then show ?case by (simp add: bundle_texts_def)
next
  case (Cons x ms)
  obtain n M where x: "x = (n, M)" by fastforce
  have wf: "plain n" "module_wf N M" using Cons.prems by (simp_all add: x)
  have cons: "bundle_texts ((n, M) # ms) = (n, module_str M) # bundle_texts ms" by (simp add: bundle_texts_def)
  show ?case
  proof (cases "eq_ignore_case n ''OEntry'' \<or> function_named M n = None")
    case True
    then show ?thesis using Cons x by (auto simp: cons function_found[OF wf(2,1)])
  next
    case False
    then obtain F where F: "\<not> eq_ignore_case n ''OEntry''" "function_named M n = Some F" by auto
    have "outcome N (exec_marep_fn E (bundle_texts mods) 0 n (module_str M) n [] g w) (ir_call_depth E mods 33 n M n [] \<gamma> w)"
      using calls_agreeD[OF call_depth_text[OF assms(1), of E 0] wf] Cons.prems(2) by simp
    then consider "exec_marep_fn E (bundle_texts mods) 0 n (module_str M) n [] g w = None" "ir_call_depth E mods 33 n M n [] \<gamma> w = None"
      | v g' \<gamma>' w' where "exec_marep_fn E (bundle_texts mods) 0 n (module_str M) n [] g w = Some (v, g', w')"
          "ir_call_depth E mods 33 n M n [] \<gamma> w = Some (v, \<gamma>', w')" "agrees N g' \<gamma>'"
      unfolding outcome_def by (auto elim!: option.rel_cases)
    then show ?thesis
      by cases (use F Cons.IH Cons.prems in \<open>simp_all add: x cons function_found[OF wf(2,1)]\<close>)
  qed
qed

lemma exec_marep_text:
  assumes "bundle_wf N mods"
  shows "exec_marep E (bundle_bytes mods) w = ir_bundle E mods w"
proof -
  have ms: "list_all (\<lambda>(n, M). plain n \<and> module_wf N M) mods" using assms by (simp add: bundle_wf_def)
  have "agrees N [] (\<lambda>_. 0)" by (simp add: agrees_def regs_get_def)
  from constructors_text[OF assms ms this, of E w]
  consider "run_constructors E (bundle_texts mods) (bundle_texts mods) [] w = None" "ir_constructors (ir_call_depth E mods 33) mods (\<lambda>_. 0) w = None"
    | g \<gamma> w' where "run_constructors E (bundle_texts mods) (bundle_texts mods) [] w = Some (g, w')"
        "ir_constructors (ir_call_depth E mods 33) mods (\<lambda>_. 0) w = Some (\<gamma>, w')" "agrees N g \<gamma>"
    by (auto elim!: option.rel_cases)
  then show ?thesis
  proof cases
    case 1
    then show ?thesis by (simp add: exec_marep_def ir_bundle_def module_texts_bytes[OF assms])
  next
    case 2
    show ?thesis
    proof (cases "ir_find_module mods ''OEntry''")
      case None
      then show ?thesis using 2 by (simp add: exec_marep_def ir_bundle_def module_texts_bytes[OF assms] find_module_texts)
    next
      case (Some nM)
      obtain n M where nM: "nM = (n, M)" by fastforce
      have M: "module_wf N M" using Some nM found_wf[OF assms] by (simp add: ir_find_module_def)
      have "plain ''OEntry''" by (simp add: plain_def name_char_def)
      from calls_agreeD[OF call_depth_text[OF assms, of E 0] this M 2(3), of "''OEntry''" "[]" w']
      show ?thesis
        using 2 Some nM magic_module(2)
        by (auto simp: exec_marep_def ir_bundle_def module_texts_bytes[OF assms] find_module_texts outcome_def elim!: option.rel_cases)
    qed
  qed
qed

end
