(* ===== verification/Ovc_Claims.thy ===== *)
theory Ovc_Claims
  imports Ovc_Bundle
begin

text \<open>
  The properties of the executor of bundle modules, with two small programs on which they are applied: a
  loop that adds up the numbers to \<open>n\<close>, and a bundle whose entry calls another module.
\<close>

section \<open>Sample programs\<close>

definition sum_function :: ir_function where
  "sum_function = \<lparr>if_type = ''i64'', if_name = ''sum'', if_params = [(''i64'', ''n'')],
     if_blocks =
       [(''entry'', [I_Br ''loop'']),
        (''loop'',
          [I_Assign ''i'' (R_Phi ''i64'' [(IInt 0, ''entry''), (IReg ''j'', ''next'')]),
           I_Assign ''s'' (R_Phi ''i64'' [(IInt 0, ''entry''), (IReg ''t'', ''next'')]),
           I_Assign ''c'' (R_Cmp C_Slt ''i64'' (IReg ''i'') (IReg ''n'')),
           I_Cond (IReg ''c'') ''next'' ''done'']),
        (''next'',
          [I_Assign ''j'' (R_Bin O_Add ''i64'' (IReg ''i'') (IInt 1)),
           I_Assign ''t'' (R_Bin O_Add ''i64'' (IReg ''s'') (IReg ''j'')),
           I_Br ''loop'']),
        (''done'', [I_Ret ''i64'' (IReg ''s'')])]\<rparr>"

definition sum_module :: ir_module where
  "sum_module = \<lparr>im_head = [''declare void @puts(ptr)''], im_functions = [sum_function]\<rparr>"

definition sum_names :: "string list" where
  "sum_names = [''n'', ''i'', ''s'', ''c'', ''j'', ''t'']"

text \<open>\<open>Math\<close> has a constructor that stores a global; \<open>OEntry\<close> calls its function \<open>scale\<close>.\<close>

definition math_module :: ir_module where
  "math_module = \<lparr>im_head = [],
     im_functions =
       [\<lparr>if_type = ''i64'', if_name = ''Math'', if_params = [],
          if_blocks = [(''entry'', [I_Store ''i64'' (IInt 2) ''k'', I_Ret ''i64'' (IInt 0)])]\<rparr>,
        \<lparr>if_type = ''i64'', if_name = ''scale'', if_params = [(''i64'', ''x'')],
          if_blocks = [(''entry'', [I_Assign ''y'' (R_Load ''i64'' ''k''),
            I_Assign ''z'' (R_Bin O_Mul ''i64'' (IReg ''x'') (IReg ''y'')), I_Ret ''i64'' (IReg ''z'')])]\<rparr>]\<rparr>"

definition entry_module :: ir_module where
  "entry_module = \<lparr>im_head = [],
     im_functions = [\<lparr>if_type = ''i64'', if_name = ''OEntry'', if_params = [],
       if_blocks = [(''entry'', [I_Assign ''x'' (R_Call ''i64'' ''Math___scale'' [(''i64'', IInt 21)]), I_Ret ''i64'' (IReg ''x'')])]\<rparr>]\<rparr>"

definition sample_bundle :: ir_modules where
  "sample_bundle = [(''OEntry'', entry_module), (''Math'', math_module)]"

definition bundle_names :: "string list" where
  "bundle_names = [''x'', ''y'', ''z'', ''k'']"

definition sample_ovc :: "unit ovc_env" where
  "sample_ovc = \<lparr>ov_checks = True, ov_place = (\<lambda>t n b. 0), ov_dispatch = (\<lambda>f args w. Some (0, w)),
     ov_ttf_null = (\<lambda>w. True), ov_ttf_size = (\<lambda>w. 0), ov_ttf_byte = (\<lambda>w i. 0)\<rparr>"

lemma block_loop_numeral:
  "block_loop step blocks (numeral k) prev cur s =
     (case hm_get blocks cur of
        None \<Rightarrow> Some (0, s)
      | Some instrs \<Rightarrow>
          (case run_instrs step prev instrs s of
             None \<Rightarrow> None
           | Some (Run_Ok, s') \<Rightarrow> Some (0, s')
           | Some (Branch l, s') \<Rightarrow> block_loop step blocks (pred_numeral k) cur l s'
           | Some (Return v, s') \<Rightarrow> Some (v, s')))"
  by (subst numeral_eq_Suc) simp

lemma sum_wf: "module_wf sum_names sum_module"
proof -
  have "distinct (map fnv64 sum_names)" by (simp add: sum_names_def fnv64_def)
  moreover have "list_all (function_wf sum_names) (im_functions sum_module) \<and> list_all head_wf (im_head sum_module) \<and>
      list_all (\<lambda>F. list_all head_wf (concat (map block_lines (if_blocks F)))) (im_functions sum_module)"
    by code_simp
  ultimately show ?thesis by (simp add: module_wf_def)
qed

lemma bundle_sample_wf: "bundle_wf bundle_names sample_bundle"
proof -
  have "distinct (map fnv64 bundle_names)" by (simp add: bundle_names_def fnv64_def)
  moreover have "list_all (\<lambda>(n, M). plain n \<and> list_all (function_wf bundle_names) (im_functions M) \<and> list_all head_wf (im_head M) \<and>
      list_all (\<lambda>F. list_all head_wf (concat (map block_lines (if_blocks F)))) (im_functions M)) sample_bundle"
    by code_simp
  ultimately show ?thesis by (simp add: bundle_wf_def module_wf_def list_all_iff case_prod_beta)
qed

lemma sum_runs: "ir_run_function (ov_dispatch sample_ovc) cm sum_function [4] () = Some (10, ())"
  by (simp add: ir_run_function_def sum_function_def MAX_BLOCKS_def hm_get_def ir_bind_def block_loop_numeral)

lemma call_depth_numeral: "ir_call_depth E mods (numeral k) = ir_module_fn E mods (ir_call_depth E mods (pred_numeral k))"
  by (subst numeral_eq_Suc) simp

lemmas ir_run = ir_module_fn_def function_named_def MAX_BLOCKS_def hm_get_def ir_bind_def block_loop_numeral

lemma math_runs:
  "ir_module_fn E mods call here math_module ''Math'' [] \<gamma> w = Some (0, \<gamma>(''k'' := 2), w)"
  "ir_module_fn E mods call here math_module ''scale'' [a] \<gamma> w = Some (a * \<gamma> ''k'', \<gamma>, w)"
  by (simp_all add: math_module_def ir_run)

lemma entry_runs:
  "ir_module_fn E sample_bundle call here entry_module ''OEntry'' [] \<gamma> w = call ''Math'' math_module ''scale'' [21] \<gamma> w"
proof -
  have r: "resolve_cross_module_call ''Math___scale'' = Some (''Math'', ''scale'')" by code_simp
  have "eq_ignore_case ''Math'' ''Math''" "\<not> eq_ignore_case ''OEntry'' ''Math''" "\<not> eq_ignore_case ''Math'' ''self''" by code_simp+
  with r have "ir_target sample_bundle here ''Math___scale'' = Some (''Math'', math_module, ''scale'')"
    by (simp add: ir_target_def ir_find_module_def sample_bundle_def)
  with r show ?thesis
    by (cases "call ''Math'' math_module ''scale'' [21] \<gamma> w")
      (auto simp: entry_module_def ir_run ir_cross_call_def split: prod.split)
qed

lemma bundle_runs: "ir_bundle sample_ovc sample_bundle () = Some (42, ())"
proof -
  have "eq_ignore_case ''OEntry'' ''OEntry''" "\<not> eq_ignore_case ''Math'' ''OEntry''" by code_simp+
  moreover obtain F where "function_named math_module ''Math'' = Some F" by (simp add: math_module_def function_named_def)
  ultimately have "ir_constructors (ir_call_depth sample_ovc sample_bundle 33) sample_bundle (\<lambda>_. 0) () = Some ((\<lambda>_. 0)(''k'' := 2), ())"
      "ir_find_module sample_bundle ''OEntry'' = Some (''OEntry'', entry_module)"
    by (simp_all add: sample_bundle_def ir_find_module_def call_depth_numeral math_runs del: fun_upd_apply)
  then show ?thesis by (simp add: ir_bundle_def call_depth_numeral entry_runs math_runs)
qed

section \<open>Modules\<close>

text \<open>C20: The executor runs a function of the text of a well-formed module as the reference semantics runs the
  function itself: parsing, slicing and scanning lose nothing, registers behind hashes are a map, and every
  branch, phi, switch, call and store of the text is the one of the program, for every service of the kernel.
\<close>

theorem text_runs_as_ir:
  assumes "module_wf N M" "find (\<lambda>F. if_name F = name) (im_functions M) = Some F"
  shows "exec_fn E (bytes_of_string (module_str M)) name args w =
    ir_run_function (ov_dispatch E) (parse_string_consts (ov_place E) (module_str M)) F args w"
  using assms by (rule exec_fn_text)

theorem text_runs_as_ir_witness:
  "exec_fn sample_ovc (bytes_of_string (module_str sum_module)) ''sum'' [4] () = Some (10, ())"
proof -
  have "find (\<lambda>F. if_name F = ''sum'') (im_functions sum_module) = Some sum_function"
    by (simp add: sum_module_def sum_function_def)
  from text_runs_as_ir[OF sum_wf this, of sample_ovc "[4]" "()"] show ?thesis by (simp only: sum_runs)
qed

text \<open>C21: The executor runs the texts of a bundle as the reference semantics runs its modules: the constructors of
  the modules in turn and then the entry point, on shared globals, a call going to the module its name says,
  to the calling module or to a service of the kernel, at most 33 calls deep.
\<close>

theorem bundle_runs_as_ir:
  assumes "bundle_wf N mods"
  shows "exec_marep E (bundle_bytes mods) w = ir_bundle E mods w"
  using assms by (rule exec_marep_text)

theorem bundle_runs_as_ir_witness: "exec_marep sample_ovc (bundle_bytes sample_bundle) () = Some (42, ())"
  using bundle_runs_as_ir[OF bundle_sample_wf, of sample_ovc "()"] by (simp only: bundle_runs)

section \<open>Ends of a run\<close>

text \<open>Instructions that cannot panic when the services return, and functions without a return.\<close>

fun no_signed_division :: "ir_instr \<Rightarrow> bool" where
  "no_signed_division (I_Assign d (R_Bin op ty a b)) \<longleftrightarrow> op \<noteq> O_Sdiv \<and> op \<noteq> O_Srem"
| "no_signed_division i \<longleftrightarrow> True"

definition always_returns :: "(string \<Rightarrow> i64 list \<Rightarrow> 'w \<Rightarrow> (i64 \<times> 'w) option) \<Rightarrow> bool" where
  "always_returns service \<longleftrightarrow> (\<forall>f args w. \<exists>v w'. service f args w = Some (v, w'))"

lemma ir_step_some:
  assumes "always_returns service" "no_signed_division i"
  shows "\<exists>q \<tau>. ir_step service cm prev i \<sigma> = Some (q, \<tau>)"
proof (cases i)
  case (I_Assign d r)
  have "\<exists>v w. ir_eval service cm prev d r \<sigma> = Some (v, w)"
  proof (cases r)
    case (R_Bin op ty a b)
    then show ?thesis using assms(2) I_Assign by (cases op) simp_all
  next
    case (R_Call ty f as)
    then show ?thesis using assms(1) unfolding always_returns_def by simp
  qed simp_all
  then show ?thesis using I_Assign by auto
qed simp_all

lemma ir_instrs_some:
  assumes "always_returns service" "list_all no_signed_division is"
  shows "\<exists>q \<tau>. run_instrs (ir_step service cm) prev is \<sigma> = Some (q, \<tau>)"
  using assms(2)
proof (induction "is" arbitrary: \<sigma>)
  case (Cons i "is")
  obtain q \<tau> where "ir_step service cm prev i \<sigma> = Some (q, \<tau>)" using ir_step_some[OF assms(1)] Cons.prems by force
  then show ?case using Cons by (cases q) simp_all
qed simp

lemma ir_blocks_some:
  assumes "always_returns service" "list_all (list_all no_signed_division \<circ> snd) bs"
  shows "\<exists>v \<tau>. block_loop (ir_step service cm) bs k prev cur \<sigma> = Some (v, \<tau>)"
proof (induction k arbitrary: prev cur \<sigma>)
  case (Suc k)
  show ?case
  proof (cases "hm_get bs cur")
    case (Some "is")
    then have "list_all no_signed_division is" using assms(2) by (auto simp: hm_get_def list_all_iff dest!: map_of_SomeD)
    then obtain q \<tau> where "run_instrs (ir_step service cm) prev is \<sigma> = Some (q, \<tau>)" using ir_instrs_some[OF assms(1)] by blast
    then show ?thesis using Some Suc by (cases q) simp_all
  qed simp
qed simp

text \<open>C22: A function of a well-formed module without signed division ends, whatever its loops, when the services of
  the kernel return: the bound on the blocks leaves no endless run and no panic.
\<close>

theorem executor_ends:
  assumes "module_wf N M" "find (\<lambda>F. if_name F = name) (im_functions M) = Some F"
    "list_all (list_all no_signed_division \<circ> snd) (if_blocks F)" "always_returns (ov_dispatch E)"
  shows "\<exists>v w'. exec_fn E (bytes_of_string (module_str M)) name args w = Some (v, w')"
proof -
  let ?cm = "parse_string_consts (ov_place E) (module_str M)"
  obtain v \<tau> where "block_loop (ir_step (ov_dispatch E) ?cm) (if_blocks F) MAX_BLOCKS [] ''entry''
      \<lparr>ir_rho = ir_bind (map snd (if_params F)) args, ir_gamma = (\<lambda>_. 0), ir_world = w\<rparr> = Some (v, \<tau>)"
    using ir_blocks_some[OF assms(4,3)] by blast
  then show ?thesis by (simp add: exec_fn_text[OF assms(1,2)] ir_run_function_def)
qed

theorem executor_ends_witness: "\<exists>v w'. exec_fn sample_ovc (bytes_of_string (module_str sum_module)) ''sum'' [- 1] () = Some (v, w')"
proof (rule executor_ends[OF sum_wf, of _ sum_function])
  show "find (\<lambda>F. if_name F = ''sum'') (im_functions sum_module) = Some sum_function"
    by (simp add: sum_module_def sum_function_def)
qed (simp_all add: sum_function_def always_returns_def sample_ovc_def)





section \<open>Calls without an end\<close>

definition deep_module :: ir_module where
  "deep_module = \<lparr>im_head = [],
     im_functions = [\<lparr>if_type = ''i64'', if_name = ''OEntry'', if_params = [],
       if_blocks = [(''entry'', [I_Assign ''x'' (R_Call ''i64'' ''OEntry'' []),
         I_Assign ''y'' (R_Bin O_Add ''i64'' (IReg ''x'') (IInt 1)), I_Ret ''i64'' (IReg ''y'')])]\<rparr>]\<rparr>"

lemma deep_wf: "bundle_wf [''x'', ''y''] [(''OEntry'', deep_module)]"
proof -
  have "distinct (map fnv64 [''x'', ''y''])" by (simp add: fnv64_def)
  moreover have "list_all (\<lambda>(n, M). plain n \<and> list_all (function_wf [''x'', ''y'']) (im_functions M) \<and> list_all head_wf (im_head M) \<and>
      list_all (\<lambda>F. list_all head_wf (concat (map block_lines (if_blocks F)))) (im_functions M)) [(''OEntry'', deep_module)]"
    by code_simp
  ultimately show ?thesis by (simp add: bundle_wf_def module_wf_def list_all_iff case_prod_beta)
qed

lemma deep_runs: "ir_call_depth E [(''OEntry'', deep_module)] k ''OEntry'' deep_module ''OEntry'' [] \<gamma> w = Some (of_nat k, \<gamma>, w)"
proof (induction k)
  case (Suc k)
  have r: "resolve_cross_module_call ''OEntry'' = None" "fast_read E ''OEntry'' [] w = Some None"
    by code_simp (simp add: fast_read_def)
  have "eq_ignore_case ''OEntry'' ''OEntry''" by code_simp
  then have "ir_target [(''OEntry'', deep_module)] ''OEntry'' ''OEntry'' = Some (''OEntry'', deep_module, ''OEntry'')"
    by (simp add: ir_target_def r(1) ir_find_module_def function_named_def deep_module_def)
  then have "ir_cross_call E [(''OEntry'', deep_module)] ''OEntry'' (ir_call_depth E [(''OEntry'', deep_module)] k) ''OEntry'' [] \<gamma> w =
      Some (of_nat k, \<gamma>, w)"
    using Suc by (simp add: ir_cross_call_def r)
  moreover have "ir_module_fn E mods call here deep_module ''OEntry'' [] \<gamma> w =
      map_option (\<lambda>(v, \<gamma>', w'). (v + 1, \<gamma>', w')) (ir_cross_call E mods here call ''OEntry'' [] \<gamma> w)" for mods call here
    by (cases "ir_cross_call E mods here call ''OEntry'' [] \<gamma> w") (auto simp: deep_module_def ir_run split: prod.split)
  ultimately show ?case by simp
qed simp

text \<open>The entry point that calls itself for ever and adds one to the result returns 33: the call at depth 33 is
  not made, and its value is 0.
\<close>

theorem endless_recursion_is_cut: "exec_marep E (bundle_bytes [(''OEntry'', deep_module)]) w = Some (33, w)"
proof -
  have e: "eq_ignore_case ''OEntry'' ''OEntry''" by code_simp
  then have "ir_find_module [(''OEntry'', deep_module)] ''OEntry'' = Some (''OEntry'', deep_module)"
    by (simp add: ir_find_module_def)
  then show ?thesis by (simp add: exec_marep_text[OF deep_wf] ir_bundle_def e deep_runs)
qed

section \<open>Lines that are not understood\<close>

text \<open>A call whose result is not named, as a call of a function of type void has to be, is not made: the line
  has no equals sign, and the executor goes on as if it were not there.
\<close>

theorem void_call_is_skipped:
  assumes "rhs_wf N (R_Call ty f as)"
  shows "run_instr E cm prev (rhs_str (R_Call ty f as)) s = Some (Run_Ok, s)"
proof -
  let ?t = "rhs_str (R_Call ty f as)"
  have wf: "plain ty" "plain f" "list_all (\<lambda>(t, a). plain t \<and> operand_wf N a) as" using assms by simp_all
  have no: "\<not> name_char (CHR ''='')" "\<not> operand_char (CHR ''='')" by (simp_all add: name_char_def operand_char_def)
  note p = plain_not[OF _ no(1)] operand_not[OF _ no(2), of N]
  have "list_all (list_all (\<lambda>c. c \<noteq> CHR ''='')) (map typed as)"
    using wf(3) p by (auto simp: typed_def list_all_iff)
  then have "list_all (\<lambda>c. c \<noteq> CHR ''='') (joined (map typed as))" by (rule joined_all) simp_all
  then have "CHR ''='' \<notin> set (joined (map typed as))" by (auto simp: list_all_iff)
  then have eq: "find_sub '' = '' ?t = None" using p(1)[OF wf(1)] p(1)[OF wf(2)] by (intro find_sub_absent[of "CHR ''=''"]) auto
  have heads: "\<not> starts_with '';'' ?t" "\<not> starts_with ''switch '' ?t" "\<not> starts_with ''br '' ?t" "\<not> starts_with ''ret '' ?t"
      "\<not> starts_with ''store '' ?t" by (simp_all add: starts_with_Cons)
  have "trim ?t = ?t" by (rule trim_ends[OF rhs_ends[OF assms]])
  then show ?thesis using heads eq by (simp add: run_instr_def run_assign_def Let_def del: rhs_str.simps)
qed

theorem void_call_is_skipped_witness:
  "run_instr sample_ovc [] [] ''call void @puts(i64 7)'' \<lparr>os_regs = [], os_globals = [], os_world = ()\<rparr> =
    Some (Run_Ok, \<lparr>os_regs = [], os_globals = [], os_world = ()\<rparr>)"
proof -
  have "rhs_wf [] (R_Call ''void'' ''puts'' [(''i64'', IInt 7)])" by code_simp
  moreover have "rhs_str (R_Call ''void'' ''puts'' [(''i64'', IInt 7)]) = ''call void @puts(i64 7)''" by code_simp
  ultimately show ?thesis by (metis void_call_is_skipped)
qed

end
